(* ===== verification/Prelude.thy ===== *)
theory Prelude
  imports Complex_Main "HOL-Library.Char_ord" "HOL-Library.List_Lexorder" "HOL-Library.Product_Lexorder"
begin

text \<open>
  What the components share: Go's strings, integers and durations, the results of fallible calls,
  and tables, the lists of rows that the SQL statements of the repository read and write.

  \<^item> A \<open>time.Time\<close> is the number of nanoseconds since 0001-01-01T00:00:00Z, so that the zero value
    of the type (\<open>IsZero\<close>) is the number 0. A \<open>time.Duration\<close> is a number of nanoseconds.
  \<^item> A \<open>string\<close> is the list of its bytes. A \<open>sql.NullString\<close> or \<open>sql.NullTime\<close> is an option.
  \<^item> A call that returns \<open>(T, error)\<close> is a sum: \<open>Inl\<close> the error, \<open>Inr\<close> the value.
  \<^item> A table is the list of its rows in rowid order.
\<close>

named_theorems go_defs "definitions of Go library functions"
named_theorems query_defs "definitions of the SQL queries"
named_theorems store_defs "definitions of the store's methods"

section \<open>Integers, instants and durations\<close>

type_synonym time = int
type_synonym duration = int

definition int64_max :: int where "int64_max = 2 ^ 63 - 1"

definition int64_min :: int where "int64_min = - (2 ^ 63)"

text \<open>Addition on \<open>int64\<close> wraps around.\<close>

definition wrap64 :: "int \<Rightarrow> int" where
  "wrap64 x = (x + 2 ^ 63) mod 2 ^ 64 - 2 ^ 63"

text \<open>\<open>Time.Sub\<close> saturates at the bounds of \<open>time.Duration\<close>.\<close>

definition time_Sub :: "time \<Rightarrow> time \<Rightarrow> duration" where
  "time_Sub t u = max int64_min (min int64_max (t - u))"

definition time_IsZero :: "time \<Rightarrow> bool" where
  "time_IsZero t \<longleftrightarrow> t = 0"

definition Second :: duration where "Second = 1000000000"

definition Minute :: duration where "Minute = 60 * Second"

definition Hour :: duration where "Hour = 60 * Minute"

definition Day :: duration where "Day = 24 * Hour"

lemmas duration_defs = Second_def Minute_def Hour_def Day_def

lemma wrap64_id [simp]: "int64_min \<le> x \<Longrightarrow> x \<le> int64_max \<Longrightarrow> wrap64 x = x"
  by (simp add: wrap64_def int64_min_def int64_max_def)

lemma wrap64_range: "int64_min \<le> wrap64 x \<and> wrap64 x \<le> int64_max"
proof -
  have "0 \<le> (x + 2 ^ 63) mod (2 ^ 64 :: int)" "(x + 2 ^ 63) mod (2 ^ 64 :: int) < 2 ^ 64"
    by simp_all
  then show ?thesis by (simp add: wrap64_def int64_min_def int64_max_def)
qed

lemma time_Sub_exact: "int64_min \<le> t - u \<Longrightarrow> t - u \<le> int64_max \<Longrightarrow> time_Sub t u = t - u"
  by (simp add: time_Sub_def)

lemma time_Sub_mono: "t \<le> t' \<Longrightarrow> time_Sub t u \<le> time_Sub t' u"
  by (auto simp: time_Sub_def)

lemma time_Sub_less: "d \<le> int64_max \<Longrightarrow> int64_min < d \<Longrightarrow> time_Sub t u < d \<longleftrightarrow> t - u < d"
  by (auto simp: time_Sub_def)

section \<open>Strings\<close>

text \<open>\<open>strings.Cut\<close> at a one-byte separator: what is before, what is after, whether it was found.\<close>

definition strings_Cut :: "string \<Rightarrow> char \<Rightarrow> string \<times> string \<times> bool" where
  "strings_Cut s c =
     (if c \<in> set s then (takeWhile (\<lambda>x. x \<noteq> c) s, tl (dropWhile (\<lambda>x. x \<noteq> c) s), True)
      else (s, [], False))"

definition strings_HasPrefix :: "string \<Rightarrow> string \<Rightarrow> bool" where
  "strings_HasPrefix s p \<longleftrightarrow> take (length p) s = p"

definition strings_HasSuffix :: "string \<Rightarrow> string \<Rightarrow> bool" where
  "strings_HasSuffix s p \<longleftrightarrow> length p \<le> length s \<and> drop (length s - length p) s = p"

definition strings_TrimPrefix :: "string \<Rightarrow> string \<Rightarrow> string" where
  "strings_TrimPrefix s p = (if strings_HasPrefix s p then drop (length p) s else s)"

definition strings_TrimSuffix :: "string \<Rightarrow> string \<Rightarrow> string" where
  "strings_TrimSuffix s p = (if strings_HasSuffix s p then take (length s - length p) s else s)"

text \<open>\<open>strings.Split\<close> at a one-byte separator.\<close>

fun strings_Split :: "string \<Rightarrow> char \<Rightarrow> string list" where
  "strings_Split [] c = [[]]"
| "strings_Split (x # xs) c =
     (if x = c then [] # strings_Split xs c
      else case strings_Split xs c of [] \<Rightarrow> [[x]] | p # ps \<Rightarrow> (x # p) # ps)"

text \<open>\<open>strings.Join\<close> with a separator.\<close>

fun strings_Join :: "string list \<Rightarrow> string \<Rightarrow> string" where
  "strings_Join [] sep = []"
| "strings_Join [s] sep = s"
| "strings_Join (s # t # ss) sep = s @ sep @ strings_Join (t # ss) sep"

text \<open>\<open>strings.Contains\<close>.\<close>

fun strings_Contains :: "string \<Rightarrow> string \<Rightarrow> bool" where
  "strings_Contains [] p = (p = [])"
| "strings_Contains (x # xs) p = (strings_HasPrefix (x # xs) p \<or> strings_Contains xs p)"

text \<open>\<open>strings.TrimSpace\<close>, for the ASCII white space.\<close>

definition is_space :: "char \<Rightarrow> bool" where
  "is_space c \<longleftrightarrow> of_char c \<in> {9, 10, 11, 12, 13, 32 :: nat}"

definition strings_TrimSpace :: "string \<Rightarrow> string" where
  "strings_TrimSpace s = rev (dropWhile is_space (rev (dropWhile is_space s)))"

text \<open>Decimal numerals, and numerals padded with zeros to a width.\<close>

fun show_nat :: "nat \<Rightarrow> string" where
  "show_nat n = (if n < 10 then [char_of (48 + n)] else show_nat (n div 10) @ [char_of (48 + n mod 10)])"

declare show_nat.simps [simp del]

definition strconv_Itoa :: "int \<Rightarrow> string" where
  "strconv_Itoa i = (if i < 0 then CHR ''-'' # show_nat (nat (- i)) else show_nat (nat i))"

definition pad0 :: "nat \<Rightarrow> string \<Rightarrow> string" where
  "pad0 w s = replicate (w - length s) (CHR ''0'') @ s"

lemmas strings_defs [go_defs] =
  strings_Cut_def strings_HasPrefix_def strings_HasSuffix_def strings_TrimPrefix_def
  strings_TrimSuffix_def strings_TrimSpace_def is_space_def

lemma strings_Cut_append [simp]:
  "c \<notin> set s \<Longrightarrow> strings_Cut (s @ c # t) c = (s, t, True)"
  by (induction s) (auto simp: strings_Cut_def)

lemma strings_Cut_none [simp]: "c \<notin> set s \<Longrightarrow> strings_Cut s c = (s, [], False)"
  by (simp add: strings_Cut_def)

lemma strings_Split_nonempty [simp]: "strings_Split s c \<noteq> []"
  by (cases s) (auto split: list.splits)

text \<open>Splitting undoes joining, for parts without the separator.\<close>

lemma strings_Split_append:
  "c \<notin> set s \<Longrightarrow> strings_Split (s @ c # t) c = s # strings_Split t c"
  by (induction s) auto

lemma strings_Split_plain [simp]: "c \<notin> set s \<Longrightarrow> strings_Split s c = [s]"
  by (induction s) auto

lemma strings_TrimSuffix_append [simp]: "strings_TrimSuffix (s @ p) p = s"
  by (simp add: strings_TrimSuffix_def strings_HasSuffix_def)

lemma strings_HasSuffix_append [simp]: "strings_HasSuffix (s @ p) p"
  by (simp add: strings_HasSuffix_def)

lemma strings_TrimPrefix_append [simp]: "strings_TrimPrefix (p @ s) p = s"
  by (simp add: strings_TrimPrefix_def strings_HasPrefix_def)

section \<open>Results\<close>

text \<open>The next state of a write whose error is only logged.\<close>

definition log_err :: "'s \<Rightarrow> 'e + 's \<Rightarrow> 's" where
  "log_err s r = (case r of Inl _ \<Rightarrow> s | Inr s' \<Rightarrow> s')"

lemma log_err_simps [simp]: "log_err s (Inl e) = s" "log_err s (Inr s') = s'"
  by (simp_all add: log_err_def)

text \<open>\<open>sql.NullString\<close> from a string, the empty string being NULL.\<close>

definition null_string :: "string \<Rightarrow> string option" where
  "null_string s = (if s = [] then None else Some s)"

text \<open>An optional field of a request, with its default: ogen's \<open>Or\<close>.\<close>

definition opt_Or :: "'a option \<Rightarrow> 'a \<Rightarrow> 'a" where
  "opt_Or v d = (case v of None \<Rightarrow> d | Some x \<Rightarrow> x)"

lemma opt_Or_simps [simp]: "opt_Or None d = d" "opt_Or (Some v) d = v"
  by (simp_all add: opt_Or_def)

section \<open>Tables\<close>

text \<open>\<open>SELECT ... WHERE P LIMIT 1\<close>, \<open>UPDATE ... SET f WHERE P\<close>, \<open>DELETE ... WHERE P\<close>.\<close>

definition sel :: "('r \<Rightarrow> bool) \<Rightarrow> 'r list \<Rightarrow> 'r option" where
  "sel P t = find P t"

definition upd :: "('r \<Rightarrow> bool) \<Rightarrow> ('r \<Rightarrow> 'r) \<Rightarrow> 'r list \<Rightarrow> 'r list" where
  "upd P f t = map (\<lambda>r. if P r then f r else r) t"

definition del :: "('r \<Rightarrow> bool) \<Rightarrow> 'r list \<Rightarrow> 'r list" where
  "del P t = filter (\<lambda>r. \<not> P r) t"

lemma sel_Some: "sel P t = Some r \<Longrightarrow> r \<in> set t \<and> P r"
  by (auto simp: sel_def find_Some_iff)

lemma sel_None: "sel P t = None \<longleftrightarrow> (\<forall>r \<in> set t. \<not> P r)"
  by (auto simp: sel_def find_None_iff)

lemma sel_Nil [simp]: "sel P [] = None"
  by (simp add: sel_def)

lemma sel_Cons [simp]: "sel P (r # t) = (if P r then Some r else sel P t)"
  by (simp add: sel_def)

lemma sel_append: "sel P (t @ u) = (case sel P t of None \<Rightarrow> sel P u | Some r \<Rightarrow> Some r)"
  by (induction t) auto

lemma set_upd: "set (upd P f t) = (\<lambda>r. if P r then f r else r) ` set t"
  by (simp add: upd_def)

lemma upd_mem: "r \<in> set t \<Longrightarrow> P r \<Longrightarrow> f r \<in> set (upd P f t)"
  unfolding set_upd by (rule image_eqI [of _ _ r]) simp_all

lemma upd_mem_other: "r \<in> set t \<Longrightarrow> \<not> P r \<Longrightarrow> r \<in> set (upd P f t)"
  unfolding set_upd by (rule image_eqI [of _ _ r]) simp_all

lemma upd_Nil [simp]: "upd P f [] = []"
  by (simp add: upd_def)

lemma upd_Cons [simp]: "upd P f (r # t) = (if P r then f r else r) # upd P f t"
  by (simp add: upd_def)

lemma upd_append [simp]: "upd P f (t @ u) = upd P f t @ upd P f u"
  by (simp add: upd_def)

lemma length_upd [simp]: "length (upd P f t) = length t"
  by (simp add: upd_def)

lemma upd_idle: "\<forall>r \<in> set t. \<not> P r \<Longrightarrow> upd P f t = t"
  by (induction t) auto

lemma map_upd: "(\<And>r. k (f r) = k r) \<Longrightarrow> map k (upd P f t) = map k t"
  by (induction t) auto

lemma image_upd: "(\<And>r. k (f r) = k r) \<Longrightarrow> k ` set (upd P f t) = k ` set t"
  using map_upd [of k f P t] by (metis set_map)

lemma upd_absent: "i \<notin> k ` set t \<Longrightarrow> upd (\<lambda>r. k r = i) f t = t"
  by (rule upd_idle) auto

text \<open>A second unique column stays unique when one row gets a value that no other row has.\<close>

lemma distinct_upd_second:
  assumes "distinct (map k t)" "distinct (map h t)" "\<forall>r \<in> set t. h r = v \<longrightarrow> k r = i" "\<And>r. h (f r) = v"
  shows "distinct (map h (upd (\<lambda>r. k r = i) f t))"
  using assms(1-3)
proof (induction t)
  case (Cons r t)
  then have ih: "distinct (map h (upd (\<lambda>r. k r = i) f t))" by simp
  show ?case
  proof (cases "k r = i")
    case True
    then have absent: "i \<notin> k ` set t" using Cons.prems(1) by auto
    have "v \<notin> h ` set t"
    proof
      assume "v \<in> h ` set t"
      then obtain s where "s \<in> set t" "h s = v" by auto
      with Cons.prems(3) have "k s = i" by simp
      with \<open>s \<in> set t\<close> absent show False by blast
    qed
    with True absent Cons.prems show ?thesis by (simp add: upd_absent assms(4))
  next
    case False
    with Cons.prems(3) have "h r \<noteq> v" by auto
    with False ih Cons.prems show ?thesis by (auto simp: set_upd assms(4))
  qed
qed simp

lemma sel_upd:
  "(\<And>r. Q (f r) = Q r) \<Longrightarrow>
     sel Q (upd P f t) = map_option (\<lambda>r. if P r then f r else r) (sel Q t)"
  by (induction t) auto

lemma set_del [simp]: "set (del P t) = {r \<in> set t. \<not> P r}"
  by (auto simp: del_def)

lemma del_Nil [simp]: "del P [] = []"
  by (simp add: del_def)

lemma del_Cons [simp]: "del P (r # t) = (if P r then del P t else r # del P t)"
  by (simp add: del_def)

lemma sel_del: "sel Q (del P t) = sel (\<lambda>r. Q r \<and> \<not> P r) t"
  by (induction t) auto

lemma distinct_map_del: "distinct (map k t) \<Longrightarrow> distinct (map k (del P t))"
  by (simp add: del_def distinct_map_filter)

text \<open>
  The contract of a table with a key column: what a lookup by key returns after an insertion of a
  fresh key, an update that keeps keys and a deletion by key, and that each of them keeps the key
  unique. The laws are proved once here and interpreted for the tables of the database.
\<close>

locale keyed_table =
  fixes key :: "'r \<Rightarrow> 'k"
begin

definition uniq :: "'r list \<Rightarrow> bool" where
  "uniq t \<longleftrightarrow> distinct (map key t)"

definition by_key :: "'k \<Rightarrow> 'r list \<Rightarrow> 'r option" where
  "by_key k t = sel (\<lambda>r. key r = k) t"

lemma uniq_Nil: "uniq []"
  by (simp add: uniq_def)

lemma uniq_insert: "uniq t \<Longrightarrow> by_key (key r) t = None \<Longrightarrow> uniq (t @ [r])"
  by (auto simp: uniq_def by_key_def sel_None)

lemma uniq_upd: "(\<And>r. key (f r) = key r) \<Longrightarrow> uniq t \<Longrightarrow> uniq (upd P f t)"
  by (simp add: uniq_def map_upd)

lemma uniq_del: "uniq t \<Longrightarrow> uniq (del P t)"
  by (simp add: uniq_def distinct_map_del)

lemma uniq_in: "uniq t \<Longrightarrow> r \<in> set t \<Longrightarrow> s \<in> set t \<Longrightarrow> key r = key s \<Longrightarrow> r = s"
  by (auto simp: uniq_def distinct_map dest: inj_onD)

lemma by_key_Some: "uniq t \<Longrightarrow> by_key k t = Some r \<longleftrightarrow> r \<in> set t \<and> key r = k"
proof
  assume "by_key k t = Some r"
  then show "r \<in> set t \<and> key r = k" unfolding by_key_def by (rule sel_Some)
next
  assume u: "uniq t" and r: "r \<in> set t \<and> key r = k"
  then obtain s where s: "by_key k t = Some s"
    by (cases "by_key k t") (auto simp: by_key_def sel_None)
  then have "s \<in> set t \<and> key s = k" unfolding by_key_def by (rule sel_Some)
  with u r s show "by_key k t = Some r" by (metis uniq_in)
qed

lemma by_key_insert:
  "by_key (key r) t = None \<Longrightarrow> by_key k (t @ [r]) = (if k = key r then Some r else by_key k t)"
  by (auto simp: by_key_def sel_append split: option.splits)

lemma by_key_upd:
  "(\<And>r. key (f r) = key r) \<Longrightarrow>
     by_key k (upd (\<lambda>r. key r = k') f t) =
       (if k = k' then map_option f (by_key k t) else by_key k t)"
  unfolding by_key_def
  by (induction t) auto

lemma by_key_del: "by_key k (del (\<lambda>r. key r = k') t) = (if k = k' then None else by_key k t)"
  unfolding by_key_def
  by (induction t) auto

end

section \<open>Sorting of result sets\<close>

text \<open>\<open>ORDER BY ... DESC\<close>: ties stay in table order, as in the ascending sort.\<close>

definition sort_desc :: "('r \<Rightarrow> int) \<Rightarrow> 'r list \<Rightarrow> 'r list" where
  "sort_desc f t = sort_key (\<lambda>r. - f r) t"

lemma set_sort_desc [simp]: "set (sort_desc f t) = set t"
  by (simp add: sort_desc_def)

lemma insort_key_hd_le:
  fixes f :: "'a \<Rightarrow> 'b :: linorder"
  assumes "sort_key f t = r # rs" and "s \<in> set t"
  shows "f r \<le> f s"
proof -
  have "sorted (map f (r # rs))" using sorted_sort_key [of f t] assms(1) by simp
  moreover have "s \<in> set (r # rs)" using assms set_sort [of f t] by metis
  ultimately show ?thesis by auto
qed

end
