(* ===== verification/Clock.thy ===== *)
theory Clock
  imports Prelude
begin

text \<open>
  The part of Go's \<open>time\<close> package that the cost and queue components use: the civil date of an
  instant in UTC (proleptic Gregorian calendar, 400-year cycles), \<open>time.Date\<close> for the first day of
  a month with its normalisation of the month, and zero-padded numerals of formatted dates.
  The theory shows that the date computation is right: the year and the month of an instant are
  those whose interval contains it.
\<close>

section \<open>Civil dates\<close>

definition days_before_year :: "int \<Rightarrow> int" where
  "days_before_year y = (let k = y - 1 in 365 * k + k div 4 - k div 100 + k div 400)"

definition is_leap :: "int \<Rightarrow> bool" where
  "is_leap y \<longleftrightarrow> y mod 4 = 0 \<and> (y mod 100 \<noteq> 0 \<or> y mod 400 = 0)"

text \<open>The cycles of 400, 100, 4 and 1 years in a number of days since 0001-01-01.\<close>

definition year_parts :: "int \<Rightarrow> int \<times> int \<times> int \<times> int \<times> int" where
  "year_parts d =
     (let a = d div 146097; d1 = d mod 146097;
          b = min 3 (d1 div 36524); d2 = d1 - 36524 * b;
          c = d2 div 1461; d3 = d2 mod 1461;
          e = min 3 (d3 div 365)
      in (a, b, c, e, d3 - 365 * e))"

definition year_of_day :: "int \<Rightarrow> int" where
  "year_of_day d = (case year_parts d of (a, b, c, e, _) \<Rightarrow> 400 * a + 100 * b + 4 * c + e + 1)"

definition yday_of_day :: "int \<Rightarrow> int" where
  "yday_of_day d = (case year_parts d of (_, _, _, _, yd) \<Rightarrow> yd)"

text \<open>Days of the year before month \<open>m\<close> (1 to 12); 13 gives the length of the year.\<close>

definition days_before_month :: "bool \<Rightarrow> int \<Rightarrow> int" where
  "days_before_month leap m =
     (let x = (if leap then 1 else 0) in
      if m \<le> 1 then 0 else if m = 2 then 31 else if m = 3 then 59 + x
      else if m = 4 then 90 + x else if m = 5 then 120 + x else if m = 6 then 151 + x
      else if m = 7 then 181 + x else if m = 8 then 212 + x else if m = 9 then 243 + x
      else if m = 10 then 273 + x else if m = 11 then 304 + x else if m = 12 then 334 + x
      else 365 + x)"

fun month_search :: "bool \<Rightarrow> int \<Rightarrow> int \<Rightarrow> nat \<Rightarrow> int" where
  "month_search leap yd m 0 = m"
| "month_search leap yd m (Suc n) =
     (if yd < days_before_month leap (m + 1) then m else month_search leap yd (m + 1) n)"

definition month_of_yday :: "bool \<Rightarrow> int \<Rightarrow> int" where
  "month_of_yday leap yd = month_search leap yd 1 11"

definition time_Year :: "time \<Rightarrow> int" where
  "time_Year t = year_of_day (t div Day)"

definition time_Month :: "time \<Rightarrow> int" where
  "time_Month t = month_of_yday (is_leap (time_Year t)) (yday_of_day (t div Day))"

text \<open>\<open>time.Date(y, m, 1, 0, 0, 0, 0, time.UTC)\<close>, a month outside 1 to 12 carrying into the year.\<close>

definition month_start :: "int \<Rightarrow> int \<Rightarrow> time" where
  "month_start y m =
     (let y' = y + (m - 1) div 12; m' = (m - 1) mod 12 + 1
      in (days_before_year y' + days_before_month (is_leap y') m') * Day)"

section \<open>The year and the month of an instant\<close>

lemma days_before_year_parts:
  assumes "0 \<le> b" "b \<le> 3" "0 \<le> c" "c \<le> 24" "0 \<le> e" "e \<le> 3"
  shows "days_before_year (400 * a + 100 * b + 4 * c + e + 1)
           = 146097 * a + 36524 * b + 1461 * c + 365 * e"
proof -
  let ?k = "400 * a + 100 * b + 4 * c + e"
  have "?k div 4 = 100 * a + 25 * b + c"
    by (rule int_div_pos_eq [where r = e]) (use assms in simp_all)
  moreover have "?k div 100 = 4 * a + b"
    by (rule int_div_pos_eq [where r = "4 * c + e"]) (use assms in simp_all)
  moreover have "?k div 400 = a"
    by (rule int_div_pos_eq [where r = "100 * b + 4 * c + e"]) (use assms in simp_all)
  ultimately show ?thesis by (simp add: days_before_year_def Let_def)
qed

lemma is_leap_parts:
  assumes "0 \<le> b" "b \<le> 3" "0 \<le> c" "c \<le> 24" "0 \<le> e" "e \<le> 3"
  shows "is_leap (400 * a + 100 * b + 4 * c + e + 1) \<longleftrightarrow> e = 3 \<and> (c \<noteq> 24 \<or> b = 3)"
proof -
  let ?y = "400 * a + 100 * b + 4 * c + e + 1"
  consider "e < 3" | "e = 3" "c < 24" | "e = 3" "c = 24" "b < 3" | "e = 3" "c = 24" "b = 3"
    using assms by linarith
  then show ?thesis
  proof cases
    case 1
    have "?y mod 4 = e + 1"
      by (rule int_mod_pos_eq [where q = "100 * a + 25 * b + c"]) (use 1 assms in simp_all)
    with 1 assms show ?thesis by (simp add: is_leap_def)
  next
    case 2
    have "?y mod 100 = 4 * c + 4"
      by (rule int_mod_pos_eq [where q = "4 * a + b"]) (use 2 assms in simp_all)
    moreover have "?y mod 4 = 0"
      by (rule int_mod_pos_eq [where q = "100 * a + 25 * b + c + 1"]) (use 2 in simp_all)
    ultimately show ?thesis using 2 assms by (simp add: is_leap_def)
  next
    case 3
    have "?y mod 400 = 100 * b + 100"
      by (rule int_mod_pos_eq [where q = a]) (use 3 assms in simp_all)
    moreover have "?y mod 100 = 0"
      by (rule int_mod_pos_eq [where q = "4 * a + b + 1"]) (use 3 in simp_all)
    ultimately show ?thesis using 3 assms by (simp add: is_leap_def)
  next
    case 4
    have "?y mod 400 = 0"
      by (rule int_mod_pos_eq [where q = "a + 1"]) (use 4 in simp_all)
    moreover have "?y mod 4 = 0"
      by (rule int_mod_pos_eq [where q = "100 * a + 100"]) (use 4 in simp_all)
    ultimately show ?thesis using 4 by (simp add: is_leap_def)
  qed
qed

lemma div_pred:
  fixes n :: int
  assumes "0 < n"
  shows "y div n = (y - 1) div n + (if y mod n = 0 then 1 else 0)"
proof -
  define q r where "q = (y - 1) div n" and "r = (y - 1) mod n"
  have y: "y = n * q + (r + 1)" by (simp add: q_def r_def)
  have r: "0 \<le> r" "r < n" using assms by (simp_all add: r_def)
  show ?thesis
  proof (cases "r + 1 < n")
    case True
    have "y div n = q" using y True r by (intro int_div_pos_eq) auto
    moreover have "y mod n = r + 1" using y True r by (intro int_mod_pos_eq) auto
    ultimately show ?thesis using r by (simp add: q_def)
  next
    case False
    with r y have "y = n * (q + 1)" by (simp add: distrib_left)
    then have "y div n = q + 1" "y mod n = 0" using assms by simp_all
    then show ?thesis by (simp add: q_def)
  qed
qed

lemma days_before_year_Suc: "days_before_year (y + 1) = days_before_year y + (if is_leap y then 366 else 365)"
proof -
  have m_dvd: "(100 :: int) dvd 400 \<longleftrightarrow> True" "(4 :: int) dvd 100 \<longleftrightarrow> True" by simp_all
  have m: "y mod 400 = 0 \<Longrightarrow> y mod 100 = 0" "y mod 100 = 0 \<Longrightarrow> y mod 4 = 0"
    using mod_mod_cancel [of 100 400 y] mod_mod_cancel [of 4 100 y] by (simp_all only: m_dvd mod_0)
  have gen: "365 * y + k4 - k100 + k400
      = 365 * (y - 1) + j4 - j100 + j400 + (if P4 \<and> (\<not> P100 \<or> P400) then 366 else 365)"
    if "k4 = j4 + (if P4 then 1 else 0)" "k100 = j100 + (if P100 then 1 else 0)"
      "k400 = j400 + (if P400 then 1 else 0)" "P400 \<Longrightarrow> P100" "P100 \<Longrightarrow> P4"
    for k4 j4 k100 j100 k400 j400 :: int and P4 P100 P400 :: bool
    using that by (cases P4; cases P100; cases P400) simp_all
  show ?thesis unfolding days_before_year_def is_leap_def Let_def add_diff_cancel_right'
    by (rule gen [OF div_pred div_pred div_pred m]) simp_all
qed

lemma year_parts_spec:
  assumes "year_parts d = (a, b, c, e, yd)"
  shows "0 \<le> b" "b \<le> 3" "0 \<le> c" "c \<le> 24" "0 \<le> e" "e \<le> 3" "0 \<le> yd"
    and "yd < (if e = 3 \<and> (c \<noteq> 24 \<or> b = 3) then 366 else 365)"
    and "d = 146097 * a + 36524 * b + 1461 * c + 365 * e + yd"
proof -
  define d1 d2 d3 where "d1 = d mod 146097" and "d2 = d1 - 36524 * b" and "d3 = d2 mod 1461"
  have E: "d div 146097 = a" "min 3 (d1 div 36524) = b"
      "(d1 - 36524 * min 3 (d1 div 36524)) div 1461 = c"
      "min 3 ((d1 - 36524 * min 3 (d1 div 36524)) mod 1461 div 365) = e"
      "(d1 - 36524 * min 3 (d1 div 36524)) mod 1461
         - 365 * min 3 ((d1 - 36524 * min 3 (d1 div 36524)) mod 1461 div 365) = yd"
    using assms unfolding year_parts_def Let_def prod.inject d1_def by blast+
  have eqs: "a = d div 146097" "b = min 3 (d1 div 36524)" "c = d2 div 1461"
      "e = min 3 (d3 div 365)" "yd = d3 - 365 * e"
    using E unfolding E(2) d3_def d2_def by (metis, metis, metis, metis, metis)
  have d1: "0 \<le> d1" "d1 < 146097" by (simp_all add: d1_def)
  have b: "0 \<le> b" "b \<le> 3" using d1 eqs(2) by auto
  have d2: "0 \<le> d2" "d2 < (if b = 3 then 36525 else 36524)"
    using d1 eqs(2) by (auto simp: d2_def min_def split: if_splits)
  have c: "0 \<le> c" "c \<le> 24" using d2 eqs(3) by (auto split: if_splits)
  have d3: "0 \<le> d3" "d3 < 1461" by (simp_all add: d3_def)
  have d2c: "d2 = 1461 * c + d3" by (simp add: eqs(3) d3_def)
  have e: "0 \<le> e" "e \<le> 3" using d3 eqs(4) by auto
  have yd: "0 \<le> yd" using d3 eqs(4,5) by (auto simp: min_def split: if_splits)
  have last: "d3 < 1460" if "c = 24" "b \<noteq> 3" using that d2c d2(2) by simp
  have "yd < (if e = 3 \<and> (c \<noteq> 24 \<or> b = 3) then 366 else 365)"
    using d3 eqs(4,5) last by (auto simp: min_def split: if_splits)
  moreover have "d = 146097 * a + d1" by (simp add: eqs(1) d1_def)
  ultimately show "0 \<le> b" "b \<le> 3" "0 \<le> c" "c \<le> 24" "0 \<le> e" "e \<le> 3" "0 \<le> yd"
      "yd < (if e = 3 \<and> (c \<noteq> 24 \<or> b = 3) then 366 else 365)"
      "d = 146097 * a + 36524 * b + 1461 * c + 365 * e + yd"
    using b c e yd d2c eqs(5) by (auto simp: d2_def)
qed

lemma day_split:
  "d = days_before_year (year_of_day d) + yday_of_day d"
  "0 \<le> yday_of_day d"
  "yday_of_day d < (if is_leap (year_of_day d) then 366 else 365)"
proof -
  obtain a b c e yd where p: "year_parts d = (a, b, c, e, yd)" by (cases "year_parts d")
  note s = year_parts_spec [OF p]
  have y: "year_of_day d = 400 * a + 100 * b + 4 * c + e + 1" by (simp add: year_of_day_def p)
  have yday: "yday_of_day d = yd" by (simp add: yday_of_day_def p)
  show "d = days_before_year (year_of_day d) + yday_of_day d"
    unfolding y days_before_year_parts [OF s(1-6)] yday using s(9) by linarith
  show "0 \<le> yday_of_day d" using s(7) by (simp add: yday_of_day_def p)
  show "yday_of_day d < (if is_leap (year_of_day d) then 366 else 365)"
    unfolding y is_leap_parts [OF s(1-6)] using s(8) by (simp add: yday_of_day_def p)
qed

lemma dbm_simps:
  "days_before_month l 1 = 0" "days_before_month l 2 = 31"
  "days_before_month l 3 = 59 + of_bool l" "days_before_month l 4 = 90 + of_bool l"
  "days_before_month l 5 = 120 + of_bool l" "days_before_month l 6 = 151 + of_bool l"
  "days_before_month l 7 = 181 + of_bool l" "days_before_month l 8 = 212 + of_bool l"
  "days_before_month l 9 = 243 + of_bool l" "days_before_month l 10 = 273 + of_bool l"
  "days_before_month l 11 = 304 + of_bool l" "days_before_month l 12 = 334 + of_bool l"
  "days_before_month l 13 = 365 + of_bool l"
  by (simp_all add: days_before_month_def)

lemma month_search_spec:
  assumes "days_before_month leap m \<le> yd" "yd < days_before_month leap (m + int n + 1)"
  shows "m \<le> month_search leap yd m n \<and> month_search leap yd m n \<le> m + int n \<and>
     days_before_month leap (month_search leap yd m n) \<le> yd \<and>
     yd < days_before_month leap (month_search leap yd m n + 1)"
  using assms
proof (induction n arbitrary: m)
  case 0
  then show ?case by simp
next
  case (Suc n)
  show ?case
  proof (cases "yd < days_before_month leap (m + 1)")
    case True
    with Suc.prems show ?thesis by simp
  next
    case False
    with Suc.prems Suc.IH [of "m + 1"] show ?thesis by (simp add: add.assoc)
  qed
qed

lemma month_of_yday_spec:
  assumes "0 \<le> yd" "yd < (if leap then 366 else 365)"
  shows "1 \<le> month_of_yday leap yd" "month_of_yday leap yd \<le> 12"
    and "days_before_month leap (month_of_yday leap yd) \<le> yd"
    and "yd < days_before_month leap (month_of_yday leap yd + 1)"
proof -
  have "days_before_month leap 1 \<le> yd" "yd < days_before_month leap (1 + int 11 + 1)"
    using assms by (simp_all add: dbm_simps split: if_splits)
  from month_search_spec [OF this] show "1 \<le> month_of_yday leap yd" "month_of_yday leap yd \<le> 12"
    "days_before_month leap (month_of_yday leap yd) \<le> yd"
    "yd < days_before_month leap (month_of_yday leap yd + 1)"
    by (simp_all add: month_of_yday_def)
qed

lemma days_before_month_strict:
  assumes "1 \<le> m" "m \<le> 12"
  shows "days_before_month l m < days_before_month l (m + 1)"
proof -
  have "m \<in> {1, 2, 3, 4, 5, 6, 7, 8, 9, 10, 11, 12}" using assms unfolding insert_iff empty_iff by presburger
  then show ?thesis by (elim insertE) (simp_all add: dbm_simps)
qed

text \<open>Months counted from year 1, and the first day of each.\<close>

definition month_index :: "int \<Rightarrow> int \<Rightarrow> int" where
  "month_index y m = 12 * (y - 1) + (m - 1)"

definition index_day :: "int \<Rightarrow> int" where
  "index_day i =
     (let y = i div 12 + 1 in days_before_year y + days_before_month (is_leap y) (i mod 12 + 1))"

lemma month_start_index: "month_start y m = index_day (month_index y m) * Day"
proof -
  have d: "(12 * (y - 1) + (m - 1)) div 12 = y - 1 + (m - 1) div 12" by (rule div_mult_self4) simp
  have m: "(12 * (y - 1) + (m - 1)) mod 12 = (m - 1) mod 12" by (rule mod_mult_self4)
  have y: "y - 1 + (m - 1) div 12 + 1 = y + (m - 1) div 12" by simp
  show ?thesis
    unfolding month_start_def index_day_def month_index_def Let_def d m y by (rule refl)
qed

lemma suc_div_mod12:
  fixes i :: int
  shows "i mod 12 = 11 \<Longrightarrow> (i + 1) div 12 = i div 12 + 1 \<and> (i + 1) mod 12 = 0"
    and "i mod 12 \<noteq> 11 \<Longrightarrow> (i + 1) div 12 = i div 12 \<and> (i + 1) mod 12 = i mod 12 + 1"
proof -
  define q r where "q = i div 12" and "r = i mod 12"
  have i: "i = 12 * q + r" by (simp add: q_def r_def)
  have r: "0 \<le> r" "r < 12" by (simp_all add: r_def)
  show "(i + 1) div 12 = i div 12 + 1 \<and> (i + 1) mod 12 = 0" if "i mod 12 = 11"
  proof -
    from that have "r = 11" by (simp only: r_def)
    with i have "i + 1 = 12 * (q + 1)" by simp
    then have "(i + 1) div 12 = q + 1" "(i + 1) mod 12 = 0"
      by (auto intro: int_div_pos_eq [where r = 0] int_mod_pos_eq [where q = "q + 1"])
    then show ?thesis by (simp add: q_def)
  qed
  show "(i + 1) div 12 = i div 12 \<and> (i + 1) mod 12 = i mod 12 + 1" if "i mod 12 \<noteq> 11"
  proof -
    from that have "r \<noteq> 11" unfolding r_def .
    with r have "r + 1 < 12" by simp
    then have "(i + 1) div 12 = q" "(i + 1) mod 12 = r + 1"
      using i r by (auto intro: int_div_pos_eq int_mod_pos_eq)
    then show ?thesis by (simp add: q_def r_def)
  qed
qed

lemma index_day_Suc: "index_day i < index_day (i + 1)"
proof (cases "i mod 12 = 11")
  case True
  then have "(i + 1) div 12 = i div 12 + 1" "(i + 1) mod 12 = 0" using suc_div_mod12(1) by blast+
  with True days_before_year_Suc [of "i div 12 + 1"] show ?thesis
    by (simp add: index_day_def Let_def days_before_month_def)
next
  case False
  then have "(i + 1) div 12 = i div 12" "(i + 1) mod 12 = i mod 12 + 1" using suc_div_mod12(2) by blast+
  moreover have "0 \<le> i mod 12" "i mod 12 < 12" by simp_all
  ultimately show ?thesis
    using days_before_month_strict [of "i mod 12 + 1"] by (simp add: index_day_def Let_def)
qed

lemma index_day_strict: "i < j \<Longrightarrow> index_day i < index_day j"
proof -
  have "index_day i < index_day (i + 1 + int n)" for n
  proof (induction n)
    case 0
    then show ?case using index_day_Suc by simp
  next
    case (Suc n)
    have "i + 1 + int (Suc n) = (i + 1 + int n) + 1" by simp
    with Suc index_day_Suc [of "i + 1 + int n"] show ?case by simp
  qed
  moreover assume "i < j"
  then obtain n where "j = i + 1 + int n" by (metis zle_iff_zadd zless_imp_add1_zle)
  ultimately show ?thesis by simp
qed

lemma index_day_less_iff: "index_day i < index_day j \<longleftrightarrow> i < j"
  by (metis index_day_strict less_irrefl less_trans linorder_neqE)

lemma index_day_inj: "index_day i = index_day j \<longleftrightarrow> i = j"
  by (metis index_day_less_iff less_irrefl linorder_neqE)

definition time_index :: "time \<Rightarrow> int" where
  "time_index t = month_index (time_Year t) (time_Month t)"

lemma time_Month_range: "1 \<le> time_Month t \<and> time_Month t \<le> 12"
  unfolding time_Month_def time_Year_def
  using month_of_yday_spec(1,2) [OF day_split(2,3)] by blast

lemma index_day_time:
  "index_day (time_index t) \<le> t div Day"
  "t div Day < index_day (time_index t + 1)"
proof -
  let ?d = "t div Day" and ?y = "time_Year t" and ?m = "time_Month t"
  let ?yd = "yday_of_day ?d"
  have yd: "0 \<le> ?yd" "?yd < (if is_leap ?y then 366 else 365)"
    using day_split(2,3) by (simp_all add: time_Year_def)
  have d: "?d = days_before_year ?y + ?yd" using day_split(1) by (simp add: time_Year_def)
  have m: "1 \<le> ?m" "?m \<le> 12" using time_Month_range by blast+
  have ms: "days_before_month (is_leap ?y) ?m \<le> ?yd" "?yd < days_before_month (is_leap ?y) (?m + 1)"
    using month_of_yday_spec(3,4) [OF yd] by (simp_all add: time_Month_def)
  have "time_index t div 12 = ?y - 1" "time_index t mod 12 = ?m - 1"
    unfolding time_index_def month_index_def
    using m by (auto intro: int_div_pos_eq [where r = "?m - 1"] int_mod_pos_eq [where q = "?y - 1"])
  then have i: "time_index t div 12 + 1 = ?y" "time_index t mod 12 + 1 = ?m" by simp_all
  show "index_day (time_index t) \<le> ?d"
    using i ms(1) d by (simp add: index_day_def Let_def)
  show "?d < index_day (time_index t + 1)"
  proof (cases "?m = 12")
    case True
    with i have "(time_index t + 1) div 12 + 1 = ?y + 1" "(time_index t + 1) mod 12 = 0"
      using suc_div_mod12(1) [of "time_index t"] by simp_all
    with d yd(2) days_before_year_Suc [of ?y] show ?thesis
      by (simp add: index_day_def Let_def days_before_month_def)
  next
    case False
    with i have "(time_index t + 1) div 12 + 1 = ?y" "(time_index t + 1) mod 12 + 1 = ?m + 1"
      using suc_div_mod12(2) [of "time_index t"] by simp_all
    with d ms(2) show ?thesis by (simp add: index_day_def Let_def)
  qed
qed

lemma Day_pos: "0 < Day"
  by (simp add: duration_defs)

lemma day_le_iff: "i * Day \<le> t \<longleftrightarrow> i \<le> t div Day"
proof
  assume "i * Day \<le> t"
  then have "(i * Day) div Day \<le> t div Day" by (rule zdiv_mono1) (rule Day_pos)
  then show "i \<le> t div Day" using Day_pos by simp
next
  assume "i \<le> t div Day"
  then have "i * Day \<le> t div Day * Day" using Day_pos by simp
  also have "\<dots> = t - t mod Day" by (simp add: minus_mod_eq_div_mult)
  also have "\<dots> \<le> t" using Day_pos by simp
  finally show "i * Day \<le> t" .
qed

text \<open>The month of an instant is the one whose interval contains it.\<close>

lemma month_interval:
  "index_day (time_index t) * Day \<le> t" "t < index_day (time_index t + 1) * Day"
  using index_day_time [of t] day_le_iff by (simp_all add: linorder_not_le [symmetric])

lemma time_index_unique:
  assumes "index_day i * Day \<le> t" "t < index_day (i + 1) * Day"
  shows "time_index t = i"
proof -
  from assms have "index_day i \<le> t div Day" "t div Day < index_day (i + 1)"
    using day_le_iff by (simp_all add: linorder_not_le [symmetric])
  with index_day_time [of t] have "index_day i < index_day (time_index t + 1)"
      "index_day (time_index t) < index_day (i + 1)" by linarith+
  then show ?thesis by (simp add: index_day_less_iff)
qed

section \<open>Numerals of formatted dates\<close>

text \<open>Go's \<open>appendInt\<close>: a number in decimal, padded with zeros to a width.\<close>

definition append_int :: "nat \<Rightarrow> int \<Rightarrow> string" where
  "append_int w x =
     (if x < 0 then CHR ''-'' # pad0 w (show_nat (nat (- x))) else pad0 w (show_nat (nat x)))"

definition digits_val :: "string \<Rightarrow> nat" where
  "digits_val s = foldl (\<lambda>a c. 10 * a + (of_char c - 48)) 0 s"

lemma digits_val_snoc: "digits_val (s @ [c]) = 10 * digits_val s + (of_char c - 48)"
  by (simp add: digits_val_def)

lemma of_char_digit: "d < 10 \<Longrightarrow> of_char (char_of (48 + d :: nat)) = 48 + d"
  by simp

lemma digits_val_show_nat [simp]: "digits_val (show_nat n) = n"
proof (induction n rule: show_nat.induct)
  case (1 n)
  show ?case
  proof (cases "n < 10")
    case True
    then show ?thesis by (subst show_nat.simps) (simp add: digits_val_def)
  next
    case False
    with 1 show ?thesis by (subst show_nat.simps) (simp add: digits_val_snoc)
  qed
qed

lemma digits_val_pad0 [simp]: "digits_val (pad0 w s) = digits_val s"
proof -
  have "foldl (\<lambda>a c. 10 * a + (of_char c - 48)) (0 :: nat) (replicate n (CHR ''0'')) = 0" for n
    by (induction n) auto
  then show ?thesis by (simp add: digits_val_def pad0_def)
qed

lemma length_show_nat: "n < 10 ^ k \<Longrightarrow> 0 < k \<Longrightarrow> length (show_nat n) \<le> k"
proof (induction n arbitrary: k rule: show_nat.induct)
  case (1 n)
  show ?case
  proof (cases "n < 10")
    case True
    with 1 show ?thesis by (subst show_nat.simps) simp
  next
    case False
    obtain j where k: "k = Suc j" using "1.prems" by (cases k) auto
    with False "1.prems" have "n div 10 < 10 ^ j" "0 < j" by (auto intro: Nat.gr0I)
    with "1.IH" False have "length (show_nat (n div 10)) \<le> j" by simp
    with False k show ?thesis by (subst show_nat.simps) simp
  qed
qed

lemma length_pad0: "length s \<le> w \<Longrightarrow> length (pad0 w s) = w"
  by (simp add: pad0_def)

lemma append_int_inj: "0 \<le> x \<Longrightarrow> 0 \<le> y \<Longrightarrow> append_int w x = append_int w y \<longleftrightarrow> x = y"
  by (metis append_int_def digits_val_pad0 digits_val_show_nat linorder_not_less nat_0_le)

lemma length_append_int: "0 \<le> x \<Longrightarrow> x < 10 ^ w \<Longrightarrow> 0 < w \<Longrightarrow> length (append_int w x) = w"
proof -
  assume "0 \<le> x" "x < 10 ^ w" "0 < w"
  then have "nat x < 10 ^ w" by (simp add: nat_less_iff)
  then have "length (show_nat (nat x)) \<le> w" using \<open>0 < w\<close> by (rule length_show_nat)
  with \<open>0 \<le> x\<close> show ?thesis by (simp add: append_int_def length_pad0)
qed

end
