(* ===== verification/Queries.thy ===== *)
theory Queries
  imports Prelude
begin

text \<open>
  The database: the rows of \<open>db/queries/models.go\<close>, the tables and defaults of
  \<open>db/migrations/001_schema.sql\<close> and one definition per query of \<open>db/queries/*.sql.go\<close> (with the
  suffix \<open>_q\<close>; the store's methods keep the plain names).

  A query may also fail for reasons outside its statement (a closed connection, a cancelled
  context, a full disk). Those faults are an argument of the model, the field \<open>db_fault\<close>: it says for
  each query with its arguments whether the driver fails, and every query asks it first. The
  constraints of the schema (primary keys, UNIQUE, the foreign key of \<open>apps\<close>) are modelled.

  \<open>strftime('%Y-%m-%dT%H:%M:%fZ', 'now')\<close> is the instant \<open>db_now\<close> cut to milliseconds; columns of type
  DATETIME hold instants. A float64 is a real number. Rows of equal sort key keep table order.
  AUTOINCREMENT numbers are consecutive; nothing depends on more than their freshness.
\<close>

section \<open>Rows\<close>

record App =
  a_ID :: int
  a_RepoSlug :: string
  a_Name :: string
  a_Type :: string
  a_Status :: string
  a_Namespace :: "string option"
  a_ImageCurrent :: "string option"
  a_ImageLastHealthy :: "string option"
  a_Permanent :: int
  a_DeletionPending :: int
  a_DeletedAt :: "time option"
  a_CreatedAt :: time
  a_UpdatedAt :: time
  a_Hibernated :: int
  a_HibernatedAt :: "time option"
  a_HibernationReason :: "string option"
  a_LastActiveAt :: "time option"
  a_IdleAfter :: "string option"

record Exemption =
  e_ID :: int
  e_Kind :: string
  e_RepoSlug :: string
  e_AppName :: string
  e_Type :: string
  e_ExpiresAt :: "time option"
  e_CreatedAt :: time

record Operation =
  o_ID :: string
  o_RepoSlug :: string
  o_AppName :: string
  o_Kind :: string
  o_Status :: string
  o_Error :: "string option"
  o_CreatedAt :: time
  o_UpdatedAt :: time

record PlatformConfig =
  c_BudgetCeilingMonthly :: real
  c_SoftLimitPct :: real
  c_HardLimitPct :: real
  c_DefaultIdleAfter :: string
  c_BudgetSoftLimitActive :: int
  c_BudgetHardLimitActive :: int
  c_BillingPeriod :: string

record PriceSnapshot =
  ps_ID :: int
  ps_ComputeCpuPerCoreHour :: real
  ps_ComputeMemPerGbHour :: real
  ps_StoragePerGbMonth :: real
  ps_RegistryPerGbMonth :: real
  ps_FetchedAt :: time

record Principal =
  p_GithubID :: int
  p_GithubLogin :: string
  p_IsOperator :: int
  p_IsAdmin :: int
  p_CreatedAt :: time

record RefreshToken =
  rt_ID :: string
  rt_TokenHash :: string
  rt_Subject :: string
  rt_Role :: string
  rt_RepoSlug :: "string option"
  rt_ExpiresAt :: time
  rt_RevokedAt :: "time option"
  rt_CreatedAt :: time

record Repo =
  r_Slug :: string
  r_Tier :: string
  r_CreatedAt :: time

record ScaleEvent =
  se_ID :: int
  se_Namespace :: string
  se_App :: string
  se_Event :: string
  se_OccurredAt :: time

text \<open>The column \<open>until\<close> is RFC 3339 text, here its instant.\<close>

record StaleSuppressed =
  ss_RepoSlug :: string
  ss_AppName :: string
  ss_Until :: time

record Tier =
  t_Name :: string
  t_MaxApps :: int
  t_CpuMilli :: int
  t_MemoryMb :: int
  t_BlobGb :: int
  t_DatabaseGb :: int
  t_QueueGb :: int
  t_HibernateAfter :: string
  t_IsDefault :: int
  t_CreatedAt :: time
  t_UpdatedAt :: time

section \<open>The database\<close>

datatype db_error = ErrNoRows | ErrUnique | ErrForeignKey | ErrDriver string

text \<open>A query with its arguments, the key under which the driver may fail.\<close>

datatype qarg = QI int | QS string | QN

type_synonym query = "string \<times> qarg list"

record db =
  t_repos :: "Repo list"
  t_apps :: "App list"
  t_operations :: "Operation list"
  t_refresh_tokens :: "RefreshToken list"
  t_principals :: "Principal list"
  t_tiers :: "Tier list"
  t_scale_events :: "ScaleEvent list"
  t_price_snapshots :: "PriceSnapshot list"
  t_platform_config :: "PlatformConfig option"
  t_exemptions :: "Exemption list"
  t_stale_suppressed :: "StaleSuppressed list"
  seq_apps :: int
  seq_scale_events :: int
  seq_price_snapshots :: int
  seq_exemptions :: int
  db_now :: time
  db_fault :: "query \<Rightarrow> string option"

definition guarded :: "db \<Rightarrow> query \<Rightarrow> (db_error + 'a) \<Rightarrow> db_error + 'a" where
  "guarded d q r = (case db_fault d q of Some m \<Rightarrow> Inl (ErrDriver m) | None \<Rightarrow> r)"

definition one :: "'a option \<Rightarrow> db_error + 'a" where
  "one r = (case r of None \<Rightarrow> Inl ErrNoRows | Some x \<Rightarrow> Inr x)"

definition sql_now :: "db \<Rightarrow> time" where
  "sql_now d = (db_now d div 1000000) * 1000000"

lemma one_simps [simp]:
  "one (Some x) = Inr x" "one None = Inl ErrNoRows"
  "(one r = Inr x) = (r = Some x)" "(one r = Inl e) = (r = None \<and> e = ErrNoRows)"
  by (auto simp: one_def split: option.splits)

lemma guarded_Inr: "guarded d q r = Inr x \<longleftrightarrow> db_fault d q = None \<and> r = Inr x"
  by (auto simp: guarded_def split: option.splits)

lemma guarded_ok [simp]: "db_fault d q = None \<Longrightarrow> guarded d q r = r"
  by (simp add: guarded_def)

section \<open>Repos\<close>

definition is_repo :: "string \<Rightarrow> Repo \<Rightarrow> bool" where
  "is_repo slug r \<longleftrightarrow> r_Slug r = slug"

definition GetRepo_q :: "db \<Rightarrow> string \<Rightarrow> db_error + Repo" where
  "GetRepo_q d slug = guarded d (''getRepo'', [QS slug]) (one (sel (is_repo slug) (t_repos d)))"

definition ListRepos_q :: "db \<Rightarrow> db_error + Repo list" where
  "ListRepos_q d = guarded d (''listRepos'', []) (Inr (sort_key r_Slug (t_repos d)))"

definition new_repo :: "db \<Rightarrow> string \<Rightarrow> string \<Rightarrow> Repo" where
  "new_repo d slug tier = \<lparr> r_Slug = slug, r_Tier = tier, r_CreatedAt = sql_now d \<rparr>"

definition CreateRepo_q :: "db \<Rightarrow> string \<Rightarrow> string \<Rightarrow> db_error + Repo \<times> db" where
  "CreateRepo_q d slug tier = guarded d (''createRepo'', [QS slug, QS tier])
     (if sel (is_repo slug) (t_repos d) \<noteq> None then Inl ErrUnique
      else let r = new_repo d slug tier in Inr (r, d\<lparr>t_repos := t_repos d @ [r]\<rparr>))"

definition UpdateRepoTier_q :: "db \<Rightarrow> string \<Rightarrow> string \<Rightarrow> db_error + Repo \<times> db" where
  "UpdateRepoTier_q d tier slug = guarded d (''updateRepoTier'', [QS tier, QS slug])
     (case sel (is_repo slug) (t_repos d) of
        None \<Rightarrow> Inl ErrNoRows
      | Some r \<Rightarrow> Inr (r\<lparr>r_Tier := tier\<rparr>,
                       d\<lparr>t_repos := upd (is_repo slug) (\<lambda>r. r\<lparr>r_Tier := tier\<rparr>) (t_repos d)\<rparr>))"

text \<open>\<open>ON CONFLICT(slug) DO UPDATE SET slug = slug\<close> returns the row that is there.\<close>

definition UpsertRepo_q :: "db \<Rightarrow> string \<Rightarrow> string \<Rightarrow> db_error + Repo \<times> db" where
  "UpsertRepo_q d slug tier = guarded d (''upsertRepo'', [QS slug, QS tier])
     (case sel (is_repo slug) (t_repos d) of
        Some r \<Rightarrow> Inr (r, d)
      | None \<Rightarrow> let r = new_repo d slug tier in Inr (r, d\<lparr>t_repos := t_repos d @ [r]\<rparr>))"

definition live_app_of :: "string \<Rightarrow> App \<Rightarrow> bool" where
  "live_app_of slug a \<longleftrightarrow> a_RepoSlug a = slug \<and> a_DeletionPending a = 0"

definition CountAppsByRepo_q :: "db \<Rightarrow> string \<Rightarrow> db_error + int" where
  "CountAppsByRepo_q d slug = guarded d (''countAppsByRepo'', [QS slug])
     (Inr (int (length (filter (live_app_of slug) (t_apps d)))))"

section \<open>Apps\<close>

definition is_app :: "string \<Rightarrow> string \<Rightarrow> App \<Rightarrow> bool" where
  "is_app slug name a \<longleftrightarrow> a_RepoSlug a = slug \<and> a_Name a = name"

definition GetApp_q :: "db \<Rightarrow> string \<Rightarrow> string \<Rightarrow> db_error + App" where
  "GetApp_q d slug name = guarded d (''getApp'', [QS slug, QS name])
     (one (sel (is_app slug name) (t_apps d)))"

definition GetAppByNamespace_q :: "db \<Rightarrow> string \<Rightarrow> db_error + App" where
  "GetAppByNamespace_q d ns = guarded d (''getAppByNamespace'', [QS ns])
     (one (sel (\<lambda>a. a_Namespace a = Some ns \<and> a_DeletionPending a = 0) (t_apps d)))"

definition ListAllApps_q :: "db \<Rightarrow> db_error + App list" where
  "ListAllApps_q d = guarded d (''listAllApps'', [])
     (Inr (sort_key (\<lambda>a. (a_RepoSlug a, a_Name a)) (filter (\<lambda>a. a_DeletionPending a = 0) (t_apps d))))"

definition ListAppsByRepo_q :: "db \<Rightarrow> string \<Rightarrow> db_error + App list" where
  "ListAppsByRepo_q d slug = guarded d (''listAppsByRepo'', [QS slug])
     (Inr (sort_key a_Name (filter (live_app_of slug) (t_apps d))))"

definition new_app :: "db \<Rightarrow> string \<Rightarrow> string \<Rightarrow> string \<Rightarrow> string option \<Rightarrow> string option \<Rightarrow> string option \<Rightarrow> App" where
  "new_app d slug name typ ns img idle =
     \<lparr> a_ID = seq_apps d + 1, a_RepoSlug = slug, a_Name = name, a_Type = typ, a_Status = ''pending'',
       a_Namespace = ns, a_ImageCurrent = img, a_ImageLastHealthy = None, a_Permanent = 0,
       a_DeletionPending = 0, a_DeletedAt = None, a_CreatedAt = sql_now d, a_UpdatedAt = sql_now d,
       a_Hibernated = 0, a_HibernatedAt = None, a_HibernationReason = None, a_LastActiveAt = None,
       a_IdleAfter = idle \<rparr>"

definition add_app :: "db \<Rightarrow> App \<Rightarrow> db" where
  "add_app d a = d\<lparr>t_apps := t_apps d @ [a], seq_apps := seq_apps d + 1\<rparr>"

definition CreateApp_q :: "db \<Rightarrow> string \<Rightarrow> string \<Rightarrow> string \<Rightarrow> string option \<Rightarrow> db_error + App \<times> db" where
  "CreateApp_q d slug name typ ns = guarded d (''createApp'', [QS slug, QS name])
     (if sel (is_app slug name) (t_apps d) \<noteq> None then Inl ErrUnique
      else if sel (is_repo slug) (t_repos d) = None then Inl ErrForeignKey
      else let a = new_app d slug name typ ns None None in Inr (a, add_app d a))"

definition reapply_app :: "db \<Rightarrow> string \<Rightarrow> string option \<Rightarrow> string option \<Rightarrow> string option \<Rightarrow> App \<Rightarrow> App" where
  "reapply_app d typ ns img idle a =
     a\<lparr>a_Type := typ, a_Namespace := ns, a_ImageLastHealthy := a_ImageCurrent a, a_ImageCurrent := img,
       a_IdleAfter := idle, a_Status := ''pending'', a_DeletionPending := 0, a_DeletedAt := None,
       a_UpdatedAt := sql_now d\<rparr>"

definition UpsertApp_q ::
  "db \<Rightarrow> string \<Rightarrow> string \<Rightarrow> string \<Rightarrow> string option \<Rightarrow> string option \<Rightarrow> string option \<Rightarrow> db_error + App \<times> db" where
  "UpsertApp_q d slug name typ ns img idle = guarded d (''upsertApp'', [QS slug, QS name])
     (case sel (is_app slug name) (t_apps d) of
        Some a \<Rightarrow> Inr (reapply_app d typ ns img idle a,
                       d\<lparr>t_apps := upd (is_app slug name) (reapply_app d typ ns img idle) (t_apps d)\<rparr>)
      | None \<Rightarrow>
          if sel (is_repo slug) (t_repos d) = None then Inl ErrForeignKey
          else let a = new_app d slug name typ ns img idle in Inr (a, add_app d a))"

text \<open>\<open>UPDATE apps SET ... , updated_at = now WHERE id = ?\<close>.\<close>

definition update_app :: "db \<Rightarrow> int \<Rightarrow> (App \<Rightarrow> App) \<Rightarrow> db" where
  "update_app d i f =
     d\<lparr>t_apps := upd (\<lambda>a. a_ID a = i) (\<lambda>a. (f a)\<lparr>a_UpdatedAt := sql_now d\<rparr>) (t_apps d)\<rparr>"

definition MarkAppDeletionPending_q :: "db \<Rightarrow> int \<Rightarrow> db_error + db" where
  "MarkAppDeletionPending_q d i = guarded d (''markAppDeletionPending'', [QI i])
     (Inr (update_app d i (\<lambda>a. a\<lparr>a_DeletionPending := 1, a_DeletedAt := Some (sql_now d)\<rparr>)))"

definition SetAppAwake_q :: "db \<Rightarrow> int \<Rightarrow> db_error + db" where
  "SetAppAwake_q d i = guarded d (''setAppAwake'', [QI i])
     (Inr (update_app d i (\<lambda>a. a\<lparr>a_Hibernated := 0, a_HibernatedAt := None,
                                  a_HibernationReason := None, a_Status := ''running''\<rparr>)))"

definition SetAppHibernated_q :: "db \<Rightarrow> string option \<Rightarrow> int \<Rightarrow> db_error + db" where
  "SetAppHibernated_q d reason i = guarded d (''setAppHibernated'', [QI i])
     (Inr (update_app d i (\<lambda>a. a\<lparr>a_Hibernated := 1, a_HibernatedAt := Some (sql_now d),
                                  a_HibernationReason := reason, a_Status := ''hibernated''\<rparr>)))"

definition UpdateAppImages_q :: "db \<Rightarrow> string option \<Rightarrow> string option \<Rightarrow> int \<Rightarrow> db_error + db" where
  "UpdateAppImages_q d cur lh i = guarded d (''updateAppImages'', [QI i])
     (Inr (update_app d i (\<lambda>a. a\<lparr>a_ImageCurrent := cur, a_ImageLastHealthy := lh\<rparr>)))"

definition UpdateAppStatus_q :: "db \<Rightarrow> string \<Rightarrow> int \<Rightarrow> db_error + db" where
  "UpdateAppStatus_q d status i = guarded d (''updateAppStatus'', [QS status, QI i])
     (Inr (update_app d i (\<lambda>a. a\<lparr>a_Status := status\<rparr>)))"

definition UpdateLastActiveAt_q :: "db \<Rightarrow> int \<Rightarrow> db_error + db" where
  "UpdateLastActiveAt_q d i = guarded d (''updateLastActiveAt'', [QI i])
     (Inr (update_app d i (\<lambda>a. a\<lparr>a_LastActiveAt := Some (sql_now d)\<rparr>)))"

section \<open>Tiers\<close>

definition is_tier :: "string \<Rightarrow> Tier \<Rightarrow> bool" where
  "is_tier name t \<longleftrightarrow> t_Name t = name"

definition ListTiers_q :: "db \<Rightarrow> db_error + Tier list" where
  "ListTiers_q d = guarded d (''listTiers'', []) (Inr (sort_key t_Name (t_tiers d)))"

definition GetTier_q :: "db \<Rightarrow> string \<Rightarrow> db_error + Tier" where
  "GetTier_q d name = guarded d (''getTier'', [QS name]) (one (sel (is_tier name) (t_tiers d)))"

definition GetDefaultTier_q :: "db \<Rightarrow> db_error + Tier" where
  "GetDefaultTier_q d = guarded d (''getDefaultTier'', []) (one (sel (\<lambda>t. t_IsDefault t = 1) (t_tiers d)))"

definition InsertTier_q ::
  "db \<Rightarrow> string \<Rightarrow> int \<Rightarrow> int \<Rightarrow> int \<Rightarrow> int \<Rightarrow> int \<Rightarrow> int \<Rightarrow> string \<Rightarrow> db_error + Tier \<times> db" where
  "InsertTier_q d name maxApps cpuMilli memoryMb blobGb databaseGb queueGb hibernateAfter =
     guarded d (''insertTier'', [QS name])
       (if sel (is_tier name) (t_tiers d) \<noteq> None then Inl ErrUnique
        else let t = \<lparr> t_Name = name, t_MaxApps = maxApps, t_CpuMilli = cpuMilli, t_MemoryMb = memoryMb,
                       t_BlobGb = blobGb, t_DatabaseGb = databaseGb, t_QueueGb = queueGb,
                       t_HibernateAfter = hibernateAfter, t_IsDefault = 0,
                       t_CreatedAt = sql_now d, t_UpdatedAt = sql_now d \<rparr>
             in Inr (t, d\<lparr>t_tiers := t_tiers d @ [t]\<rparr>))"

definition UpdateTier_q ::
  "db \<Rightarrow> string \<Rightarrow> int \<Rightarrow> int \<Rightarrow> int \<Rightarrow> int \<Rightarrow> int \<Rightarrow> int \<Rightarrow> string \<Rightarrow> db_error + Tier \<times> db" where
  "UpdateTier_q d name maxApps cpuMilli memoryMb blobGb databaseGb queueGb hibernateAfter =
     guarded d (''updateTier'', [QS name])
       (let f = (\<lambda>t. t\<lparr>t_MaxApps := maxApps, t_CpuMilli := cpuMilli, t_MemoryMb := memoryMb,
                       t_BlobGb := blobGb, t_DatabaseGb := databaseGb, t_QueueGb := queueGb,
                       t_HibernateAfter := hibernateAfter, t_UpdatedAt := sql_now d\<rparr>)
        in case sel (is_tier name) (t_tiers d) of
             None \<Rightarrow> Inl ErrNoRows
           | Some t \<Rightarrow> Inr (f t, d\<lparr>t_tiers := upd (is_tier name) f (t_tiers d)\<rparr>))"

definition DeleteTier_q :: "db \<Rightarrow> string \<Rightarrow> db_error + db" where
  "DeleteTier_q d name = guarded d (''deleteTier'', [QS name])
     (Inr (d\<lparr>t_tiers := del (is_tier name) (t_tiers d)\<rparr>))"

definition SetDefaultTier_q :: "db \<Rightarrow> string \<Rightarrow> db_error + db" where
  "SetDefaultTier_q d name = guarded d (''setDefaultTier'', [QS name])
     (Inr (d\<lparr>t_tiers := map (\<lambda>t. t\<lparr>t_IsDefault := (if t_Name t = name then 1 else 0),
                                   t_UpdatedAt := sql_now d\<rparr>) (t_tiers d)\<rparr>))"

definition CountReposByTier_q :: "db \<Rightarrow> string \<Rightarrow> db_error + int" where
  "CountReposByTier_q d tier = guarded d (''countReposByTier'', [QS tier])
     (Inr (int (length (filter (\<lambda>r. r_Tier r = tier) (t_repos d)))))"

definition ListReposByTier_q :: "db \<Rightarrow> string \<Rightarrow> db_error + Repo list" where
  "ListReposByTier_q d tier = guarded d (''listReposByTier'', [QS tier])
     (Inr (sort_key r_Slug (filter (\<lambda>r. r_Tier r = tier) (t_repos d))))"

section \<open>Exemptions\<close>

definition active_at :: "time \<Rightarrow> Exemption \<Rightarrow> bool" where
  "active_at now e \<longleftrightarrow> (case e_ExpiresAt e of None \<Rightarrow> True | Some x \<Rightarrow> x > now)"

definition ListActiveExemptions_q :: "db \<Rightarrow> db_error + Exemption list" where
  "ListActiveExemptions_q d = guarded d (''listActiveExemptions'', [])
     (Inr (sort_key (\<lambda>e. (e_Kind e, e_RepoSlug e, e_AppName e)) (filter (active_at (sql_now d)) (t_exemptions d))))"

definition is_exemption :: "string \<Rightarrow> string \<Rightarrow> string \<Rightarrow> string \<Rightarrow> Exemption \<Rightarrow> bool" where
  "is_exemption kind slug app typ e \<longleftrightarrow>
     e_Kind e = kind \<and> e_RepoSlug e = slug \<and> e_AppName e = app \<and> e_Type e = typ"

definition UpsertExemption_q ::
  "db \<Rightarrow> string \<Rightarrow> string \<Rightarrow> string \<Rightarrow> string \<Rightarrow> time option \<Rightarrow> db_error + db" where
  "UpsertExemption_q d kind slug app typ expires =
     guarded d (''upsertExemption'', [QS kind, QS slug, QS app, QS typ])
       (Inr (if sel (is_exemption kind slug app typ) (t_exemptions d) \<noteq> None
             then d\<lparr>t_exemptions := upd (is_exemption kind slug app typ)
                                       (\<lambda>e. e\<lparr>e_ExpiresAt := expires\<rparr>) (t_exemptions d)\<rparr>
             else d\<lparr>t_exemptions := t_exemptions d @
                      [\<lparr> e_ID = seq_exemptions d + 1, e_Kind = kind, e_RepoSlug = slug, e_AppName = app,
                         e_Type = typ, e_ExpiresAt = expires, e_CreatedAt = sql_now d \<rparr>],
                    seq_exemptions := seq_exemptions d + 1\<rparr>))"

definition DeleteAppExemption_q :: "db \<Rightarrow> string \<Rightarrow> string \<Rightarrow> db_error + db" where
  "DeleteAppExemption_q d slug app = guarded d (''deleteAppExemption'', [QS slug, QS app])
     (Inr (d\<lparr>t_exemptions := del (is_exemption ''app'' slug app ''explicit'') (t_exemptions d)\<rparr>))"

definition DeleteRepoExemption_q :: "db \<Rightarrow> string \<Rightarrow> db_error + db" where
  "DeleteRepoExemption_q d slug = guarded d (''deleteRepoExemption'', [QS slug])
     (Inr (d\<lparr>t_exemptions :=
            del (\<lambda>e. e_Kind e = ''repo'' \<and> e_RepoSlug e = slug \<and> e_Type e = ''explicit'') (t_exemptions d)\<rparr>))"

definition covers :: "string \<Rightarrow> string \<Rightarrow> Exemption \<Rightarrow> bool" where
  "covers slug app e \<longleftrightarrow>
     e_RepoSlug e = slug \<and> (e_Kind e = ''repo'' \<or> e_Kind e = ''app'' \<and> e_AppName e = app)"

definition IsAppExempt_q :: "db \<Rightarrow> string \<Rightarrow> string \<Rightarrow> db_error + bool" where
  "IsAppExempt_q d slug app = guarded d (''isAppExempt'', [QS slug, QS app])
     (Inr (\<exists>e \<in> set (t_exemptions d). covers slug app e \<and> active_at (sql_now d) e))"

text \<open>A NULL \<open>expires_at\<close> is not \<open><= ?\<close>.\<close>

definition ExpirePeriodExemptions_q :: "db \<Rightarrow> time \<Rightarrow> db_error + db" where
  "ExpirePeriodExemptions_q d now = guarded d (''expirePeriodExemptions'', [])
     (Inr (d\<lparr>t_exemptions :=
            del (\<lambda>e. e_Type e = ''period'' \<and> (case e_ExpiresAt e of None \<Rightarrow> False | Some x \<Rightarrow> x \<le> now))
                (t_exemptions d)\<rparr>))"

section \<open>Operations\<close>

definition is_op :: "string \<Rightarrow> Operation \<Rightarrow> bool" where
  "is_op i o' \<longleftrightarrow> o_ID o' = i"

definition GetOperation_q :: "db \<Rightarrow> string \<Rightarrow> db_error + Operation" where
  "GetOperation_q d i = guarded d (''getOperation'', [QS i]) (one (sel (is_op i) (t_operations d)))"

definition ListOperationsByApp_q :: "db \<Rightarrow> string \<Rightarrow> string \<Rightarrow> db_error + Operation list" where
  "ListOperationsByApp_q d slug app = guarded d (''listOperationsByApp'', [QS slug, QS app])
     (Inr (sort_desc o_CreatedAt (filter (\<lambda>x. o_RepoSlug x = slug \<and> o_AppName x = app) (t_operations d))))"

definition CreateOperation_q :: "db \<Rightarrow> string \<Rightarrow> string \<Rightarrow> string \<Rightarrow> string \<Rightarrow> db_error + Operation \<times> db" where
  "CreateOperation_q d i slug app kind = guarded d (''createOperation'', [QS i])
     (if sel (is_op i) (t_operations d) \<noteq> None then Inl ErrUnique
      else let x = \<lparr> o_ID = i, o_RepoSlug = slug, o_AppName = app, o_Kind = kind,
                     o_Status = ''pending'', o_Error = None, o_CreatedAt = sql_now d,
                     o_UpdatedAt = sql_now d \<rparr>
           in Inr (x, d\<lparr>t_operations := t_operations d @ [x]\<rparr>))"

definition UpdateOperationStatus_q :: "db \<Rightarrow> string \<Rightarrow> string option \<Rightarrow> string \<Rightarrow> db_error + db" where
  "UpdateOperationStatus_q d status err i = guarded d (''updateOperationStatus'', [QS status, QS i])
     (Inr (d\<lparr>t_operations := upd (is_op i)
            (\<lambda>x. x\<lparr>o_Status := status, o_Error := err, o_UpdatedAt := sql_now d\<rparr>) (t_operations d)\<rparr>))"

section \<open>Platform configuration and prices\<close>

definition GetPlatformConfig_q :: "db \<Rightarrow> db_error + PlatformConfig" where
  "GetPlatformConfig_q d = guarded d (''getPlatformConfig'', []) (one (t_platform_config d))"

definition UpdatePlatformConfig_q :: "db \<Rightarrow> PlatformConfig \<Rightarrow> db_error + PlatformConfig \<times> db" where
  "UpdatePlatformConfig_q d c = guarded d (''updatePlatformConfig'', [])
     (case t_platform_config d of
        None \<Rightarrow> Inl ErrNoRows
      | Some _ \<Rightarrow> Inr (c, d\<lparr>t_platform_config := Some c\<rparr>))"

definition InsertPriceSnapshot_q ::
  "db \<Rightarrow> real \<Rightarrow> real \<Rightarrow> real \<Rightarrow> real \<Rightarrow> time \<Rightarrow> db_error + PriceSnapshot \<times> db" where
  "InsertPriceSnapshot_q d cpu mem storage registry fetchedAt = guarded d (''insertPriceSnapshot'', [])
     (let s = \<lparr> ps_ID = seq_price_snapshots d + 1, ps_ComputeCpuPerCoreHour = cpu,
                ps_ComputeMemPerGbHour = mem, ps_StoragePerGbMonth = storage,
                ps_RegistryPerGbMonth = registry, ps_FetchedAt = fetchedAt \<rparr>
      in Inr (s, d\<lparr>t_price_snapshots := t_price_snapshots d @ [s],
                   seq_price_snapshots := seq_price_snapshots d + 1\<rparr>))"

definition ListPriceSnapshots_q :: "db \<Rightarrow> db_error + PriceSnapshot list" where
  "ListPriceSnapshots_q d = guarded d (''listPriceSnapshots'', [])
     (Inr (sort_desc ps_FetchedAt (t_price_snapshots d)))"

definition GetLatestPriceSnapshot_q :: "db \<Rightarrow> db_error + PriceSnapshot" where
  "GetLatestPriceSnapshot_q d = guarded d (''getLatestPriceSnapshot'', [])
     (case sort_desc ps_FetchedAt (t_price_snapshots d) of [] \<Rightarrow> Inl ErrNoRows | s # _ \<Rightarrow> Inr s)"

section \<open>Principals\<close>

definition UpsertPrincipal_q :: "db \<Rightarrow> int \<Rightarrow> string \<Rightarrow> db_error + Principal \<times> db" where
  "UpsertPrincipal_q d i login = guarded d (''upsertPrincipal'', [QI i, QS login])
     (if sel (\<lambda>p. p_GithubLogin p = login \<and> p_GithubID p \<noteq> i) (t_principals d) \<noteq> None then Inl ErrUnique
      else case sel (\<lambda>p. p_GithubID p = i) (t_principals d) of
        Some p \<Rightarrow> Inr (p\<lparr>p_GithubLogin := login\<rparr>,
                       d\<lparr>t_principals := upd (\<lambda>p. p_GithubID p = i) (\<lambda>p. p\<lparr>p_GithubLogin := login\<rparr>)
                                            (t_principals d)\<rparr>)
      | None \<Rightarrow> let p = \<lparr> p_GithubID = i, p_GithubLogin = login, p_IsOperator = 0, p_IsAdmin = 0,
                          p_CreatedAt = sql_now d \<rparr>
                in Inr (p, d\<lparr>t_principals := t_principals d @ [p]\<rparr>))"

definition GetPrincipalByID_q :: "db \<Rightarrow> int \<Rightarrow> db_error + Principal" where
  "GetPrincipalByID_q d i = guarded d (''getPrincipalByID'', [QI i])
     (one (sel (\<lambda>p. p_GithubID p = i) (t_principals d)))"

definition GetPrincipalByLogin_q :: "db \<Rightarrow> string \<Rightarrow> db_error + Principal" where
  "GetPrincipalByLogin_q d login = guarded d (''getPrincipalByLogin'', [QS login])
     (one (sel (\<lambda>p. p_GithubLogin p = login) (t_principals d)))"

definition ListPrincipals_q :: "db \<Rightarrow> db_error + Principal list" where
  "ListPrincipals_q d = guarded d (''listPrincipals'', []) (Inr (sort_key p_GithubLogin (t_principals d)))"

definition DeletePrincipal_q :: "db \<Rightarrow> int \<Rightarrow> db_error + db" where
  "DeletePrincipal_q d i = guarded d (''deletePrincipal'', [QI i])
     (Inr (d\<lparr>t_principals := del (\<lambda>p. p_GithubID p = i) (t_principals d)\<rparr>))"

definition SetPrincipalIsOperator_q :: "db \<Rightarrow> int \<Rightarrow> int \<Rightarrow> db_error + db" where
  "SetPrincipalIsOperator_q d v i = guarded d (''setPrincipalIsOperator'', [QI v, QI i])
     (Inr (d\<lparr>t_principals := upd (\<lambda>p. p_GithubID p = i) (\<lambda>p. p\<lparr>p_IsOperator := v\<rparr>) (t_principals d)\<rparr>))"

definition SetPrincipalIsAdmin_q :: "db \<Rightarrow> int \<Rightarrow> int \<Rightarrow> db_error + db" where
  "SetPrincipalIsAdmin_q d v i = guarded d (''setPrincipalIsAdmin'', [QI v, QI i])
     (Inr (d\<lparr>t_principals := upd (\<lambda>p. p_GithubID p = i) (\<lambda>p. p\<lparr>p_IsAdmin := v\<rparr>) (t_principals d)\<rparr>))"

definition CountAdmins_q :: "db \<Rightarrow> db_error + int" where
  "CountAdmins_q d = guarded d (''countAdmins'', [])
     (Inr (int (length (filter (\<lambda>p. p_IsAdmin p = 1) (t_principals d)))))"

definition CountOperators_q :: "db \<Rightarrow> db_error + int" where
  "CountOperators_q d = guarded d (''countOperators'', [])
     (Inr (int (length (filter (\<lambda>p. p_IsOperator p = 1) (t_principals d)))))"

section \<open>Refresh tokens\<close>

definition InsertRefreshToken_q ::
  "db \<Rightarrow> string \<Rightarrow> string \<Rightarrow> string \<Rightarrow> string \<Rightarrow> string option \<Rightarrow> time \<Rightarrow> db_error + db" where
  "InsertRefreshToken_q d i hash subject role repo expiresAt =
     guarded d (''insertRefreshToken'', [QS i])
       (if sel (\<lambda>t. rt_ID t = i \<or> rt_TokenHash t = hash) (t_refresh_tokens d) \<noteq> None then Inl ErrUnique
        else Inr (d\<lparr>t_refresh_tokens := t_refresh_tokens d @
               [\<lparr> rt_ID = i, rt_TokenHash = hash, rt_Subject = subject, rt_Role = role, rt_RepoSlug = repo,
                  rt_ExpiresAt = expiresAt, rt_RevokedAt = None, rt_CreatedAt = sql_now d \<rparr>]\<rparr>))"

definition GetRefreshTokenByHash_q :: "db \<Rightarrow> string \<Rightarrow> db_error + RefreshToken" where
  "GetRefreshTokenByHash_q d hash = guarded d (''getRefreshTokenByHash'', [QS hash])
     (one (sel (\<lambda>t. rt_TokenHash t = hash) (t_refresh_tokens d)))"

definition RotateRefreshToken_q ::
  "db \<Rightarrow> string \<Rightarrow> time \<Rightarrow> string \<Rightarrow> db_error + RefreshToken \<times> db" where
  "RotateRefreshToken_q d hash expiresAt i = guarded d (''rotateRefreshToken'', [QS i])
     (let f = (\<lambda>t. t\<lparr>rt_TokenHash := hash, rt_ExpiresAt := expiresAt\<rparr>)
      in case sel (\<lambda>t. rt_ID t = i) (t_refresh_tokens d) of
           None \<Rightarrow> Inl ErrNoRows
         | Some t \<Rightarrow>
             if sel (\<lambda>t. rt_TokenHash t = hash \<and> rt_ID t \<noteq> i) (t_refresh_tokens d) \<noteq> None then Inl ErrUnique
             else Inr (f t, d\<lparr>t_refresh_tokens := upd (\<lambda>t. rt_ID t = i) f (t_refresh_tokens d)\<rparr>))"

section \<open>Scale events\<close>

definition InsertScaleEvent_q :: "db \<Rightarrow> string \<Rightarrow> string \<Rightarrow> string \<Rightarrow> time \<Rightarrow> db_error + db" where
  "InsertScaleEvent_q d ns app ev occ = guarded d (''insertScaleEvent'', [QS ns, QS app, QS ev])
     (Inr (d\<lparr>t_scale_events := t_scale_events d @
               [\<lparr> se_ID = seq_scale_events d + 1, se_Namespace = ns, se_App = app, se_Event = ev,
                  se_OccurredAt = occ \<rparr>],
             seq_scale_events := seq_scale_events d + 1\<rparr>))"

definition ListScaleEventsSince_q :: "db \<Rightarrow> string \<Rightarrow> string \<Rightarrow> time \<Rightarrow> db_error + ScaleEvent list" where
  "ListScaleEventsSince_q d ns app since = guarded d (''listScaleEventsSince'', [QS ns, QS app])
     (Inr (sort_key se_OccurredAt
            (filter (\<lambda>e. se_Namespace e = ns \<and> se_App e = app \<and> se_OccurredAt e \<ge> since)
                    (t_scale_events d))))"

definition ListAllScaleEventsSince_q :: "db \<Rightarrow> time \<Rightarrow> db_error + ScaleEvent list" where
  "ListAllScaleEventsSince_q d since = guarded d (''listAllScaleEventsSince'', [])
     (Inr (sort_key (\<lambda>e. (se_Namespace e, se_App e, se_OccurredAt e))
            (filter (\<lambda>e. se_OccurredAt e \<ge> since) (t_scale_events d))))"

section \<open>Suppressed stale apps\<close>

definition is_ss :: "string \<Rightarrow> string \<Rightarrow> StaleSuppressed \<Rightarrow> bool" where
  "is_ss slug app s \<longleftrightarrow> ss_RepoSlug s = slug \<and> ss_AppName s = app"

definition UpsertStaleSuppressed_q :: "db \<Rightarrow> string \<Rightarrow> string \<Rightarrow> time \<Rightarrow> db_error + db" where
  "UpsertStaleSuppressed_q d slug app until' = guarded d (''upsertStaleSuppressed'', [QS slug, QS app])
     (Inr (if sel (is_ss slug app) (t_stale_suppressed d) \<noteq> None
           then d\<lparr>t_stale_suppressed := upd (is_ss slug app) (\<lambda>s. s\<lparr>ss_Until := until'\<rparr>) (t_stale_suppressed d)\<rparr>
           else d\<lparr>t_stale_suppressed := t_stale_suppressed d @
                    [\<lparr> ss_RepoSlug = slug, ss_AppName = app, ss_Until = until' \<rparr>]\<rparr>))"

definition ListActiveStaleSuppressed_q :: "db \<Rightarrow> time \<Rightarrow> db_error + StaleSuppressed list" where
  "ListActiveStaleSuppressed_q d now = guarded d (''listActiveStaleSuppressed'', [])
     (Inr (filter (\<lambda>s. ss_Until s > now) (t_stale_suppressed d)))"

section \<open>The schema as it is migrated\<close>

definition seed_tier :: "time \<Rightarrow> string \<Rightarrow> int \<Rightarrow> int \<Rightarrow> int \<Rightarrow> int \<Rightarrow> int \<Rightarrow> int \<Rightarrow> string \<Rightarrow> int \<Rightarrow> Tier" where
  "seed_tier now name maxApps cpu mem blob dbgb queue hib isdef =
     \<lparr> t_Name = name, t_MaxApps = maxApps, t_CpuMilli = cpu, t_MemoryMb = mem, t_BlobGb = blob,
       t_DatabaseGb = dbgb, t_QueueGb = queue, t_HibernateAfter = hib, t_IsDefault = isdef,
       t_CreatedAt = now, t_UpdatedAt = now \<rparr>"

definition initial_db :: "time \<Rightarrow> db" where
  "initial_db now =
     \<lparr> t_repos = [], t_apps = [], t_operations = [], t_refresh_tokens = [], t_principals = [],
       t_tiers = [seed_tier now ''small'' 2 500 512 1 5 1 ''24h'' 1,
                  seed_tier now ''medium'' 10 1000 1024 10 20 10 ''48h'' 0,
                  seed_tier now ''large'' 25 4000 4096 50 100 50 ''72h'' 0],
       t_scale_events = [], t_price_snapshots = [],
       t_platform_config = Some \<lparr> c_BudgetCeilingMonthly = 500, c_SoftLimitPct = 9 / 10,
         c_HardLimitPct = 1, c_DefaultIdleAfter = ''24h'', c_BudgetSoftLimitActive = 0,
         c_BudgetHardLimitActive = 0, c_BillingPeriod = [] \<rparr>,
       t_exemptions = [], t_stale_suppressed = [],
       seq_apps = 0, seq_scale_events = 0, seq_price_snapshots = 0, seq_exemptions = 0,
       db_now = now, db_fault = (\<lambda>_. None) \<rparr>"

end
