(* ===== verification/Store.thy ===== *)
theory Store
  imports Queries
begin

text \<open>
  The store, \<open>store/store.go\<close>: one definition per method, over the queries. Then the well-formedness
  of the database (keys are unique, references resolve) and that every write of the store keeps it.
\<close>

section \<open>Principals\<close>

definition UpsertPrincipal :: "db \<Rightarrow> int \<Rightarrow> string \<Rightarrow> db_error + Principal \<times> db" where
  "UpsertPrincipal s githubID githubLogin = UpsertPrincipal_q s githubID githubLogin"

definition GetPrincipalByID :: "db \<Rightarrow> int \<Rightarrow> db_error + Principal" where
  "GetPrincipalByID s githubID = GetPrincipalByID_q s githubID"

definition GetPrincipalByLogin :: "db \<Rightarrow> string \<Rightarrow> db_error + Principal" where
  "GetPrincipalByLogin s githubLogin = GetPrincipalByLogin_q s githubLogin"

definition ListPrincipals :: "db \<Rightarrow> db_error + Principal list" where
  "ListPrincipals s = ListPrincipals_q s"

definition DeletePrincipal :: "db \<Rightarrow> int \<Rightarrow> db_error + db" where
  "DeletePrincipal s githubID = DeletePrincipal_q s githubID"

definition SetOperator :: "db \<Rightarrow> int \<Rightarrow> bool \<Rightarrow> db_error + db" where
  "SetOperator s githubID isOperator = SetPrincipalIsOperator_q s (if isOperator then 1 else 0) githubID"

definition SetAdmin :: "db \<Rightarrow> int \<Rightarrow> bool \<Rightarrow> db_error + db" where
  "SetAdmin s githubID isAdmin = SetPrincipalIsAdmin_q s (if isAdmin then 1 else 0) githubID"

definition CountAdmins :: "db \<Rightarrow> db_error + int" where
  "CountAdmins s = CountAdmins_q s"

definition CountOperators :: "db \<Rightarrow> db_error + int" where
  "CountOperators s = CountOperators_q s"

section \<open>Refresh tokens\<close>

definition InsertRefreshToken :: "db \<Rightarrow> string \<Rightarrow> string \<Rightarrow> string \<Rightarrow> string \<Rightarrow> time \<Rightarrow> db_error + db" where
  "InsertRefreshToken s i tokenHash subject role expiresAt =
     InsertRefreshToken_q s i tokenHash subject role None expiresAt"

definition GetRefreshTokenByHash :: "db \<Rightarrow> string \<Rightarrow> db_error + RefreshToken" where
  "GetRefreshTokenByHash s hash = GetRefreshTokenByHash_q s hash"

definition RotateRefreshToken :: "db \<Rightarrow> string \<Rightarrow> string \<Rightarrow> time \<Rightarrow> db_error + db" where
  "RotateRefreshToken s i tokenHash expiresAt =
     (case RotateRefreshToken_q s tokenHash expiresAt i of Inl e \<Rightarrow> Inl e | Inr (_, s') \<Rightarrow> Inr s')"

section \<open>Tiers\<close>

definition fallbackDefaultTier :: string where
  "fallbackDefaultTier = ''small''"

definition ListTiers :: "db \<Rightarrow> db_error + Tier list" where
  "ListTiers s = ListTiers_q s"

definition GetTier :: "db \<Rightarrow> string \<Rightarrow> db_error + Tier" where
  "GetTier s name = GetTier_q s name"

definition GetDefaultTierName :: "db \<Rightarrow> string" where
  "GetDefaultTierName s = (case GetDefaultTier_q s of Inl _ \<Rightarrow> fallbackDefaultTier | Inr t \<Rightarrow> t_Name t)"

definition InsertTier ::
  "db \<Rightarrow> string \<Rightarrow> int \<Rightarrow> int \<Rightarrow> int \<Rightarrow> int \<Rightarrow> int \<Rightarrow> int \<Rightarrow> string \<Rightarrow> db_error + Tier \<times> db" where
  "InsertTier s name maxApps cpuMilli memoryMB blobGB databaseGB queueGB hibernateAfter =
     InsertTier_q s name maxApps cpuMilli memoryMB blobGB databaseGB queueGB hibernateAfter"

definition patch_int :: "int \<Rightarrow> int \<Rightarrow> int" where
  "patch_int v cur = (if v \<noteq> 0 then v else cur)"

definition PatchTier ::
  "db \<Rightarrow> string \<Rightarrow> int \<Rightarrow> int \<Rightarrow> int \<Rightarrow> int \<Rightarrow> int \<Rightarrow> int \<Rightarrow> string \<Rightarrow> db_error + Tier \<times> db" where
  "PatchTier s name maxApps cpuMilli memoryMB blobGB databaseGB queueGB hibernateAfter =
     (case GetTier_q s name of
        Inl e \<Rightarrow> Inl e
      | Inr cur \<Rightarrow>
          UpdateTier_q s name (patch_int maxApps (t_MaxApps cur)) (patch_int cpuMilli (t_CpuMilli cur))
            (patch_int memoryMB (t_MemoryMb cur)) (patch_int blobGB (t_BlobGb cur))
            (patch_int databaseGB (t_DatabaseGb cur)) (patch_int queueGB (t_QueueGb cur))
            (if hibernateAfter \<noteq> [] then hibernateAfter else t_HibernateAfter cur))"

definition DeleteTier :: "db \<Rightarrow> string \<Rightarrow> db_error + db" where
  "DeleteTier s name = DeleteTier_q s name"

definition SetDefaultTier :: "db \<Rightarrow> string \<Rightarrow> db_error + db" where
  "SetDefaultTier s name = SetDefaultTier_q s name"

definition CountReposByTier :: "db \<Rightarrow> string \<Rightarrow> db_error + int" where
  "CountReposByTier s tier = CountReposByTier_q s tier"

definition ListReposByTier :: "db \<Rightarrow> string \<Rightarrow> db_error + Repo list" where
  "ListReposByTier s tier = ListReposByTier_q s tier"

definition SetRepoTier :: "db \<Rightarrow> string \<Rightarrow> string \<Rightarrow> db_error + Repo \<times> db" where
  "SetRepoTier s slug tier = UpdateRepoTier_q s tier slug"

section \<open>Repos\<close>

definition GetOrCreateRepo :: "db \<Rightarrow> string \<Rightarrow> string \<Rightarrow> db_error + Repo \<times> db" where
  "GetOrCreateRepo s slug defaultTier = UpsertRepo_q s slug defaultTier"

definition GetRepo :: "db \<Rightarrow> string \<Rightarrow> db_error + Repo" where
  "GetRepo s slug = GetRepo_q s slug"

definition ListRepos :: "db \<Rightarrow> db_error + Repo list" where
  "ListRepos s = ListRepos_q s"

definition CountAppsByRepo :: "db \<Rightarrow> string \<Rightarrow> db_error + int" where
  "CountAppsByRepo s slug = CountAppsByRepo_q s slug"

section \<open>Apps\<close>

definition GetApp :: "db \<Rightarrow> string \<Rightarrow> string \<Rightarrow> db_error + App" where
  "GetApp s repoSlug name = GetApp_q s repoSlug name"

definition ListApps :: "db \<Rightarrow> string \<Rightarrow> db_error + App list" where
  "ListApps s repoSlug = ListAppsByRepo_q s repoSlug"

definition UpsertApp ::
  "db \<Rightarrow> string \<Rightarrow> string \<Rightarrow> string \<Rightarrow> string \<Rightarrow> string \<Rightarrow> string \<Rightarrow> db_error + App \<times> db" where
  "UpsertApp s repoSlug name appType namespace img idleAfter =
     UpsertApp_q s repoSlug name appType (null_string namespace) (null_string img) (null_string idleAfter)"

definition SetAppHibernated :: "db \<Rightarrow> int \<Rightarrow> string \<Rightarrow> db_error + db" where
  "SetAppHibernated s i reason = SetAppHibernated_q s (null_string reason) i"

definition SetAppAwake :: "db \<Rightarrow> int \<Rightarrow> db_error + db" where
  "SetAppAwake s i = SetAppAwake_q s i"

definition UpdateLastActiveAt :: "db \<Rightarrow> int \<Rightarrow> db_error + db" where
  "UpdateLastActiveAt s i = UpdateLastActiveAt_q s i"

definition ListAllApps :: "db \<Rightarrow> db_error + App list" where
  "ListAllApps s = ListAllApps_q s"

definition GetAppByNamespace :: "db \<Rightarrow> string \<Rightarrow> db_error + App" where
  "GetAppByNamespace s namespace = GetAppByNamespace_q s namespace"

definition MarkAppDeletionPending :: "db \<Rightarrow> int \<Rightarrow> db_error + db" where
  "MarkAppDeletionPending s i = MarkAppDeletionPending_q s i"

definition UpdateAppStatus :: "db \<Rightarrow> int \<Rightarrow> string \<Rightarrow> db_error + db" where
  "UpdateAppStatus s i status = UpdateAppStatus_q s status i"

definition UpdateAppImages :: "db \<Rightarrow> int \<Rightarrow> string \<Rightarrow> string \<Rightarrow> db_error + db" where
  "UpdateAppImages s i current lastHealthy =
     UpdateAppImages_q s (null_string current) (null_string lastHealthy) i"

section \<open>Operations\<close>

definition GetOperation :: "db \<Rightarrow> string \<Rightarrow> db_error + Operation" where
  "GetOperation s i = GetOperation_q s i"

definition CreateOperation :: "db \<Rightarrow> string \<Rightarrow> string \<Rightarrow> string \<Rightarrow> string \<Rightarrow> db_error + Operation \<times> db" where
  "CreateOperation s i repoSlug appName kind = CreateOperation_q s i repoSlug appName kind"

definition StartOperation :: "db \<Rightarrow> string \<Rightarrow> db_error + db" where
  "StartOperation s i = UpdateOperationStatus_q s ''running'' None i"

definition SucceedOperation :: "db \<Rightarrow> string \<Rightarrow> db_error + db" where
  "SucceedOperation s i = UpdateOperationStatus_q s ''succeeded'' None i"

definition FailOperation :: "db \<Rightarrow> string \<Rightarrow> string \<Rightarrow> db_error + db" where
  "FailOperation s i message = UpdateOperationStatus_q s ''failed'' (Some message) i"

definition ListAppOperations :: "db \<Rightarrow> string \<Rightarrow> string \<Rightarrow> db_error + Operation list" where
  "ListAppOperations s repoSlug appName = ListOperationsByApp_q s repoSlug appName"

section \<open>Scale events\<close>

definition RecordScaleEvent :: "db \<Rightarrow> string \<Rightarrow> string \<Rightarrow> string \<Rightarrow> db_error + db" where
  "RecordScaleEvent s namespace app event = InsertScaleEvent_q s namespace app event (db_now s)"

definition ListScaleEventsSince :: "db \<Rightarrow> string \<Rightarrow> string \<Rightarrow> time \<Rightarrow> db_error + ScaleEvent list" where
  "ListScaleEventsSince s namespace app since = ListScaleEventsSince_q s namespace app since"

definition ListAllScaleEventsSince :: "db \<Rightarrow> time \<Rightarrow> db_error + ScaleEvent list" where
  "ListAllScaleEventsSince s since = ListAllScaleEventsSince_q s since"

section \<open>Platform configuration\<close>

definition GetPlatformConfig :: "db \<Rightarrow> db_error + PlatformConfig" where
  "GetPlatformConfig s = GetPlatformConfig_q s"

definition patch_real :: "real \<Rightarrow> real \<Rightarrow> real" where
  "patch_real v cur = (if v \<noteq> 0 then v else cur)"

definition PatchPlatformConfig ::
  "db \<Rightarrow> real \<Rightarrow> real \<Rightarrow> real \<Rightarrow> string \<Rightarrow> db_error + PlatformConfig \<times> db" where
  "PatchPlatformConfig s ceilingMonthly softLimitPct hardLimitPct defaultIdleAfter =
     (case GetPlatformConfig_q s of
        Inl e \<Rightarrow> Inl e
      | Inr cur \<Rightarrow> UpdatePlatformConfig_q s
          (cur\<lparr>c_BudgetCeilingMonthly := patch_real ceilingMonthly (c_BudgetCeilingMonthly cur),
               c_SoftLimitPct := patch_real softLimitPct (c_SoftLimitPct cur),
               c_HardLimitPct := patch_real hardLimitPct (c_HardLimitPct cur),
               c_DefaultIdleAfter := (if defaultIdleAfter \<noteq> [] then defaultIdleAfter
                                      else c_DefaultIdleAfter cur)\<rparr>))"

definition UpdatePlatformConfig :: "db \<Rightarrow> PlatformConfig \<Rightarrow> db_error + PlatformConfig \<times> db" where
  "UpdatePlatformConfig s cfg = UpdatePlatformConfig_q s cfg"

section \<open>Exemptions\<close>

definition AddAppExemption :: "db \<Rightarrow> string \<Rightarrow> string \<Rightarrow> db_error + db" where
  "AddAppExemption s repoSlug appName = UpsertExemption_q s ''app'' repoSlug appName ''explicit'' None"

definition RemoveAppExemption :: "db \<Rightarrow> string \<Rightarrow> string \<Rightarrow> db_error + db" where
  "RemoveAppExemption s repoSlug appName = DeleteAppExemption_q s repoSlug appName"

definition AddRepoExemption :: "db \<Rightarrow> string \<Rightarrow> db_error + db" where
  "AddRepoExemption s repoSlug = UpsertExemption_q s ''repo'' repoSlug [] ''explicit'' None"

definition RemoveRepoExemption :: "db \<Rightarrow> string \<Rightarrow> db_error + db" where
  "RemoveRepoExemption s repoSlug = DeleteRepoExemption_q s repoSlug"

definition AddPeriodExemption :: "db \<Rightarrow> string \<Rightarrow> string \<Rightarrow> time \<Rightarrow> db_error + db" where
  "AddPeriodExemption s repoSlug appName periodEnd =
     UpsertExemption_q s ''app'' repoSlug appName ''period'' (Some periodEnd)"

definition ListExemptions :: "db \<Rightarrow> db_error + Exemption list" where
  "ListExemptions s = ListActiveExemptions_q s"

definition IsAppExempt :: "db \<Rightarrow> string \<Rightarrow> string \<Rightarrow> db_error + bool" where
  "IsAppExempt s repoSlug appName = IsAppExempt_q s repoSlug appName"

definition ExpirePeriodExemptions :: "db \<Rightarrow> time \<Rightarrow> db_error + db" where
  "ExpirePeriodExemptions s now = ExpirePeriodExemptions_q s now"

section \<open>Stale suppression and prices\<close>

text \<open>\<open>Format(time.RFC3339)\<close> drops the fraction of a second.\<close>

definition rfc3339_instant :: "time \<Rightarrow> time" where
  "rfc3339_instant t = (t div Second) * Second"

definition SuppressStaleApp :: "db \<Rightarrow> string \<Rightarrow> string \<Rightarrow> time \<Rightarrow> db_error + db" where
  "SuppressStaleApp s repoSlug appName until' =
     UpsertStaleSuppressed_q s repoSlug appName (rfc3339_instant until')"

definition ListActiveStaleSuppressed :: "db \<Rightarrow> db_error + StaleSuppressed list" where
  "ListActiveStaleSuppressed s = ListActiveStaleSuppressed_q s (rfc3339_instant (db_now s))"

definition InsertPriceSnapshot ::
  "db \<Rightarrow> real \<Rightarrow> real \<Rightarrow> real \<Rightarrow> real \<Rightarrow> time \<Rightarrow> db_error + PriceSnapshot \<times> db" where
  "InsertPriceSnapshot s cpuPerCore memPerGB storagePerGB registryPerGB fetchedAt =
     InsertPriceSnapshot_q s cpuPerCore memPerGB storagePerGB registryPerGB fetchedAt"

definition GetLatestPriceSnapshot :: "db \<Rightarrow> db_error + PriceSnapshot" where
  "GetLatestPriceSnapshot s = GetLatestPriceSnapshot_q s"

definition ListPriceSnapshots :: "db \<Rightarrow> db_error + PriceSnapshot list" where
  "ListPriceSnapshots s = ListPriceSnapshots_q s"

lemmas store_simps [store_defs] =
  UpsertPrincipal_def GetPrincipalByID_def GetPrincipalByLogin_def ListPrincipals_def DeletePrincipal_def
  SetOperator_def SetAdmin_def CountAdmins_def CountOperators_def InsertRefreshToken_def
  GetRefreshTokenByHash_def RotateRefreshToken_def ListTiers_def GetTier_def GetDefaultTierName_def
  InsertTier_def PatchTier_def DeleteTier_def SetDefaultTier_def CountReposByTier_def ListReposByTier_def
  SetRepoTier_def GetOrCreateRepo_def GetRepo_def ListRepos_def CountAppsByRepo_def GetApp_def ListApps_def
  UpsertApp_def SetAppHibernated_def SetAppAwake_def UpdateLastActiveAt_def ListAllApps_def
  GetAppByNamespace_def MarkAppDeletionPending_def UpdateAppStatus_def UpdateAppImages_def GetOperation_def
  CreateOperation_def StartOperation_def SucceedOperation_def FailOperation_def ListAppOperations_def
  RecordScaleEvent_def ListScaleEventsSince_def ListAllScaleEventsSince_def GetPlatformConfig_def
  PatchPlatformConfig_def UpdatePlatformConfig_def AddAppExemption_def RemoveAppExemption_def
  AddRepoExemption_def RemoveRepoExemption_def AddPeriodExemption_def ListExemptions_def IsAppExempt_def
  ExpirePeriodExemptions_def SuppressStaleApp_def ListActiveStaleSuppressed_def InsertPriceSnapshot_def
  GetLatestPriceSnapshot_def ListPriceSnapshots_def

lemmas query_simps [query_defs] =
  GetRepo_q_def ListRepos_q_def CreateRepo_q_def UpdateRepoTier_q_def UpsertRepo_q_def CountAppsByRepo_q_def
  GetApp_q_def GetAppByNamespace_q_def ListAllApps_q_def ListAppsByRepo_q_def CreateApp_q_def
  UpsertApp_q_def MarkAppDeletionPending_q_def SetAppAwake_q_def SetAppHibernated_q_def
  UpdateAppImages_q_def UpdateAppStatus_q_def UpdateLastActiveAt_q_def ListTiers_q_def GetTier_q_def
  GetDefaultTier_q_def InsertTier_q_def UpdateTier_q_def DeleteTier_q_def SetDefaultTier_q_def
  CountReposByTier_q_def ListReposByTier_q_def ListActiveExemptions_q_def UpsertExemption_q_def
  DeleteAppExemption_q_def DeleteRepoExemption_q_def IsAppExempt_q_def ExpirePeriodExemptions_q_def
  GetOperation_q_def ListOperationsByApp_q_def CreateOperation_q_def UpdateOperationStatus_q_def
  GetPlatformConfig_q_def UpdatePlatformConfig_q_def InsertPriceSnapshot_q_def ListPriceSnapshots_q_def
  GetLatestPriceSnapshot_q_def UpsertPrincipal_q_def GetPrincipalByID_q_def GetPrincipalByLogin_q_def
  ListPrincipals_q_def DeletePrincipal_q_def SetPrincipalIsOperator_q_def SetPrincipalIsAdmin_q_def
  CountAdmins_q_def CountOperators_q_def InsertRefreshToken_q_def GetRefreshTokenByHash_q_def
  RotateRefreshToken_q_def InsertScaleEvent_q_def ListScaleEventsSince_q_def ListAllScaleEventsSince_q_def
  UpsertStaleSuppressed_q_def ListActiveStaleSuppressed_q_def

section \<open>Well-formed databases\<close>

interpretation repo_tab: keyed_table r_Slug .
interpretation app_tab: keyed_table "\<lambda>a. (a_RepoSlug a, a_Name a)" .
interpretation app_id_tab: keyed_table a_ID .
interpretation tier_tab: keyed_table t_Name .
interpretation op_tab: keyed_table o_ID .
interpretation token_tab: keyed_table rt_ID .
interpretation hash_tab: keyed_table rt_TokenHash .
interpretation principal_tab: keyed_table p_GithubID .
interpretation login_tab: keyed_table p_GithubLogin .
interpretation exemption_tab: keyed_table "\<lambda>e. (e_Kind e, e_RepoSlug e, e_AppName e, e_Type e)" .
interpretation stale_tab: keyed_table "\<lambda>s. (ss_RepoSlug s, ss_AppName s)" .

lemma sel_is_repo: "sel (is_repo slug) t = repo_tab.by_key slug t"
  by (simp add: repo_tab.by_key_def is_repo_def [abs_def])

lemma sel_is_app: "sel (is_app slug name) t = app_tab.by_key (slug, name) t"
  by (simp add: app_tab.by_key_def is_app_def [abs_def])

lemma sel_is_tier: "sel (is_tier name) t = tier_tab.by_key name t"
  by (simp add: tier_tab.by_key_def is_tier_def [abs_def])

lemma sel_is_op: "sel (is_op i) t = op_tab.by_key i t"
  by (simp add: op_tab.by_key_def is_op_def [abs_def])

lemma sel_is_exemption:
  "sel (is_exemption k slug app typ) t = exemption_tab.by_key (k, slug, app, typ) t"
  by (simp add: exemption_tab.by_key_def is_exemption_def [abs_def])

lemma sel_is_ss: "sel (is_ss slug app) t = stale_tab.by_key (slug, app) t"
  by (simp add: stale_tab.by_key_def is_ss_def [abs_def])

lemmas sel_by_key = sel_is_repo sel_is_app sel_is_tier sel_is_op sel_is_exemption sel_is_ss

text \<open>Keys are unique, app ids are below the sequence, and every app belongs to a repo.\<close>

definition wf_apps :: "db \<Rightarrow> bool" where
  "wf_apps d \<longleftrightarrow> repo_tab.uniq (t_repos d) \<and> app_tab.uniq (t_apps d) \<and> app_id_tab.uniq (t_apps d) \<and>
     (\<forall>a \<in> set (t_apps d). a_ID a \<le> seq_apps d \<and> a_RepoSlug a \<in> r_Slug ` set (t_repos d))"

definition wf_rest :: "db \<Rightarrow> bool" where
  "wf_rest d \<longleftrightarrow> tier_tab.uniq (t_tiers d) \<and> op_tab.uniq (t_operations d) \<and>
     token_tab.uniq (t_refresh_tokens d) \<and> hash_tab.uniq (t_refresh_tokens d) \<and>
     principal_tab.uniq (t_principals d) \<and> login_tab.uniq (t_principals d) \<and>
     exemption_tab.uniq (t_exemptions d) \<and> stale_tab.uniq (t_stale_suppressed d)"

definition wf_db :: "db \<Rightarrow> bool" where
  "wf_db d \<longleftrightarrow> wf_apps d \<and> wf_rest d"

text \<open>
  One step of the store: a successful write by one of its methods. The handlers, the watchers and
  the proxy change the database by such steps only. Between two steps time passes and the
  infrastructure may begin or stop to fail.
\<close>

inductive store_step :: "db \<Rightarrow> db \<Rightarrow> bool" where
  "UpsertPrincipal d i login = Inr (p, d') \<Longrightarrow> store_step d d'"
| "DeletePrincipal d i = Inr d' \<Longrightarrow> store_step d d'"
| "SetOperator d i b = Inr d' \<Longrightarrow> store_step d d'"
| "SetAdmin d i b = Inr d' \<Longrightarrow> store_step d d'"
| "InsertRefreshToken d tid hash subj role exp' = Inr d' \<Longrightarrow> store_step d d'"
| "RotateRefreshToken d tid hash exp' = Inr d' \<Longrightarrow> store_step d d'"
| "InsertTier d name ma cpu mem blob dbg qg hib = Inr (t, d') \<Longrightarrow> store_step d d'"
| "PatchTier d name ma cpu mem blob dbg qg hib = Inr (t, d') \<Longrightarrow> store_step d d'"
| "DeleteTier d name = Inr d' \<Longrightarrow> store_step d d'"
| "SetDefaultTier d name = Inr d' \<Longrightarrow> store_step d d'"
| "SetRepoTier d slug name = Inr (r, d') \<Longrightarrow> store_step d d'"
| "GetOrCreateRepo d slug name = Inr (r, d') \<Longrightarrow> store_step d d'"
| "UpsertApp d slug name typ ns img idle = Inr (a, d') \<Longrightarrow> store_step d d'"
| "SetAppHibernated d i reason = Inr d' \<Longrightarrow> store_step d d'"
| "SetAppAwake d i = Inr d' \<Longrightarrow> store_step d d'"
| "UpdateLastActiveAt d i = Inr d' \<Longrightarrow> store_step d d'"
| "MarkAppDeletionPending d i = Inr d' \<Longrightarrow> store_step d d'"
| "UpdateAppStatus d i status = Inr d' \<Longrightarrow> store_step d d'"
| "UpdateAppImages d i cur lh = Inr d' \<Longrightarrow> store_step d d'"
| "CreateOperation d oid slug name knd = Inr (x, d') \<Longrightarrow> store_step d d'"
| "StartOperation d oid = Inr d' \<Longrightarrow> store_step d d'"
| "SucceedOperation d oid = Inr d' \<Longrightarrow> store_step d d'"
| "FailOperation d oid msg = Inr d' \<Longrightarrow> store_step d d'"
| "RecordScaleEvent d ns app ev = Inr d' \<Longrightarrow> store_step d d'"
| "PatchPlatformConfig d ceil soft hard idle = Inr (c, d') \<Longrightarrow> store_step d d'"
| "UpdatePlatformConfig d cfg = Inr (c, d') \<Longrightarrow> store_step d d'"
| "AddAppExemption d slug app = Inr d' \<Longrightarrow> store_step d d'"
| "RemoveAppExemption d slug app = Inr d' \<Longrightarrow> store_step d d'"
| "AddRepoExemption d slug = Inr d' \<Longrightarrow> store_step d d'"
| "RemoveRepoExemption d slug = Inr d' \<Longrightarrow> store_step d d'"
| "AddPeriodExemption d slug app pend = Inr d' \<Longrightarrow> store_step d d'"
| "ExpirePeriodExemptions d now = Inr d' \<Longrightarrow> store_step d d'"
| "SuppressStaleApp d slug app until' = Inr d' \<Longrightarrow> store_step d d'"
| "InsertPriceSnapshot d cpu mem sto reg at' = Inr (ps, d') \<Longrightarrow> store_step d d'"
| "store_step d (d\<lparr>db_now := t, db_fault := f\<rparr>)"

abbreviation store_steps :: "db \<Rightarrow> db \<Rightarrow> bool" where
  "store_steps \<equiv> store_step\<^sup>*\<^sup>*"

lemmas uniq_defs =
  repo_tab.uniq_def app_tab.uniq_def app_id_tab.uniq_def tier_tab.uniq_def op_tab.uniq_def
  token_tab.uniq_def hash_tab.uniq_def principal_tab.uniq_def login_tab.uniq_def
  exemption_tab.uniq_def stale_tab.uniq_def

lemma wf_apps_update_app:
  assumes "wf_apps d"
    and "\<And>a. a_ID (f a) = a_ID a" "\<And>a. a_RepoSlug (f a) = a_RepoSlug a" "\<And>a. a_Name (f a) = a_Name a"
  shows "wf_apps (update_app d i f)"
  using assms by (auto simp: wf_apps_def update_app_def set_upd app_tab.uniq_upd app_id_tab.uniq_upd)

lemma wf_rest_update_app [simp]: "wf_rest (update_app d i f) = wf_rest d"
  by (simp add: wf_rest_def update_app_def)

lemma wf_apps_frame:
  "t_apps d' = t_apps d \<Longrightarrow> t_repos d' = t_repos d \<Longrightarrow> seq_apps d' = seq_apps d \<Longrightarrow> wf_apps d' = wf_apps d"
  by (simp add: wf_apps_def)

lemma wf_rest_frame:
  "t_tiers d' = t_tiers d \<Longrightarrow> t_operations d' = t_operations d \<Longrightarrow>
   t_refresh_tokens d' = t_refresh_tokens d \<Longrightarrow> t_principals d' = t_principals d \<Longrightarrow>
   t_exemptions d' = t_exemptions d \<Longrightarrow> t_stale_suppressed d' = t_stale_suppressed d \<Longrightarrow>
   wf_rest d' = wf_rest d"
  by (simp add: wf_rest_def)

lemma wf_apps_UpsertRepo:
  assumes "wf_apps d" "UpsertRepo_q d slug tier = Inr (r, d')"
  shows "wf_apps d' \<and> wf_rest d' = wf_rest d"
  using assms
  by (auto simp: UpsertRepo_q_def guarded_Inr sel_is_repo Let_def wf_apps_def wf_rest_def new_repo_def
      repo_tab.uniq_insert split: option.splits)

lemma wf_apps_UpdateRepoTier:
  assumes "wf_apps d" "UpdateRepoTier_q d tier slug = Inr (r, d')"
  shows "wf_apps d' \<and> wf_rest d' = wf_rest d"
proof -
  have "r_Slug ` set (upd (is_repo slug) (\<lambda>r. r\<lparr>r_Tier := tier\<rparr>) (t_repos d)) = r_Slug ` set (t_repos d)"
    by (rule image_upd) simp
  with assms show ?thesis
    by (auto simp: UpdateRepoTier_q_def guarded_Inr wf_apps_def wf_rest_def repo_tab.uniq_upd
        split: option.splits)
qed

lemma wf_apps_UpsertApp:
  assumes "wf_apps d" "UpsertApp_q d slug name typ ns img idle = Inr (a, d')"
  shows "wf_apps d' \<and> wf_rest d' = wf_rest d"
proof (cases "app_tab.by_key (slug, name) (t_apps d)")
  case (Some a0)
  then show ?thesis using assms
    by (auto simp: UpsertApp_q_def guarded_Inr sel_is_app wf_apps_def wf_rest_def set_upd reapply_app_def
        app_tab.uniq_upd app_id_tab.uniq_upd)
next
  case None
  have fresh: "app_id_tab.by_key (seq_apps d + 1) (t_apps d) = None"
    using assms(1) by (force simp: app_id_tab.by_key_def sel_None wf_apps_def)
  have repo: "slug \<in> r_Slug ` set (t_repos d)"
    using assms(2) None
    by (auto simp: UpsertApp_q_def guarded_Inr sel_is_app sel_is_repo repo_tab.by_key_def sel_None
        dest: sel_Some split: if_splits)
  have d': "d' = add_app d (new_app d slug name typ ns img idle)"
    using assms(2) None by (auto simp: UpsertApp_q_def guarded_Inr sel_is_app Let_def split: if_splits)
  have "app_tab.uniq (t_apps d')" "app_id_tab.uniq (t_apps d')"
    using assms(1) None fresh unfolding d'
    by (auto simp: wf_apps_def add_app_def new_app_def intro!: app_tab.uniq_insert app_id_tab.uniq_insert)
  then show ?thesis
    using assms(1) repo unfolding d'
    by (auto simp: wf_apps_def wf_rest_def add_app_def new_app_def)
qed

lemma hash_uniq_upd:
  assumes "token_tab.uniq t" "hash_tab.uniq t"
    and "sel (\<lambda>r. rt_TokenHash r = h \<and> rt_ID r \<noteq> i) t = None"
  shows "hash_tab.uniq (upd (\<lambda>r. rt_ID r = i) (\<lambda>r. r\<lparr>rt_TokenHash := h, rt_ExpiresAt := x\<rparr>) t)"
  using assms unfolding hash_tab.uniq_def token_tab.uniq_def
  by (intro distinct_upd_second [where v = h]) (auto simp: sel_None)

lemma login_uniq_upd:
  assumes "principal_tab.uniq t" "login_tab.uniq t"
    and "sel (\<lambda>p. p_GithubLogin p = l \<and> p_GithubID p \<noteq> i) t = None"
  shows "login_tab.uniq (upd (\<lambda>p. p_GithubID p = i) (\<lambda>p. p\<lparr>p_GithubLogin := l\<rparr>) t)"
  using assms unfolding login_tab.uniq_def principal_tab.uniq_def
  by (intro distinct_upd_second [where v = l]) (auto simp: sel_None)

text \<open>Every write of the store keeps the database well formed.\<close>

lemma wf_UpsertPrincipal:
  assumes "wf_db d" "UpsertPrincipal_q d i login = Inr (p, d')"
  shows "wf_db d'"
proof -
  have login: "sel (\<lambda>p. p_GithubLogin p = login \<and> p_GithubID p \<noteq> i) (t_principals d) = None"
    using assms(2) by (auto simp: UpsertPrincipal_q_def guarded_Inr split: if_splits)
  show ?thesis
  proof (cases "principal_tab.by_key i (t_principals d)")
    case None
    then have "login_tab.by_key login (t_principals d) = None"
      using login by (auto simp: login_tab.by_key_def principal_tab.by_key_def sel_None)
    with None login assms show ?thesis
      by (auto simp: UpsertPrincipal_q_def guarded_Inr wf_db_def wf_apps_def wf_rest_def Let_def
          principal_tab.by_key_def intro!: principal_tab.uniq_insert login_tab.uniq_insert)
  next
    case (Some p0)
    with login assms show ?thesis
      by (auto simp: UpsertPrincipal_q_def guarded_Inr wf_db_def wf_apps_def wf_rest_def
          principal_tab.by_key_def login_uniq_upd intro!: principal_tab.uniq_upd)
  qed
qed

lemma wf_InsertRefreshToken:
  assumes "wf_db d" "InsertRefreshToken_q d i h s r rep x = Inr d'"
  shows "wf_db d'"
proof -
  have "token_tab.by_key i (t_refresh_tokens d) = None" "hash_tab.by_key h (t_refresh_tokens d) = None"
    using assms(2)
    by (auto simp: InsertRefreshToken_q_def guarded_Inr token_tab.by_key_def hash_tab.by_key_def sel_None
        split: if_splits)
  with assms show ?thesis
    by (auto simp: InsertRefreshToken_q_def guarded_Inr wf_db_def wf_apps_def wf_rest_def
        intro!: token_tab.uniq_insert hash_tab.uniq_insert split: if_splits)
qed

lemma wf_RotateRefreshToken:
  assumes "wf_db d" "RotateRefreshToken d i h x = Inr d'"
  shows "wf_db d'"
  using assms
  by (auto simp: RotateRefreshToken_def RotateRefreshToken_q_def guarded_Inr wf_db_def wf_apps_def
      wf_rest_def Let_def token_tab.uniq_upd hash_uniq_upd
      split: sum.splits option.splits if_splits)

lemma wf_UpsertExemption:
  assumes "wf_db d" "UpsertExemption_q d k slug app typ x = Inr d'"
  shows "wf_db d'"
  using assms
  by (auto simp: UpsertExemption_q_def guarded_Inr sel_is_exemption wf_db_def wf_apps_def wf_rest_def
      exemption_tab.uniq_upd intro!: exemption_tab.uniq_insert split: if_splits)

lemma wf_SuppressStaleApp:
  assumes "wf_db d" "UpsertStaleSuppressed_q d slug app x = Inr d'"
  shows "wf_db d'"
  using assms
  by (auto simp: UpsertStaleSuppressed_q_def guarded_Inr sel_is_ss wf_db_def wf_apps_def wf_rest_def
      stale_tab.uniq_upd intro!: stale_tab.uniq_insert split: if_splits)

lemma wf_UpdateTier:
  assumes "wf_db d" "UpdateTier_q d name ma cpu mem blob dbg qg hib = Inr (t, d')"
  shows "wf_db d'"
  using assms
  by (auto simp: UpdateTier_q_def guarded_Inr wf_db_def wf_apps_def wf_rest_def Let_def tier_tab.uniq_upd
      split: option.splits)

lemma wf_InsertTier:
  assumes "wf_db d" "InsertTier_q d name ma cpu mem blob dbg qg hib = Inr (t, d')"
  shows "wf_db d'"
  using assms
  by (auto simp: InsertTier_q_def guarded_Inr sel_is_tier wf_db_def wf_apps_def wf_rest_def Let_def
      intro!: tier_tab.uniq_insert split: if_splits)

lemma wf_tier_ops:
  "wf_db d \<Longrightarrow> DeleteTier_q d name = Inr d' \<Longrightarrow> wf_db d'"
  "wf_db d \<Longrightarrow> SetDefaultTier_q d name = Inr d' \<Longrightarrow> wf_db d'"
  by (auto simp: DeleteTier_q_def SetDefaultTier_q_def guarded_Inr wf_db_def wf_apps_def wf_rest_def
      tier_tab.uniq_def comp_def distinct_map_del)

lemma wf_CreateOperation:
  assumes "wf_db d" "CreateOperation_q d i slug app knd = Inr (x, d')"
  shows "wf_db d'"
  using assms
  by (auto simp: CreateOperation_q_def guarded_Inr sel_is_op wf_db_def wf_apps_def wf_rest_def Let_def
      intro!: op_tab.uniq_insert split: if_splits)

lemma wf_repo_app_ops:
  "wf_db d \<Longrightarrow> UpsertRepo_q d slug tier = Inr (r, d') \<Longrightarrow> wf_db d'"
  "wf_db d \<Longrightarrow> UpdateRepoTier_q d tier slug = Inr (r, d') \<Longrightarrow> wf_db d'"
  "wf_db d \<Longrightarrow> UpsertApp_q d slug name typ ns img idle = Inr (a, d') \<Longrightarrow> wf_db d'"
  using wf_apps_UpsertRepo wf_apps_UpdateRepoTier wf_apps_UpsertApp unfolding wf_db_def by blast+

lemma wf_update_app:
  assumes "wf_db d"
    and "\<And>a. a_ID (f a) = a_ID a" "\<And>a. a_RepoSlug (f a) = a_RepoSlug a" "\<And>a. a_Name (f a) = a_Name a"
  shows "wf_db (update_app d i f)"
  using assms by (simp add: wf_db_def wf_apps_update_app)

lemma wf_other_ops:
  "wf_db d \<Longrightarrow> UpdateOperationStatus_q d status err oid = Inr d' \<Longrightarrow> wf_db d'"
  "wf_db d \<Longrightarrow> InsertScaleEvent_q d ns app ev occ = Inr d' \<Longrightarrow> wf_db d'"
  "wf_db d \<Longrightarrow> UpdatePlatformConfig_q d cfg = Inr (c, d') \<Longrightarrow> wf_db d'"
  "wf_db d \<Longrightarrow> InsertPriceSnapshot_q d cpu mem sto reg occ = Inr (ps, d') \<Longrightarrow> wf_db d'"
  "wf_db d \<Longrightarrow> DeletePrincipal_q d i = Inr d' \<Longrightarrow> wf_db d'"
  "wf_db d \<Longrightarrow> SetPrincipalIsOperator_q d v i = Inr d' \<Longrightarrow> wf_db d'"
  "wf_db d \<Longrightarrow> SetPrincipalIsAdmin_q d v i = Inr d' \<Longrightarrow> wf_db d'"
  "wf_db d \<Longrightarrow> DeleteAppExemption_q d slug app = Inr d' \<Longrightarrow> wf_db d'"
  "wf_db d \<Longrightarrow> DeleteRepoExemption_q d slug = Inr d' \<Longrightarrow> wf_db d'"
  "wf_db d \<Longrightarrow> ExpirePeriodExemptions_q d now = Inr d' \<Longrightarrow> wf_db d'"
  by (auto simp: query_defs guarded_Inr wf_db_def wf_apps_def wf_rest_def Let_def op_tab.uniq_upd
      principal_tab.uniq_upd login_tab.uniq_upd principal_tab.uniq_del login_tab.uniq_del
      exemption_tab.uniq_del split: option.splits)

lemma wf_app_writes:
  "wf_db d \<Longrightarrow> SetAppHibernated d i reason = Inr d' \<Longrightarrow> wf_db d'"
  "wf_db d \<Longrightarrow> SetAppAwake d i = Inr d' \<Longrightarrow> wf_db d'"
  "wf_db d \<Longrightarrow> UpdateLastActiveAt d i = Inr d' \<Longrightarrow> wf_db d'"
  "wf_db d \<Longrightarrow> MarkAppDeletionPending d i = Inr d' \<Longrightarrow> wf_db d'"
  "wf_db d \<Longrightarrow> UpdateAppStatus d i status = Inr d' \<Longrightarrow> wf_db d'"
  "wf_db d \<Longrightarrow> UpdateAppImages d i cur lh = Inr d' \<Longrightarrow> wf_db d'"
  by (auto simp: SetAppHibernated_def SetAppHibernated_q_def SetAppAwake_def SetAppAwake_q_def
      UpdateLastActiveAt_def UpdateLastActiveAt_q_def MarkAppDeletionPending_def
      MarkAppDeletionPending_q_def UpdateAppStatus_def UpdateAppStatus_q_def UpdateAppImages_def
      UpdateAppImages_q_def guarded_Inr intro!: wf_update_app)

lemmas wf_writes = wf_UpsertPrincipal wf_InsertRefreshToken wf_RotateRefreshToken wf_UpsertExemption
  wf_SuppressStaleApp wf_UpdateTier wf_InsertTier wf_tier_ops wf_CreateOperation wf_repo_app_ops
  wf_other_ops wf_app_writes

lemma wf_PatchTier:
  "wf_db d \<Longrightarrow> PatchTier d name ma cpu mem blob dbg qg hib = Inr (t, d') \<Longrightarrow> wf_db d'"
  by (auto simp: PatchTier_def intro: wf_UpdateTier split: sum.splits)

lemma wf_PatchPlatformConfig:
  "wf_db d \<Longrightarrow> PatchPlatformConfig d ceil soft hard idle = Inr (c, d') \<Longrightarrow> wf_db d'"
  by (auto simp: PatchPlatformConfig_def intro: wf_other_ops(3) split: sum.splits)

lemma wf_clock: "wf_db (d\<lparr>db_now := t, db_fault := f\<rparr>) = wf_db d"
  by (simp add: wf_db_def wf_apps_def wf_rest_def)

lemma store_step_wf:
  assumes "store_step d d'" and "wf_db d"
  shows "wf_db d'"
  using assms
proof (induction rule: store_step.induct)
  case (8 d name ma cpu mem blob dbg qg hib t d')
  then show ?case by (blast intro: wf_PatchTier)
next
  case (25 d ceil soft hard idle c d')
  then show ?case by (blast intro: wf_PatchPlatformConfig)
next
  case (35 d t f)
  then show ?case by (simp add: wf_clock)
qed (auto simp: UpsertPrincipal_def DeletePrincipal_def SetOperator_def SetAdmin_def
    InsertRefreshToken_def InsertTier_def DeleteTier_def SetDefaultTier_def SetRepoTier_def
    GetOrCreateRepo_def UpsertApp_def CreateOperation_def StartOperation_def SucceedOperation_def
    FailOperation_def RecordScaleEvent_def UpdatePlatformConfig_def AddAppExemption_def
    RemoveAppExemption_def AddRepoExemption_def RemoveRepoExemption_def AddPeriodExemption_def
    ExpirePeriodExemptions_def SuppressStaleApp_def InsertPriceSnapshot_def intro: wf_writes)

lemma store_steps_wf: "store_steps d d' \<Longrightarrow> wf_db d \<Longrightarrow> wf_db d'"
  by (induction rule: rtranclp_induct) (auto intro: store_step_wf)

lemma wf_initial_db: "wf_db (initial_db now)"
  by (simp add: wf_db_def wf_apps_def wf_rest_def initial_db_def uniq_defs seed_tier_def)

section \<open>Writes on a reliable database\<close>

text \<open>Without infrastructure faults the updates of apps and operations succeed; their effects.\<close>

definition reliable :: "db \<Rightarrow> bool" where
  "reliable d \<longleftrightarrow> db_fault d = (\<lambda>_. None)"

definition put_op :: "db \<Rightarrow> string \<Rightarrow> string \<Rightarrow> string option \<Rightarrow> db" where
  "put_op d i status err = d\<lparr>t_operations := upd (is_op i)
     (\<lambda>x. x\<lparr>o_Status := status, o_Error := err, o_UpdatedAt := sql_now d\<rparr>) (t_operations d)\<rparr>"

definition add_event :: "db \<Rightarrow> string \<Rightarrow> string \<Rightarrow> string \<Rightarrow> db" where
  "add_event d ns app ev = d\<lparr>t_scale_events := t_scale_events d @
     [\<lparr> se_ID = seq_scale_events d + 1, se_Namespace = ns, se_App = app, se_Event = ev, se_OccurredAt = db_now d \<rparr>],
     seq_scale_events := seq_scale_events d + 1\<rparr>"

definition find_op :: "db \<Rightarrow> string \<Rightarrow> Operation option" where
  "find_op d i = op_tab.by_key i (t_operations d)"

definition find_app :: "db \<Rightarrow> int \<Rightarrow> App option" where
  "find_app d i = app_id_tab.by_key i (t_apps d)"

lemma guarded_reliable [simp]: "reliable d \<Longrightarrow> guarded d q r = r"
  by (simp add: reliable_def)

lemma reliable_writes [simp]:
  "reliable d \<Longrightarrow> StartOperation d i = Inr (put_op d i ''running'' None)"
  "reliable d \<Longrightarrow> SucceedOperation d i = Inr (put_op d i ''succeeded'' None)"
  "reliable d \<Longrightarrow> FailOperation d i m = Inr (put_op d i ''failed'' (Some m))"
  "reliable d \<Longrightarrow> UpdateAppStatus d a st = Inr (update_app d a (\<lambda>x. x\<lparr>a_Status := st\<rparr>))"
  "reliable d \<Longrightarrow> UpdateAppImages d a cur lh =
     Inr (update_app d a (\<lambda>x. x\<lparr>a_ImageCurrent := null_string cur, a_ImageLastHealthy := null_string lh\<rparr>))"
  "reliable d \<Longrightarrow> SetAppHibernated d a rs = Inr (update_app d a (\<lambda>x. x\<lparr>a_Hibernated := 1,
     a_HibernatedAt := Some (sql_now d), a_HibernationReason := null_string rs, a_Status := ''hibernated''\<rparr>))"
  "reliable d \<Longrightarrow> SetAppAwake d a = Inr (update_app d a (\<lambda>x. x\<lparr>a_Hibernated := 0,
     a_HibernatedAt := None, a_HibernationReason := None, a_Status := ''running''\<rparr>))"
  "reliable d \<Longrightarrow> UpdateLastActiveAt d a = Inr (update_app d a (\<lambda>x. x\<lparr>a_LastActiveAt := Some (sql_now d)\<rparr>))"
  "reliable d \<Longrightarrow> MarkAppDeletionPending d a = Inr (update_app d a
     (\<lambda>x. x\<lparr>a_DeletionPending := 1, a_DeletedAt := Some (sql_now d)\<rparr>))"
  "reliable d \<Longrightarrow> RecordScaleEvent d ns app ev = Inr (add_event d ns app ev)"
  by (simp_all add: StartOperation_def SucceedOperation_def FailOperation_def UpdateOperationStatus_q_def
      put_op_def UpdateAppStatus_def UpdateAppStatus_q_def UpdateAppImages_def UpdateAppImages_q_def
      SetAppHibernated_def SetAppHibernated_q_def SetAppAwake_def SetAppAwake_q_def UpdateLastActiveAt_def
      UpdateLastActiveAt_q_def MarkAppDeletionPending_def MarkAppDeletionPending_q_def RecordScaleEvent_def
      InsertScaleEvent_q_def add_event_def)

lemma reliable_frame [simp]:
  "reliable (put_op d i st e) = reliable d" "reliable (update_app d a f) = reliable d"
  "reliable (add_event d ns app ev) = reliable d"
  by (simp_all add: reliable_def put_op_def update_app_def add_event_def)

lemma find_op_frame [simp]:
  "find_op (update_app d a f) i = find_op d i" "find_op (add_event d ns app ev) i = find_op d i"
  by (simp_all add: find_op_def update_app_def add_event_def)

lemma find_app_frame [simp]:
  "find_app (put_op d i st e) a = find_app d a" "find_app (add_event d ns app ev) a = find_app d a"
  by (simp_all add: find_app_def put_op_def add_event_def)

lemma sql_now_frame [simp]:
  "sql_now (put_op d i st e) = sql_now d" "sql_now (update_app d a f) = sql_now d"
  "sql_now (add_event d ns app ev) = sql_now d" "db_now (put_op d i st e) = db_now d"
  "db_now (update_app d a f) = db_now d" "db_now (add_event d ns app ev) = db_now d"
  by (simp_all add: sql_now_def put_op_def update_app_def add_event_def)

lemma t_scale_events_frame [simp]:
  "t_scale_events (put_op d i st e) = t_scale_events d" "t_scale_events (update_app d a f) = t_scale_events d"
  "t_scale_events (add_event d ns app ev) = t_scale_events d @
     [\<lparr> se_ID = seq_scale_events d + 1, se_Namespace = ns, se_App = app, se_Event = ev, se_OccurredAt = db_now d \<rparr>]"
  "seq_scale_events (put_op d i st e) = seq_scale_events d"
  "seq_scale_events (update_app d a f) = seq_scale_events d"
  by (simp_all add: put_op_def update_app_def add_event_def)

lemma find_op_put_op [simp]:
  "find_op (put_op d i st e) j =
     (if j = i then map_option (\<lambda>x. x\<lparr>o_Status := st, o_Error := e, o_UpdatedAt := sql_now d\<rparr>) (find_op d j)
      else find_op d j)"
  by (simp add: find_op_def put_op_def is_op_def [abs_def] op_tab.by_key_upd)

lemma find_app_update_app [simp]:
  "(\<And>x. a_ID (f x) = a_ID x) \<Longrightarrow> find_app (update_app d a f) j =
     (if j = a then map_option (\<lambda>x. (f x)\<lparr>a_UpdatedAt := sql_now d\<rparr>) (find_app d j) else find_app d j)"
  by (simp add: find_app_def update_app_def app_id_tab.by_key_upd)

text \<open>Writes whose errors are only logged are steps of the store.\<close>

lemma log_err_steps:
  "(\<And>d'. r = Inr d' \<Longrightarrow> store_step d d') \<Longrightarrow> store_steps d (log_err d r)"
  by (cases r) auto

lemma log_err_steps_trans:
  "store_steps c d \<Longrightarrow> (\<And>d'. r = Inr d' \<Longrightarrow> store_step d d') \<Longrightarrow> store_steps c (log_err d r)"
  by (cases r) (auto intro: rtranclp.rtrancl_into_rtrancl)

end
