(* ===== verification/Cost.thy ===== *)
theory Cost
  imports Clock Store
begin

text \<open>
  Cost estimation, \<open>cost/cost.go\<close>: billing periods (calendar months in UTC), the running time of an
  app from its scale events, and the monthly cost of an app and of a repo.

  The running time is compared with a reference: the events cut the period into spans, in each of
  which the app runs or does not, and the running time is the total of the spans in which it runs.
\<close>

definition BillingPeriodStart :: "time \<Rightarrow> time" where
  "BillingPeriodStart t = month_start (time_Year t) (time_Month t)"

definition BillingPeriodKey :: "time \<Rightarrow> string" where
  "BillingPeriodKey t = append_int 4 (time_Year t) @ ''-'' @ append_int 2 (time_Month t)"

definition NextBillingPeriodStart :: "time \<Rightarrow> time" where
  "NextBillingPeriodStart t = month_start (time_Year t) (time_Month t + 1)"

text \<open>One turn of the loop over the events; \<open>total\<close> is an \<open>int64\<close>.\<close>

definition run_event :: "duration \<times> time \<Rightarrow> ScaleEvent \<Rightarrow> duration \<times> time" where
  "run_event = (\<lambda>(total, runStart) e.
     let t = se_OccurredAt e in
     if se_Event e = ''scale_to_1'' then
       (if time_IsZero runStart then (total, t) else (total, runStart))
     else if se_Event e = ''scale_to_0'' then
       (if \<not> time_IsZero runStart then (wrap64 (total + time_Sub t runStart), 0) else (total, runStart))
     else (total, runStart))"

definition run_total :: "ScaleEvent list \<Rightarrow> time \<Rightarrow> time \<Rightarrow> bool \<Rightarrow> duration" where
  "run_total events periodStart now hibernated =
     (let firstIsScaleTo0 = (case events of [] \<Rightarrow> False | e # _ \<Rightarrow> se_Event e = ''scale_to_0'');
          noEventsRunning = (events = [] \<and> \<not> hibernated);
          runStart = (if firstIsScaleTo0 \<or> noEventsRunning then periodStart else 0);
          (total, runStart) = foldl run_event (0, runStart) events
      in if \<not> time_IsZero runStart then wrap64 (total + time_Sub now runStart) else total)"

definition RunningHours :: "ScaleEvent list \<Rightarrow> time \<Rightarrow> time \<Rightarrow> bool \<Rightarrow> real" where
  "RunningHours events periodStart now hibernated =
     real_of_int (run_total events periodStart now hibernated) / real_of_int Hour"

definition EstimateAppCostMonthly :: "Tier \<Rightarrow> real \<Rightarrow> PriceSnapshot \<Rightarrow> real" where
  "EstimateAppCostMonthly tier hours prices =
     (let cpuCores = real_of_int (t_CpuMilli tier) / 1000;
          memGB = real_of_int (t_MemoryMb tier) / 1024;
          computeCost = hours * (cpuCores * ps_ComputeCpuPerCoreHour prices + memGB * ps_ComputeMemPerGbHour prices);
          storageCost = real_of_int (t_BlobGb tier) * ps_StoragePerGbMonth prices +
                        real_of_int (t_DatabaseGb tier) * ps_StoragePerGbMonth prices
      in computeCost + storageCost)"

definition zero_prices :: PriceSnapshot where
  "zero_prices = \<lparr> ps_ID = 0, ps_ComputeCpuPerCoreHour = 0, ps_ComputeMemPerGbHour = 0,
     ps_StoragePerGbMonth = 0, ps_RegistryPerGbMonth = 0, ps_FetchedAt = 0 \<rparr>"

definition LatestPrices :: "db \<Rightarrow> PriceSnapshot" where
  "LatestPrices s = (case GetLatestPriceSnapshot s of Inl _ \<Rightarrow> zero_prices | Inr snap \<Rightarrow> snap)"

definition AppCostMonthly :: "db \<Rightarrow> App \<Rightarrow> Tier \<Rightarrow> PriceSnapshot \<Rightarrow> time \<Rightarrow> real" where
  "AppCostMonthly s app tier prices now =
     (case a_Namespace app of
        None \<Rightarrow> 0
      | Some ns \<Rightarrow>
          if ns = [] then 0
          else let periodStart = BillingPeriodStart now in
            (case ListScaleEventsSince s ns (a_Name app) periodStart of
               Inl _ \<Rightarrow> 0
             | Inr events \<Rightarrow>
                 EstimateAppCostMonthly tier (RunningHours events periodStart now (a_Hibernated app \<noteq> 0)) prices))"

definition RepoCostMonthly :: "db \<Rightarrow> string \<Rightarrow> PriceSnapshot \<Rightarrow> time \<Rightarrow> real" where
  "RepoCostMonthly s repoSlug prices now =
     (case ListApps s repoSlug of
        Inl _ \<Rightarrow> 0
      | Inr apps \<Rightarrow>
          (case GetRepo s repoSlug of
             Inl _ \<Rightarrow> 0
           | Inr repo \<Rightarrow>
               (case GetTier s (r_Tier repo) of
                  Inl _ \<Rightarrow> 0
                | Inr tier \<Rightarrow> foldl (\<lambda>total app. total + AppCostMonthly s app tier prices now) 0 apps)))"

section \<open>Billing periods\<close>

lemma BillingPeriodStart_index: "BillingPeriodStart t = index_day (time_index t) * Day"
  by (simp add: BillingPeriodStart_def month_start_index time_index_def)

lemma NextBillingPeriodStart_index: "NextBillingPeriodStart t = index_day (time_index t + 1) * Day"
  by (simp add: NextBillingPeriodStart_def month_start_index time_index_def month_index_def algebra_simps)

lemma same_period_index: "BillingPeriodStart u = BillingPeriodStart t \<longleftrightarrow> time_index u = time_index t"
  using Day_pos by (simp add: BillingPeriodStart_index index_day_inj)

text \<open>
  The billing period of an instant contains it: it starts at or before the instant and the next
  period starts after it. The periods tile the time line: an instant has the same period start
  exactly when it lies between this period's start and the next one's, and the start of the next
  period is itself the start of a period.
\<close>

theorem billing_periods_tile:
  "BillingPeriodStart t \<le> t \<and> t < NextBillingPeriodStart t \<and>
   (BillingPeriodStart t \<le> u \<and> u < NextBillingPeriodStart t) = (BillingPeriodStart u = BillingPeriodStart t) \<and>
   BillingPeriodStart (NextBillingPeriodStart t) = NextBillingPeriodStart t"
proof (intro conjI)
  show "BillingPeriodStart t \<le> t" "t < NextBillingPeriodStart t"
    using month_interval [of t] by (simp_all add: BillingPeriodStart_index NextBillingPeriodStart_index)
  show "(BillingPeriodStart t \<le> u \<and> u < NextBillingPeriodStart t) = (BillingPeriodStart u = BillingPeriodStart t)"
    unfolding same_period_index
    using month_interval [of u] time_index_unique [of "time_index t" u]
    by (auto simp: BillingPeriodStart_index NextBillingPeriodStart_index)
  have "index_day (time_index t + 1) * Day < index_day (time_index t + 1 + 1) * Day"
    using Day_pos by (simp add: index_day_less_iff)
  then have "time_index (NextBillingPeriodStart t) = time_index t + 1"
    unfolding NextBillingPeriodStart_index by (intro time_index_unique) simp_all
  then show "BillingPeriodStart (NextBillingPeriodStart t) = NextBillingPeriodStart t"
    by (simp add: BillingPeriodStart_index NextBillingPeriodStart_index)
qed

lemma key_inj:
  assumes "0 \<le> y" "0 \<le> y'" "1 \<le> m" "m \<le> 12" "1 \<le> m'" "m' \<le> 12"
  shows "append_int 4 y @ ''-'' @ append_int 2 m = append_int 4 y' @ ''-'' @ append_int 2 m' \<longleftrightarrow> y = y' \<and> m = m'"
proof -
  have "length (append_int 2 m) = length (append_int 2 m')" using assms by (simp add: length_append_int)
  then have "append_int 4 y @ ''-'' @ append_int 2 m = append_int 4 y' @ ''-'' @ append_int 2 m' \<longleftrightarrow>
      append_int 4 y = append_int 4 y' \<and> append_int 2 m = append_int 2 m'" by auto
  with assms show ?thesis by (simp add: append_int_inj)
qed

lemma time_index_eq:
  "time_index t = time_index u \<longleftrightarrow> time_Year t = time_Year u \<and> time_Month t = time_Month u"
  using time_Month_range [of t] time_Month_range [of u] unfolding time_index_def month_index_def by presburger

text \<open>
  From year 0 on, the key of a billing period identifies it: two instants have the same key
  exactly when their periods start at the same instant.
\<close>

theorem billing_period_key_identifies:
  assumes "0 \<le> time_Year t" "0 \<le> time_Year u"
  shows "BillingPeriodKey t = BillingPeriodKey u \<longleftrightarrow> BillingPeriodStart t = BillingPeriodStart u"
  unfolding same_period_index time_index_eq BillingPeriodKey_def
  using key_inj [OF assms] time_Month_range by metis

text \<open>Two instants of January of year 1.\<close>

lemma billing_period_key_identifies_witness:
  "0 \<le> time_Year 0 \<and> 0 \<le> time_Year 5 \<and>
   (BillingPeriodKey 0 = BillingPeriodKey 5) = (BillingPeriodStart 0 = BillingPeriodStart 5)"
  using billing_period_key_identifies [of 0 5]
  by (simp add: time_Year_def year_of_day_def year_parts_def duration_defs)

section \<open>Running time\<close>

text \<open>Whether the app runs after an event, given whether it ran before.\<close>

definition after_event :: "ScaleEvent \<Rightarrow> bool \<Rightarrow> bool" where
  "after_event e running =
     (if se_Event e = ''scale_to_1'' then True else if se_Event e = ''scale_to_0'' then False else running)"

text \<open>The total of the running spans from \<open>t\<close> on.\<close>

fun running_span :: "bool \<Rightarrow> time \<Rightarrow> ScaleEvent list \<Rightarrow> time \<Rightarrow> int" where
  "running_span running t [] now = (if running then now - t else 0)"
| "running_span running t (e # es) now =
     (if running then se_OccurredAt e - t else 0) +
     running_span (after_event e running) (se_OccurredAt e) es now"

text \<open>Whether the app ran when the period began, as the code infers it.\<close>

definition ran_at_start :: "ScaleEvent list \<Rightarrow> bool \<Rightarrow> bool" where
  "ran_at_start events hibernated =
     (case events of [] \<Rightarrow> \<not> hibernated | e # _ \<Rightarrow> se_Event e = ''scale_to_0'')"

text \<open>Events in order, within the period.\<close>

fun events_within :: "time \<Rightarrow> ScaleEvent list \<Rightarrow> time \<Rightarrow> bool" where
  "events_within t [] now = (t \<le> now)"
| "events_within t (e # es) now = (t \<le> se_OccurredAt e \<and> events_within (se_OccurredAt e) es now)"

lemma events_within_le: "events_within t es now \<Longrightarrow> t \<le> now"
  by (induction es arbitrary: t) force+

lemma running_span_bounds:
  "events_within t es now \<Longrightarrow> 0 \<le> running_span r t es now \<and> running_span r t es now \<le> now - t"
proof (induction es arbitrary: r t)
  case (Cons e es)
  from Cons.prems have le: "t \<le> se_OccurredAt e" and ew: "events_within (se_OccurredAt e) es now" by auto
  have "0 \<le> running_span (after_event e r) (se_OccurredAt e) es now \<and>
      running_span (after_event e r) (se_OccurredAt e) es now \<le> now - se_OccurredAt e"
    by (rule Cons.IH [OF ew])
  with le show ?case by auto
qed auto

definition finish_run :: "time \<Rightarrow> duration \<times> time \<Rightarrow> duration" where
  "finish_run now = (\<lambda>(total, runStart). if runStart \<noteq> 0 then wrap64 (total + time_Sub now runStart) else total)"

text \<open>The loop carries the start of the current run; the reference carries the last event.\<close>

lemma run_loop:
  assumes "events_within t es now" "0 < t" "0 \<le> tot" "tot + (now - t) + (if s = 0 then 0 else t - s) \<le> int64_max"
    and "s = 0 \<or> 0 < s \<and> s \<le> t"
  shows "finish_run now (foldl run_event (tot, s) es) =
    tot + (if s = 0 then 0 else t - s) + running_span (s \<noteq> 0) t es now"
  using assms
proof (induction es arbitrary: t tot s)
  case Nil
  then have "time_Sub now s = now - s" if "s \<noteq> 0"
    using that by (intro time_Sub_exact) (auto simp: int64_min_def)
  with Nil show ?case by (auto simp: finish_run_def int64_min_def)
next
  case (Cons e es)
  let ?u = "se_OccurredAt e"
  from Cons.prems have le: "t \<le> ?u" and ew: "events_within ?u es now" and un: "?u \<le> now"
    by (auto dest: events_within_le)
  consider (up) "se_Event e = ''scale_to_1''" | (down) "se_Event e = ''scale_to_0''"
    | (other) "se_Event e \<noteq> ''scale_to_1''" "se_Event e \<noteq> ''scale_to_0''" by blast
  then show ?case
  proof cases
    case up
    then show ?thesis
      using Cons.IH [OF ew, of tot "if s = 0 then ?u else s"] Cons.prems le un
      by (auto simp: run_event_def after_event_def time_IsZero_def split: if_splits)
  next
    case down
    have sub: "time_Sub ?u s = ?u - s" if "s \<noteq> 0"
      using that Cons.prems le un by (intro time_Sub_exact) (auto simp: int64_min_def)
    have wrap: "wrap64 (tot + (?u - s)) = tot + (?u - s)" if "s \<noteq> 0"
      using that Cons.prems le un by (intro wrap64_id) (auto simp: int64_min_def)
    show ?thesis
      using down Cons.IH [OF ew, of "if s = 0 then tot else tot + (?u - s)" 0] Cons.prems le un sub wrap
      by (auto simp: run_event_def after_event_def time_IsZero_def split: if_splits)
  next
    case other
    then show ?thesis
      using Cons.IH [OF ew, of tot s] Cons.prems le un
      by (auto simp: run_event_def after_event_def time_IsZero_def split: if_splits)
  qed
qed

lemma run_total_span:
  assumes "0 < periodStart" "events_within periodStart events now" "now - periodStart \<le> int64_max"
  shows "run_total events periodStart now hibernated =
    running_span (ran_at_start events hibernated) periodStart events now"
proof -
  let ?s = "if ran_at_start events hibernated then periodStart else 0"
  have "run_total events periodStart now hibernated = finish_run now (foldl run_event (0, ?s) events)"
    by (cases events) (simp_all add: run_total_def finish_run_def ran_at_start_def time_IsZero_def
        split: prod.splits)
  also have "\<dots> = running_span (ran_at_start events hibernated) periodStart events now"
    using run_loop [of periodStart events now 0 ?s] assms by auto
  finally show ?thesis .
qed

text \<open>
  C8. For events in order within the period, \<open>RunningHours\<close> is the total length of the spans in
  which the app runs (no 64-bit wrap-around, no saturation), and so lies between zero and the
  length of the period so far.
\<close>

theorem RunningHours_correct:
  assumes "0 < periodStart" "events_within periodStart events now" "now - periodStart \<le> int64_max"
  shows "RunningHours events periodStart now hibernated =
      real_of_int (running_span (ran_at_start events hibernated) periodStart events now) / real_of_int Hour \<and>
    0 \<le> RunningHours events periodStart now hibernated \<and>
    RunningHours events periodStart now hibernated \<le> real_of_int (now - periodStart) / real_of_int Hour"
proof -
  let ?r = "running_span (ran_at_start events hibernated) periodStart events now"
  have "0 \<le> real_of_int ?r" "real_of_int ?r \<le> real_of_int (now - periodStart)"
    using running_span_bounds [OF assms(2)] unfolding of_int_le_iff of_int_0_le_iff by blast+
  then show ?thesis
    by (simp add: RunningHours_def run_total_span [OF assms] duration_defs divide_right_mono)
qed

definition ev :: "string \<Rightarrow> time \<Rightarrow> ScaleEvent" where
  "ev what t = \<lparr> se_ID = 1, se_Namespace = ''o-r--a'', se_App = ''a'', se_Event = what, se_OccurredAt = t \<rparr>"

text \<open>A period that starts with the app running; it sleeps from hour 2 to hour 5.\<close>

lemma RunningHours_correct_witness:
  "events_within Hour [ev ''scale_to_0'' (2 * Hour), ev ''scale_to_1'' (5 * Hour)] (9 * Hour) \<and>
   RunningHours [ev ''scale_to_0'' (2 * Hour), ev ''scale_to_1'' (5 * Hour)] Hour (9 * Hour) False = 5"
  using RunningHours_correct [of Hour "[ev ''scale_to_0'' (2 * Hour), ev ''scale_to_1'' (5 * Hour)]" "9 * Hour" False]
  by (simp add: duration_defs int64_max_def ev_def ran_at_start_def after_event_def)

end
