(* ===== verification/Names.thy ===== *)
theory Names
  imports Prelude
begin

text \<open>
  The naming conventions of the control plane: \<open>names/names.go\<close> and \<open>internal/kube/namespace.go\<close>.
\<close>

definition RepoSlug :: "string \<Rightarrow> string \<Rightarrow> string" where
  "RepoSlug org repo = org @ ''/'' @ repo"

definition RepoOrg :: "string \<Rightarrow> string" where
  "RepoOrg slug = (case strings_Cut slug (CHR ''/'') of (org, _, found) \<Rightarrow> if \<not> found then [] else org)"

definition RepoName :: "string \<Rightarrow> string" where
  "RepoName slug = (case strings_Cut slug (CHR ''/'') of (_, name, found) \<Rightarrow> if \<not> found then slug else name)"

text \<open>\<open>strings.NewReplacer("/", "-", "_", "-")\<close>.\<close>

definition slugify :: "string \<Rightarrow> string" where
  "slugify s = map (\<lambda>c. if c = CHR ''/'' \<or> c = CHR ''_'' then CHR ''-'' else c) s"

definition AppNamespace :: "string \<Rightarrow> string \<Rightarrow> string" where
  "AppNamespace repoSlug appName =
     (let base = slugify repoSlug in
      if appName = [] then base else base @ ''--'' @ slugify appName)"

definition AppHostname :: "string \<Rightarrow> string \<Rightarrow> string \<Rightarrow> string" where
  "AppHostname appName repoName baseDomain = appName @ ''.'' @ repoName @ ''.app.'' @ baseDomain"

definition AppURL :: "string \<Rightarrow> string \<Rightarrow> string \<Rightarrow> int \<Rightarrow> string" where
  "AppURL appName repoName baseDomain gatewayPort =
     (let host = AppHostname appName repoName baseDomain in
      if gatewayPort = 443 then ''https://'' @ host
      else ''https://'' @ host @ '':'' @ strconv_Itoa gatewayPort)"

definition AppServiceAddr :: "string \<Rightarrow> string" where
  "AppServiceAddr namespace = ''http://app.'' @ namespace @ ''.svc.cluster.local:8080''"

lemmas names_defs [go_defs] = RepoSlug_def RepoOrg_def RepoName_def AppHostname_def AppURL_def AppServiceAddr_def

lemma RepoSlug_split [simp]:
  "CHR ''/'' \<notin> set org \<Longrightarrow> RepoOrg (RepoSlug org repo) = org"
  "CHR ''/'' \<notin> set org \<Longrightarrow> RepoName (RepoSlug org repo) = repo"
  by (simp_all add: RepoOrg_def RepoName_def RepoSlug_def)

lemma RepoSlug_inj:
  assumes "CHR ''/'' \<notin> set org" "CHR ''/'' \<notin> set org'"
  shows "RepoSlug org repo = RepoSlug org' repo' \<longleftrightarrow> org = org' \<and> repo = repo'"
  using RepoSlug_split [OF assms(1), of repo] RepoSlug_split [OF assms(2), of repo'] by metis

lemma slugify_append: "slugify (s @ t) = slugify s @ slugify t"
  by (simp add: slugify_def)

lemma slugify_id: "CHR ''/'' \<notin> set s \<Longrightarrow> CHR ''_'' \<notin> set s \<Longrightarrow> slugify s = s"
  by (induction s) (auto simp: slugify_def)

text \<open>Where both parts are plain, a double dash separates them: the text before it is the repo's.\<close>

fun cut_dashes :: "string \<Rightarrow> string \<times> string" where
  "cut_dashes (a # b # s) =
     (if a = CHR ''-'' \<and> b = CHR ''-'' then ([], s) else case cut_dashes (b # s) of (p, q) \<Rightarrow> (a # p, q))"
| "cut_dashes s = (s, [])"

fun no_double_dash :: "string \<Rightarrow> bool" where
  "no_double_dash (a # b # s) = (\<not> (a = CHR ''-'' \<and> b = CHR ''-'') \<and> no_double_dash (b # s))"
| "no_double_dash s = True"

lemma cut_dashes_append:
  assumes "no_double_dash p" "p = [] \<or> last p \<noteq> CHR ''-''"
  shows "cut_dashes (p @ ''--'' @ q) = (p, q)"
  using assms
proof (induction p rule: no_double_dash.induct)
  case (1 a b s)
  then show ?case by auto
qed auto

lemma AppNamespace_cut:
  "app \<noteq> [] \<Longrightarrow> no_double_dash (slugify slug) \<Longrightarrow> slugify slug = [] \<or> last (slugify slug) \<noteq> CHR ''-'' \<Longrightarrow>
     cut_dashes (AppNamespace slug app) = (slugify slug, slugify app)"
  by (simp only: AppNamespace_def Let_def if_False cut_dashes_append)

text \<open>
  C29. What a namespace tells of its app. For named apps of repositories without double dashes, two apps have one namespace
  exactly when their slugs and names agree up to slashes, underscores and dashes. So different repositories can share
  the namespaces of their apps: org a with repository b-c and org a-b with repository c do. And the host name
  does not have the org in it: equal apps of equally named repositories share it.
\<close>

theorem app_names_identify:
  assumes "no_double_dash (slugify slug)" "slugify slug = [] \<or> last (slugify slug) \<noteq> CHR ''-''" "app \<noteq> []"
    and "no_double_dash (slugify slug')" "slugify slug' = [] \<or> last (slugify slug') \<noteq> CHR ''-''" "app' \<noteq> []"
    and "CHR ''/'' \<notin> set org" "CHR ''/'' \<notin> set org'"
  shows "(AppNamespace slug app = AppNamespace slug' app') = (slugify slug = slugify slug' \<and> slugify app = slugify app') \<and>
    AppNamespace (RepoSlug a (b @ ''-'' @ c)) app = AppNamespace (RepoSlug (a @ ''-'' @ b) c) app \<and>
    AppHostname app (RepoName (RepoSlug org repo)) d = AppHostname app (RepoName (RepoSlug org' repo)) d"
proof -
  have "AppNamespace slug app = AppNamespace slug' app' \<Longrightarrow> slugify slug = slugify slug' \<and> slugify app = slugify app'"
    using AppNamespace_cut [OF assms(3,1,2)] AppNamespace_cut [OF assms(6,4,5)] by simp
  moreover have "slugify (RepoSlug a (b @ ''-'' @ c)) = slugify (RepoSlug (a @ ''-'' @ b) c)"
    by (simp add: RepoSlug_def slugify_def)
  ultimately show ?thesis using assms(3,6,7,8) by (auto simp: AppNamespace_def Let_def)
qed

lemma app_names_identify_witness:
  "AppNamespace ''acme/web-shop'' ''api'' = AppNamespace ''acme-web/shop'' ''api'' \<and>
   AppNamespace ''acme/web'' ''api'' \<noteq> AppNamespace ''acme/shop'' ''api''"
  using app_names_identify [of "''acme/web''" "''api''" "''acme/shop''" "''api''" "''acme''" "''acme''" "''acme''" "''web''" "''shop''"]
  by (simp add: slugify_def RepoSlug_def)

end
