(* ===== verification/Api.thy ===== *)
theory Api
  imports Store Names
begin

text \<open>
  What every API handler uses: the claims of a token and their constructors (\<open>tokens/claims.go\<close>),
  the JWT calls (\<open>tokens/tokens.go\<close>), the structured errors and the access checks
  (\<open>api/handler/handler.go\<close>, \<open>security.go\<close>) and the conversions of \<open>helpers.go\<close>.

  The JWT library, the random source and the hash are not part of the repository or are
  cryptography: they are arguments, the fields of the record \<open>henv\<close>.
\<close>

section \<open>Claims\<close>

definition RoleDeveloper :: string where "RoleDeveloper = ''developer''"
definition RoleOperator :: string where "RoleOperator = ''operator''"
definition RoleAdmin :: string where "RoleAdmin = ''admin''"
definition RoleBootstrapID :: string where "RoleBootstrapID = ''bootstrap_id''"

lemmas role_defs = RoleDeveloper_def RoleOperator_def RoleAdmin_def RoleBootstrapID_def

definition OperatorTokenTTL :: duration where "OperatorTokenTTL = 15 * Minute"
definition AdminSessionTTL :: duration where "AdminSessionTTL = 8 * Hour"
definition deployTokenTTL :: duration where "deployTokenTTL = 10 * Minute"
definition bootstrapIDTokenTTL :: duration where "bootstrapIDTokenTTL = 5 * Minute"

lemmas ttl_defs = OperatorTokenTTL_def AdminSessionTTL_def deployTokenTTL_def bootstrapIDTokenTTL_def

definition IsOperatorRole :: "string \<Rightarrow> bool" where
  "IsOperatorRole r \<longleftrightarrow> r = RoleOperator \<or> r = RoleAdmin"

record Claims =
  cl_Subject :: string
  cl_IssuedAt :: time
  cl_ExpiresAt :: time
  cl_Repo :: string
  cl_Role :: string
  cl_GithubID :: int

text \<open>\<open>jwt.NewNumericDate\<close> truncates to seconds.\<close>

definition NewNumericDate :: "time \<Rightarrow> time" where
  "NewNumericDate t = (t div Second) * Second"

definition claims_for :: "time \<Rightarrow> duration \<Rightarrow> string \<Rightarrow> string \<Rightarrow> string \<Rightarrow> int \<Rightarrow> Claims" where
  "claims_for now ttl subject repo role gid =
     \<lparr> cl_Subject = subject, cl_IssuedAt = NewNumericDate now, cl_ExpiresAt = NewNumericDate (now + ttl),
       cl_Repo = repo, cl_Role = role, cl_GithubID = gid \<rparr>"

definition CreateOperatorClaims :: "time \<Rightarrow> string \<Rightarrow> Claims" where
  "CreateOperatorClaims now subject = claims_for now OperatorTokenTTL subject [] RoleOperator 0"

definition CreateAdminAPIClaims :: "time \<Rightarrow> string \<Rightarrow> Claims" where
  "CreateAdminAPIClaims now subject = claims_for now OperatorTokenTTL subject [] RoleAdmin 0"

definition CreateAdminSessionClaims :: "time \<Rightarrow> string \<Rightarrow> string \<Rightarrow> Claims" where
  "CreateAdminSessionClaims now subject role = claims_for now AdminSessionTTL subject [] role 0"

definition CreateBootstrapIDClaims :: "time \<Rightarrow> string \<Rightarrow> int \<Rightarrow> Claims" where
  "CreateBootstrapIDClaims now githubLogin githubID =
     claims_for now bootstrapIDTokenTTL githubLogin [] RoleBootstrapID githubID"

definition CreateDeployClaims :: "time \<Rightarrow> string \<Rightarrow> Claims" where
  "CreateDeployClaims now slug = claims_for now deployTokenTTL (''repo:'' @ slug) slug RoleDeveloper 0"

lemmas claims_defs = CreateOperatorClaims_def CreateAdminAPIClaims_def CreateAdminSessionClaims_def
  CreateBootstrapIDClaims_def CreateDeployClaims_def claims_for_def

section \<open>The environment of a handler\<close>

text \<open>
  \<open>jwt_Sign\<close> signs claims with HS256; \<open>jwt_Parse\<close> parses and validates a token at an instant, asking a
  key function for the key of the token's algorithm. \<open>rand32\<close> and \<open>rand16\<close> are the bytes (or the
  error) of the reads of the random source in one request.
\<close>

record henv =
  h_signingKey :: string
  h_githubClientID :: string
  h_BaseDomain :: string
  h_GatewayPort :: int
  h_Namespace :: string
  jwt_Sign :: "string \<Rightarrow> Claims \<Rightarrow> string + string"
  jwt_Parse :: "(string \<Rightarrow> string + string) \<Rightarrow> time \<Rightarrow> string \<Rightarrow> string + Claims"
  h_sha256 :: "string \<Rightarrow> string"
  rand32 :: "string + string"
  rand16 :: "string + string"

definition IssueToken :: "henv \<Rightarrow> Claims \<Rightarrow> string + string" where
  "IssueToken h claims = jwt_Sign h (h_signingKey h) claims"

text \<open>The key function accepts the HMAC methods only.\<close>

definition hmac_key :: "string \<Rightarrow> string \<Rightarrow> string + string" where
  "hmac_key key alg =
     (if alg \<in> {''HS256'', ''HS384'', ''HS512''} then Inr key else Inl (''unexpected signing method: '' @ alg))"

definition VerifyToken :: "henv \<Rightarrow> time \<Rightarrow> string \<Rightarrow> string + Claims" where
  "VerifyToken h now tokenStr = jwt_Parse h (hmac_key (h_signingKey h)) now tokenStr"

text \<open>Lower-case hexadecimal, \<open>hex.EncodeToString\<close>.\<close>

definition hex_digit :: "nat \<Rightarrow> char" where
  "hex_digit n = (if n < 10 then char_of (48 + n) else char_of (87 + n))"

definition hex_Encode :: "string \<Rightarrow> string" where
  "hex_Encode s = concat (map (\<lambda>c. [hex_digit (of_char c div 16), hex_digit (of_char c mod 16)]) s)"

definition HashRefreshToken :: "henv \<Rightarrow> string \<Rightarrow> string" where
  "HashRefreshToken h raw = hex_Encode (h_sha256 h raw)"

definition newOperationID :: "henv \<Rightarrow> string + string" where
  "newOperationID h = (case rand16 h of Inl e \<Rightarrow> Inl e | Inr b \<Rightarrow> Inr (''op_'' @ hex_Encode b))"

definition newTokenID :: "henv \<Rightarrow> string + string" where
  "newTokenID h = (case rand16 h of Inl e \<Rightarrow> Inl e | Inr b \<Rightarrow> Inr (hex_Encode b))"

section \<open>Base64\<close>

text \<open>\<open>base64.RawURLEncoding\<close>: the URL alphabet, no padding.\<close>

text \<open>The alphabet is A to Z, a to z, 0 to 9, - and _.\<close>

definition b64_char :: "nat \<Rightarrow> char" where
  "b64_char n =
     (if n < 26 then char_of (65 + n) else if n < 52 then char_of (71 + n)
      else if n < 62 then char_of (n - 4) else if n = 62 then CHR ''-'' else CHR ''_'')"

definition b64_val :: "char \<Rightarrow> nat option" where
  "b64_val c =
     (let n = of_char c :: nat in
      if 65 \<le> n \<and> n \<le> 90 then Some (n - 65)
      else if 97 \<le> n \<and> n \<le> 122 then Some (n - 71)
      else if 48 \<le> n \<and> n \<le> 57 then Some (n + 4)
      else if n = 45 then Some 62 else if n = 95 then Some 63 else None)"

fun b64_Encode :: "string \<Rightarrow> string" where
  "b64_Encode (a # b # c # s) =
     (let n = (of_char a * 256 + of_char b) * 256 + of_char c :: nat in
      b64_char (n div 262144) # b64_char (n div 4096 mod 64) # b64_char (n div 64 mod 64) #
      b64_char (n mod 64) # b64_Encode s)"
| "b64_Encode [a, b] =
     (let n = (of_char a * 256 + of_char b) * 4 :: nat in
      [b64_char (n div 4096), b64_char (n div 64 mod 64), b64_char (n mod 64)])"
| "b64_Encode [a] = (let n = of_char a * 16 :: nat in [b64_char (n div 64), b64_char (n mod 64)])"
| "b64_Encode [] = []"

text \<open>Decoding drops the unused low bits of a short last group, as Go does outside strict mode.\<close>

fun b64_groups :: "string \<Rightarrow> string option" where
  "b64_groups (a # b # c # d # s) =
     (case (b64_val a, b64_val b, b64_val c, b64_val d, b64_groups s) of
        (Some x, Some y, Some z, Some w, Some r) \<Rightarrow>
          let n = ((x * 64 + y) * 64 + z) * 64 + w in
          Some (char_of (n div 65536) # char_of (n div 256 mod 256) # char_of (n mod 256) # r)
      | _ \<Rightarrow> None)"
| "b64_groups [a, b, c] =
     (case (b64_val a, b64_val b, b64_val c) of
        (Some x, Some y, Some z) \<Rightarrow>
          let n = ((x * 64 + y) * 64 + z) div 4 in Some [char_of (n div 256), char_of (n mod 256)]
      | _ \<Rightarrow> None)"
| "b64_groups [a, b] =
     (case (b64_val a, b64_val b) of
        (Some x, Some y) \<Rightarrow> Some [char_of ((x * 64 + y) div 16)]
      | _ \<Rightarrow> None)"
| "b64_groups [a] = None"
| "b64_groups [] = Some []"

text \<open>The decoder skips line ends.\<close>

definition b64_Decode :: "string \<Rightarrow> string option" where
  "b64_Decode s = b64_groups (filter (\<lambda>c. c \<noteq> CHR 0x0A \<and> c \<noteq> CHR 0x0D) s)"

definition GenerateRefreshToken :: "henv \<Rightarrow> string + string \<times> string" where
  "GenerateRefreshToken h =
     (case rand32 h of Inl e \<Rightarrow> Inl (''generate refresh token: '' @ e) | Inr raw \<Rightarrow> Inr (raw, b64_Encode raw))"

section \<open>Errors and responses\<close>

record apiError =
  ae_httpStatus :: int
  ae_code :: string
  ae_message :: string
  ae_remedy :: string

record ErrorDetail =
  ed_Code :: string
  ed_Message :: string
  ed_Remedy :: string

text \<open>
  What a handler returns as its \<open>error\<close>: a structured error, an error of the store wrapped with a
  prefix, another error with its text, or an error of the router with its status.
\<close>

datatype handler_error = Api apiError | Wrapped string db_error | OtherErr string | OgenErr int

definition api_err :: "int \<Rightarrow> string \<Rightarrow> string \<Rightarrow> string \<Rightarrow> handler_error" where
  "api_err status code msg remedy =
     Api \<lparr> ae_httpStatus = status, ae_code = code, ae_message = msg, ae_remedy = remedy \<rparr>"

text \<open>A typed 4xx answer, returned with a nil error, or the success value.\<close>

datatype 'a typed = Ok 'a | Typed int ErrorDetail

definition detail :: "string \<Rightarrow> string \<Rightarrow> string \<Rightarrow> ErrorDetail" where
  "detail code msg remedy = \<lparr> ed_Code = code, ed_Message = msg, ed_Remedy = remedy \<rparr>"

definition errNotImplemented :: handler_error where
  "errNotImplemented = api_err 501 ''not_implemented'' ''this endpoint is not yet implemented''
     ''check back in a future release''"

text \<open>\<open>fmt\<close>'s \<open>%q\<close> on printable ASCII, and \<open>%d\<close>.\<close>

definition sprintf_q :: "string \<Rightarrow> string" where
  "sprintf_q s = CHR 0x22 # concat (map (\<lambda>c. if c = CHR 0x22 \<or> c = CHR 0x5C then [CHR 0x5C, c] else [c]) s) @ [CHR 0x22]"

definition ogenAPIError :: "int \<Rightarrow> apiError" where
  "ogenAPIError code =
     (if code = 404 then \<lparr> ae_httpStatus = code, ae_code = ''not_found'',
        ae_message = ''the requested resource was not found'', ae_remedy = ''check the API documentation for valid endpoints'' \<rparr>
      else if code = 405 then \<lparr> ae_httpStatus = code, ae_code = ''method_not_allowed'',
        ae_message = ''this HTTP method is not allowed for this endpoint'', ae_remedy = ''check the API documentation for allowed methods'' \<rparr>
      else if code = 400 then \<lparr> ae_httpStatus = code, ae_code = ''invalid_request'',
        ae_message = ''the request body or parameters are invalid'', ae_remedy = ''check the request format against the API documentation'' \<rparr>
      else if code = 401 then \<lparr> ae_httpStatus = code, ae_code = ''invalid_token'',
        ae_message = ''authentication is required'', ae_remedy = ''include a valid Morsel access token in the Authorization header'' \<rparr>
      else if code = 403 then \<lparr> ae_httpStatus = code, ae_code = ''forbidden'',
        ae_message = ''you do not have permission to access this resource'', ae_remedy = ''check your token role and repository access'' \<rparr>
      else \<lparr> ae_httpStatus = code, ae_code = ''request_error'',
        ae_message = ''the request could not be processed'', ae_remedy = ''check the API documentation'' \<rparr>)"

text \<open>\<open>ogenerrors.ErrorCode\<close>: the status of a router error, 500 for any other.\<close>

definition ErrorCode :: "handler_error \<Rightarrow> int" where
  "ErrorCode err = (case err of OgenErr c \<Rightarrow> c | _ \<Rightarrow> 500)"

definition internal_error :: apiError where
  "internal_error = \<lparr> ae_httpStatus = 500, ae_code = ''internal_error'',
     ae_message = ''an unexpected error occurred'',
     ae_remedy = ''contact your platform operator if the issue persists'' \<rparr>"

definition WriteError :: "handler_error \<Rightarrow> int \<times> ErrorDetail" where
  "WriteError err =
     (let ae = (case err of
                  Api ae \<Rightarrow> ae
                | _ \<Rightarrow> (let code = ErrorCode err in if code \<noteq> 500 then ogenAPIError code else internal_error))
      in (ae_httpStatus ae, detail (ae_code ae) (ae_message ae) (ae_remedy ae)))"

definition NewError :: "handler_error \<Rightarrow> int \<times> ErrorDetail" where
  "NewError err =
     (case err of
        Api ae \<Rightarrow> (ae_httpStatus ae, detail (ae_code ae) (ae_message ae) (ae_remedy ae))
      | _ \<Rightarrow>
          let code = ErrorCode err in
          if code \<noteq> 500 then
            let ae = ogenAPIError code in (ae_httpStatus ae, detail (ae_code ae) (ae_message ae) (ae_remedy ae))
          else (500, detail ''internal_error'' ''an unexpected error occurred''
                       ''contact your platform operator if the issue persists''))"

definition wrap :: "string \<Rightarrow> db_error + 'a \<Rightarrow> handler_error + 'a" where
  "wrap msg r = (case r of Inl e \<Rightarrow> Inl (Wrapped msg e) | Inr x \<Rightarrow> Inr x)"

section \<open>Authentication and access\<close>

definition HandleBearerAuth :: "henv \<Rightarrow> time \<Rightarrow> string \<Rightarrow> handler_error + Claims" where
  "HandleBearerAuth h now token =
     (if token = [] then
        Inl (api_err 401 ''invalid_token'' ''Authorization: Bearer header is required''
               ''include a valid Morsel access token in the Authorization header'')
      else case VerifyToken h now token of
        Inl _ \<Rightarrow> Inl (api_err 401 ''invalid_token'' ''access token is invalid or expired''
                        ''obtain a new token via POST /api/token/deploy or POST /api/token/refresh'')
      | Inr claims \<Rightarrow> Inr claims)"

text \<open>The claims are those the security handler put in the context, or none.\<close>

definition checkRepoAccess :: "Claims option \<Rightarrow> string \<Rightarrow> string \<Rightarrow> handler_error option" where
  "checkRepoAccess claims org repo =
     (case claims of
        None \<Rightarrow> Some (api_err 401 ''invalid_token'' ''request is missing an Authorization: Bearer header''
                        ''include a valid Morsel access token in the Authorization header'')
      | Some c \<Rightarrow>
          if cl_Role c = RoleDeveloper \<and> cl_Repo c \<noteq> RepoSlug org repo then
            Some (api_err 403 ''repo_mismatch'' ''token is not authorised for this repository''
                    ''use a deploy token scoped to this repository'')
          else None)"

definition requireOperator :: "Claims option \<Rightarrow> handler_error option" where
  "requireOperator claims =
     (if (case claims of None \<Rightarrow> True | Some c \<Rightarrow> \<not> IsOperatorRole (cl_Role c)) then
        Some (api_err 403 ''insufficient_role'' ''this operation requires operator role''
                ''log in as a platform operator'')
      else None)"

definition requireAdmin :: "Claims option \<Rightarrow> handler_error option" where
  "requireAdmin claims =
     (if (case claims of None \<Rightarrow> True | Some c \<Rightarrow> cl_Role c \<noteq> RoleAdmin) then
        Some (api_err 403 ''insufficient_role'' ''this operation requires admin role''
                ''log in as an admin operator'')
      else None)"

section \<open>Conversions\<close>

record OAS_Operation =
  oo_ID :: string
  oo_Type :: string
  oo_Status :: string
  oo_Progress :: string
  oo_CreatedAt :: time
  oo_CompletedAt :: "time option"
  oo_Error :: "ErrorDetail option"

definition progressMessage :: "Operation \<Rightarrow> string" where
  "progressMessage op =
     (if o_Status op = ''pending'' then ''operation queued''
      else if o_Status op = ''running'' then ''operation in progress''
      else if o_Status op = ''succeeded'' then ''operation complete''
      else if o_Status op = ''failed'' then ''operation failed''
      else o_Status op)"

definition dbOperationToOAS :: "Operation \<Rightarrow> OAS_Operation" where
  "dbOperationToOAS op =
     (let status = (if o_Status op = ''succeeded'' then ''complete''
                    else if o_Status op = ''failed'' then ''failed'' else ''pending'')
      in \<lparr> oo_ID = o_ID op, oo_Type = o_Kind op, oo_Status = status, oo_Progress = progressMessage op,
           oo_CreatedAt = o_CreatedAt op,
           oo_CompletedAt = (if status \<noteq> ''pending'' then Some (o_UpdatedAt op) else None),
           oo_Error = (case o_Error op of
                         None \<Rightarrow> None
                       | Some m \<Rightarrow> if status = ''failed'' then Some (detail ''deploy_failed'' m ''check app logs and redeploy'')
                                   else None) \<rparr>)"

record OAS_App =
  oa_Name :: "string option"
  oa_Type :: string
  oa_Status :: string
  oa_Namespace :: "string option"
  oa_Image :: "string option"
  oa_CreatedAt :: time
  oa_UpdatedAt :: time

definition dbAppToOAS :: "App \<Rightarrow> OAS_App" where
  "dbAppToOAS app =
     \<lparr> oa_Name = (if a_Name app \<noteq> [] then Some (a_Name app) else None), oa_Type = a_Type app,
       oa_Status = a_Status app, oa_Namespace = a_Namespace app, oa_Image = a_ImageCurrent app,
       oa_CreatedAt = a_CreatedAt app, oa_UpdatedAt = a_UpdatedAt app \<rparr>"

record OAS_Repo =
  or_Slug :: string
  or_Tier :: string
  or_AppCount :: int
  or_EstimatedCostMonth :: real
  or_CreatedAt :: time

definition dbRepoToOAS :: "Repo \<Rightarrow> int \<Rightarrow> real \<Rightarrow> OAS_Repo" where
  "dbRepoToOAS repo appCount costMonth =
     \<lparr> or_Slug = r_Slug repo, or_Tier = r_Tier repo, or_AppCount = appCount,
       or_EstimatedCostMonth = costMonth, or_CreatedAt = r_CreatedAt repo \<rparr>"

definition operationLocation :: "string \<Rightarrow> string \<Rightarrow> string \<Rightarrow> string \<Rightarrow> string" where
  "operationLocation org repo name opID =
     ''/api/repos/'' @ org @ ''/'' @ repo @ ''/apps/'' @ name @ ''/operations/'' @ opID"

text \<open>The accepted answer of an asynchronous operation; \<open>retryAfterDeploy\<close> is 5 seconds.\<close>

record AcceptedOperation =
  ac_Location :: string
  ac_RetryAfter :: int
  ac_OperationID :: string

definition retryAfterDeploy :: int where "retryAfterDeploy = 5"

section \<open>Properties\<close>

lemma b64_val_char: "n < 64 \<Longrightarrow> b64_val (b64_char n) = Some n"
  by (auto simp: b64_val_def b64_char_def Let_def)

lemma of_char_256 [simp]: "(of_char c :: nat) < 256"
  by (metis of_char_mod_256 mod_less_divisor zero_less_numeral)

lemma two_bytes_bound: "a < 256 \<Longrightarrow> b < 256 \<Longrightarrow> a * 256 + b < (65536 :: nat)"
  by linarith

lemma next_byte_bound: "x < 65536 \<Longrightarrow> c < 256 \<Longrightarrow> x * 256 + c < (16777216 :: nat)"
  by presburger

lemma three_bytes_bound: "a < 256 \<Longrightarrow> b < 256 \<Longrightarrow> c < 256 \<Longrightarrow> (a * 256 + b) * 256 + c < (16777216 :: nat)"
  by (intro next_byte_bound two_bytes_bound)

lemma char_of_low [simp]: "char_of (256 * x + of_char b :: nat) = b"
proof -
  have "(256 * x + of_char b) mod 256 = (of_char b :: nat)" by simp
  then show ?thesis by (metis char_of_mod_256 char_of_char)
qed

lemma digits64:
  "n div 64 div 64 div 64 = n div (262144 :: nat)" "n div 64 div 64 = n div (4096 :: nat)"
  by (simp_all add: div_mult2_eq [symmetric])

lemma digit_step: "(n div 64) * 64 + n mod 64 = (n :: nat)"
  by simp

lemma digits64_three:
  "((n div 4096 * 64) + n div 64 mod 64) * 64 + n mod 64 = (n :: nat)"
  using digit_step [of n] digit_step [of "n div 64"] by (simp add: digits64)

lemma digits64_four:
  "((n div 262144 * 64 + n div 4096 mod 64) * 64 + n div 64 mod 64) * 64 + n mod 64 = (n :: nat)"
  using digits64_three [of n] digit_step [of "n div 4096"] by (simp add: digits64 div_mult2_eq [symmetric])

lemma bytes_two:
  assumes "b < 256"
  shows "(a * 256 + b) div 256 = (a :: nat)" "(a * 256 + b) mod 256 = b"
  using assms by simp_all

lemma bytes_three:
  assumes "b < 256" "c < (256 :: nat)"
  shows "((a * 256 + b) * 256 + c) div 65536 = a" "((a * 256 + b) * 256 + c) div 256 mod 256 = b"
    "((a * 256 + b) * 256 + c) mod 256 = c"
proof -
  have "((a * 256 + b) * 256 + c) div 256 = a * 256 + b" by (rule bytes_two(1) [OF assms(2)])
  then show "((a * 256 + b) * 256 + c) div 256 mod 256 = b" using bytes_two(2) [OF assms(1)] by simp
  have "((a * 256 + b) * 256 + c) div 65536 = ((a * 256 + b) * 256 + c) div 256 div 256"
    by (simp add: div_mult2_eq [symmetric])
  then show "((a * 256 + b) * 256 + c) div 65536 = a"
    using bytes_two [OF assms(1), of a] bytes_two(1) [OF assms(2), of "a * 256 + b"] by simp
  show "((a * 256 + b) * 256 + c) mod 256 = c" by (rule bytes_two(2) [OF assms(2)])
qed

lemma b64_groups_Encode: "b64_groups (b64_Encode s) = Some s"
proof (induction s rule: b64_Encode.induct)
  case (1 a b c s)
  let ?n = "(of_char a * 256 + of_char b) * 256 + of_char c :: nat"
  have "?n < 16777216" by (rule three_bytes_bound) simp_all
  then have "?n div 262144 < 64" by (simp del: of_char_256)
  then have dec: "b64_groups (b64_Encode (a # b # c # s)) =
      Some (char_of (?n div 65536) # char_of (?n div 256 mod 256) # char_of (?n mod 256) # s)"
    using 1 digits64_four [of ?n] by (simp add: b64_val_char Let_def)
  show ?case unfolding dec using bytes_three [of "of_char b" "of_char c" "of_char a"] by simp
next
  case (2 a b)
  let ?m = "of_char a * 256 + of_char b :: nat"
  have "?m < 65536" by (rule two_bytes_bound) simp_all
  then have "?m * 4 div 4096 < 64" by (simp del: of_char_256)
  then have dec: "b64_groups (b64_Encode [a, b]) = Some [char_of (?m div 256), char_of (?m mod 256)]"
    using digits64_three [of "?m * 4"] by (simp add: b64_val_char Let_def)
  show ?case unfolding dec using bytes_two [of "of_char b" "of_char a"] by simp
next
  case (3 a)
  have "of_char a * 16 div 64 < (64 :: nat)" using of_char_256 [of a] by linarith
  then show ?case
    using digit_step [of "of_char a * 16"] by (simp add: b64_val_char Let_def)
qed simp

lemma b64_char_val: "b64_val (b64_char n) \<noteq> None"
  by (auto simp: b64_val_def b64_char_def Let_def)

lemma b64_Encode_range: "set (b64_Encode s) \<subseteq> range b64_char"
  by (induction s rule: b64_Encode.induct) (auto simp: Let_def)

lemma b64_Encode_alphabet: "c \<in> set (b64_Encode s) \<Longrightarrow> b64_val c \<noteq> None"
  using b64_Encode_range [of s] b64_char_val by blast

lemma b64_Encode_chars: "CHR ''.'' \<notin> set (b64_Encode s)" "CHR 0x0A \<notin> set (b64_Encode s)" "CHR 0x0D \<notin> set (b64_Encode s)"
  using b64_Encode_alphabet [of "CHR ''.''" s] b64_Encode_alphabet [of "CHR 0x0A" s] b64_Encode_alphabet [of "CHR 0x0D" s]
  by (auto simp: b64_val_def Let_def)

text \<open>A refresh token survives its transport: decoding the base64 text of any bytes returns those bytes.\<close>

lemma b64_Decode_Encode: "b64_Decode (b64_Encode s) = Some s"
proof -
  have "filter (\<lambda>c. c \<noteq> CHR 0x0A \<and> c \<noteq> CHR 0x0D) (b64_Encode s) = b64_Encode s"
    using b64_Encode_chars [of s] by (auto simp: filter_id_conv)
  then show ?thesis by (simp add: b64_Decode_def b64_groups_Encode)
qed

text \<open>
  The two error paths of the server agree: an error answered through ogen's convenient-error
  hook (\<open>NewError\<close>) and the same error answered through the error handler (\<open>WriteError\<close>) give the same
  status and body.
\<close>

theorem NewError_eq_WriteError: "NewError err = WriteError err"
  by (cases err) (simp_all add: NewError_def WriteError_def internal_error_def ErrorCode_def Let_def)

lemma checkRepoAccess_developer:
  "cl_Role c = RoleDeveloper \<Longrightarrow> checkRepoAccess (Some c) org repo = None \<longleftrightarrow> cl_Repo c = RepoSlug org repo"
  by (simp add: checkRepoAccess_def)

end
