(* ===== verification/Lifecycle.thy ===== *)
theory Lifecycle
  imports Cost Api
begin

text \<open>
  The background work on an app: \<open>api/handler/lifecycle.go\<close>, \<open>runDeploy\<close> of \<open>apps.go\<close> and
  \<open>propagateTierToNamespaces\<close> of \<open>tiers.go\<close>.

  The interface \<open>AppDeployer\<close> of \<open>handler.go\<close> is the record \<open>AppDeployer\<close> of its methods over a state
  \<open>'k\<close> of the cluster; a call that fails returns the text of its error. A handler does not wait for a
  goroutine: it returns the task it spawned, and \<open>run_task\<close> is what the goroutine does.
\<close>

record TierLimits =
  tl_CPUMilli :: int
  tl_MemoryMB :: int

record AppManifest =
  m_Namespace :: string
  m_AppName :: string
  m_RepoName :: string
  m_Type :: string
  m_Image :: string
  m_Port :: int
  m_Env :: "(string \<times> string) list"
  m_Schedule :: string
  m_Private :: bool
  m_BaseDomain :: string
  m_GatewayNS :: string
  m_Limits :: TierLimits

type_synonym 'k effect = "string option \<times> 'k"

record 'k AppDeployer =
  dp_Apply :: "'k \<Rightarrow> AppManifest \<Rightarrow> 'k effect"
  dp_Delete :: "'k \<Rightarrow> string \<Rightarrow> 'k effect"
  dp_WatchDeploymentRollout :: "'k \<Rightarrow> string \<Rightarrow> 'k effect"
  dp_RollbackDeployment :: "'k \<Rightarrow> string \<Rightarrow> string \<Rightarrow> 'k effect"
  dp_AppStatus :: "'k \<Rightarrow> string \<Rightarrow> string \<Rightarrow> string"
  dp_GetTLSCertExpiry :: "'k \<Rightarrow> string \<Rightarrow> string \<Rightarrow> string + time option"
  dp_ScaleDeployment :: "'k \<Rightarrow> string \<Rightarrow> int \<Rightarrow> 'k effect"
  dp_SuspendCronJob :: "'k \<Rightarrow> string \<Rightarrow> 'k effect"
  dp_UnsuspendCronJob :: "'k \<Rightarrow> string \<Rightarrow> 'k effect"
  dp_RouteToWakeProxy :: "'k \<Rightarrow> string \<Rightarrow> string \<Rightarrow> string \<Rightarrow> string \<Rightarrow> 'k effect"
  dp_RestoreHTTPRoute :: "'k \<Rightarrow> string \<Rightarrow> string \<Rightarrow> string \<Rightarrow> string \<Rightarrow> 'k effect"
  dp_WatchDeploymentReady :: "'k \<Rightarrow> string \<Rightarrow> duration \<Rightarrow> 'k effect"
  dp_AppReplicaCounts :: "'k \<Rightarrow> string \<Rightarrow> string \<Rightarrow> int \<times> int"
  dp_ApplyNamespaceTier :: "'k \<Rightarrow> string \<Rightarrow> TierLimits \<Rightarrow> 'k effect"
  dp_VerifyWakeToken :: "'k \<Rightarrow> string \<Rightarrow> string option"

definition GatewayExternal :: string where "GatewayExternal = ''morsel-external''"

text \<open>The next call, if the one before did not fail.\<close>

definition and_then :: "'k effect \<Rightarrow> ('k \<Rightarrow> 'k effect) \<Rightarrow> 'k effect" where
  "and_then r f = (case r of (Some e, k) \<Rightarrow> (Some e, k) | (None, k) \<Rightarrow> f k)"

section \<open>Deploying\<close>

definition fail_deploy :: "db \<Rightarrow> string \<Rightarrow> int \<Rightarrow> string \<Rightarrow> db" where
  "fail_deploy s opID appID err =
     (let s1 = log_err s (FailOperation s opID err) in log_err s1 (UpdateAppStatus s1 appID ''failed''))"

definition runDeploy ::
  "'k AppDeployer \<Rightarrow> string \<Rightarrow> int \<Rightarrow> AppManifest \<Rightarrow> string \<Rightarrow> db \<times> 'k \<Rightarrow> db \<times> 'k" where
  "runDeploy dep opID appID m lastHealthyImage = (\<lambda>(s, k).
     let s1 = log_err s (StartOperation s opID);
         s2 = log_err s1 (UpdateAppStatus s1 appID ''deploying'')
     in case dp_Apply dep k m of
          (Some err, k1) \<Rightarrow> (fail_deploy s2 opID appID err, k1)
        | (None, k1) \<Rightarrow>
            (case (if m_Type m \<noteq> ''cron'' then dp_WatchDeploymentRollout dep k1 (m_Namespace m) else (None, k1)) of
               (Some err, k2) \<Rightarrow>
                 (if lastHealthyImage \<noteq> [] then
                    (case dp_RollbackDeployment dep k2 (m_Namespace m) lastHealthyImage of
                       (Some _, k3) \<Rightarrow> (fail_deploy s2 opID appID err, k3)
                     | (None, k3) \<Rightarrow>
                         (fail_deploy (log_err s2 (UpdateAppImages s2 appID lastHealthyImage lastHealthyImage))
                            opID appID err, k3))
                  else (fail_deploy s2 opID appID err, k2))
             | (None, k2) \<Rightarrow>
                 let s3 = log_err s2 (UpdateAppImages s2 appID (m_Image m) (m_Image m));
                     s4 = log_err s3 (UpdateAppStatus s3 appID ''running'');
                     s5 = log_err s4 (RecordScaleEvent s4 (m_Namespace m) (m_AppName m) ''scale_to_1'')
                 in (log_err s5 (SucceedOperation s5 opID), k2)))"

section \<open>Hibernating, waking and deleting\<close>

text \<open>The switch on the type of the app.\<close>

definition scale_down :: "'k AppDeployer \<Rightarrow> string \<Rightarrow> string \<Rightarrow> string \<Rightarrow> string \<Rightarrow> 'k \<Rightarrow> 'k effect" where
  "scale_down dep platNS appType ns host k =
     (if appType = ''http'' then
        and_then (dp_RouteToWakeProxy dep k ns host platNS GatewayExternal) (\<lambda>k. dp_ScaleDeployment dep k ns 0)
      else if appType = ''worker'' then dp_ScaleDeployment dep k ns 0
      else if appType = ''cron'' then dp_SuspendCronJob dep k ns
      else (None, k))"

definition scale_up :: "'k AppDeployer \<Rightarrow> string \<Rightarrow> string \<Rightarrow> string \<Rightarrow> string \<Rightarrow> 'k \<Rightarrow> 'k effect" where
  "scale_up dep platNS appType ns host k =
     (if appType = ''http'' then
        and_then (dp_ScaleDeployment dep k ns 1)
          (\<lambda>k. and_then (dp_WatchDeploymentReady dep k ns (5 * Minute))
            (\<lambda>k. dp_RestoreHTTPRoute dep k ns host platNS GatewayExternal))
      else if appType = ''worker'' then dp_ScaleDeployment dep k ns 1
      else if appType = ''cron'' then dp_UnsuspendCronJob dep k ns
      else (None, k))"

text \<open>Recording a hibernation, the tail of every path that scales an app down.\<close>

definition record_hibernated :: "db \<Rightarrow> string \<Rightarrow> string \<Rightarrow> int \<Rightarrow> string \<Rightarrow> db" where
  "record_hibernated s ns appName appID reason =
     (let s1 = log_err s (RecordScaleEvent s ns appName ''scale_to_0'');
          s2 = log_err s1 (SetAppHibernated s1 appID reason)
      in log_err s2 (UpdateAppStatus s2 appID ''hibernated''))"

definition hibernateApp ::
  "'k AppDeployer \<Rightarrow> string \<Rightarrow> string \<Rightarrow> int \<Rightarrow> string \<Rightarrow> string \<Rightarrow> string \<Rightarrow> string \<Rightarrow> db \<times> 'k \<Rightarrow> db \<times> 'k" where
  "hibernateApp dep platNS opID appID appType appName ns host = (\<lambda>(s, k).
     let s1 = log_err s (StartOperation s opID)
     in case scale_down dep platNS appType ns host k of
          (Some err, k1) \<Rightarrow> (log_err s1 (FailOperation s1 opID err), k1)
        | (None, k1) \<Rightarrow>
            let s4 = record_hibernated s1 ns appName appID ''manual''
            in (log_err s4 (SucceedOperation s4 opID), k1))"

definition wakeApp ::
  "'k AppDeployer \<Rightarrow> string \<Rightarrow> string \<Rightarrow> int \<Rightarrow> string \<Rightarrow> string \<Rightarrow> string \<Rightarrow> string \<Rightarrow> db \<times> 'k \<Rightarrow> db \<times> 'k" where
  "wakeApp dep platNS opID appID appType appName ns host = (\<lambda>(s, k).
     let s1 = log_err s (StartOperation s opID)
     in case scale_up dep platNS appType ns host k of
          (Some err, k1) \<Rightarrow> (log_err s1 (FailOperation s1 opID err), k1)
        | (None, k1) \<Rightarrow>
            let s2 = log_err s1 (RecordScaleEvent s1 ns appName ''scale_to_1'');
                s3 = log_err s2 (SetAppAwake s2 appID);
                s4 = log_err s3 (UpdateAppStatus s3 appID ''running'')
            in (log_err s4 (SucceedOperation s4 opID), k1))"

definition deleteApp ::
  "'k AppDeployer \<Rightarrow> string \<Rightarrow> int \<Rightarrow> string \<Rightarrow> db \<times> 'k \<Rightarrow> db \<times> 'k" where
  "deleteApp dep opID appID ns = (\<lambda>(s, k).
     let s1 = log_err s (StartOperation s opID)
     in case dp_Delete dep k ns of
          (Some err, k1) \<Rightarrow> (log_err s1 (FailOperation s1 opID err), k1)
        | (None, k1) \<Rightarrow>
            let s2 = log_err s1 (UpdateAppStatus s1 appID ''deleted'')
            in (log_err s2 (SucceedOperation s2 opID), k1))"

section \<open>Propagating a tier\<close>

fun apply_tier_apps :: "'k AppDeployer \<Rightarrow> TierLimits \<Rightarrow> App list \<Rightarrow> 'k \<Rightarrow> 'k" where
  "apply_tier_apps dep limits [] k = k"
| "apply_tier_apps dep limits (app # apps) k =
     (case a_Namespace app of
        None \<Rightarrow> apply_tier_apps dep limits apps k
      | Some ns \<Rightarrow>
          if ns = [] then apply_tier_apps dep limits apps k
          else apply_tier_apps dep limits apps (snd (dp_ApplyNamespaceTier dep k ns limits)))"

fun apply_tier_repos :: "'k AppDeployer \<Rightarrow> TierLimits \<Rightarrow> db \<Rightarrow> Repo list \<Rightarrow> 'k \<Rightarrow> 'k" where
  "apply_tier_repos dep limits s [] k = k"
| "apply_tier_repos dep limits s (repo # repos) k =
     (case ListApps s (r_Slug repo) of
        Inl _ \<Rightarrow> apply_tier_repos dep limits s repos k
      | Inr apps \<Rightarrow> apply_tier_repos dep limits s repos (apply_tier_apps dep limits apps k))"

definition propagateTierToNamespaces ::
  "'k AppDeployer \<Rightarrow> string \<Rightarrow> TierLimits \<Rightarrow> db \<times> 'k \<Rightarrow> db \<times> 'k" where
  "propagateTierToNamespaces dep tierName limits = (\<lambda>(s, k).
     case ListReposByTier s tierName of
       Inl _ \<Rightarrow> (s, k)
     | Inr repos \<Rightarrow> (s, apply_tier_repos dep limits s repos k))"

section \<open>Goroutines\<close>

datatype task =
    RunDeploy string int AppManifest string
  | RunHibernate string int string string string string
  | RunWake string int string string string string
  | RunDelete string int string
  | RunPropagate string TierLimits

fun run_task :: "henv \<Rightarrow> 'k AppDeployer \<Rightarrow> task \<Rightarrow> db \<times> 'k \<Rightarrow> db \<times> 'k" where
  "run_task h dep (RunDeploy opID appID m lastHealthy) w = runDeploy dep opID appID m lastHealthy w"
| "run_task h dep (RunHibernate opID appID typ name ns host) w =
     hibernateApp dep (h_Namespace h) opID appID typ name ns host w"
| "run_task h dep (RunWake opID appID typ name ns host) w =
     wakeApp dep (h_Namespace h) opID appID typ name ns host w"
| "run_task h dep (RunDelete opID appID ns) w = deleteApp dep opID appID ns w"
| "run_task h dep (RunPropagate tier limits) w = propagateTierToNamespaces dep tier limits w"

section \<open>Every task changes the database by steps of the store\<close>

lemmas task_steps = log_err_steps_trans rtranclp.rtrancl_refl store_step.intros

lemma fail_deploy_steps: "store_steps c s \<Longrightarrow> store_steps c (fail_deploy s opID appID err)"
  unfolding fail_deploy_def Let_def by (intro log_err_steps_trans) (auto intro: store_step.intros)

lemma record_hibernated_steps: "store_steps c s \<Longrightarrow> store_steps c (record_hibernated s ns app i reason)"
  unfolding record_hibernated_def Let_def by (intro log_err_steps_trans) (auto intro: store_step.intros)

lemma runDeploy_steps: "store_steps s (fst (runDeploy dep opID appID m lh (s, k)))"
  by (auto simp: runDeploy_def Let_def split: option.splits prod.splits
      intro!: fail_deploy_steps log_err_steps_trans intro: store_step.intros)

lemma hibernateApp_steps: "store_steps s (fst (hibernateApp dep platNS opID i typ name ns host (s, k)))"
  by (auto simp: hibernateApp_def Let_def split: option.splits prod.splits
      intro!: record_hibernated_steps log_err_steps_trans intro: store_step.intros)

lemma wakeApp_steps: "store_steps s (fst (wakeApp dep platNS opID i typ name ns host (s, k)))"
  by (auto simp: wakeApp_def Let_def split: option.splits prod.splits
      intro!: log_err_steps_trans intro: store_step.intros)

lemma deleteApp_steps: "store_steps s (fst (deleteApp dep opID i ns (s, k)))"
  by (auto simp: deleteApp_def Let_def split: option.splits prod.splits
      intro!: log_err_steps_trans intro: store_step.intros)

lemma run_task_steps: "store_steps s (fst (run_task h dep t (s, k)))"
  by (cases t) (auto simp: runDeploy_steps hibernateApp_steps wakeApp_steps deleteApp_steps
      propagateTierToNamespaces_def split: sum.splits)

section \<open>Outcomes\<close>

text \<open>The outcome of a deploy on the cluster: the error that fails it, if any.\<close>

definition deploy_error :: "'k AppDeployer \<Rightarrow> AppManifest \<Rightarrow> 'k \<Rightarrow> string option" where
  "deploy_error dep m k =
     (case dp_Apply dep k m of
        (Some e, _) \<Rightarrow> Some e
      | (None, k1) \<Rightarrow> if m_Type m \<noteq> ''cron'' then fst (dp_WatchDeploymentRollout dep k1 (m_Namespace m)) else None)"

text \<open>Whether a failed rollout was rolled back.\<close>

definition rolled_back :: "'k AppDeployer \<Rightarrow> AppManifest \<Rightarrow> string \<Rightarrow> 'k \<Rightarrow> bool" where
  "rolled_back dep m lastHealthy k \<longleftrightarrow>
     (case dp_Apply dep k m of
        (Some _, _) \<Rightarrow> False
      | (None, k1) \<Rightarrow> m_Type m \<noteq> ''cron'' \<and> lastHealthy \<noteq> [] \<and>
          (case dp_WatchDeploymentRollout dep k1 (m_Namespace m) of
             (None, _) \<Rightarrow> False
           | (Some _, k2) \<Rightarrow> fst (dp_RollbackDeployment dep k2 (m_Namespace m) lastHealthy) = None))"

text \<open>
  C7. A deploy ends in one of two states on a reliable database. If applying the manifests or the
  rollout fails, the operation is failed with that error and the app's status is failed; if the
  rollout was rolled back the app's images are the last healthy one, otherwise they are unchanged.
  If nothing fails, the operation succeeded, the app is running, both images are the deployed one and
  a scale_to_1 event is appended. The operation is never left pending or running.
\<close>

theorem runDeploy_outcome:
  assumes "reliable s" "find_op s opID = Some x" "find_app s appID = Some a"
    and "runDeploy dep opID appID m lastHealthy (s, k) = (s', k')"
  shows "case deploy_error dep m k of
      Some e \<Rightarrow>
        (\<exists>x'. find_op s' opID = Some x' \<and> o_Status x' = ''failed'' \<and> o_Error x' = Some e) \<and>
        (\<exists>a'. find_app s' appID = Some a' \<and> a_Status a' = ''failed'' \<and>
           (if rolled_back dep m lastHealthy k
            then a_ImageCurrent a' = Some lastHealthy \<and> a_ImageLastHealthy a' = Some lastHealthy
            else a_ImageCurrent a' = a_ImageCurrent a \<and> a_ImageLastHealthy a' = a_ImageLastHealthy a)) \<and>
        t_scale_events s' = t_scale_events s
    | None \<Rightarrow>
        (\<exists>x'. find_op s' opID = Some x' \<and> o_Status x' = ''succeeded'' \<and> o_Error x' = None) \<and>
        (\<exists>a'. find_app s' appID = Some a' \<and> a_Status a' = ''running'' \<and>
           a_ImageCurrent a' = null_string (m_Image m) \<and> a_ImageLastHealthy a' = null_string (m_Image m)) \<and>
        (\<exists>e. t_scale_events s' = t_scale_events s @ [e] \<and> se_Event e = ''scale_to_1'' \<and>
           se_Namespace e = m_Namespace m \<and> se_App e = m_AppName m)"
  using assms
  by (auto simp: runDeploy_def Let_def deploy_error_def rolled_back_def fail_deploy_def null_string_def
      split: option.splits prod.splits if_splits)

text \<open>A cluster on which every call succeeds, and one on which no rollout does.\<close>

definition ok_deployer :: "unit AppDeployer" where
  "ok_deployer = \<lparr> dp_Apply = (\<lambda>k m. (None, k)), dp_Delete = (\<lambda>k ns. (None, k)),
     dp_WatchDeploymentRollout = (\<lambda>k ns. (None, k)), dp_RollbackDeployment = (\<lambda>k ns img. (None, k)),
     dp_AppStatus = (\<lambda>k ns typ. ''running''), dp_GetTLSCertExpiry = (\<lambda>k ns n. Inr None),
     dp_ScaleDeployment = (\<lambda>k ns n. (None, k)), dp_SuspendCronJob = (\<lambda>k ns. (None, k)),
     dp_UnsuspendCronJob = (\<lambda>k ns. (None, k)), dp_RouteToWakeProxy = (\<lambda>k ns host gns gn. (None, k)),
     dp_RestoreHTTPRoute = (\<lambda>k ns host gns gn. (None, k)), dp_WatchDeploymentReady = (\<lambda>k ns t. (None, k)),
     dp_AppReplicaCounts = (\<lambda>k ns typ. (1, 1)), dp_ApplyNamespaceTier = (\<lambda>k ns l. (None, k)),
     dp_VerifyWakeToken = (\<lambda>k t. None) \<rparr>"

definition bad_rollout :: "unit AppDeployer" where
  "bad_rollout = ok_deployer\<lparr>dp_WatchDeploymentRollout := (\<lambda>k ns. (Some ''timed out'', k))\<rparr>"

definition demo_app :: App where
  "demo_app = \<lparr> a_ID = 1, a_RepoSlug = ''o/r'', a_Name = ''web'', a_Type = ''http'', a_Status = ''pending'',
     a_Namespace = Some ''o-r--web'', a_ImageCurrent = Some ''img2'', a_ImageLastHealthy = Some ''img1'',
     a_Permanent = 0, a_DeletionPending = 0, a_DeletedAt = None, a_CreatedAt = 0, a_UpdatedAt = 0,
     a_Hibernated = 0, a_HibernatedAt = None, a_HibernationReason = None, a_LastActiveAt = None, a_IdleAfter = None \<rparr>"

definition demo_op :: Operation where
  "demo_op = \<lparr> o_ID = ''op_1'', o_RepoSlug = ''o/r'', o_AppName = ''web'', o_Kind = ''deploy'', o_Status = ''pending'',
     o_Error = None, o_CreatedAt = 0, o_UpdatedAt = 0 \<rparr>"

definition demo_db :: db where
  "demo_db = (initial_db 0)\<lparr>t_repos := [\<lparr> r_Slug = ''o/r'', r_Tier = ''small'', r_CreatedAt = 0 \<rparr>],
     t_apps := [demo_app], t_operations := [demo_op], seq_apps := 1\<rparr>"

definition demo_manifest :: AppManifest where
  "demo_manifest = \<lparr> m_Namespace = ''o-r--web'', m_AppName = ''web'', m_RepoName = ''r'', m_Type = ''http'',
     m_Image = ''img2'', m_Port = 0, m_Env = [], m_Schedule = [], m_Private = False, m_BaseDomain = ''d'',
     m_GatewayNS = ''morsel'', m_Limits = \<lparr> tl_CPUMilli = 0, tl_MemoryMB = 0 \<rparr> \<rparr>"

lemma demo_reliable [simp]: "reliable demo_db"
  by (simp add: reliable_def demo_db_def initial_db_def)

lemma demo_lookups [simp]:
  "find_op demo_db ''op_1'' = Some demo_op" "find_app demo_db 1 = Some demo_app"
  by (simp_all add: find_op_def find_app_def op_tab.by_key_def app_id_tab.by_key_def demo_db_def demo_op_def demo_app_def)

text \<open>A rollout that times out is rolled back to the last healthy image.\<close>

lemma runDeploy_outcome_witness:
  "\<exists>s'. fst (runDeploy bad_rollout ''op_1'' 1 demo_manifest ''img1'' (demo_db, ())) = s' \<and>
     (\<exists>x'. find_op s' ''op_1'' = Some x' \<and> o_Status x' = ''failed'' \<and> o_Error x' = Some ''timed out'') \<and>
     (\<exists>a'. find_app s' 1 = Some a' \<and> a_Status a' = ''failed'' \<and> a_ImageCurrent a' = Some ''img1'')"
proof -
  obtain s' where r: "runDeploy bad_rollout ''op_1'' 1 demo_manifest ''img1'' (demo_db, ()) = (s', ())"
    by (cases "runDeploy bad_rollout ''op_1'' 1 demo_manifest ''img1'' (demo_db, ())") auto
  from runDeploy_outcome [OF demo_reliable demo_lookups r] r
  show ?thesis
    by (auto simp: deploy_error_def rolled_back_def bad_rollout_def ok_deployer_def demo_manifest_def)
qed

text \<open>
  Hibernating an app on a reliable database: when the cluster calls for its type succeed, the
  operation succeeded, the app is hibernated with reason manual and a scale_to_0 event is appended;
  when one fails, the operation is failed with that error and neither the app nor the events change.
\<close>

theorem hibernateApp_outcome:
  assumes "reliable s" "find_op s opID = Some x" "find_app s appID = Some a"
    and "hibernateApp dep platNS opID appID typ name ns host (s, k) = (s', k')"
  shows "case fst (scale_down dep platNS typ ns host k) of
      Some e \<Rightarrow>
        (\<exists>x'. find_op s' opID = Some x' \<and> o_Status x' = ''failed'' \<and> o_Error x' = Some e) \<and>
        find_app s' appID = Some a \<and> t_scale_events s' = t_scale_events s
    | None \<Rightarrow>
        (\<exists>x'. find_op s' opID = Some x' \<and> o_Status x' = ''succeeded'' \<and> o_Error x' = None) \<and>
        (\<exists>a'. find_app s' appID = Some a' \<and> a_Status a' = ''hibernated'' \<and> a_Hibernated a' = 1 \<and>
           a_HibernationReason a' = Some ''manual'' \<and> a_HibernatedAt a' = Some (sql_now s)) \<and>
        (\<exists>e. t_scale_events s' = t_scale_events s @ [e] \<and> se_Event e = ''scale_to_0'' \<and>
           se_Namespace e = ns \<and> se_App e = name \<and> se_OccurredAt e = db_now s)"
  using assms
  by (auto simp: hibernateApp_def record_hibernated_def Let_def null_string_def
      split: option.splits prod.splits if_splits)

lemma hibernateApp_outcome_witness:
  "\<exists>s' a'. fst (hibernateApp ok_deployer ''morsel'' ''op_1'' 1 ''http'' ''web'' ''o-r--web'' ''h'' (demo_db, ())) = s' \<and>
     find_app s' 1 = Some a' \<and> a_Hibernated a' = 1"
proof -
  obtain s' where r:
    "hibernateApp ok_deployer ''morsel'' ''op_1'' 1 ''http'' ''web'' ''o-r--web'' ''h'' (demo_db, ()) = (s', ())"
    by (cases "hibernateApp ok_deployer ''morsel'' ''op_1'' 1 ''http'' ''web'' ''o-r--web'' ''h'' (demo_db, ())") auto
  from hibernateApp_outcome [OF demo_reliable demo_lookups r] r
  show ?thesis by (auto simp: scale_down_def and_then_def ok_deployer_def)
qed

text \<open>
  C19. Waking undoes hibernating: after a hibernation and a wake whose cluster calls succeed, the app
  is running and not hibernated, both operations succeeded, the images and the type are what they
  were, and exactly a scale_to_0 and a scale_to_1 event have been appended.
\<close>

theorem hibernate_then_wake:
  assumes "reliable s" "find_op s op1 = Some x1" "find_op s op2 = Some x2" "op1 \<noteq> op2" "find_app s i = Some a"
    and "hibernateApp dep platNS op1 i typ name ns host (s, k) = (s1, k1)"
    and "fst (scale_down dep platNS typ ns host k) = None"
    and "wakeApp dep platNS op2 i typ name ns host (s1, k1) = (s2, k2)"
    and "fst (scale_up dep platNS typ ns host k1) = None"
  shows "(\<exists>y1. find_op s2 op1 = Some y1 \<and> o_Status y1 = ''succeeded'') \<and>
    (\<exists>y2. find_op s2 op2 = Some y2 \<and> o_Status y2 = ''succeeded'') \<and>
    find_app s2 i = Some (a\<lparr>a_Status := ''running'', a_Hibernated := 0, a_HibernatedAt := None,
      a_HibernationReason := None, a_UpdatedAt := sql_now s\<rparr>) \<and>
    map se_Event (t_scale_events s2) = map se_Event (t_scale_events s) @ [''scale_to_0'', ''scale_to_1'']"
  using assms
  by (auto simp: hibernateApp_def wakeApp_def record_hibernated_def Let_def split: option.splits prod.splits if_splits)

definition demo_db2 :: db where
  "demo_db2 = demo_db\<lparr>t_operations := [demo_op, demo_op\<lparr>o_ID := ''op_2''\<rparr>]\<rparr>"

lemma hibernate_then_wake_witness:
  "\<exists>s1 s2 a'. hibernateApp ok_deployer ''m'' ''op_1'' 1 ''http'' ''web'' ''ns'' ''h'' (demo_db2, ()) = (s1, ()) \<and>
     wakeApp ok_deployer ''m'' ''op_2'' 1 ''http'' ''web'' ''ns'' ''h'' (s1, ()) = (s2, ()) \<and>
     find_app s2 1 = Some a' \<and> a_Hibernated a' = 0 \<and> a_Status a' = ''running''"
proof -
  have l: "reliable demo_db2" "find_op demo_db2 ''op_1'' = Some demo_op"
    "find_op demo_db2 ''op_2'' = Some (demo_op\<lparr>o_ID := ''op_2''\<rparr>)" "''op_1'' \<noteq> ''op_2''"
    "find_app demo_db2 1 = Some demo_app"
    by (simp_all add: reliable_def find_op_def find_app_def op_tab.by_key_def app_id_tab.by_key_def demo_db2_def
        demo_db_def demo_op_def demo_app_def initial_db_def)
  obtain s1 where h: "hibernateApp ok_deployer ''m'' ''op_1'' 1 ''http'' ''web'' ''ns'' ''h'' (demo_db2, ()) = (s1, ())"
    by (cases "hibernateApp ok_deployer ''m'' ''op_1'' 1 ''http'' ''web'' ''ns'' ''h'' (demo_db2, ())") auto
  obtain s2 where w: "wakeApp ok_deployer ''m'' ''op_2'' 1 ''http'' ''web'' ''ns'' ''h'' (s1, ()) = (s2, ())"
    by (cases "wakeApp ok_deployer ''m'' ''op_2'' 1 ''http'' ''web'' ''ns'' ''h'' (s1, ())") auto
  have "fst (scale_down ok_deployer ''m'' ''http'' ''ns'' ''h'' ()) = None"
    "fst (scale_up ok_deployer ''m'' ''http'' ''ns'' ''h'' ()) = None"
    by (simp_all add: scale_down_def scale_up_def and_then_def ok_deployer_def)
  from hibernate_then_wake [OF l h this(1) w this(2)] h w show ?thesis by auto
qed

end
