(* ===== verification/Exemptions.thy ===== *)
theory Exemptions
  imports Store
begin

text \<open>
  Budget exemptions: what granting, removing and expiring them does to the question \<open>IsAppExempt\<close>
  asks. The abstract view of the table is the set of exempt apps at an instant.
\<close>

definition exempt_at :: "db \<Rightarrow> string \<Rightarrow> string \<Rightarrow> bool" where
  "exempt_at d slug app \<longleftrightarrow> (\<exists>e \<in> set (t_exemptions d). covers slug app e \<and> active_at (sql_now d) e)"

lemma IsAppExempt_exempt: "IsAppExempt d slug app = Inr b \<Longrightarrow> b = exempt_at d slug app"
  by (auto simp: IsAppExempt_def IsAppExempt_q_def guarded_Inr exempt_at_def)

lemma IsAppExempt_reliable [simp]: "reliable d \<Longrightarrow> IsAppExempt d slug app = Inr (exempt_at d slug app)"
  by (simp add: IsAppExempt_def IsAppExempt_q_def exempt_at_def)

definition key_covers :: "string \<Rightarrow> string \<Rightarrow> string \<Rightarrow> string \<Rightarrow> string \<Rightarrow> bool" where
  "key_covers kind slug app s a \<longleftrightarrow> s = slug \<and> (kind = ''repo'' \<or> kind = ''app'' \<and> a = app)"

lemma covers_key: "is_exemption kind slug app typ e \<Longrightarrow> covers s a e = key_covers kind slug app s a"
  by (auto simp: covers_def is_exemption_def key_covers_def)

text \<open>An upsert with an expiry in the future exempts what its key covers and nothing else.\<close>

lemma UpsertExemption_exempt:
  assumes "UpsertExemption_q d kind slug app typ x = Inr d'"
    and "case x of None \<Rightarrow> True | Some t \<Rightarrow> sql_now d < t"
  shows "exempt_at d' s a = (exempt_at d s a \<or> key_covers kind slug app s a)"
proof (cases "sel (is_exemption kind slug app typ) (t_exemptions d)")
  case None
  then have "t_exemptions d' = t_exemptions d @
      [\<lparr> e_ID = seq_exemptions d + 1, e_Kind = kind, e_RepoSlug = slug, e_AppName = app,
         e_Type = typ, e_ExpiresAt = x, e_CreatedAt = sql_now d \<rparr>]" "sql_now d' = sql_now d"
    using assms(1) by (auto simp: UpsertExemption_q_def guarded_Inr sql_now_def)
  with assms(2) show ?thesis
    by (auto simp: exempt_at_def active_at_def covers_def key_covers_def split: option.splits)
next
  case (Some e0)
  let ?P = "is_exemption kind slug app typ" and ?f = "\<lambda>e. e\<lparr>e_ExpiresAt := x\<rparr>"
  have t': "t_exemptions d' = upd ?P ?f (t_exemptions d)" and n: "sql_now d' = sql_now d"
    using assms(1) Some by (auto simp: UpsertExemption_q_def guarded_Inr sql_now_def)
  have act: "active_at (sql_now d) (?f e)" for e using assms(2) by (simp add: active_at_def split: option.splits)
  have cov: "covers s a (?f e) = covers s a e" for e by (simp add: covers_def)
  have e0: "e0 \<in> set (t_exemptions d)" "?P e0" using sel_Some [OF Some] by auto
  show ?thesis
  proof
    assume "exempt_at d' s a"
    then obtain e where e: "e \<in> set (t_exemptions d)" "covers s a (if ?P e then ?f e else e)"
      "active_at (sql_now d) (if ?P e then ?f e else e)" by (auto simp: exempt_at_def t' n set_upd)
    then show "exempt_at d s a \<or> key_covers kind slug app s a"
      by (cases "?P e") (auto simp: cov covers_key exempt_at_def)
  next
    assume "exempt_at d s a \<or> key_covers kind slug app s a"
    then show "exempt_at d' s a"
    proof
      assume "key_covers kind slug app s a"
      then have "covers s a (?f e0)" using e0 by (simp add: cov covers_key)
      moreover have "?f e0 \<in> set (t_exemptions d')" unfolding t' using e0 by (rule upd_mem)
      ultimately show ?thesis using act n unfolding exempt_at_def by metis
    next
      assume "exempt_at d s a"
      then obtain e where e: "e \<in> set (t_exemptions d)" "covers s a e" "active_at (sql_now d) e"
        by (auto simp: exempt_at_def)
      have "(if ?P e then ?f e else e) \<in> set (t_exemptions d')" unfolding t' set_upd using e(1) by blast
      moreover have "covers s a (if ?P e then ?f e else e)" "active_at (sql_now d) (if ?P e then ?f e else e)"
        using e act cov by auto
      ultimately show ?thesis using n unfolding exempt_at_def by metis
    qed
  qed
qed

lemma UpsertExemption_row:
  assumes "UpsertExemption_q d kind slug app typ x = Inr d'"
  shows "\<exists>e \<in> set (t_exemptions d'). is_exemption kind slug app typ e \<and> e_ExpiresAt e = x"
proof (cases "sel (is_exemption kind slug app typ) (t_exemptions d)")
  case None
  then show ?thesis using assms by (auto simp: UpsertExemption_q_def guarded_Inr is_exemption_def)
next
  case (Some e0)
  have "e0\<lparr>e_ExpiresAt := x\<rparr> \<in> set (t_exemptions d')" "is_exemption kind slug app typ (e0\<lparr>e_ExpiresAt := x\<rparr>)"
    using assms Some sel_Some [OF Some]
      upd_mem [of e0 "t_exemptions d" "is_exemption kind slug app typ" "\<lambda>e. e\<lparr>e_ExpiresAt := x\<rparr>"]
    by (auto simp: UpsertExemption_q_def guarded_Inr is_exemption_def)
  then show ?thesis by force
qed

text \<open>
  Granting exemptions: after an app exemption exactly that app is exempt in addition, after a repo
  exemption every app of the repo, after a period exemption that ends in the future that app.
\<close>

theorem exemption_grants:
  assumes "AddAppExemption d slug app = Inr d1" "AddRepoExemption d slug = Inr d2"
    and "AddPeriodExemption d slug app pend = Inr d3" "sql_now d < pend"
  shows "exempt_at d1 s a = (exempt_at d s a \<or> s = slug \<and> a = app) \<and>
    exempt_at d2 s a = (exempt_at d s a \<or> s = slug) \<and>
    exempt_at d3 s a = (exempt_at d s a \<or> s = slug \<and> a = app)"
  using UpsertExemption_exempt [OF assms(1) [unfolded AddAppExemption_def], of s a]
    UpsertExemption_exempt [OF assms(2) [unfolded AddRepoExemption_def], of s a]
    UpsertExemption_exempt [OF assms(3) [unfolded AddPeriodExemption_def], of s a] assms(4)
  by (auto simp: key_covers_def)

lemma exemption_grants_witness:
  "\<exists>d1 d2 d3. AddAppExemption (initial_db 0) ''o/r'' ''a'' = Inr d1 \<and> exempt_at d1 ''o/r'' ''a'' \<and> \<not> exempt_at d1 ''o/r'' ''b'' \<and>
     AddRepoExemption (initial_db 0) ''o/r'' = Inr d2 \<and> exempt_at d2 ''o/r'' ''b'' \<and>
     AddPeriodExemption (initial_db 0) ''o/r'' ''a'' 5 = Inr d3 \<and> exempt_at d3 ''o/r'' ''a''"
proof -
  obtain d1 d2 d3 where r: "AddAppExemption (initial_db 0) ''o/r'' ''a'' = Inr d1"
    "AddRepoExemption (initial_db 0) ''o/r'' = Inr d2" "AddPeriodExemption (initial_db 0) ''o/r'' ''a'' 5 = Inr d3"
    by (simp add: AddAppExemption_def AddRepoExemption_def AddPeriodExemption_def UpsertExemption_q_def
        guarded_def initial_db_def)
  have n: "sql_now (initial_db 0) < 5" by (simp add: sql_now_def initial_db_def)
  have none: "\<not> exempt_at (initial_db 0) s a" for s a by (simp add: exempt_at_def initial_db_def)
  show ?thesis
    using r none exemption_grants [OF r n, of "''o/r''" "''a''"] exemption_grants [OF r n, of "''o/r''" "''b''"] by auto
qed

text \<open>
  Removing an explicit app exemption leaves the app exempt exactly when its repo or a running
  period exemption still covers it, and touches no other app; expiring period exemptions at an
  instant not after the database's clock changes no answer.
\<close>

theorem exemption_removal:
  assumes "RemoveAppExemption d slug app = Inr d1" "ExpirePeriodExemptions d now = Inr d2" "now \<le> sql_now d"
  shows "exempt_at d1 slug app =
      (\<exists>e \<in> set (t_exemptions d). covers slug app e \<and> active_at (sql_now d) e \<and> \<not> is_exemption ''app'' slug app ''explicit'' e) \<and>
    ((s, a) \<noteq> (slug, app) \<longrightarrow> exempt_at d1 s a = exempt_at d s a) \<and>
    exempt_at d2 s a = exempt_at d s a"
proof (intro conjI impI)
  have t: "t_exemptions d1 = del (is_exemption ''app'' slug app ''explicit'') (t_exemptions d)"
    "sql_now d1 = sql_now d"
    using assms(1) by (auto simp: RemoveAppExemption_def DeleteAppExemption_q_def guarded_Inr sql_now_def)
  show "exempt_at d1 slug app =
      (\<exists>e \<in> set (t_exemptions d). covers slug app e \<and> active_at (sql_now d) e \<and> \<not> is_exemption ''app'' slug app ''explicit'' e)"
    by (auto simp: exempt_at_def t)
  show "exempt_at d1 s a = exempt_at d s a" if "(s, a) \<noteq> (slug, app)"
    using that by (auto simp: exempt_at_def t covers_def is_exemption_def)
  have e2: "t_exemptions d2 = del (\<lambda>e. e_Type e = ''period'' \<and>
        (case e_ExpiresAt e of None \<Rightarrow> False | Some x \<Rightarrow> x \<le> now)) (t_exemptions d)" "sql_now d2 = sql_now d"
    using assms(2) by (auto simp: ExpirePeriodExemptions_def ExpirePeriodExemptions_q_def guarded_Inr sql_now_def)
  show "exempt_at d2 s a = exempt_at d s a"
    unfolding exempt_at_def e2 using assms(3)
    by (fastforce simp: active_at_def split: option.splits)
qed

lemma exemption_removal_witness:
  "\<exists>d d1 d2. AddAppExemption (initial_db 0) ''o/r'' ''a'' = Inr d \<and> RemoveAppExemption d ''o/r'' ''a'' = Inr d1 \<and>
     ExpirePeriodExemptions d 0 = Inr d2 \<and> \<not> exempt_at d1 ''o/r'' ''a'' \<and> exempt_at d2 ''o/r'' ''a''"
proof -
  let ?e = "\<lparr> e_ID = 1, e_Kind = ''app'', e_RepoSlug = ''o/r'', e_AppName = ''a'', e_Type = ''explicit'',
      e_ExpiresAt = None, e_CreatedAt = 0 \<rparr>"
  let ?d = "(initial_db 0)\<lparr>t_exemptions := [?e], seq_exemptions := 1\<rparr>"
  have d: "AddAppExemption (initial_db 0) ''o/r'' ''a'' = Inr ?d"
    by (simp add: AddAppExemption_def UpsertExemption_q_def guarded_def initial_db_def sql_now_def)
  obtain d1 d2 where r: "RemoveAppExemption ?d ''o/r'' ''a'' = Inr d1" "ExpirePeriodExemptions ?d 0 = Inr d2"
    by (simp add: RemoveAppExemption_def DeleteAppExemption_q_def ExpirePeriodExemptions_def
        ExpirePeriodExemptions_q_def guarded_def initial_db_def)
  have "0 \<le> sql_now ?d" by (simp add: sql_now_def initial_db_def)
  from exemption_removal [OF r this, of "''o/r''" "''a''"] d r show ?thesis
    by (auto simp: is_exemption_def exempt_at_def covers_def active_at_def)
qed

end
