(* ===== verification/Apps.thy ===== *)
theory Apps
  imports Lifecycle Exemptions
begin

text \<open>
  The app handlers of \<open>api/handler/apps.go\<close> (with the suffix \<open>_h\<close> where the store has a method of the
  same name). A handler gets the claims of the request, if it was authenticated, and the database; it
  returns its answer, the database it leaves and the goroutines it starts.
\<close>

record AppSpec =
  sp_Name :: "string option"
  sp_Type :: string
  sp_Image :: string
  sp_Port :: "int option"
  sp_Env :: "(string \<times> string) list option"
  sp_Schedule :: "string option"
  sp_Private :: "bool option"
  sp_IdleAfter :: "string option"

type_synonym accepted = "(handler_error + AcceptedOperation typed) \<times> db \<times> task list"

definition accept :: "string \<Rightarrow> string \<Rightarrow> string \<Rightarrow> string \<Rightarrow> AcceptedOperation" where
  "accept org repo name opID =
     \<lparr> ac_Location = operationLocation org repo name opID, ac_RetryAfter = retryAfterDeploy, ac_OperationID = opID \<rparr>"

definition app_not_found :: ErrorDetail where
  "app_not_found = detail ''not_found'' ''app not found'' ''check the app name and repo''"

definition ns_of :: "App \<Rightarrow> string" where
  "ns_of app = (case a_Namespace app of None \<Rightarrow> [] | Some ns \<Rightarrow> ns)"

definition ListApps_h :: "Claims option \<Rightarrow> db \<Rightarrow> string \<Rightarrow> string \<Rightarrow> handler_error + OAS_App list" where
  "ListApps_h claims s org repo =
     (case checkRepoAccess claims org repo of
        Some e \<Rightarrow> Inl e
      | None \<Rightarrow>
          (case ListApps s (RepoSlug org repo) of
             Inl e \<Rightarrow> Inl (Wrapped ''list apps'' e)
           | Inr apps \<Rightarrow> Inr (map dbAppToOAS apps)))"

section \<open>Deploying\<close>

text \<open>\<open>int32(x)\<close> wraps around.\<close>

definition wrap32 :: "int \<Rightarrow> int" where
  "wrap32 x = (x + 2 ^ 31) mod 2 ^ 32 - 2 ^ 31"

text \<open>The quota check: Some the limit that is reached, for an app without a row.\<close>

definition quota_reached :: "db \<Rightarrow> string \<Rightarrow> string \<Rightarrow> Repo \<Rightarrow> int option" where
  "quota_reached s slug name repo =
     (if GetApp s slug name = Inl ErrNoRows then
        (case GetTier s (r_Tier repo) of
           Inl _ \<Rightarrow> None
         | Inr tier \<Rightarrow>
             (case CountAppsByRepo s slug of
                Inl _ \<Rightarrow> None
              | Inr count \<Rightarrow> if count \<ge> t_MaxApps tier then Some (t_MaxApps tier) else None))
      else None)"

definition quota_error :: "int \<Rightarrow> string \<Rightarrow> handler_error" where
  "quota_error n tier = api_err 422 ''quota_exceeded''
     (''repo is at its app limit of '' @ strconv_Itoa n @ '' for tier '' @ sprintf_q tier)
     ''contact your platform operator to request a tier upgrade''"

definition manifest_of :: "henv \<Rightarrow> string \<Rightarrow> string \<Rightarrow> AppSpec \<Rightarrow> AppManifest" where
  "manifest_of h ns repo spec =
     \<lparr> m_Namespace = ns, m_AppName = opt_Or (sp_Name spec) [], m_RepoName = repo, m_Type = sp_Type spec,
       m_Image = sp_Image spec, m_Port = wrap32 (opt_Or (sp_Port spec) 0), m_Env = opt_Or (sp_Env spec) [],
       m_Schedule = opt_Or (sp_Schedule spec) [], m_Private = opt_Or (sp_Private spec) False,
       m_BaseDomain = h_BaseDomain h, m_GatewayNS = h_Namespace h,
       m_Limits = \<lparr> tl_CPUMilli = 0, tl_MemoryMB = 0 \<rparr> \<rparr>"

definition UpsertApp_h :: "henv \<Rightarrow> Claims option \<Rightarrow> db \<Rightarrow> AppSpec \<Rightarrow> string \<Rightarrow> string \<Rightarrow> accepted" where
  "UpsertApp_h h claims s spec org repo =
     (case checkRepoAccess claims org repo of
        Some e \<Rightarrow> (Inl e, s, [])
      | None \<Rightarrow>
          let name = opt_Or (sp_Name spec) [];
              slug = RepoSlug org repo;
              ns = AppNamespace (RepoSlug org repo) name;
              defaultTier = GetDefaultTierName s
          in case GetOrCreateRepo s slug defaultTier of
               Inl e \<Rightarrow> (Inl (Wrapped ''get or create repo'' e), s, [])
             | Inr (rp, s1) \<Rightarrow>
                 (case quota_reached s1 slug name rp of
                    Some n \<Rightarrow> (Inl (quota_error n (r_Tier rp)), s1, [])
                  | None \<Rightarrow>
                      (case UpsertApp s1 slug name (sp_Type spec) ns (sp_Image spec) (opt_Or (sp_IdleAfter spec) []) of
                         Inl e \<Rightarrow> (Inl (Wrapped ''upsert app'' e), s1, [])
                       | Inr (app, s2) \<Rightarrow>
                           (case newOperationID h of
                              Inl e \<Rightarrow> (Inl (OtherErr (''generate operation id: '' @ e)), s2, [])
                            | Inr opID \<Rightarrow>
                                (case CreateOperation s2 opID slug name ''deploy'' of
                                   Inl e \<Rightarrow> (Inl (Wrapped ''create operation'' e), s2, [])
                                 | Inr (_, s3) \<Rightarrow>
                                     (Inr (Ok (accept org repo name opID)), s3,
                                      [RunDeploy opID (a_ID app) (manifest_of h ns repo spec)
                                         (case a_ImageLastHealthy app of None \<Rightarrow> [] | Some i \<Rightarrow> i)]))))))"

section \<open>Reading\<close>

text \<open>The look-up that the handlers of one app begin with.\<close>

definition with_app ::
  "string \<Rightarrow> Claims option \<Rightarrow> db \<Rightarrow> string \<Rightarrow> string \<Rightarrow> string \<Rightarrow> (App \<Rightarrow> handler_error + 'a typed) \<Rightarrow> handler_error + 'a typed" where
  "with_app msg claims s org repo name f =
     (case checkRepoAccess claims org repo of
        Some e \<Rightarrow> Inl e
      | None \<Rightarrow>
          (case GetApp s (RepoSlug org repo) name of
             Inl ErrNoRows \<Rightarrow> Inr (Typed 404 app_not_found)
           | Inl e \<Rightarrow> Inl (Wrapped msg e)
           | Inr app \<Rightarrow> f app))"

definition GetApp_h :: "Claims option \<Rightarrow> db \<Rightarrow> string \<Rightarrow> string \<Rightarrow> string \<Rightarrow> handler_error + OAS_App typed" where
  "GetApp_h claims s org repo name =
     with_app ''get app'' claims s org repo name (\<lambda>app. Inr (Ok (dbAppToOAS app)))"

record AppStatusOK =
  as_Status :: string
  as_Replicas :: int
  as_ReadyReplicas :: int
  as_Hibernated :: bool
  as_HibernatedAt :: "time option"
  as_IdleSince :: "time option"

definition GetAppStatus ::
  "'k AppDeployer \<Rightarrow> 'k \<Rightarrow> Claims option \<Rightarrow> db \<Rightarrow> string \<Rightarrow> string \<Rightarrow> string \<Rightarrow> handler_error + AppStatusOK typed" where
  "GetAppStatus dep k claims s org repo name =
     with_app ''get app'' claims s org repo name (\<lambda>app.
       let ns = ns_of app;
           (desired, ready) = dp_AppReplicaCounts dep k ns (a_Type app)
       in Inr (Ok \<lparr> as_Status = dp_AppStatus dep k ns (a_Type app), as_Replicas = desired,
                    as_ReadyReplicas = ready, as_Hibernated = (a_Hibernated app \<noteq> 0),
                    as_HibernatedAt = a_HibernatedAt app, as_IdleSince = a_LastActiveAt app \<rparr>))"

definition GetAppHistory ::
  "Claims option \<Rightarrow> db \<Rightarrow> string \<Rightarrow> string \<Rightarrow> string \<Rightarrow> handler_error + OAS_Operation list typed" where
  "GetAppHistory claims s org repo name =
     with_app ''get app'' claims s org repo name (\<lambda>_.
       case ListAppOperations s (RepoSlug org repo) name of
         Inl e \<Rightarrow> Inl (Wrapped ''list operations'' e)
       | Inr ops \<Rightarrow> Inr (Ok (map dbOperationToOAS ops)))"

text \<open>CPU cores, memory in GB and the estimated monthly cost.\<close>

definition GetAppUtilisation ::
  "Claims option \<Rightarrow> db \<Rightarrow> string \<Rightarrow> string \<Rightarrow> string \<Rightarrow> handler_error + (real \<times> real \<times> real) typed" where
  "GetAppUtilisation claims s org repo name =
     with_app ''get app'' claims s org repo name (\<lambda>app.
       case GetRepo s (RepoSlug org repo) of
         Inl e \<Rightarrow> Inl (Wrapped ''get repo'' e)
       | Inr rp \<Rightarrow>
           (case GetTier s (r_Tier rp) of
              Inl e \<Rightarrow> Inl (Wrapped ''get tier'' e)
            | Inr tier \<Rightarrow>
                Inr (Ok (real_of_int (t_CpuMilli tier) / 1000, real_of_int (t_MemoryMb tier) / 1024,
                         AppCostMonthly s app tier (LatestPrices s) (db_now s)))))"

text \<open>The operation is looked up by its id alone.\<close>

definition GetOperation_h ::
  "Claims option \<Rightarrow> db \<Rightarrow> string \<Rightarrow> string \<Rightarrow> string \<Rightarrow> handler_error + OAS_Operation typed" where
  "GetOperation_h claims s org repo opID =
     (case checkRepoAccess claims org repo of
        Some e \<Rightarrow> Inl e
      | None \<Rightarrow>
          (case GetOperation s opID of
             Inl ErrNoRows \<Rightarrow> Inr (Typed 404 (detail ''not_found'' ''operation not found'' ''check the operation ID''))
           | Inl e \<Rightarrow> Inl (Wrapped ''get operation'' e)
           | Inr op \<Rightarrow> Inr (Ok (dbOperationToOAS op))))"

section \<open>Operations in the background\<close>

text \<open>Create the operation record and answer; the shared tail of delete, hibernate and wake.\<close>

definition start_op ::
  "henv \<Rightarrow> db \<Rightarrow> string \<Rightarrow> string \<Rightarrow> string \<Rightarrow> string \<Rightarrow> (string \<Rightarrow> task) \<Rightarrow> accepted" where
  "start_op h s org repo name kind mk =
     (case newOperationID h of
        Inl e \<Rightarrow> (Inl (OtherErr (''generate operation id: '' @ e)), s, [])
      | Inr opID \<Rightarrow>
          (case CreateOperation s opID (RepoSlug org repo) name kind of
             Inl e \<Rightarrow> (Inl (Wrapped ''create operation'' e), s, [])
           | Inr (_, s') \<Rightarrow> (Inr (Ok (accept org repo name opID)), s', [mk opID])))"

definition on_app ::
  "string \<Rightarrow> Claims option \<Rightarrow> db \<Rightarrow> string \<Rightarrow> string \<Rightarrow> string \<Rightarrow> (App \<Rightarrow> accepted) \<Rightarrow> accepted" where
  "on_app msg claims s org repo name f =
     (case checkRepoAccess claims org repo of
        Some e \<Rightarrow> (Inl e, s, [])
      | None \<Rightarrow>
          (case GetApp s (RepoSlug org repo) name of
             Inl ErrNoRows \<Rightarrow> (Inr (Typed 404 app_not_found), s, [])
           | Inl e \<Rightarrow> (Inl (Wrapped msg e), s, [])
           | Inr app \<Rightarrow> f app))"

definition DeleteApp :: "henv \<Rightarrow> Claims option \<Rightarrow> db \<Rightarrow> string \<Rightarrow> string \<Rightarrow> string \<Rightarrow> accepted" where
  "DeleteApp h claims s org repo name =
     on_app ''get app for deletion'' claims s org repo name (\<lambda>app.
       case MarkAppDeletionPending s (a_ID app) of
         Inl e \<Rightarrow> (Inl (Wrapped ''mark deletion pending'' e), s, [])
       | Inr s1 \<Rightarrow>
           start_op h s1 org repo name ''delete''
             (\<lambda>opID. RunDelete opID (a_ID app) (AppNamespace (RepoSlug org repo) name)))"

definition HibernateApp :: "henv \<Rightarrow> Claims option \<Rightarrow> db \<Rightarrow> string \<Rightarrow> string \<Rightarrow> string \<Rightarrow> accepted" where
  "HibernateApp h claims s org repo name =
     on_app ''get app'' claims s org repo name (\<lambda>app.
       start_op h s org repo name ''hibernate''
         (\<lambda>opID. RunHibernate opID (a_ID app) (a_Type app) name (ns_of app)
                   (AppHostname name repo (h_BaseDomain h))))"

text \<open>Inl an internal error, Inr whether the caller is blocked, and the database.\<close>

definition checkBudgetAndMaybeExempt ::
  "Claims option \<Rightarrow> db \<Rightarrow> string \<Rightarrow> string \<Rightarrow> (handler_error + bool) \<times> db" where
  "checkBudgetAndMaybeExempt claims s repoSlug appName =
     (case GetPlatformConfig s of
        Inl e \<Rightarrow> (Inl (Wrapped ''get platform config'' e), s)
      | Inr cfg \<Rightarrow>
          if c_BudgetSoftLimitActive cfg = 0 \<and> c_BudgetHardLimitActive cfg = 0 then (Inr False, s)
          else case IsAppExempt s repoSlug appName of
            Inl e \<Rightarrow> (Inl (Wrapped ''check exemption'' e), s)
          | Inr exempt \<Rightarrow>
              if exempt then (Inr False, s)
              else if (case claims of None \<Rightarrow> False | Some c \<Rightarrow> cl_Role c = RoleOperator) then
                (case AddPeriodExemption s repoSlug appName (NextBillingPeriodStart (db_now s)) of
                   Inl e \<Rightarrow> (Inl (Wrapped ''add period exemption'' e), s)
                 | Inr s' \<Rightarrow> (Inr False, s'))
              else (Inr True, s))"

definition budget_error :: handler_error where
  "budget_error = api_err 503 ''budget_soft_limit'' ''platform is over budget for this period''
     ''contact your platform operator or wait for the next billing period''"

definition WakeApp :: "henv \<Rightarrow> Claims option \<Rightarrow> db \<Rightarrow> string \<Rightarrow> string \<Rightarrow> string \<Rightarrow> accepted" where
  "WakeApp h claims s org repo name =
     on_app ''get app'' claims s org repo name (\<lambda>app.
       case checkBudgetAndMaybeExempt claims s (RepoSlug org repo) name of
         (Inl e, s1) \<Rightarrow> (Inl e, s1, [])
       | (Inr True, s1) \<Rightarrow> (Inl budget_error, s1, [])
       | (Inr False, s1) \<Rightarrow>
           start_op h s1 org repo name ''wake''
             (\<lambda>opID. RunWake opID (a_ID app) (a_Type app) name (ns_of app)
                       (AppHostname name repo (h_BaseDomain h))))"

section \<open>Handlers change the database by steps of the store\<close>

lemma start_op_steps: "start_op h s org repo name knd mk = (r, s', ts) \<Longrightarrow> store_steps s s'"
  by (auto simp: start_op_def split: sum.splits prod.splits intro: store_step.intros)

lemma on_app_steps:
  "on_app msg claims s org repo name f = (r, s', ts) \<Longrightarrow>
     (\<And>app r s' ts. f app = (r, s', ts) \<Longrightarrow> store_steps s s') \<Longrightarrow> store_steps s s'"
  by (auto simp: on_app_def split: option.splits sum.splits db_error.splits)

lemma DeleteApp_steps: "DeleteApp h claims s org repo name = (r, s', ts) \<Longrightarrow> store_steps s s'"
  unfolding DeleteApp_def
  by (erule on_app_steps)
     (auto split: sum.splits dest!: start_op_steps intro: converse_rtranclp_into_rtranclp store_step.intros)

lemma HibernateApp_steps: "HibernateApp h claims s org repo name = (r, s', ts) \<Longrightarrow> store_steps s s'"
  unfolding HibernateApp_def by (erule on_app_steps) (rule start_op_steps)

lemma checkBudget_steps:
  "checkBudgetAndMaybeExempt claims s slug app = (r, s') \<Longrightarrow> store_steps s s'"
  by (auto simp: checkBudgetAndMaybeExempt_def split: sum.splits if_splits intro: store_step.intros)

lemma WakeApp_steps: "WakeApp h claims s org repo name = (r, s', ts) \<Longrightarrow> store_steps s s'"
  unfolding WakeApp_def
  by (erule on_app_steps)
     (auto split: prod.splits sum.splits bool.splits dest!: checkBudget_steps start_op_steps)

lemma UpsertApp_h_steps: "UpsertApp_h h claims s spec org repo = (r, s', ts) \<Longrightarrow> store_steps s s'"
  by (auto simp: UpsertApp_h_def Let_def split: option.splits sum.splits prod.splits
      dest!: store_step.intros(12,13,20) intro: converse_rtranclp_into_rtranclp)

section \<open>The quota of apps\<close>

definition live_count :: "db \<Rightarrow> string \<Rightarrow> int" where
  "live_count s slug = int (length (filter (live_app_of slug) (t_apps s)))"

lemma CountAppsByRepo_live: "reliable s \<Longrightarrow> CountAppsByRepo s slug = Inr (live_count s slug)"
  by (simp add: CountAppsByRepo_def CountAppsByRepo_q_def live_count_def)

lemma GetOrCreateRepo_frame:
  "GetOrCreateRepo s slug t = Inr (rp, s1) \<Longrightarrow>
     t_apps s1 = t_apps s \<and> t_tiers s1 = t_tiers s \<and> db_fault s1 = db_fault s"
  by (auto simp: GetOrCreateRepo_def UpsertRepo_q_def guarded_Inr Let_def split: option.splits)

lemma CreateOperation_frame:
  "CreateOperation s i slug name knd = Inr (x, s1) \<Longrightarrow> t_apps s1 = t_apps s"
  by (auto simp: CreateOperation_def CreateOperation_q_def guarded_Inr Let_def split: if_splits)

text \<open>What an accepted deploy went through.\<close>

lemma UpsertApp_h_ok:
  assumes "UpsertApp_h h claims s spec org repo = (Inr (Ok r), s', ts)"
  obtains rp s1 app s2 where
    "GetOrCreateRepo s (RepoSlug org repo) (GetDefaultTierName s) = Inr (rp, s1)"
    "quota_reached s1 (RepoSlug org repo) (opt_Or (sp_Name spec) []) rp = None"
    "UpsertApp s1 (RepoSlug org repo) (opt_Or (sp_Name spec) []) (sp_Type spec)
       (AppNamespace (RepoSlug org repo) (opt_Or (sp_Name spec) [])) (sp_Image spec) (opt_Or (sp_IdleAfter spec) [])
       = Inr (app, s2)"
    "t_apps s' = t_apps s2"
    "\<exists>opID lh. ts = [RunDeploy opID (a_ID app)
        (manifest_of h (AppNamespace (RepoSlug org repo) (opt_Or (sp_Name spec) [])) repo spec) lh]"
  using assms
  by (auto simp: UpsertApp_h_def Let_def split: option.splits sum.splits prod.splits dest: CreateOperation_frame)

lemma live_count_new:
  assumes "UpsertApp s slug name typ ns img idle = Inr (app, s')" "app_tab.by_key (slug, name) (t_apps s) = None"
  shows "live_count s' slug = live_count s slug + 1"
  using assms
  by (auto simp: UpsertApp_def UpsertApp_q_def guarded_Inr sel_is_app Let_def live_count_def add_app_def
      new_app_def live_app_of_def split: if_splits)


definition demo_spec :: AppSpec where
  "demo_spec = \<lparr> sp_Name = Some ''web'', sp_Type = ''http'', sp_Image = ''img'', sp_Port = None, sp_Env = None,
     sp_Schedule = None, sp_Private = None, sp_IdleAfter = None \<rparr>"

definition demo_env :: henv where
  "demo_env = \<lparr> h_signingKey = ''key'', h_githubClientID = [], h_BaseDomain = ''example.com'',
     h_GatewayPort = 443, h_Namespace = ''morsel'', jwt_Sign = (\<lambda>k c. Inr ''jwt''),
     jwt_Parse = (\<lambda>kf now t. Inl ''bad token''), h_sha256 = (\<lambda>s. s), rand32 = Inr ''b'', rand16 = Inr ''c'' \<rparr>"

definition demo_claims :: Claims where
  "demo_claims = CreateDeployClaims 0 ''o/r''"

definition small_tier :: Tier where
  "small_tier = seed_tier 0 ''small'' 2 500 512 1 5 1 ''24h'' 1"

lemma demo_access: "checkRepoAccess (Some demo_claims) ''o'' ''r'' = None"
  by (simp add: checkRepoAccess_def demo_claims_def claims_defs role_defs RepoSlug_def)

lemma demo_default_tier: "GetDefaultTierName (initial_db 0) = ''small''"
  by (simp add: GetDefaultTierName_def GetDefaultTier_q_def guarded_def initial_db_def seed_tier_def)

lemma demo_first_deploy:
  "\<exists>r s' ts. UpsertApp_h demo_env (Some demo_claims) (initial_db 0) demo_spec ''o'' ''r'' = (Inr (Ok r), s', ts)"
  unfolding UpsertApp_h_def demo_default_tier
  by (simp add: demo_access Let_def GetOrCreateRepo_def UpsertRepo_q_def guarded_def new_repo_def
      quota_reached_def GetApp_def GetApp_q_def GetTier_def GetTier_q_def CountAppsByRepo_def CountAppsByRepo_q_def
      UpsertApp_def UpsertApp_q_def is_repo_def RepoSlug_def newOperationID_def demo_env_def CreateOperation_def
      CreateOperation_q_def add_app_def initial_db_def seed_tier_def is_tier_def)


lemma quota_not_checked_again:
  "app_tab.by_key (slug, name) (t_apps s) = Some a \<Longrightarrow> quota_reached s slug name rp = None"
  by (auto simp: quota_reached_def GetApp_def GetApp_q_def sel_is_app guarded_def split: option.splits)

lemma live_count_revived:
  assumes "wf_db s" "UpsertApp s slug name typ ns img idle = Inr (app, s')"
    and "app_tab.by_key (slug, name) (t_apps s) = Some a" "a_DeletionPending a \<noteq> 0"
  shows "live_count s' slug = live_count s slug + 1"
proof -
  let ?P = "is_app slug name" and ?f = "reapply_app s typ (null_string ns) (null_string img) (null_string idle)"
  have t': "t_apps s' = upd ?P ?f (t_apps s)"
    using assms(2,3) by (auto simp: UpsertApp_def UpsertApp_q_def guarded_Inr sel_is_app)
  have u: "app_tab.uniq (t_apps s)" using assms(1) by (simp add: wf_db_def wf_apps_def)
  have a: "a \<in> set (t_apps s)" "?P a" using app_tab.by_key_Some [OF u] assms(3) by (auto simp: is_app_def)
  obtain xs ys where xy: "t_apps s = xs @ a # ys" using a(1) by (meson split_list)
  have other: "\<forall>r \<in> set xs \<union> set ys. \<not> ?P r"
  proof
    fix r assume r: "r \<in> set xs \<union> set ys"
    have "(slug, name) \<notin> (\<lambda>a. (a_RepoSlug a, a_Name a)) ` (set xs \<union> set ys)"
      using u a(2) unfolding xy app_tab.uniq_def is_app_def by auto
    with r show "\<not> ?P r" by (auto simp: is_app_def image_iff)
  qed
  have "t_apps s' = xs @ ?f a # ys"
    unfolding t' xy using other a(2) by (simp add: upd_idle)
  moreover have "live_app_of slug (?f a)" "\<not> live_app_of slug a"
    using a(2) assms(4) by (auto simp: live_app_of_def reapply_app_def is_app_def)
  ultimately show ?thesis by (simp add: live_count_def xy)
qed


text \<open>A repo whose tier allows two apps: two live apps and a deleted one.\<close>

definition full_db :: db where
  "full_db = (initial_db 0)\<lparr>t_repos := [\<lparr> r_Slug = ''o/r'', r_Tier = ''small'', r_CreatedAt = 0 \<rparr>],
     t_apps := [demo_app\<lparr>a_DeletionPending := 1\<rparr>, demo_app\<lparr>a_ID := 2, a_Name := ''b''\<rparr>, demo_app\<lparr>a_ID := 3, a_Name := ''c''\<rparr>],
     seq_apps := 3\<rparr>"

lemma full_redeploy:
  "\<exists>r s' ts. UpsertApp_h demo_env (Some demo_claims) full_db demo_spec ''o'' ''r'' = (Inr (Ok r), s', ts)"
proof -
  have d: "GetDefaultTierName full_db = ''small''"
    by (simp add: GetDefaultTierName_def GetDefaultTier_q_def guarded_def full_db_def initial_db_def seed_tier_def)
  show ?thesis
    unfolding UpsertApp_h_def d
    by (simp add: demo_access Let_def GetOrCreateRepo_def UpsertRepo_q_def guarded_def demo_spec_def
        quota_reached_def GetApp_def GetApp_q_def is_app_def demo_app_def full_db_def initial_db_def
        UpsertApp_def UpsertApp_q_def is_repo_def RepoSlug_def newOperationID_def demo_env_def CreateOperation_def
        CreateOperation_q_def)
qed


text \<open>
  The manifest of a deploy never carries the limits of the repo's tier: whatever the tier, the
  task that an accepted deploy starts has zero limits, for which the cluster client falls back to the
  baseline of the small tier.
\<close>

theorem deploy_ignores_tier_limits:
  assumes "UpsertApp_h h claims s spec org repo = (Inr (Ok r), s', ts)"
  shows "\<exists>opID i m lh. ts = [RunDeploy opID i m lh] \<and> m_Limits m = \<lparr> tl_CPUMilli = 0, tl_MemoryMB = 0 \<rparr> \<and>
    m_Namespace m = AppNamespace (RepoSlug org repo) (m_AppName m) \<and> m_Image m = sp_Image spec"
  by (rule UpsertApp_h_ok [OF assms]) (auto simp: manifest_of_def)

lemma deploy_ignores_tier_limits_witness:
  "\<exists>r s' ts opID i m lh. UpsertApp_h demo_env (Some demo_claims) full_db demo_spec ''o'' ''r'' = (Inr (Ok r), s', ts) \<and>
     ts = [RunDeploy opID i m lh] \<and> m_Limits m = \<lparr> tl_CPUMilli = 0, tl_MemoryMB = 0 \<rparr>"
  using full_redeploy deploy_ignores_tier_limits by metis

section \<open>The budget gate of wake\<close>

definition limit_active :: "PlatformConfig \<Rightarrow> bool" where
  "limit_active cfg \<longleftrightarrow> c_BudgetSoftLimitActive cfg \<noteq> 0 \<or> c_BudgetHardLimitActive cfg \<noteq> 0"

text \<open>
  C2. While a budget limit is active, a wake request by a caller with access to the repo is refused
  with \<open>budget_soft_limit\<close>, changing nothing and starting nothing, exactly when the app is not exempt
  and the caller's role is not operator (an admin is refused too). An operator's request for a
  non-exempt app grants that app, and no other, an exemption until the start of the next billing
  period.
\<close>

theorem wake_budget_gate:
  assumes "reliable s" "checkRepoAccess (Some c) org repo = None" "slug = RepoSlug org repo"
    and "app_tab.by_key (slug, name) (t_apps s) = Some app"
    and "t_platform_config s = Some cfg" "limit_active cfg"
  shows "(WakeApp h (Some c) s org repo name = (Inl budget_error, s, [])) =
      (\<not> exempt_at s slug name \<and> cl_Role c \<noteq> RoleOperator) \<and>
    (cl_Role c = RoleOperator \<longrightarrow> \<not> exempt_at s slug name \<longrightarrow>
      (\<exists>s1. checkBudgetAndMaybeExempt (Some c) s slug name = (Inr False, s1) \<and>
        (\<forall>sl a. exempt_at s1 sl a = (exempt_at s sl a \<or> sl = slug \<and> a = name)) \<and>
        (\<exists>e \<in> set (t_exemptions s1). is_exemption ''app'' slug name ''period'' e \<and>
           e_ExpiresAt e = Some (NextBillingPeriodStart (db_now s)))))"
proof (intro conjI impI)
  have cfg: "GetPlatformConfig s = Inr cfg"
    using assms(1,5) by (simp add: GetPlatformConfig_def GetPlatformConfig_q_def)
  have get: "GetApp s slug name = Inr app" using assms(1,4) by (simp add: GetApp_def GetApp_q_def sel_is_app)
  obtain s1 where add: "AddPeriodExemption s slug name (NextBillingPeriodStart (db_now s)) = Inr s1"
    using assms(1) by (auto simp: AddPeriodExemption_def UpsertExemption_q_def)
  have chk: "checkBudgetAndMaybeExempt (Some c) s slug name =
      (if exempt_at s slug name then (Inr False, s)
       else if cl_Role c = RoleOperator then (Inr False, s1) else (Inr True, s))"
    using assms(1,6) cfg add by (auto simp: checkBudgetAndMaybeExempt_def limit_active_def)
  have no_start: "fst (start_op h t org repo name knd mk) \<noteq> Inl budget_error" for t knd mk
    by (auto simp: start_op_def budget_error_def api_err_def split: sum.splits prod.splits)
  have wake: "WakeApp h (Some c) s org repo name =
      (case checkBudgetAndMaybeExempt (Some c) s slug name of
         (Inl e, s1) \<Rightarrow> (Inl e, s1, [])
       | (Inr True, s1) \<Rightarrow> (Inl budget_error, s1, [])
       | (Inr False, s1) \<Rightarrow> start_op h s1 org repo name ''wake''
           (\<lambda>opID. RunWake opID (a_ID app) (a_Type app) name (ns_of app) (AppHostname name repo (h_BaseDomain h))))"
    using assms(2) get unfolding assms(3) by (simp add: WakeApp_def on_app_def)
  show "(WakeApp h (Some c) s org repo name = (Inl budget_error, s, [])) =
      (\<not> exempt_at s slug name \<and> cl_Role c \<noteq> RoleOperator)"
    unfolding wake chk using no_start by (auto split: if_splits) (metis fst_conv)+
  assume op: "cl_Role c = RoleOperator" "\<not> exempt_at s slug name"
  have "sql_now s \<le> db_now s" by (simp add: sql_now_def)
  then have pend: "sql_now s < NextBillingPeriodStart (db_now s)"
    using month_interval(2) [of "db_now s"] by (simp add: NextBillingPeriodStart_index)
  have grant: "exempt_at s1 sl a = (exempt_at s sl a \<or> sl = slug \<and> a = name)" for sl a
    using UpsertExemption_exempt [OF add [unfolded AddPeriodExemption_def], of sl a] pend
    by (auto simp: key_covers_def)
  have row: "\<exists>e \<in> set (t_exemptions s1). is_exemption ''app'' slug name ''period'' e \<and>
      e_ExpiresAt e = Some (NextBillingPeriodStart (db_now s))"
    by (rule UpsertExemption_row [OF add [unfolded AddPeriodExemption_def]])
  from chk op grant row show "\<exists>s1. checkBudgetAndMaybeExempt (Some c) s slug name = (Inr False, s1) \<and>
      (\<forall>sl a. exempt_at s1 sl a = (exempt_at s sl a \<or> sl = slug \<and> a = name)) \<and>
      (\<exists>e \<in> set (t_exemptions s1). is_exemption ''app'' slug name ''period'' e \<and>
         e_ExpiresAt e = Some (NextBillingPeriodStart (db_now s)))" by auto
qed

definition over_budget :: PlatformConfig where
  "over_budget = \<lparr> c_BudgetCeilingMonthly = 500, c_SoftLimitPct = 9 / 10, c_HardLimitPct = 1,
     c_DefaultIdleAfter = ''24h'', c_BudgetSoftLimitActive = 1, c_BudgetHardLimitActive = 0, c_BillingPeriod = [] \<rparr>"

text \<open>Over budget, an admin's wake is refused.\<close>

lemma wake_budget_gate_witness:
  "WakeApp demo_env (Some (CreateAdminAPIClaims 0 ''root'')) (demo_db\<lparr>t_platform_config := Some over_budget\<rparr>) ''o'' ''r'' ''web'' =
     (Inl budget_error, demo_db\<lparr>t_platform_config := Some over_budget\<rparr>, [])"
proof -
  let ?s = "demo_db\<lparr>t_platform_config := Some over_budget\<rparr>"
  have h: "reliable ?s" "checkRepoAccess (Some (CreateAdminAPIClaims 0 ''root'')) ''o'' ''r'' = None"
    "''o/r'' = RepoSlug ''o'' ''r''" "app_tab.by_key (''o/r'', ''web'') (t_apps ?s) = Some demo_app"
    "t_platform_config ?s = Some over_budget" "limit_active over_budget"
    by (simp_all add: reliable_def demo_db_def initial_db_def checkRepoAccess_def claims_defs role_defs RepoSlug_def
        app_tab.by_key_def demo_app_def over_budget_def limit_active_def)
  have "\<not> exempt_at ?s ''o/r'' ''web'' \<and> cl_Role (CreateAdminAPIClaims 0 ''root'') \<noteq> RoleOperator"
    by (simp add: exempt_at_def demo_db_def initial_db_def claims_defs role_defs)
  with wake_budget_gate [OF h, of demo_env] show ?thesis by blast
qed

text \<open>
  The check of the repository does not protect operations: whoever may read one repository reads
  every operation, of any repository, whose id he knows.
\<close>

theorem operation_read_across_repos:
  assumes "reliable s" "find_op s opID = Some op" "checkRepoAccess claims org repo = None"
  shows "GetOperation_h claims s org repo opID = Inr (Ok (dbOperationToOAS op))"
  using assms by (simp add: GetOperation_h_def GetOperation_def GetOperation_q_def sel_is_op find_op_def)

text \<open>A token of the repo x/y reads an operation of o/r.\<close>

lemma operation_read_across_repos_witness:
  "o_RepoSlug demo_op = ''o/r'' \<and>
   GetOperation_h (Some (CreateDeployClaims 0 ''x/y'')) demo_db ''x'' ''y'' ''op_1'' = Inr (Ok (dbOperationToOAS demo_op))"
proof -
  have "checkRepoAccess (Some (CreateDeployClaims 0 ''x/y'')) ''x'' ''y'' = None"
    by (simp add: checkRepoAccess_def claims_defs role_defs RepoSlug_def)
  with operation_read_across_repos [OF demo_reliable demo_lookups(1)] show ?thesis
    by (simp add: demo_op_def)
qed

end
