(* ===== verification/Secrets.thy ===== *)
theory Secrets
  imports Prelude
begin

text \<open>
  Key material and the bootstrap token: \<open>platform/local/secrets.go\<close> over \<open>internal/kube/secrets.go\<close>.

  The Secrets resource of the Kubernetes API is not part of the repository. It is an argument of the
  definitions, the record \<open>secrets_api\<close> of its four calls on a state \<open>'k\<close>, and the locale
  \<open>k8s_secrets\<close> names the documented laws that the code relies on. The interface \<open>SecretStore\<close> of
  \<open>secrets.go\<close> is the locale \<open>secret_store\<close>; that the kube-backed store provides it is a \<open>sublocale\<close>.

  A stored value is a key array (what \<open>json.Marshal\<close> writes for a \<open>[][]byte\<close>) or other bytes, which
  \<open>json.Unmarshal\<close> refuses.
\<close>

datatype secret_value = KeyArray "string list" | RawBytes string

datatype k8s_error = IsNotFound | AlreadyExists | K8sErr string

datatype secret_error = ErrSecretNotFound | SecretErr string

record 'k secrets_api =
  api_Get :: "'k \<Rightarrow> string \<Rightarrow> string \<Rightarrow> k8s_error + secret_value"
  api_Create :: "'k \<Rightarrow> string \<Rightarrow> string \<Rightarrow> secret_value \<Rightarrow> k8s_error + 'k"
  api_Update :: "'k \<Rightarrow> string \<Rightarrow> string \<Rightarrow> secret_value \<Rightarrow> k8s_error + 'k"
  api_Delete :: "'k \<Rightarrow> string \<Rightarrow> string \<Rightarrow> k8s_error + 'k"

text \<open>The text of an error that is passed on.\<close>

definition k8s_to_secret_error :: "k8s_error \<Rightarrow> secret_error" where
  "k8s_to_secret_error e =
     (case e of K8sErr m \<Rightarrow> SecretErr m | IsNotFound \<Rightarrow> SecretErr ''not found'' | AlreadyExists \<Rightarrow> SecretErr ''already exists'')"

definition lift_k8s :: "k8s_error + 'a \<Rightarrow> secret_error + 'a" where
  "lift_k8s r = (case r of Inl e \<Rightarrow> Inl (k8s_to_secret_error e) | Inr x \<Rightarrow> Inr x)"

section \<open>Opaque secrets of the cluster\<close>

definition GetOpaqueSecret :: "'k secrets_api \<Rightarrow> 'k \<Rightarrow> string \<Rightarrow> string \<Rightarrow> secret_error + secret_value" where
  "GetOpaqueSecret api k namespace name =
     (case api_Get api k namespace name of
        Inl IsNotFound \<Rightarrow> Inl ErrSecretNotFound
      | Inl e \<Rightarrow> Inl (k8s_to_secret_error e)
      | Inr v \<Rightarrow> Inr v)"

definition SetOpaqueSecret :: "'k secrets_api \<Rightarrow> 'k \<Rightarrow> string \<Rightarrow> string \<Rightarrow> secret_value \<Rightarrow> secret_error + 'k" where
  "SetOpaqueSecret api k namespace name v =
     (case api_Get api k namespace name of
        Inl IsNotFound \<Rightarrow> lift_k8s (api_Create api k namespace name v)
      | Inl e \<Rightarrow> Inl (k8s_to_secret_error e)
      | Inr _ \<Rightarrow> lift_k8s (api_Update api k namespace name v))"

definition DeleteOpaqueSecret :: "'k secrets_api \<Rightarrow> 'k \<Rightarrow> string \<Rightarrow> string \<Rightarrow> secret_error + 'k" where
  "DeleteOpaqueSecret api k namespace name =
     (case api_Delete api k namespace name of
        Inl IsNotFound \<Rightarrow> Inr k
      | Inl e \<Rightarrow> Inl (k8s_to_secret_error e)
      | Inr k' \<Rightarrow> Inr k')"

text \<open>The kube-backed \<open>SecretStore\<close>: the client (or the error of building it) and the namespace.\<close>

record 'k kubeSecretStore =
  ks_client :: "string + 'k secrets_api"
  ks_ns :: string

definition no_client :: "string \<Rightarrow> secret_error" where
  "no_client m = SecretErr (''secret store requires in-cluster kubernetes access: '' @ m)"

definition kss_Get :: "'k kubeSecretStore \<Rightarrow> 'k \<Rightarrow> string \<Rightarrow> secret_error + secret_value" where
  "kss_Get ks k name =
     (case ks_client ks of Inl m \<Rightarrow> Inl (no_client m) | Inr api \<Rightarrow> GetOpaqueSecret api k (ks_ns ks) name)"

definition kss_Set :: "'k kubeSecretStore \<Rightarrow> 'k \<Rightarrow> string \<Rightarrow> secret_value \<Rightarrow> secret_error + 'k" where
  "kss_Set ks k name v =
     (case ks_client ks of Inl m \<Rightarrow> Inl (no_client m) | Inr api \<Rightarrow> SetOpaqueSecret api k (ks_ns ks) name v)"

definition kss_Delete :: "'k kubeSecretStore \<Rightarrow> 'k \<Rightarrow> string \<Rightarrow> secret_error + 'k" where
  "kss_Delete ks k name =
     (case ks_client ks of Inl m \<Rightarrow> Inl (no_client m) | Inr api \<Rightarrow> DeleteOpaqueSecret api k (ks_ns ks) name)"

section \<open>The interface \<open>SecretStore\<close> and the local secrets over it\<close>

record 's SecretStore =
  st_Get :: "'s \<Rightarrow> string \<Rightarrow> secret_error + secret_value"
  st_Set :: "'s \<Rightarrow> string \<Rightarrow> secret_value \<Rightarrow> secret_error + 's"
  st_Delete :: "'s \<Rightarrow> string \<Rightarrow> secret_error + 's"

definition kube_store :: "'k kubeSecretStore \<Rightarrow> 'k SecretStore" where
  "kube_store ks = \<lparr> st_Get = kss_Get ks, st_Set = kss_Set ks, st_Delete = kss_Delete ks \<rparr>"

definition signingKeyName :: string where "signingKeyName = ''morsel-signing-keys''"

definition deploySigningKeyName :: string where "deploySigningKeyName = ''local-deploy-signing-keys''"

definition bootstrapTokenName :: string where "bootstrapTokenName = ''morsel-bootstrap-token''"

text \<open>A missing secret reads as the empty array, Go's nil.\<close>

definition getKeyArray :: "'s SecretStore \<Rightarrow> 's \<Rightarrow> string \<Rightarrow> secret_error + string list" where
  "getKeyArray store s name =
     (case st_Get store s name of
        Inl ErrSecretNotFound \<Rightarrow> Inr []
      | Inl e \<Rightarrow> Inl e
      | Inr (KeyArray keys) \<Rightarrow> Inr keys
      | Inr (RawBytes _) \<Rightarrow> Inl (SecretErr (''parse key array '' @ name)))"

definition setKeyArray :: "'s SecretStore \<Rightarrow> 's \<Rightarrow> string \<Rightarrow> string list \<Rightarrow> secret_error + 's" where
  "setKeyArray store s name keys = st_Set store s name (KeyArray keys)"

text \<open>
  \<open>rand.Read\<close> is an argument: the keys it will produce, in order, or its error. The functions below
  take the stream and return what is left of it.
\<close>

type_synonym rand = "(string + string) list"

definition generateKey :: "rand \<Rightarrow> (secret_error + string) \<times> rand" where
  "generateKey r =
     (case r of
        [] \<Rightarrow> (Inl (SecretErr ''generate signing key''), [])
      | Inl m # rs \<Rightarrow> (Inl (SecretErr (''generate signing key: '' @ m)), rs)
      | Inr key # rs \<Rightarrow> (Inr key, rs))"

definition appendNewKey ::
  "'s SecretStore \<Rightarrow> 's \<Rightarrow> rand \<Rightarrow> string \<Rightarrow> string list \<Rightarrow> (secret_error + string list) \<times> 's \<times> rand" where
  "appendNewKey store s r name base =
     (case generateKey r of
        (Inl e, r') \<Rightarrow> (Inl e, s, r')
      | (Inr key, r') \<Rightarrow>
          let updated = base @ [key] in
          (case setKeyArray store s name updated of
             Inl e \<Rightarrow> (Inl e, s, r')
           | Inr s' \<Rightarrow> (Inr updated, s', r')))"

text \<open>The loop \<open>for len(keys) < 2\<close>; each turn adds a key, so it ends.\<close>

function ensure_loop ::
  "'s SecretStore \<Rightarrow> 's \<Rightarrow> rand \<Rightarrow> string \<Rightarrow> string list \<Rightarrow> (secret_error + string list) \<times> 's \<times> rand" where
  "ensure_loop store s r name keys =
     (if length keys < 2 then
        (case appendNewKey store s r name keys of
           (Inl e, s', r') \<Rightarrow> (Inl e, s', r')
         | (Inr keys', s', r') \<Rightarrow> ensure_loop store s' r' name keys')
      else (Inr keys, s, r))"
  by pat_completeness auto
termination
  by (relation "measure (\<lambda>(store, s, r, name, keys). 2 - length keys)")
     (auto simp: appendNewKey_def Let_def split: prod.splits sum.splits)

declare ensure_loop.simps [simp del]

definition ensureKey ::
  "'s SecretStore \<Rightarrow> 's \<Rightarrow> rand \<Rightarrow> string \<Rightarrow> (secret_error + string list) \<times> 's \<times> rand" where
  "ensureKey store s r name =
     (case getKeyArray store s name of Inl e \<Rightarrow> (Inl e, s, r) | Inr keys \<Rightarrow> ensure_loop store s r name keys)"

definition rotateKey ::
  "'s SecretStore \<Rightarrow> 's \<Rightarrow> rand \<Rightarrow> string \<Rightarrow> (secret_error + string list) \<times> 's \<times> rand" where
  "rotateKey store s r name =
     (case getKeyArray store s name of
        Inl e \<Rightarrow> (Inl e, s, r)
      | Inr [] \<Rightarrow> appendNewKey store s r name []
      | Inr (_ # tail) \<Rightarrow> appendNewKey store s r name tail)"

definition deleteKey :: "'s SecretStore \<Rightarrow> 's \<Rightarrow> string \<Rightarrow> secret_error + 's" where
  "deleteKey store s name =
     (case st_Delete store s name of Inl ErrSecretNotFound \<Rightarrow> Inr s | Inl e \<Rightarrow> Inl e | Inr s' \<Rightarrow> Inr s')"

definition GetSigningKeys :: "'s SecretStore \<Rightarrow> 's \<Rightarrow> secret_error + string list" where
  "GetSigningKeys store s = getKeyArray store s signingKeyName"

definition EnsureSigningKey :: "'s SecretStore \<Rightarrow> 's \<Rightarrow> rand \<Rightarrow> (secret_error + string list) \<times> 's \<times> rand" where
  "EnsureSigningKey store s r = ensureKey store s r signingKeyName"

definition RotateSigningKey :: "'s SecretStore \<Rightarrow> 's \<Rightarrow> rand \<Rightarrow> (secret_error + string list) \<times> 's \<times> rand" where
  "RotateSigningKey store s r = rotateKey store s r signingKeyName"

definition DeleteSigningKey :: "'s SecretStore \<Rightarrow> 's \<Rightarrow> secret_error + 's" where
  "DeleteSigningKey store s = deleteKey store s signingKeyName"

definition GetDeploySigningKeys :: "'s SecretStore \<Rightarrow> 's \<Rightarrow> secret_error + string list" where
  "GetDeploySigningKeys store s = getKeyArray store s deploySigningKeyName"

definition EnsureDeploySigningKey ::
  "'s SecretStore \<Rightarrow> 's \<Rightarrow> rand \<Rightarrow> (secret_error + string list) \<times> 's \<times> rand" where
  "EnsureDeploySigningKey store s r = ensureKey store s r deploySigningKeyName"

definition RotateDeploySigningKey ::
  "'s SecretStore \<Rightarrow> 's \<Rightarrow> rand \<Rightarrow> (secret_error + string list) \<times> 's \<times> rand" where
  "RotateDeploySigningKey store s r = rotateKey store s r deploySigningKeyName"

definition DeleteDeploySigningKey :: "'s SecretStore \<Rightarrow> 's \<Rightarrow> secret_error + 's" where
  "DeleteDeploySigningKey store s = deleteKey store s deploySigningKeyName"

text \<open>The bytes of a secret as a string; a key array is never stored under this name.\<close>

definition GetBootstrapToken :: "'s SecretStore \<Rightarrow> 's \<Rightarrow> secret_error + string" where
  "GetBootstrapToken store s =
     (case st_Get store s bootstrapTokenName of
        Inl e \<Rightarrow> Inl e
      | Inr (RawBytes raw) \<Rightarrow> Inr raw
      | Inr (KeyArray ks) \<Rightarrow> Inr (concat ks))"

definition DeleteBootstrapToken :: "'s SecretStore \<Rightarrow> 's \<Rightarrow> secret_error + 's" where
  "DeleteBootstrapToken store s = deleteKey store s bootstrapTokenName"

definition Migrate :: "'s SecretStore \<Rightarrow> 's \<Rightarrow> rand \<Rightarrow> secret_error option \<times> 's \<times> rand" where
  "Migrate store s r =
     (case EnsureSigningKey store s r of
        (Inl e, s', r') \<Rightarrow> (Some e, s', r')
      | (Inr _, s', r') \<Rightarrow>
          (case EnsureDeploySigningKey store s' r' of
             (Inl e, s'', r'') \<Rightarrow> (Some e, s'', r'')
           | (Inr _, s'', r'') \<Rightarrow> (None, s'', r'')))"

section \<open>Contracts\<close>

text \<open>What the code relies on of the Secrets resource.\<close>

locale k8s_secrets =
  fixes api :: "'k secrets_api"
  assumes create_get: "api_Create api k ns n v = Inr k' \<Longrightarrow> api_Get api k' ns n = Inr v"
    and update_get: "api_Update api k ns n v = Inr k' \<Longrightarrow> api_Get api k' ns n = Inr v"
    and delete_get: "api_Delete api k ns n = Inr k' \<Longrightarrow> api_Get api k' ns n = Inl IsNotFound"
    and delete_missing: "api_Delete api k ns n = Inl IsNotFound \<Longrightarrow> api_Get api k ns n = Inl IsNotFound"
    and create_other: "api_Create api k ns n v = Inr k' \<Longrightarrow> n' \<noteq> n \<Longrightarrow> api_Get api k' ns n' = api_Get api k ns n'"
    and update_other: "api_Update api k ns n v = Inr k' \<Longrightarrow> n' \<noteq> n \<Longrightarrow> api_Get api k' ns n' = api_Get api k ns n'"
    and delete_other: "api_Delete api k ns n = Inr k' \<Longrightarrow> n' \<noteq> n \<Longrightarrow> api_Get api k' ns n' = api_Get api k ns n'"

text \<open>The contract of the interface \<open>SecretStore\<close>, and what the key management promises over it.\<close>

locale secret_store =
  fixes store :: "'s SecretStore"
  assumes set_get: "st_Set store s n v = Inr s' \<Longrightarrow> st_Get store s' n = Inr v"
    and set_other: "st_Set store s n v = Inr s' \<Longrightarrow> n' \<noteq> n \<Longrightarrow> st_Get store s' n' = st_Get store s n'"
    and del_get: "st_Delete store s n = Inr s' \<Longrightarrow> st_Get store s' n = Inl ErrSecretNotFound"
    and del_other: "st_Delete store s n = Inr s' \<Longrightarrow> n' \<noteq> n \<Longrightarrow> st_Get store s' n' = st_Get store s n'"
begin

lemma appendNewKey_stored:
  "appendNewKey store s r name base = (Inr ks, s', r') \<Longrightarrow>
     getKeyArray store s' name = Inr ks \<and> (\<exists>key. ks = base @ [key])"
  by (auto simp: appendNewKey_def setKeyArray_def Let_def getKeyArray_def dest!: set_get
      split: sum.splits prod.splits)

lemma ensure_loop_stored:
  "ensure_loop store s r name keys = (Inr ks, s', r') \<Longrightarrow> getKeyArray store s name = Inr keys \<Longrightarrow>
     getKeyArray store s' name = Inr ks \<and> length ks = max 2 (length keys) \<and> take (length keys) ks = keys"
proof (induction "2 - length keys" arbitrary: s r keys rule: less_induct)
  case less
  show ?case
  proof (cases "length keys < 2")
    case False
    with less.prems show ?thesis by (subst (asm) ensure_loop.simps) auto
  next
    case True
    from less.prems(1) True obtain keys1 s1 r1 where
      a: "appendNewKey store s r name keys = (Inr keys1, s1, r1)"
      and l: "ensure_loop store s1 r1 name keys1 = (Inr ks, s', r')"
      by (subst (asm) ensure_loop.simps) (auto split: prod.splits sum.splits)
    from appendNewKey_stored [OF a] obtain key where
      g: "getKeyArray store s1 name = Inr keys1" and k1: "keys1 = keys @ [key]" by blast
    have "getKeyArray store s' name = Inr ks \<and> length ks = max 2 (length keys1) \<and>
        take (length keys1) ks = keys1"
      using less.hyps [OF _ l g] True k1 by auto
    then have s: "getKeyArray store s' name = Inr ks" "length ks = max 2 (length keys1)"
      "take (length keys1) ks = keys1" by auto
    have "take (length keys) ks = take (length keys) (take (length keys1) ks)" by (simp add: k1)
    also have "\<dots> = keys" by (simp add: s(3)) (simp add: k1)
    finally show ?thesis using s k1 True by auto
  qed
qed

lemma ensureKey_stored:
  assumes "ensureKey store s r name = (Inr ks, s', r')"
  shows "getKeyArray store s' name = Inr ks" "2 \<le> length ks"
    "getKeyArray store s name = Inr keys \<Longrightarrow> take (length keys) ks = keys"
  using assms ensure_loop_stored
  by (fastforce simp: ensureKey_def split: sum.splits)+

lemma ensureKey_idem:
  assumes "ensureKey store s r name = (Inr ks, s', r')"
  shows "ensureKey store s' r0 name = (Inr ks, s', r0)"
  using ensureKey_stored(1,2) [OF assms] by (simp add: ensureKey_def ensure_loop.simps)

lemma rotateKey_stored:
  assumes "rotateKey store s r name = (Inr ks, s', r')" "getKeyArray store s name = Inr keys"
  shows "getKeyArray store s' name = Inr ks \<and> (\<exists>key. ks = tl keys @ [key])"
  using assms appendNewKey_stored
  by (cases keys) (fastforce simp: rotateKey_def)+

lemma deleteKey_gone:
  "deleteKey store s name = Inr s' \<Longrightarrow> st_Delete store s name \<noteq> Inl ErrSecretNotFound \<Longrightarrow>
     st_Get store s' name = Inl ErrSecretNotFound"
  by (auto simp: deleteKey_def dest: del_get split: sum.splits secret_error.splits)

end

sublocale k8s_secrets \<subseteq> kube_backed: secret_store "kube_store \<lparr> ks_client = Inr api, ks_ns = ns \<rparr>" for ns
proof (unfold_locales, goal_cases)
  case (1 s n v s')
  then show ?case
    by (auto simp: kube_store_def kss_Set_def kss_Get_def SetOpaqueSecret_def GetOpaqueSecret_def lift_k8s_def
        dest: create_get update_get split: sum.splits k8s_error.splits)
next
  case (2 s n v s' n')
  then show ?case
    by (auto simp: kube_store_def kss_Set_def kss_Get_def SetOpaqueSecret_def GetOpaqueSecret_def lift_k8s_def
        dest: create_other update_other split: sum.splits k8s_error.splits)
next
  case (3 s n s')
  then show ?case
    by (auto simp: kube_store_def kss_Delete_def kss_Get_def DeleteOpaqueSecret_def GetOpaqueSecret_def
        dest: delete_get delete_missing split: sum.splits k8s_error.splits)
next
  case (4 s n s' n')
  then show ?case
    by (auto simp: kube_store_def kss_Delete_def kss_Get_def DeleteOpaqueSecret_def GetOpaqueSecret_def
        dest: delete_other split: sum.splits k8s_error.splits)
qed

context k8s_secrets
begin

lemma kube_store_contract: "secret_store (kube_store \<lparr> ks_client = Inr api, ks_ns = ns \<rparr>)"
  by (rule kube_backed.secret_store_axioms)

end

lemmas kube_contract = k8s_secrets.kube_store_contract

text \<open>A Secrets resource kept in a map: the laws can hold.\<close>

definition map_api :: "((string \<times> string) \<Rightarrow> secret_value option) secrets_api" where
  "map_api =
     \<lparr> api_Get = (\<lambda>k ns n. case k (ns, n) of None \<Rightarrow> Inl IsNotFound | Some v \<Rightarrow> Inr v),
       api_Create = (\<lambda>k ns n v. case k (ns, n) of None \<Rightarrow> Inr (k((ns, n) \<mapsto> v)) | Some _ \<Rightarrow> Inl AlreadyExists),
       api_Update = (\<lambda>k ns n v. case k (ns, n) of None \<Rightarrow> Inl IsNotFound | Some _ \<Rightarrow> Inr (k((ns, n) \<mapsto> v))),
       api_Delete = (\<lambda>k ns n. case k (ns, n) of None \<Rightarrow> Inl IsNotFound | Some _ \<Rightarrow> Inr (k((ns, n) := None))) \<rparr>"

interpretation map_api: k8s_secrets map_api
  by unfold_locales (auto simp: map_api_def split: option.splits if_splits)

abbreviation local_store :: "'k secrets_api \<Rightarrow> string \<Rightarrow> 'k SecretStore" where
  "local_store api ns \<equiv> kube_store \<lparr> ks_client = Inr api, ks_ns = ns \<rparr>"

section \<open>Properties of the key arrays\<close>





end
