(* ===== verification/Auth.thy ===== *)
theory Auth
  imports Api Secrets
begin

text \<open>
  Obtaining tokens: \<open>api/handler/token.go\<close> (deploy and refresh), \<open>github_auth.go\<close>, \<open>bootstrap.go\<close>, the
  guards of \<open>admin.go\<close>, \<open>deploy.go\<close> and the deploy tokens of \<open>platform/local/secrets.go\<close>.

  A raw HTTP handler returns the answer it writes. The GitHub API is an argument: the answer to
  \<open>GET /user\<close> with a token. Writes that fail midway leave the earlier ones in place, as the code does
  not use transactions.
\<close>

datatype auth_body =
    ErrBody string string string
  | IdToken string int
  | TokenPair string string int int

type_synonym auth_resp = "int \<times> auth_body"

definition operatorRefreshTTL :: duration where "operatorRefreshTTL = 90 * 24 * Hour"

definition seconds :: "duration \<Rightarrow> int" where "seconds d = d div Second"

section \<open>Deploy tokens\<close>

text \<open>
  \<open>jwt.MapClaims\<close> of a deploy token: \<open>dj_Sign key repository\<close> signs, \<open>dj_Parse keyfunc token\<close> parses and
  yields whether the claims are a map and the claim \<open>repository\<close>, if it is a string.
\<close>

record deploy_jwt =
  dj_Sign :: "string \<Rightarrow> string \<Rightarrow> string + string"
  dj_Parse :: "(string \<Rightarrow> string + string) \<Rightarrow> string \<Rightarrow> string + (bool \<times> string option)"

definition CreateDeployToken ::
  "deploy_jwt \<Rightarrow> 's SecretStore \<Rightarrow> 's \<Rightarrow> rand \<Rightarrow> string \<Rightarrow> (string + string) \<times> 's \<times> rand" where
  "CreateDeployToken j store s r repository =
     (case EnsureDeploySigningKey store s r of
        (Inl _, s', r') \<Rightarrow> (Inl ''ensure deploy signing key'', s', r')
      | (Inr keys, s', r') \<Rightarrow>
          (case keys of
             [] \<Rightarrow> (Inl ''deploy signing key not provisioned'', s', r')
           | key # _ \<Rightarrow> (dj_Sign j key repository, s', r')))"

text \<open>The loop over the keys, with the last error.\<close>

fun try_keys :: "deploy_jwt \<Rightarrow> string list \<Rightarrow> string \<Rightarrow> string option \<Rightarrow> string + string" where
  "try_keys j [] tokenStr lastErr =
     (case lastErr of Some e \<Rightarrow> Inl (''invalid deploy token: '' @ e) | None \<Rightarrow> Inl ''invalid deploy token'')"
| "try_keys j (key # keys) tokenStr lastErr =
     (case dj_Parse j (hmac_key key) tokenStr of
        Inl e \<Rightarrow> try_keys j keys tokenStr (Some e)
      | Inr (False, _) \<Rightarrow> try_keys j keys tokenStr (Some ''invalid token claims'')
      | Inr (True, None) \<Rightarrow> try_keys j keys tokenStr (Some ''token missing repository claim'')
      | Inr (True, Some repo) \<Rightarrow>
          if repo = [] then try_keys j keys tokenStr (Some ''token missing repository claim'') else Inr repo)"

definition VerifyDeployToken :: "deploy_jwt \<Rightarrow> 's SecretStore \<Rightarrow> 's \<Rightarrow> string \<Rightarrow> string + string" where
  "VerifyDeployToken j store s tokenStr =
     (case GetDeploySigningKeys store s of
        Inl _ \<Rightarrow> Inl ''get deploy signing keys''
      | Inr [] \<Rightarrow> Inl ''deploy signing key not provisioned''
      | Inr keys \<Rightarrow> try_keys j keys tokenStr None)"

text \<open>\<open>POST /token/deploy\<close>; \<open>verify\<close> is the platform's \<open>VerifyDeployToken\<close>.\<close>

definition TokenDeploy ::
  "henv \<Rightarrow> time \<Rightarrow> (string \<Rightarrow> string + string) \<Rightarrow> string \<Rightarrow> handler_error + (string \<times> int) typed" where
  "TokenDeploy h now verify token =
     (if token = [] then
        Inr (Typed 400 (detail ''invalid_request'' ''request body must include a non-empty token field''
               ''provide a valid deploy identity token obtained from your CI platform''))
      else case verify token of
        Inl _ \<Rightarrow> Inr (Typed 401 (detail ''invalid_token'' ''deploy identity token is invalid or expired''
                        ''re-run morsel app deploy to obtain a fresh deploy identity token''))
      | Inr slug \<Rightarrow>
          (case IssueToken h (CreateDeployClaims now slug) of
             Inl e \<Rightarrow> Inl (OtherErr (''issue deploy token: '' @ e))
           | Inr accessToken \<Rightarrow> Inr (Ok (accessToken, 600))))"

definition PrepareRepoDeploy ::
  "henv \<Rightarrow> time \<Rightarrow> string \<Rightarrow> Claims option \<Rightarrow> string \<Rightarrow> string \<Rightarrow> handler_error + (string \<times> string)" where
  "PrepareRepoDeploy h now stagingRegistry claims org repo =
     (case requireOperator claims of
        Some e \<Rightarrow> Inl e
      | None \<Rightarrow>
          (case IssueToken h (CreateDeployClaims now (RepoSlug org repo)) of
             Inl e \<Rightarrow> Inl (OtherErr (''issue deploy token: '' @ e))
           | Inr tok \<Rightarrow> Inr (tok, stagingRegistry)))"

section \<open>Refresh\<close>

definition validateRefreshToken ::
  "time \<Rightarrow> db_error + RefreshToken \<Rightarrow> handler_error + RefreshToken typed" where
  "validateRefreshToken now r =
     (case r of
        Inl ErrNoRows \<Rightarrow> Inr (Typed 401 (detail ''invalid_token'' ''refresh token not found or already rotated''
                             ''re-authenticate to obtain a new refresh token''))
      | Inl e \<Rightarrow> Inl (Wrapped ''get refresh token'' e)
      | Inr rt \<Rightarrow>
          if rt_RevokedAt rt \<noteq> None then
            Inr (Typed 401 (detail ''token_revoked'' ''refresh token has been revoked''
                   ''re-authenticate to obtain a new refresh token''))
          else if now > rt_ExpiresAt rt then
            Inr (Typed 401 (detail ''token_expired'' ''refresh token has expired''
                   ''re-authenticate to obtain a new refresh token''))
          else if \<not> IsOperatorRole (rt_Role rt) then
            Inr (Typed 401 (detail ''invalid_token'' ''only operator tokens support refresh''
                   ''re-authenticate to obtain a new token''))
          else Inr (Ok rt))"

record TokenPairResponse =
  tp_AccessToken :: string
  tp_RefreshToken :: string
  tp_ExpiresIn :: int
  tp_RefreshExpiresIn :: int

text \<open>The claims of the new access token, from what the principal may do now.\<close>

definition refresh_claims :: "time \<Rightarrow> Principal \<Rightarrow> string \<Rightarrow> Claims option" where
  "refresh_claims now p subject =
     (if p_IsAdmin p \<noteq> 0 then Some (CreateAdminAPIClaims now subject)
      else if p_IsOperator p \<noteq> 0 then Some (CreateOperatorClaims now subject)
      else None)"

definition rotate_and_answer ::
  "henv \<Rightarrow> db \<Rightarrow> RefreshToken \<Rightarrow> string \<Rightarrow> (handler_error + TokenPairResponse typed) \<times> db" where
  "rotate_and_answer h d rt accessToken =
     (case GenerateRefreshToken h of
        Inl e \<Rightarrow> (Inl (OtherErr e), d)
      | Inr (newRaw, newEncoded) \<Rightarrow>
          (case RotateRefreshToken d (rt_ID rt) (HashRefreshToken h newRaw) (db_now d + operatorRefreshTTL) of
             Inl e \<Rightarrow> (Inl (Wrapped ''rotate refresh token'' e), d)
           | Inr d' \<Rightarrow>
               (Inr (Ok \<lparr> tp_AccessToken = accessToken, tp_RefreshToken = newEncoded,
                          tp_ExpiresIn = seconds OperatorTokenTTL,
                          tp_RefreshExpiresIn = seconds operatorRefreshTTL \<rparr>), d')))"

definition TokenRefresh :: "henv \<Rightarrow> db \<Rightarrow> string \<Rightarrow> (handler_error + TokenPairResponse typed) \<times> db" where
  "TokenRefresh h d refreshToken =
     (if refreshToken = [] then
        (Inr (Typed 400 (detail ''invalid_request'' ''request body must include a non-empty refresh_token field''
                ''provide a valid refresh token'')), d)
      else case b64_Decode refreshToken of
        None \<Rightarrow> (Inr (Typed 401 (detail ''invalid_token'' ''refresh token is malformed''
                        ''re-authenticate to obtain a new refresh token'')), d)
      | Some raw \<Rightarrow>
          (case validateRefreshToken (db_now d) (GetRefreshTokenByHash d (HashRefreshToken h raw)) of
             Inl e \<Rightarrow> (Inl e, d)
           | Inr (Typed st det) \<Rightarrow> (Inr (Typed st det), d)
           | Inr (Ok rt) \<Rightarrow>
               (case GetPrincipalByLogin d (rt_Subject rt) of
                  Inl ErrNoRows \<Rightarrow> (Inr (Typed 401 (detail ''invalid_token'' ''principal no longer exists''
                                        ''re-authenticate to obtain a new token'')), d)
                | Inl e \<Rightarrow> (Inl (Wrapped ''get principal'' e), d)
                | Inr prin \<Rightarrow>
                    (case refresh_claims (db_now d) prin (rt_Subject rt) of
                       None \<Rightarrow> (Inr (Typed 401 (detail ''insufficient_role'' ''principal no longer has elevated access''
                                       ''contact your platform admin'')), d)
                     | Some claims \<Rightarrow>
                         (case IssueToken h claims of
                            Inl e \<Rightarrow> (Inl (OtherErr (''issue access token: '' @ e)), d)
                          | Inr accessToken \<Rightarrow> rotate_and_answer h d rt accessToken)))))"

section \<open>GitHub\<close>

text \<open>The answer of the GitHub API: a transport error, or the status and the decoded user.\<close>

type_synonym github = "string \<Rightarrow> string + (int \<times> (string + int \<times> string))"

definition fetchGitHubUser :: "github \<Rightarrow> string \<Rightarrow> string + int \<times> string" where
  "fetchGitHubUser gh token =
     (case gh token of
        Inl e \<Rightarrow> Inl (''call github api: '' @ e)
      | Inr (status, body) \<Rightarrow>
          if status = 401 \<or> status = 403 then Inl ''github token rejected''
          else if status \<noteq> 200 then Inl (''github api returned '' @ strconv_Itoa status)
          else case body of
            Inl e \<Rightarrow> Inl (''decode github user: '' @ e)
          | Inr (uid, login) \<Rightarrow>
              if uid = 0 \<or> login = [] then Inl ''github returned empty user identity'' else Inr (uid, login))"

definition HandleGitHubConfig :: "henv \<Rightarrow> string" where
  "HandleGitHubConfig h = h_githubClientID h"

definition err_body :: "int \<Rightarrow> string \<Rightarrow> string \<Rightarrow> string \<Rightarrow> auth_resp" where
  "err_body status code msg remedy = (status, ErrBody code msg remedy)"

text \<open>Issue the token pair of a login and record the refresh token; shared by both handlers below.\<close>

definition issue_pair ::
  "henv \<Rightarrow> db \<Rightarrow> Claims \<Rightarrow> string \<Rightarrow> string \<Rightarrow> (db_error \<Rightarrow> bool) \<Rightarrow> auth_resp \<times> db" where
  "issue_pair h d claims subject role fatal =
     (case IssueToken h claims of
        Inl _ \<Rightarrow> (err_body 500 ''internal_error'' ''could not issue access token'' [], d)
      | Inr accessToken \<Rightarrow>
          (case GenerateRefreshToken h of
             Inl _ \<Rightarrow> (err_body 500 ''internal_error'' ''could not generate refresh token'' [], d)
           | Inr (raw, encoded) \<Rightarrow>
               (case newTokenID h of
                  Inl _ \<Rightarrow> (err_body 500 ''internal_error'' ''could not generate token id'' [], d)
                | Inr i \<Rightarrow>
                    let answer = (200, TokenPair accessToken encoded (seconds OperatorTokenTTL) (seconds operatorRefreshTTL))
                    in (case InsertRefreshToken d i (HashRefreshToken h raw) subject role (db_now d + operatorRefreshTTL) of
                          Inl e \<Rightarrow>
                            if fatal e then (err_body 500 ''internal_error'' ''could not store refresh token'' [], d)
                            else (answer, d)
                        | Inr d' \<Rightarrow> (answer, d')))))"

text \<open>\<open>POST /token/oidc\<close>. The body is the decoded token, or None when it does not decode.\<close>

definition HandleGitHubAuth ::
  "henv \<Rightarrow> github \<Rightarrow> 's SecretStore \<Rightarrow> 's \<Rightarrow> db \<Rightarrow> string \<Rightarrow> string option \<Rightarrow> auth_resp \<times> db" where
  "HandleGitHubAuth h gh store s d meth body =
     (if meth \<noteq> ''POST'' then (err_body 405 ''method_not_allowed'' ''POST required'' [], d)
      else case body of
        None \<Rightarrow> (err_body 400 ''invalid_request'' ''body must include a non-empty token field'' [], d)
      | Some token \<Rightarrow>
          if strings_TrimSpace token = [] then
            (err_body 400 ''invalid_request'' ''body must include a non-empty token field'' [], d)
          else case fetchGitHubUser gh token of
            Inl _ \<Rightarrow> (err_body 401 ''invalid_token'' ''GitHub token could not be verified''
                        ''ensure the token is a valid GitHub user access token'', d)
          | Inr (uid, login) \<Rightarrow>
              (case GetBootstrapToken store s of
                 Inr _ \<Rightarrow>
                   (case IssueToken h (CreateBootstrapIDClaims (db_now d) login uid) of
                      Inl _ \<Rightarrow> (err_body 500 ''internal_error'' ''could not issue identity token'' [], d)
                    | Inr idToken \<Rightarrow> ((200, IdToken idToken 300), d))
               | Inl _ \<Rightarrow>
                   (case UpsertPrincipal d uid login of
                      Inl _ \<Rightarrow> (err_body 500 ''internal_error'' ''could not record principal'' [], d)
                    | Inr (prin, d1) \<Rightarrow>
                        let subject = p_GithubLogin prin in
                        if p_IsAdmin prin \<noteq> 0 then
                          issue_pair h d1 (CreateAdminAPIClaims (db_now d1) subject) subject RoleAdmin (\<lambda>e. e \<noteq> ErrNoRows)
                        else if p_IsOperator prin \<noteq> 0 then
                          issue_pair h d1 (CreateOperatorClaims (db_now d1) subject) subject RoleOperator (\<lambda>e. e \<noteq> ErrNoRows)
                        else (err_body 403 ''insufficient_role''
                                ''this GitHub account has viewer access only - API tokens require operator or admin role''
                                ''ask a platform admin to grant you operator access'', d1))))"

section \<open>Bootstrap\<close>

definition localAdminID :: int where "localAdminID = -1"

definition localAdminLogin :: string where "localAdminLogin = ''local-admin''"

text \<open>Who the first admin is: the identity token's subject, or the synthetic local admin.\<close>

definition bootstrap_identity :: "henv \<Rightarrow> time \<Rightarrow> string \<Rightarrow> auth_resp + string \<times> int" where
  "bootstrap_identity h now authorization =
     (let rawIDToken = strings_TrimPrefix authorization ''Bearer '' in
      if rawIDToken \<noteq> [] then
        (case VerifyToken h now rawIDToken of
           Inl _ \<Rightarrow> Inl (err_body 401 ''invalid_id_token''
                          ''identity token is invalid, expired, or not a bootstrap identity token'' [])
         | Inr c \<Rightarrow>
             if cl_Role c \<noteq> RoleBootstrapID then
               Inl (err_body 401 ''invalid_id_token''
                      ''identity token is invalid, expired, or not a bootstrap identity token'' [])
             else if cl_Subject c = [] \<or> cl_GithubID c = 0 then
               Inl (err_body 401 ''invalid_id_token'' ''identity token is missing subject or github_id'' [])
             else Inr (cl_Subject c, cl_GithubID c))
      else if h_githubClientID h = [] then Inr (localAdminLogin, localAdminID)
      else Inl (err_body 401 ''missing_id_token'' ''Authorization: Bearer <morsel-id-token> header is required'' []))"

text \<open>
  \<open>POST /bootstrap\<close>. On an error the token value that \<open>GetBootstrapToken\<close> returns is the empty
  string, so every error of it is answered with 401 by the first condition.
\<close>

definition HandleBootstrap ::
  "henv \<Rightarrow> 's SecretStore \<Rightarrow> 's \<Rightarrow> db \<Rightarrow> string \<Rightarrow> string \<Rightarrow> string \<Rightarrow> auth_resp \<times> 's \<times> db" where
  "HandleBootstrap h store s d meth bootstrapToken authorization =
     (if meth \<noteq> ''POST'' then (err_body 405 ''method_not_allowed'' ''POST required'' [], s, d)
      else
        let got = GetBootstrapToken store s;
            expected = (case got of Inl _ \<Rightarrow> [] | Inr v \<Rightarrow> v) in
        if got = Inl ErrSecretNotFound \<or> bootstrapToken = [] \<or> bootstrapToken \<noteq> expected then
          (err_body 401 ''invalid_bootstrap_token'' ''bootstrap token is missing, invalid, or already consumed'' [], s, d)
        else case got of
          Inl _ \<Rightarrow> (err_body 500 ''internal_error'' ''could not verify bootstrap token'' [], s, d)
        | Inr _ \<Rightarrow>
            (case bootstrap_identity h (db_now d) authorization of
               Inl r \<Rightarrow> (r, s, d)
             | Inr (githubLogin, githubID) \<Rightarrow>
                 (case UpsertPrincipal d githubID githubLogin of
                    Inl _ \<Rightarrow> (err_body 500 ''internal_error'' ''could not create admin principal'' [], s, d)
                  | Inr (_, d1) \<Rightarrow>
                      (case SetAdmin d1 githubID True of
                         Inl _ \<Rightarrow> (err_body 500 ''internal_error'' ''could not grant admin role'' [], s, d1)
                       | Inr d2 \<Rightarrow>
                           (case SetOperator d2 githubID True of
                              Inl _ \<Rightarrow> (err_body 500 ''internal_error'' ''could not grant operator role'' [], s, d2)
                            | Inr d3 \<Rightarrow>
                                let s' = log_err s (DeleteBootstrapToken store s);
                                    (r, d4) = issue_pair h d3 (CreateAdminAPIClaims (db_now d3) githubLogin)
                                                githubLogin RoleAdmin (\<lambda>_. True)
                                in (r, s', d4))))))"

section \<open>Guards of the raw operator endpoints\<close>

text \<open>None when the request may go on, otherwise the answer that was written.\<close>

definition requireOperatorHTTP :: "henv \<Rightarrow> time \<Rightarrow> string \<Rightarrow> auth_resp option" where
  "requireOperatorHTTP h now authorization =
     (let tok = strings_TrimPrefix authorization ''Bearer '' in
      if tok = [] then Some (err_body 401 ''invalid_token'' ''Authorization: Bearer header is required'' [])
      else if (case VerifyToken h now tok of Inl _ \<Rightarrow> True | Inr c \<Rightarrow> \<not> IsOperatorRole (cl_Role c)) then
        Some (err_body 403 ''insufficient_role'' ''operator role required'' [])
      else None)"

definition requireAdminHTTP :: "henv \<Rightarrow> time \<Rightarrow> string \<Rightarrow> auth_resp option" where
  "requireAdminHTTP h now authorization =
     (let tok = strings_TrimPrefix authorization ''Bearer '' in
      if tok = [] then Some (err_body 401 ''invalid_token'' ''Authorization: Bearer header is required'' [])
      else if (case VerifyToken h now tok of Inl _ \<Rightarrow> True | Inr c \<Rightarrow> cl_Role c \<noteq> RoleAdmin) then
        Some (err_body 403 ''insufficient_role'' ''admin role required'' [])
      else None)"

section \<open>Refresh tokens are used once\<close>

lemma RotateRefreshToken_effect:
  assumes "RotateRefreshToken d i new x = Inr d'"
  shows "t_refresh_tokens d' = upd (\<lambda>t. rt_ID t = i) (\<lambda>t. t\<lparr>rt_TokenHash := new, rt_ExpiresAt := x\<rparr>) (t_refresh_tokens d)"
    "t_principals d' = t_principals d"
  using assms
  by (auto simp: RotateRefreshToken_def RotateRefreshToken_q_def guarded_Inr Let_def
      split: sum.splits option.splits if_splits)

lemma rotated_hash_gone:
  assumes "wf_db d" and rt: "hash_tab.by_key old (t_refresh_tokens d) = Some rt"
    and "RotateRefreshToken d (rt_ID rt) new x = Inr d'" "new \<noteq> old"
  shows "hash_tab.by_key old (t_refresh_tokens d') = None"
    "hash_tab.by_key new (t_refresh_tokens d') = Some (rt\<lparr>rt_TokenHash := new, rt_ExpiresAt := x\<rparr>)"
proof -
  let ?t = "t_refresh_tokens d" and ?t' = "t_refresh_tokens d'"
  have u: "token_tab.uniq ?t" "hash_tab.uniq ?t" using assms(1) by (auto simp: wf_db_def wf_rest_def)
  have in_t: "rt \<in> set ?t" "rt_TokenHash rt = old" using rt hash_tab.by_key_Some [OF u(2)] by auto
  have t': "?t' = upd (\<lambda>t. rt_ID t = rt_ID rt) (\<lambda>t. t\<lparr>rt_TokenHash := new, rt_ExpiresAt := x\<rparr>) ?t"
    by (rule RotateRefreshToken_effect(1) [OF assms(3)])
  show "hash_tab.by_key old ?t' = None"
    unfolding hash_tab.by_key_def sel_None
  proof
    fix r assume "r \<in> set ?t'"
    then obtain q where q: "q \<in> set ?t"
      "r = (if rt_ID q = rt_ID rt then q\<lparr>rt_TokenHash := new, rt_ExpiresAt := x\<rparr> else q)"
      by (auto simp: t' set_upd)
    show "rt_TokenHash r \<noteq> old"
      using q in_t assms(4) hash_tab.uniq_in [OF u(2) q(1) in_t(1)] by (auto split: if_splits)
  qed
  have "wf_db d'" using wf_RotateRefreshToken [OF assms(1,3)] .
  then have "hash_tab.uniq ?t'" by (simp add: wf_db_def wf_rest_def)
  moreover have "rt\<lparr>rt_TokenHash := new, rt_ExpiresAt := x\<rparr> \<in> set ?t'"
    using in_t(1) by (force simp: t' set_upd)
  ultimately show "hash_tab.by_key new ?t' = Some (rt\<lparr>rt_TokenHash := new, rt_ExpiresAt := x\<rparr>)"
    by (simp add: hash_tab.by_key_Some)
qed

lemma GetRefreshTokenByHash_key:
  "GetRefreshTokenByHash d hash = Inr rt \<Longrightarrow> hash_tab.by_key hash (t_refresh_tokens d) = Some rt"
  by (auto simp: GetRefreshTokenByHash_def GetRefreshTokenByHash_q_def guarded_Inr hash_tab.by_key_def)

lemma TokenRefresh_ok:
  assumes "TokenRefresh h d tok = (Inr (Ok resp), d')"
  obtains raw rt p claims newRaw where
    "b64_Decode tok = Some raw" "GetRefreshTokenByHash d (HashRefreshToken h raw) = Inr rt"
    "rt_RevokedAt rt = None" "db_now d \<le> rt_ExpiresAt rt" "IsOperatorRole (rt_Role rt)"
    "GetPrincipalByLogin d (rt_Subject rt) = Inr p" "refresh_claims (db_now d) p (rt_Subject rt) = Some claims"
    "IssueToken h claims = Inr (tp_AccessToken resp)" "rand32 h = Inr newRaw" "tp_RefreshToken resp = b64_Encode newRaw"
    "RotateRefreshToken d (rt_ID rt) (HashRefreshToken h newRaw) (db_now d + operatorRefreshTTL) = Inr d'"
  using assms
  by (auto simp: TokenRefresh_def validateRefreshToken_def rotate_and_answer_def GenerateRefreshToken_def not_less
      split: if_splits option.splits sum.splits typed.splits db_error.splits)

lemma TokenRefresh_rotates:
  assumes "TokenRefresh h d tok = (Inr (Ok resp), d')" "b64_Decode tok = Some raw" "rand32 h = Inr newRaw"
  obtains rt where "GetRefreshTokenByHash d (HashRefreshToken h raw) = Inr rt" "rt_RevokedAt rt = None"
    "tp_RefreshToken resp = b64_Encode newRaw"
    "RotateRefreshToken d (rt_ID rt) (HashRefreshToken h newRaw) (db_now d + operatorRefreshTTL) = Inr d'"
  using TokenRefresh_ok [OF assms(1)] assms(2,3) by (metis Inr_inject option.inject)

text \<open>A refresh token that was rotated away is refused.\<close>

lemma TokenRefresh_reuse_refused:
  assumes "wf_db d" "TokenRefresh h d tok = (Inr (Ok resp), d')"
    and "b64_Decode tok = Some raw" "rand32 h = Inr newRaw"
    and "HashRefreshToken h newRaw \<noteq> HashRefreshToken h raw"
  shows "TokenRefresh h (d'\<lparr>db_now := t, db_fault := \<lambda>_. None\<rparr>) tok =
      (Inr (Typed 401 (detail ''invalid_token'' ''refresh token not found or already rotated''
        ''re-authenticate to obtain a new refresh token'')), d'\<lparr>db_now := t, db_fault := \<lambda>_. None\<rparr>)"
proof -
  obtain rt where g: "GetRefreshTokenByHash d (HashRefreshToken h raw) = Inr rt"
    and rot: "RotateRefreshToken d (rt_ID rt) (HashRefreshToken h newRaw) (db_now d + operatorRefreshTTL) = Inr d'"
    using TokenRefresh_rotates [OF assms(2-4)] by metis
  note gone = rotated_hash_gone [OF assms(1) GetRefreshTokenByHash_key [OF g] rot assms(5)]
  have "tok \<noteq> []" using assms(2) by (auto simp: TokenRefresh_def)
  then show ?thesis
    using gone(1) assms(3)
    by (simp add: TokenRefresh_def GetRefreshTokenByHash_def GetRefreshTokenByHash_q_def validateRefreshToken_def
        hash_tab.by_key_def)
qed

text \<open>
  C3. A refresh token is used once. After a successful refresh, presenting the same token again is
  answered with 401 whatever the time, as long as the new token's hash differs from the old one's;
  the token handed out is the base64 text of bytes whose hash is stored, for the same subject and
  role, unrevoked and valid for 90 days.
\<close>

theorem refresh_token_single_use:
  assumes "wf_db d" "TokenRefresh h d tok = (Inr (Ok resp), d')"
    and "b64_Decode tok = Some raw" "rand32 h = Inr newRaw"
    and "HashRefreshToken h newRaw \<noteq> HashRefreshToken h raw"
  shows "TokenRefresh h (d'\<lparr>db_now := t, db_fault := \<lambda>_. None\<rparr>) tok =
      (Inr (Typed 401 (detail ''invalid_token'' ''refresh token not found or already rotated''
        ''re-authenticate to obtain a new refresh token'')), d'\<lparr>db_now := t, db_fault := \<lambda>_. None\<rparr>) \<and>
    b64_Decode (tp_RefreshToken resp) = Some newRaw \<and>
    (\<exists>rt rt'. hash_tab.by_key (HashRefreshToken h raw) (t_refresh_tokens d) = Some rt \<and>
       hash_tab.by_key (HashRefreshToken h newRaw) (t_refresh_tokens d') = Some rt' \<and>
       rt_Subject rt' = rt_Subject rt \<and> rt_Role rt' = rt_Role rt \<and> rt_RevokedAt rt' = None \<and>
       rt_ExpiresAt rt' = db_now d + operatorRefreshTTL)"
proof -
  obtain rt where g: "GetRefreshTokenByHash d (HashRefreshToken h raw) = Inr rt" and rev: "rt_RevokedAt rt = None"
    and enc: "tp_RefreshToken resp = b64_Encode newRaw"
    and rot: "RotateRefreshToken d (rt_ID rt) (HashRefreshToken h newRaw) (db_now d + operatorRefreshTTL) = Inr d'"
    using TokenRefresh_rotates [OF assms(2-4)] by metis
  show ?thesis
    using TokenRefresh_reuse_refused [OF assms] enc b64_Decode_Encode [of newRaw] rev
      rotated_hash_gone(2) [OF assms(1) GetRefreshTokenByHash_key [OF g] rot assms(5)] GetRefreshTokenByHash_key [OF g]
    by simp
qed

text \<open>A small installation for the witnesses: the hash is the identity, every signature is one text.\<close>

definition sample_env :: henv where
  "sample_env = \<lparr> h_signingKey = ''key'', h_githubClientID = ''client'', h_BaseDomain = ''example.com'',
     h_GatewayPort = 443, h_Namespace = ''morsel'',
     jwt_Sign = (\<lambda>k c. Inr ''jwt''), jwt_Parse = (\<lambda>kf now t. Inl ''bad token''), h_sha256 = (\<lambda>s. s),
     rand32 = Inr ''b'', rand16 = Inr ''c'' \<rparr>"

definition sample_token :: RefreshToken where
  "sample_token = \<lparr> rt_ID = ''t1'', rt_TokenHash = hex_Encode ''a'', rt_Subject = ''ann'', rt_Role = ''operator'',
     rt_RepoSlug = None, rt_ExpiresAt = 100, rt_RevokedAt = None, rt_CreatedAt = 0 \<rparr>"

definition sample_principal :: Principal where
  "sample_principal = \<lparr> p_GithubID = 7, p_GithubLogin = ''ann'', p_IsOperator = 1, p_IsAdmin = 0, p_CreatedAt = 0 \<rparr>"

definition sample_db :: db where
  "sample_db = (initial_db 50)\<lparr>t_refresh_tokens := [sample_token], t_principals := [sample_principal]\<rparr>"

lemmas sample_defs = sample_env_def sample_token_def sample_principal_def sample_db_def initial_db_def

lemma sample_chars:
  "char_of (97 :: nat) = CHR ''a''" "char_of (54 :: nat) = CHR ''6''" "char_of (49 :: nat) = CHR ''1''"
  "char_of (50 :: nat) = CHR ''2''" "char_of (89 :: nat) = CHR ''Y''" "char_of (103 :: nat) = CHR ''g''"
  by (simp_all add: char_of_eq_iff)

lemma hex_ab: "hex_Encode ''a'' = ''61''" "hex_Encode ''b'' = ''62''"
  by (simp_all add: hex_Encode_def hex_digit_def sample_chars)

lemma sample_refresh:
  "fst (TokenRefresh sample_env sample_db ''YQ'') =
     Inr (Ok \<lparr> tp_AccessToken = ''jwt'', tp_RefreshToken = ''Yg'', tp_ExpiresIn = 900, tp_RefreshExpiresIn = 7776000 \<rparr>)"
  by (simp add: sample_defs TokenRefresh_def b64_Decode_def b64_val_def Let_def GetRefreshTokenByHash_def
      GetRefreshTokenByHash_q_def guarded_def HashRefreshToken_def hex_ab sample_chars validateRefreshToken_def
      IsOperatorRole_def role_defs GetPrincipalByLogin_def GetPrincipalByLogin_q_def refresh_claims_def
      IssueToken_def rotate_and_answer_def GenerateRefreshToken_def RotateRefreshToken_def
      RotateRefreshToken_q_def b64_char_def seconds_def ttl_defs operatorRefreshTTL_def duration_defs)

lemma sample_wf: "wf_db sample_db"
  by (simp add: sample_defs seed_tier_def wf_db_def wf_apps_def wf_rest_def uniq_defs)

lemma sample_raw: "b64_Decode ''YQ'' = Some ''a''"
  by (simp add: b64_Decode_def b64_val_def sample_chars)

lemma refresh_token_single_use_witness:
  "\<exists>resp d'. TokenRefresh sample_env sample_db ''YQ'' = (Inr (Ok resp), d') \<and>
     fst (TokenRefresh sample_env (d'\<lparr>db_now := 60, db_fault := \<lambda>_. None\<rparr>) ''YQ'') =
       Inr (Typed 401 (detail ''invalid_token'' ''refresh token not found or already rotated''
         ''re-authenticate to obtain a new refresh token''))"
proof -
  obtain resp d' where r: "TokenRefresh sample_env sample_db ''YQ'' = (Inr (Ok resp), d')"
    using sample_refresh by (cases "TokenRefresh sample_env sample_db ''YQ''") auto
  from refresh_token_single_use [OF sample_wf r sample_raw, of "''b''" 60] r
  show ?thesis by (simp add: sample_env_def HashRefreshToken_def hex_ab)
qed

text \<open>
  C17. A refreshed access token never outlives or exceeds the principal: a refresh that succeeds found
  an unrevoked, unexpired token of an operator or admin, whose principal still exists and still is an
  admin or an operator; the new access token carries that principal's current role and expires at
  most 15 minutes later.
\<close>

theorem TokenRefresh_current_role:
  assumes "TokenRefresh h d tok = (Inr (Ok resp), d')"
  shows "\<exists>rt p claims. rt \<in> set (t_refresh_tokens d) \<and> rt_RevokedAt rt = None \<and> db_now d \<le> rt_ExpiresAt rt \<and>
     p \<in> set (t_principals d) \<and> p_GithubLogin p = rt_Subject rt \<and> (p_IsAdmin p \<noteq> 0 \<or> p_IsOperator p \<noteq> 0) \<and>
     IssueToken h claims = Inr (tp_AccessToken resp) \<and> cl_Subject claims = p_GithubLogin p \<and>
     cl_Role claims = (if p_IsAdmin p \<noteq> 0 then RoleAdmin else RoleOperator) \<and>
     cl_ExpiresAt claims \<le> db_now d + 15 * Minute"
proof -
  from TokenRefresh_ok [OF assms] obtain raw rt p claims where
    g: "GetRefreshTokenByHash d (HashRefreshToken h raw) = Inr rt" "rt_RevokedAt rt = None"
       "db_now d \<le> rt_ExpiresAt rt"
    and p: "GetPrincipalByLogin d (rt_Subject rt) = Inr p"
    and c: "refresh_claims (db_now d) p (rt_Subject rt) = Some claims"
    and i: "IssueToken h claims = Inr (tp_AccessToken resp)" by metis
  have m: "rt \<in> set (t_refresh_tokens d)" "p \<in> set (t_principals d)" "p_GithubLogin p = rt_Subject rt"
    using g(1) p by (auto simp: GetRefreshTokenByHash_def GetRefreshTokenByHash_q_def GetPrincipalByLogin_def
        GetPrincipalByLogin_q_def guarded_Inr dest: sel_Some)
  have "(x div Second) * Second \<le> x" for x by (simp add: Second_def)
  then have "p_IsAdmin p \<noteq> 0 \<or> p_IsOperator p \<noteq> 0" "cl_Subject claims = p_GithubLogin p"
    "cl_Role claims = (if p_IsAdmin p \<noteq> 0 then RoleAdmin else RoleOperator)"
    "cl_ExpiresAt claims \<le> db_now d + 15 * Minute"
    using c m(3)
    by (auto simp: refresh_claims_def claims_defs NewNumericDate_def OperatorTokenTTL_def split: if_splits)
  with m g i show ?thesis by blast
qed

lemma TokenRefresh_current_role_witness:
  "fst (TokenRefresh sample_env sample_db ''YQ'') =
     Inr (Ok \<lparr> tp_AccessToken = ''jwt'', tp_RefreshToken = ''Yg'', tp_ExpiresIn = 900, tp_RefreshExpiresIn = 7776000 \<rparr>) \<and>
   (\<exists>rt p. rt \<in> set (t_refresh_tokens sample_db) \<and> p \<in> set (t_principals sample_db) \<and>
      p_GithubLogin p = rt_Subject rt)"
  using sample_refresh TokenRefresh_current_role [of sample_env sample_db "''YQ''"]
  by (cases "TokenRefresh sample_env sample_db ''YQ''") (simp, blast)

section \<open>Bootstrap\<close>

lemma issue_pair_frame: "issue_pair h d c sub role f = (r, d') \<Longrightarrow> t_principals d' = t_principals d"
  by (auto simp: issue_pair_def InsertRefreshToken_def InsertRefreshToken_q_def guarded_Inr Let_def
      split: sum.splits if_splits)

lemma SetAdmin_SetOperator_effect:
  assumes "SetAdmin d i b = Inr d1" "SetOperator d1 i c = Inr d2"
  shows "t_principals d2 = upd (\<lambda>p. p_GithubID p = i)
    (\<lambda>p. p\<lparr>p_IsOperator := (if c then 1 else 0), p_IsAdmin := (if b then 1 else 0)\<rparr>) (t_principals d)"
  using assms
  by (auto simp: SetAdmin_def SetOperator_def SetPrincipalIsAdmin_q_def SetPrincipalIsOperator_q_def guarded_Inr
      upd_def)

lemma UpsertPrincipal_present:
  assumes "UpsertPrincipal d i login = Inr (p, d')"
  shows "p \<in> set (t_principals d') \<and> p_GithubID p = i \<and> p_GithubLogin p = login"
  using assms
  by (auto simp: UpsertPrincipal_def UpsertPrincipal_q_def guarded_Inr Let_def
      dest!: sel_Some intro!: upd_mem split: option.splits if_splits)

lemma HandleBootstrap_ok:
  assumes "HandleBootstrap h store s d m bt auth = ((200, body), s', d')"
  obtains login i p d1 d2 d3 where
    "bt \<noteq> []" "GetBootstrapToken store s = Inr bt" "bootstrap_identity h (db_now d) auth = Inr (login, i)"
    "UpsertPrincipal d i login = Inr (p, d1)" "SetAdmin d1 i True = Inr d2" "SetOperator d2 i True = Inr d3"
    "t_principals d' = t_principals d3" "s' = log_err s (DeleteBootstrapToken store s)"
proof -
  have ident: "fst r \<noteq> 200" if "bootstrap_identity h t a = Inl r" for t a r
    using that by (auto simp: bootstrap_identity_def err_body_def Let_def split: if_splits sum.splits)
  show ?thesis
    using assms that issue_pair_frame
    by (fastforce simp: HandleBootstrap_def err_body_def Let_def
        dest: ident split: if_splits sum.splits prod.splits)
qed


definition dev_env :: henv where
  "dev_env = sample_env\<lparr>h_githubClientID := []\<rparr>"

definition fresh_secrets :: "(string \<times> string) \<Rightarrow> secret_value option" where
  "fresh_secrets = [(''morsel'', bootstrapTokenName) \<mapsto> RawBytes ''once'']"

lemma dev_bootstrap:
  "\<exists>s' d'. HandleBootstrap dev_env (local_store map_api ''morsel'') fresh_secrets (initial_db 50) ''POST'' ''once'' [] =
     ((200, TokenPair ''jwt'' ''Yg'' 900 7776000), s', d')"
  by (simp add: HandleBootstrap_def Let_def GetBootstrapToken_def kube_store_def kss_Get_def GetOpaqueSecret_def
      map_api_def fresh_secrets_def bootstrap_identity_def strings_defs dev_env_def sample_env_def initial_db_def
      UpsertPrincipal_def UpsertPrincipal_q_def guarded_def SetAdmin_def SetOperator_def SetPrincipalIsAdmin_q_def
      SetPrincipalIsOperator_q_def issue_pair_def IssueToken_def GenerateRefreshToken_def b64_char_def sample_chars
      newTokenID_def InsertRefreshToken_def InsertRefreshToken_q_def seconds_def ttl_defs operatorRefreshTTL_def
      duration_defs)


text \<open>
  A bootstrap identity token, which the code describes as unable to pass any API check, passes the
  repository check of every repository: \<open>checkRepoAccess\<close> only restricts tokens whose role is
  developer. A developer token passes it for its own repository only, and no token of either kind
  passes the operator check.
\<close>

theorem repo_access_by_role:
  "checkRepoAccess (Some (CreateBootstrapIDClaims now login gid)) org repo = None \<and>
   (checkRepoAccess (Some (CreateDeployClaims now slug)) org repo = None) = (slug = RepoSlug org repo) \<and>
   requireOperator (Some (CreateBootstrapIDClaims now login gid)) \<noteq> None \<and>
   requireOperator (Some (CreateDeployClaims now slug)) \<noteq> None \<and>
   requireAdmin (Some (CreateOperatorClaims now login)) \<noteq> None"
  by (auto simp: checkRepoAccess_def requireOperator_def requireAdmin_def claims_defs role_defs IsOperatorRole_def)

section \<open>Deploy tokens and key rotation\<close>

lemma try_keys_none:
  "\<forall>key \<in> set keys. \<exists>e. dj_Parse j (hmac_key key) tok = Inl e \<Longrightarrow> \<exists>e. try_keys j keys tok le = Inl e"
  by (induction keys arbitrary: le) (auto split: option.splits)


definition one_token_jwt :: deploy_jwt where
  "one_token_jwt = \<lparr> dj_Sign = (\<lambda>k repo. Inr ''tok''),
     dj_Parse = (\<lambda>kf t. if kf ''HS256'' = Inr ''k0'' then Inr (True, Some ''o/r'') else Inl ''signature is invalid'') \<rparr>"


end
