(* ===== verification/Operator.thy ===== *)
theory Operator
  imports Apps Auth
begin

text \<open>
  The operator's handlers: tiers (\<open>api/handler/tiers.go\<close>), platform configuration, repo tiers, cost,
  status, principals and exemptions (\<open>operator.go\<close>), repos (\<open>repos.go\<close>) and the raw endpoints of
  \<open>admin.go\<close>. Names that the store also has carry the suffix \<open>_h\<close>.
\<close>

section \<open>Tiers\<close>

record OAS_Tier =
  ot_Name :: string
  ot_MaxApps :: int
  ot_CPUMilli :: int
  ot_MemoryMB :: int
  ot_BlobGB :: int
  ot_DatabaseGB :: int
  ot_QueueGB :: int
  ot_HibernateAfter :: string
  ot_IsDefault :: bool
  ot_CreatedAt :: time
  ot_UpdatedAt :: time

definition dbTierToOAS :: "Tier \<Rightarrow> OAS_Tier" where
  "dbTierToOAS t =
     \<lparr> ot_Name = t_Name t, ot_MaxApps = t_MaxApps t, ot_CPUMilli = t_CpuMilli t, ot_MemoryMB = t_MemoryMb t,
       ot_BlobGB = t_BlobGb t, ot_DatabaseGB = t_DatabaseGb t, ot_QueueGB = t_QueueGb t,
       ot_HibernateAfter = t_HibernateAfter t, ot_IsDefault = (t_IsDefault t \<noteq> 0),
       ot_CreatedAt = t_CreatedAt t, ot_UpdatedAt = t_UpdatedAt t \<rparr>"

text \<open>The text of an error of the store, and the test for a UNIQUE violation on it.\<close>

definition db_error_text :: "db_error \<Rightarrow> string" where
  "db_error_text e =
     (case e of
        ErrNoRows \<Rightarrow> ''sql: no rows in result set''
      | ErrUnique \<Rightarrow> ''constraint failed: UNIQUE constraint failed''
      | ErrForeignKey \<Rightarrow> ''constraint failed: FOREIGN KEY constraint failed''
      | ErrDriver m \<Rightarrow> m)"

definition isUniqueViolation :: "db_error \<Rightarrow> bool" where
  "isUniqueViolation err \<longleftrightarrow> strings_Contains (db_error_text err) ''UNIQUE constraint failed''"

record CreateTierReq =
  ct_Name :: string
  ct_MaxApps :: int
  ct_CPUMilli :: int
  ct_MemoryMB :: int
  ct_BlobGB :: int
  ct_DatabaseGB :: int
  ct_QueueGB :: int
  ct_HibernateAfter :: string

record UpdateTierReq =
  ut_MaxApps :: "int option"
  ut_CPUMilli :: "int option"
  ut_MemoryMB :: "int option"
  ut_BlobGB :: "int option"
  ut_DatabaseGB :: "int option"
  ut_QueueGB :: "int option"
  ut_HibernateAfter :: "string option"

definition tier_not_found :: "string \<Rightarrow> handler_error" where
  "tier_not_found name = api_err 404 ''tier_not_found'' (''tier '' @ sprintf_q name @ '' not found'')
     ''check the tier name with: morsel operator tier list''"

definition ListTiers_h :: "Claims option \<Rightarrow> db \<Rightarrow> handler_error + OAS_Tier list" where
  "ListTiers_h claims s =
     (case requireOperator claims of
        Some e \<Rightarrow> Inl e
      | None \<Rightarrow> (case ListTiers s of Inl e \<Rightarrow> Inl (Wrapped ''list tiers'' e) | Inr ts \<Rightarrow> Inr (map dbTierToOAS ts)))"

definition CreateTier :: "Claims option \<Rightarrow> db \<Rightarrow> CreateTierReq \<Rightarrow> (handler_error + OAS_Tier) \<times> db" where
  "CreateTier claims s req =
     (case requireOperator claims of
        Some e \<Rightarrow> (Inl e, s)
      | None \<Rightarrow>
          (case InsertTier s (ct_Name req) (ct_MaxApps req) (ct_CPUMilli req) (ct_MemoryMB req) (ct_BlobGB req)
                  (ct_DatabaseGB req) (ct_QueueGB req) (ct_HibernateAfter req) of
             Inl e \<Rightarrow>
               (if isUniqueViolation e then
                  (Inl (api_err 409 ''tier_exists'' (''tier '' @ sprintf_q (ct_Name req) @ '' already exists'')
                          ''choose a different name or edit the existing tier''), s)
                else (Inl (Wrapped ''create tier'' e), s))
           | Inr (t, s') \<Rightarrow> (Inr (dbTierToOAS t), s')))"

definition UpdateTier ::
  "Claims option \<Rightarrow> db \<Rightarrow> UpdateTierReq \<Rightarrow> string \<Rightarrow> (handler_error + OAS_Tier) \<times> db \<times> task list" where
  "UpdateTier claims s req name =
     (case requireOperator claims of
        Some e \<Rightarrow> (Inl e, s, [])
      | None \<Rightarrow>
          (case PatchTier s name (opt_Or (ut_MaxApps req) 0) (opt_Or (ut_CPUMilli req) 0) (opt_Or (ut_MemoryMB req) 0)
                  (opt_Or (ut_BlobGB req) 0) (opt_Or (ut_DatabaseGB req) 0) (opt_Or (ut_QueueGB req) 0)
                  (opt_Or (ut_HibernateAfter req) []) of
             Inl ErrNoRows \<Rightarrow> (Inl (tier_not_found name), s, [])
           | Inl e \<Rightarrow> (Inl (Wrapped ''update tier'' e), s, [])
           | Inr (t, s') \<Rightarrow>
               (Inr (dbTierToOAS t), s',
                [RunPropagate (t_Name t) \<lparr> tl_CPUMilli = t_CpuMilli t, tl_MemoryMB = t_MemoryMb t \<rparr>])))"

definition DeleteTier_h :: "Claims option \<Rightarrow> db \<Rightarrow> string \<Rightarrow> (handler_error + unit) \<times> db" where
  "DeleteTier_h claims s name =
     (case requireOperator claims of
        Some e \<Rightarrow> (Inl e, s)
      | None \<Rightarrow>
          (case GetTier s name of
             Inl ErrNoRows \<Rightarrow> (Inl (tier_not_found name), s)
           | Inl e \<Rightarrow> (Inl (Wrapped ''get tier'' e), s)
           | Inr t \<Rightarrow>
               if t_IsDefault t \<noteq> 0 then
                 (Inl (api_err 409 ''tier_is_default''
                         (''tier '' @ sprintf_q name @ '' is the platform default and cannot be deleted'')
                         ''set a different default first with: morsel operator tier set-default --name <other-tier>''), s)
               else case CountReposByTier s name of
                 Inl e \<Rightarrow> (Inl (Wrapped ''count repos'' e), s)
               | Inr count \<Rightarrow>
                   if count > 0 then
                     (Inl (api_err 409 ''tier_in_use''
                             (''tier '' @ sprintf_q name @ '' is assigned to '' @ strconv_Itoa count @ '' repo(s) and cannot be deleted'')
                             ''reassign all repos to another tier first''), s)
                   else case DeleteTier s name of
                     Inl e \<Rightarrow> (Inl (Wrapped ''delete tier'' e), s)
                   | Inr s' \<Rightarrow> (Inr (), s')))"

definition SetDefaultTier_h :: "Claims option \<Rightarrow> db \<Rightarrow> string \<Rightarrow> (handler_error + OAS_Tier) \<times> db" where
  "SetDefaultTier_h claims s name =
     (case requireOperator claims of
        Some e \<Rightarrow> (Inl e, s)
      | None \<Rightarrow>
          (case GetTier s name of
             Inl ErrNoRows \<Rightarrow> (Inl (tier_not_found name), s)
           | Inl e \<Rightarrow> (Inl (Wrapped ''get tier'' e), s)
           | Inr _ \<Rightarrow>
               (case SetDefaultTier s name of
                  Inl e \<Rightarrow> (Inl (Wrapped ''set default tier'' e), s)
                | Inr s' \<Rightarrow>
                    (case GetTier s' name of
                       Inl e \<Rightarrow> (Inl (Wrapped ''get updated tier'' e), s')
                     | Inr t \<Rightarrow> (Inr (dbTierToOAS t), s')))))"

section \<open>Platform configuration\<close>

record OAS_Config =
  oc_BudgetCeilingMonthly :: "real option"
  oc_SoftLimitPct :: "real option"
  oc_HardLimitPct :: "real option"
  oc_DefaultIdleAfter :: "string option"

definition platformConfigToOAS :: "PlatformConfig \<Rightarrow> OAS_Config" where
  "platformConfigToOAS cfg =
     \<lparr> oc_BudgetCeilingMonthly = Some (c_BudgetCeilingMonthly cfg), oc_SoftLimitPct = Some (c_SoftLimitPct cfg),
       oc_HardLimitPct = Some (c_HardLimitPct cfg), oc_DefaultIdleAfter = Some (c_DefaultIdleAfter cfg) \<rparr>"

definition GetOperatorConfig :: "Claims option \<Rightarrow> db \<Rightarrow> handler_error + OAS_Config" where
  "GetOperatorConfig claims s =
     (case requireOperator claims of
        Some e \<Rightarrow> Inl e
      | None \<Rightarrow>
          (case GetPlatformConfig s of
             Inl e \<Rightarrow> Inl (Wrapped ''get platform config'' e)
           | Inr cfg \<Rightarrow> Inr (platformConfigToOAS cfg)))"

definition UpdateOperatorConfig :: "Claims option \<Rightarrow> db \<Rightarrow> OAS_Config \<Rightarrow> (handler_error + OAS_Config) \<times> db" where
  "UpdateOperatorConfig claims s req =
     (case requireOperator claims of
        Some e \<Rightarrow> (Inl e, s)
      | None \<Rightarrow>
          (case PatchPlatformConfig s (opt_Or (oc_BudgetCeilingMonthly req) 0) (opt_Or (oc_SoftLimitPct req) 0)
                  (opt_Or (oc_HardLimitPct req) 0) (opt_Or (oc_DefaultIdleAfter req) []) of
             Inl e \<Rightarrow> (Inl (Wrapped ''update platform config'' e), s)
           | Inr (updated, s') \<Rightarrow> (Inr (platformConfigToOAS updated), s')))"

section \<open>The tier of a repo\<close>

definition currentMaxAppsFor :: "db \<Rightarrow> string \<Rightarrow> int" where
  "currentMaxAppsFor s tierName = (case GetTier s tierName of Inl _ \<Rightarrow> 2 ^ 62 - 1 | Inr cur \<Rightarrow> t_MaxApps cur)"

text \<open>The demotion guard: the number of apps that blocks the change, if any.\<close>

definition demotion_blocked :: "db \<Rightarrow> string \<Rightarrow> string \<Rightarrow> Tier \<Rightarrow> int option" where
  "demotion_blocked s slug curTier newTier =
     (if t_MaxApps newTier < currentMaxAppsFor s curTier then
        (case CountAppsByRepo s slug of
           Inl _ \<Rightarrow> None
         | Inr count \<Rightarrow> if count > t_MaxApps newTier then Some count else None)
      else None)"

definition UpdateRepoTier ::
  "'k AppDeployer \<Rightarrow> Claims option \<Rightarrow> db \<times> 'k \<Rightarrow> string \<Rightarrow> string \<Rightarrow> string \<Rightarrow> (handler_error + OAS_Repo) \<times> db \<times> 'k" where
  "UpdateRepoTier dep claims w tier org repo = (case w of (s, k) \<Rightarrow>
     (case requireOperator claims of
        Some e \<Rightarrow> (Inl e, s, k)
      | None \<Rightarrow>
          let slug = RepoSlug org repo in
          (case GetRepo s slug of
             Inl ErrNoRows \<Rightarrow> (Inl (api_err 404 ''not_found'' ''repo not found'' ''check the org and repo name''), s, k)
           | Inl e \<Rightarrow> (Inl (Wrapped ''get repo'' e), s, k)
           | Inr rp \<Rightarrow>
               (case GetTier s tier of
                  Inl ErrNoRows \<Rightarrow> (Inl (tier_not_found tier), s, k)
                | Inl e \<Rightarrow> (Inl (Wrapped ''get tier'' e), s, k)
                | Inr newTier \<Rightarrow>
                    (case demotion_blocked s slug (r_Tier rp) newTier of
                       Some count \<Rightarrow>
                         (Inl (api_err 409 ''tier_demotion_blocked''
                                 (''repo has '' @ strconv_Itoa count @ '' apps; tier '' @ sprintf_q tier @ '' allows '' @
                                  strconv_Itoa (t_MaxApps newTier))
                                 ''delete apps to meet the lower tier limit before demoting''), s, k)
                     | None \<Rightarrow>
                         (case SetRepoTier s slug tier of
                            Inl e \<Rightarrow> (Inl (Wrapped ''set repo tier'' e), s, k)
                          | Inr (updated, s') \<Rightarrow>
                              let limits = \<lparr> tl_CPUMilli = t_CpuMilli newTier, tl_MemoryMB = t_MemoryMb newTier \<rparr>;
                                  apps = (case ListApps s' slug of Inl _ \<Rightarrow> [] | Inr as \<Rightarrow> as);
                                  k' = apply_tier_apps dep limits apps k;
                                  count = (case CountAppsByRepo s' slug of Inl _ \<Rightarrow> 0 | Inr n \<Rightarrow> n);
                                  cst = RepoCostMonthly s' slug (LatestPrices s') (db_now s')
                              in (Inr (dbRepoToOAS updated count cst), s', k')))))))"

section \<open>Approvals, cost and status\<close>

definition not_implemented_for_operator :: "Claims option \<Rightarrow> handler_error" where
  "not_implemented_for_operator claims =
     (case requireOperator claims of Some e \<Rightarrow> e | None \<Rightarrow> errNotImplemented)"

definition ListOperatorApprovals :: "Claims option \<Rightarrow> handler_error" where
  "ListOperatorApprovals claims = not_implemented_for_operator claims"

definition GetOperatorApproval :: "Claims option \<Rightarrow> handler_error" where
  "GetOperatorApproval claims = not_implemented_for_operator claims"

definition BatchActionApprovals :: "Claims option \<Rightarrow> handler_error" where
  "BatchActionApprovals claims = not_implemented_for_operator claims"

record OperatorCost =
  ocost_EstimatedMonthly :: real
  ocost_ByRepo :: "(string \<times> real) list"
  ocost_PricesFetchedAt :: "time option"

definition GetOperatorCost :: "Claims option \<Rightarrow> db \<Rightarrow> handler_error + OperatorCost" where
  "GetOperatorCost claims s =
     (case requireOperator claims of
        Some e \<Rightarrow> Inl e
      | None \<Rightarrow>
          let prices = LatestPrices s in
          (case ListRepos s of
             Inl e \<Rightarrow> Inl (Wrapped ''list repos'' e)
           | Inr repos \<Rightarrow>
               let byRepo = map (\<lambda>r. (r_Slug r, RepoCostMonthly s (r_Slug r) prices (db_now s))) repos
               in Inr \<lparr> ocost_EstimatedMonthly = foldl (+) 0 (map snd byRepo), ocost_ByRepo = byRepo,
                        ocost_PricesFetchedAt = (if time_IsZero (ps_FetchedAt prices) then None
                                                 else Some (ps_FetchedAt prices)) \<rparr>))"

definition GetOperatorPricesHistory :: "Claims option \<Rightarrow> db \<Rightarrow> handler_error + (time \<times> real \<times> real \<times> real \<times> real) list" where
  "GetOperatorPricesHistory claims s =
     (case requireOperator claims of
        Some e \<Rightarrow> Inl e
      | None \<Rightarrow>
          (case ListPriceSnapshots s of
             Inl e \<Rightarrow> Inl (Wrapped ''list price snapshots'' e)
           | Inr snaps \<Rightarrow>
               Inr (map (\<lambda>p. (ps_FetchedAt p, ps_ComputeCpuPerCoreHour p, ps_ComputeMemPerGbHour p,
                              ps_StoragePerGbMonth p, ps_RegistryPerGbMonth p)) snaps)))"

definition GetDeploymentInfo :: "henv \<Rightarrow> string \<Rightarrow> Claims option \<Rightarrow> handler_error + string \<times> string" where
  "GetDeploymentInfo h platName claims =
     (case requireOperator claims of Some e \<Rightarrow> Inl e | None \<Rightarrow> Inr (h_Namespace h, platName))"

definition MorselTLSSecret :: string where "MorselTLSSecret = ''morsel-tls''"

text \<open>The certificates that expire soon, and whether the prices are stale.\<close>

definition GetOperatorStatus ::
  "henv \<Rightarrow> 'k AppDeployer \<Rightarrow> 'k \<Rightarrow> Claims option \<Rightarrow> db \<Rightarrow> handler_error + string list option \<times> bool option" where
  "GetOperatorStatus h dep k claims s =
     (case requireOperator claims of
        Some e \<Rightarrow> Inl e
      | None \<Rightarrow>
          (case dp_GetTLSCertExpiry dep k (h_Namespace h) MorselTLSSecret of
             Inl e \<Rightarrow> Inl (OtherErr (''get tls cert expiry: '' @ e))
           | Inr expiry \<Rightarrow>
               let certs = (case expiry of
                              None \<Rightarrow> None
                            | Some t \<Rightarrow> if time_Sub t (db_now s) < 30 * 24 * Hour then Some [''*.'' @ h_BaseDomain h] else None);
                   stale = (case GetLatestPriceSnapshot s of
                              Inl _ \<Rightarrow> Some True
                            | Inr snap \<Rightarrow> if time_Sub (db_now s) (ps_FetchedAt snap) > 48 * Hour then Some True else None)
               in Inr (certs, stale)))"

section \<open>Principals\<close>

type_synonym principals_resp = "(string \<times> bool \<times> bool) list"

definition principal_item :: "Principal \<Rightarrow> string \<times> bool \<times> bool" where
  "principal_item p = (p_GithubLogin p, p_IsOperator p \<noteq> 0, p_IsAdmin p \<noteq> 0)"

definition listPrincipalsResponse :: "db \<Rightarrow> handler_error + principals_resp" where
  "listPrincipalsResponse s =
     (case ListPrincipals s of Inl e \<Rightarrow> Inl (Wrapped ''read principals'' e) | Inr ps \<Rightarrow> Inr (map principal_item ps))"

definition ListOperatorPrincipals :: "Claims option \<Rightarrow> db \<Rightarrow> handler_error + principals_resp" where
  "ListOperatorPrincipals claims s =
     (case requireOperator claims of Some e \<Rightarrow> Inl e | None \<Rightarrow> listPrincipalsResponse s)"

definition AddOperatorPrincipal :: "Claims option \<Rightarrow> db \<Rightarrow> string \<Rightarrow> (handler_error + principals_resp) \<times> db" where
  "AddOperatorPrincipal claims s reqPrincipal =
     (case requireAdmin claims of
        Some e \<Rightarrow> (Inl e, s)
      | None \<Rightarrow>
          let login = strings_TrimSpace reqPrincipal in
          if login = [] then (Inl (api_err 400 ''invalid_request'' ''principal (github_login) is required'' []), s)
          else case GetPrincipalByLogin s login of
            Inl ErrNoRows \<Rightarrow>
              (Inl (api_err 404 ''not_found'' (''principal '' @ sprintf_q login @ '' not found - they must log in via GitHub OAuth first'') []), s)
          | Inl e \<Rightarrow> (Inl (Wrapped ''get principal'' e), s)
          | Inr p \<Rightarrow>
              (case SetOperator s (p_GithubID p) True of
                 Inl e \<Rightarrow> (Inl (Wrapped ''set operator'' e), s)
               | Inr s' \<Rightarrow> (listPrincipalsResponse s', s')))"

definition RemoveOperatorPrincipal :: "Claims option \<Rightarrow> db \<Rightarrow> string \<Rightarrow> (handler_error + principals_resp) \<times> db" where
  "RemoveOperatorPrincipal claims s login =
     (case requireAdmin claims of
        Some e \<Rightarrow> (Inl e, s)
      | None \<Rightarrow>
          (case GetPrincipalByLogin s login of
             Inl ErrNoRows \<Rightarrow> (Inl (api_err 404 ''not_found'' (''principal '' @ sprintf_q login @ '' not found'') []), s)
           | Inl e \<Rightarrow> (Inl (Wrapped ''get principal'' e), s)
           | Inr p \<Rightarrow>
               (case DeletePrincipal s (p_GithubID p) of
                  Inl e \<Rightarrow> (Inl (Wrapped ''delete principal'' e), s)
                | Inr s' \<Rightarrow> (listPrincipalsResponse s', s'))))"

text \<open>A partial body: None when it is not JSON, else the two optional flags.\<close>

definition HandlePrincipalPatch ::
  "henv \<Rightarrow> db \<Rightarrow> string \<Rightarrow> string \<Rightarrow> (bool option \<times> bool option) option \<Rightarrow> (auth_resp + principals_resp) \<times> db" where
  "HandlePrincipalPatch h s authorization login body =
     (case requireAdminHTTP h (db_now s) authorization of
        Some r \<Rightarrow> (Inl r, s)
      | None \<Rightarrow>
          (case body of
             None \<Rightarrow> (Inl (err_body 400 ''invalid_request'' ''request body must be valid JSON'' []), s)
           | Some (isOperator, isAdmin) \<Rightarrow>
               (case GetPrincipalByLogin s login of
                  Inl ErrNoRows \<Rightarrow> (Inl (err_body 404 ''not_found'' (''principal '' @ sprintf_q login @ '' not found'') []), s)
                | Inl e \<Rightarrow> (Inl (err_body 500 ''internal_error'' ''could not retrieve principal'' []), s)
                | Inr p \<Rightarrow>
                    (case (case isOperator of None \<Rightarrow> Inr s | Some b \<Rightarrow> SetOperator s (p_GithubID p) b) of
                       Inl e \<Rightarrow> (Inl (err_body 500 ''internal_error'' ''could not update operator flag'' []), s)
                     | Inr s1 \<Rightarrow>
                         (case (case isAdmin of None \<Rightarrow> Inr s1 | Some b \<Rightarrow> SetAdmin s1 (p_GithubID p) b) of
                            Inl e \<Rightarrow> (Inl (err_body 500 ''internal_error'' ''could not update admin flag'' []), s1)
                          | Inr s2 \<Rightarrow>
                              (case ListPrincipals s2 of
                                 Inl e \<Rightarrow> (Inl (err_body 500 ''internal_error'' ''could not list principals'' []), s2)
                               | Inr ps \<Rightarrow> (Inr (map principal_item ps), s2)))))))"

section \<open>Exemptions\<close>

definition write_as_operator ::
  "Claims option \<Rightarrow> db \<Rightarrow> string \<Rightarrow> (db_error + db) \<Rightarrow> (handler_error + unit) \<times> db" where
  "write_as_operator claims s msg r =
     (case requireOperator claims of
        Some e \<Rightarrow> (Inl e, s)
      | None \<Rightarrow> (case r of Inl e \<Rightarrow> (Inl (Wrapped msg e), s) | Inr s' \<Rightarrow> (Inr (), s')))"

definition AddAppExemption_h :: "Claims option \<Rightarrow> db \<Rightarrow> string \<Rightarrow> string \<Rightarrow> (handler_error + unit) \<times> db" where
  "AddAppExemption_h claims s repoSlug appName =
     write_as_operator claims s ''add app exemption'' (AddAppExemption s repoSlug appName)"

definition RemoveAppExemption_h :: "Claims option \<Rightarrow> db \<Rightarrow> string \<Rightarrow> string \<Rightarrow> string \<Rightarrow> (handler_error + unit) \<times> db" where
  "RemoveAppExemption_h claims s org repo name =
     write_as_operator claims s ''remove app exemption'' (RemoveAppExemption s (RepoSlug org repo) name)"

definition AddRepoExemption_h :: "Claims option \<Rightarrow> db \<Rightarrow> string \<Rightarrow> (handler_error + unit) \<times> db" where
  "AddRepoExemption_h claims s repoSlug =
     write_as_operator claims s ''add repo exemption'' (AddRepoExemption s repoSlug)"

definition RemoveRepoExemption_h :: "Claims option \<Rightarrow> db \<Rightarrow> string \<Rightarrow> string \<Rightarrow> (handler_error + unit) \<times> db" where
  "RemoveRepoExemption_h claims s org repo =
     write_as_operator claims s ''remove repo exemption'' (RemoveRepoExemption s (RepoSlug org repo))"

record ExemptionItem =
  ei_Kind :: string
  ei_RepoSlug :: string
  ei_Type :: string
  ei_AppName :: "string option"
  ei_ExpiresAt :: "time option"

definition ListExemptions_h :: "Claims option \<Rightarrow> db \<Rightarrow> handler_error + ExemptionItem list" where
  "ListExemptions_h claims s =
     (case requireOperator claims of
        Some e \<Rightarrow> Inl e
      | None \<Rightarrow>
          (case ListExemptions s of
             Inl e \<Rightarrow> Inl (Wrapped ''list exemptions'' e)
           | Inr exs \<Rightarrow>
               Inr (map (\<lambda>ex. \<lparr> ei_Kind = e_Kind ex, ei_RepoSlug = e_RepoSlug ex, ei_Type = e_Type ex,
                                ei_AppName = null_string (e_AppName ex), ei_ExpiresAt = e_ExpiresAt ex \<rparr>) exs)))"

end
