(* ===== verification/Repos.thy ===== *)
theory Repos
  imports Operator
begin

text \<open>
  Repos and the platform-wide views: \<open>api/handler/repos.go\<close> and the list endpoints of \<open>admin.go\<close>.
  Then the invariant that ties repos to tiers.
\<close>

section \<open>Repos\<close>

definition no_claims :: handler_error where
  "no_claims = api_err 401 ''invalid_token'' ''request is missing an Authorization: Bearer header''
     ''include a valid Morsel access token in the Authorization header''"

text \<open>The loop of the operator's listing; it stops at the first count that fails.\<close>

fun repo_rows :: "db \<Rightarrow> PriceSnapshot \<Rightarrow> Repo list \<Rightarrow> handler_error + OAS_Repo list" where
  "repo_rows s prices [] = Inr []"
| "repo_rows s prices (r # rs) =
     (case CountAppsByRepo s (r_Slug r) of
        Inl e \<Rightarrow> Inl (Wrapped ''count apps'' e)
      | Inr count \<Rightarrow>
          (case repo_rows s prices rs of
             Inl e \<Rightarrow> Inl e
           | Inr out \<Rightarrow> Inr (dbRepoToOAS r count (RepoCostMonthly s (r_Slug r) prices (db_now s)) # out)))"

definition ListRepos_h :: "Claims option \<Rightarrow> db \<Rightarrow> bool option \<Rightarrow> handler_error + OAS_Repo list" where
  "ListRepos_h claims s all =
     (case claims of
        None \<Rightarrow> Inl no_claims
      | Some c \<Rightarrow>
          if cl_Role c = RoleOperator \<and> opt_Or all False then
            (case ListRepos s of
               Inl e \<Rightarrow> Inl (Wrapped ''list repos'' e)
             | Inr repos \<Rightarrow> repo_rows s (LatestPrices s) repos)
          else if cl_Role c = RoleDeveloper then
            (case GetRepo s (cl_Repo c) of
               Inl ErrNoRows \<Rightarrow> Inr []
             | Inl e \<Rightarrow> Inl (Wrapped ''get repo'' e)
             | Inr rp \<Rightarrow>
                 (case CountAppsByRepo s (cl_Repo c) of
                    Inl e \<Rightarrow> Inl (Wrapped ''count apps'' e)
                  | Inr count \<Rightarrow>
                      Inr [dbRepoToOAS rp count (RepoCostMonthly s (r_Slug rp) (LatestPrices s) (db_now s))]))
          else Inr [])"

definition GetRepo_h :: "Claims option \<Rightarrow> db \<Rightarrow> string \<Rightarrow> string \<Rightarrow> handler_error + OAS_Repo typed" where
  "GetRepo_h claims s org repo =
     (case checkRepoAccess claims org repo of
        Some e \<Rightarrow> Inl e
      | None \<Rightarrow>
          let slug = RepoSlug org repo in
          (case GetRepo s slug of
             Inl ErrNoRows \<Rightarrow> Inr (Typed 404 (detail ''not_found'' ''repo not found'' ''deploy an app to register the repo''))
           | Inl e \<Rightarrow> Inl (Wrapped ''get repo'' e)
           | Inr rp \<Rightarrow>
               (case CountAppsByRepo s slug of
                  Inl e \<Rightarrow> Inl (Wrapped ''count apps'' e)
                | Inr count \<Rightarrow>
                    Inr (Ok (dbRepoToOAS rp count (RepoCostMonthly s slug (LatestPrices s) (db_now s)))))))"

definition not_implemented_for_repo :: "Claims option \<Rightarrow> string \<Rightarrow> string \<Rightarrow> handler_error" where
  "not_implemented_for_repo claims org repo =
     (case checkRepoAccess claims org repo of Some e \<Rightarrow> e | None \<Rightarrow> errNotImplemented)"

definition DeleteRepo :: "Claims option \<Rightarrow> string \<Rightarrow> string \<Rightarrow> handler_error" where
  "DeleteRepo claims org repo = not_implemented_for_repo claims org repo"

definition ListRepoApprovals :: "Claims option \<Rightarrow> string \<Rightarrow> string \<Rightarrow> handler_error" where
  "ListRepoApprovals claims org repo = not_implemented_for_repo claims org repo"

section \<open>Synchronising a repo\<close>

fun sync_upserts :: "string \<Rightarrow> AppSpec list \<Rightarrow> db \<Rightarrow> handler_error option \<times> db" where
  "sync_upserts slug [] s = (None, s)"
| "sync_upserts slug (spec # specs) s =
     (let name = opt_Or (sp_Name spec) [] in
      case UpsertApp s slug name (sp_Type spec) (AppNamespace slug name) (sp_Image spec) (opt_Or (sp_IdleAfter spec) []) of
        Inl e \<Rightarrow> (Some (Wrapped (''upsert app '' @ sprintf_q name) e), s)
      | Inr (_, s') \<Rightarrow> sync_upserts slug specs s')"

fun sync_deletes :: "string set \<Rightarrow> App list \<Rightarrow> db \<Rightarrow> handler_error option \<times> db" where
  "sync_deletes desired [] s = (None, s)"
| "sync_deletes desired (app # apps) s =
     (if a_Name app \<notin> desired then
        (case MarkAppDeletionPending s (a_ID app) of
           Inl e \<Rightarrow> (Some (Wrapped (''mark deletion pending for '' @ sprintf_q (a_Name app)) e), s)
         | Inr s' \<Rightarrow> sync_deletes desired apps s')
      else sync_deletes desired apps s)"

definition desired_names :: "AppSpec list \<Rightarrow> string set" where
  "desired_names specs = set (map (\<lambda>spec. opt_Or (sp_Name spec) []) specs)"

definition SyncRepo ::
  "henv \<Rightarrow> Claims option \<Rightarrow> db \<Rightarrow> AppSpec list \<Rightarrow> string \<Rightarrow> string \<Rightarrow> (handler_error + AcceptedOperation) \<times> db" where
  "SyncRepo h claims s apps org repo =
     (case checkRepoAccess claims org repo of
        Some e \<Rightarrow> (Inl e, s)
      | None \<Rightarrow>
          let slug = RepoSlug org repo; defaultTier = GetDefaultTierName s in
          (case GetOrCreateRepo s slug defaultTier of
             Inl e \<Rightarrow> (Inl (Wrapped ''get or create repo'' e), s)
           | Inr (_, s1) \<Rightarrow>
               (case sync_upserts slug apps s1 of
                  (Some e, s2) \<Rightarrow> (Inl e, s2)
                | (None, s2) \<Rightarrow>
                    (case ListApps s2 slug of
                       Inl e \<Rightarrow> (Inl (Wrapped ''list apps'' e), s2)
                     | Inr existing \<Rightarrow>
                         (case sync_deletes (desired_names apps) existing s2 of
                            (Some e, s3) \<Rightarrow> (Inl e, s3)
                          | (None, s3) \<Rightarrow>
                              (case newOperationID h of
                                 Inl e \<Rightarrow> (Inl (OtherErr (''generate operation id: '' @ e)), s3)
                               | Inr opID \<Rightarrow>
                                   (case CreateOperation s3 opID slug [] ''sync'' of
                                      Inl e \<Rightarrow> (Inl (Wrapped ''create operation'' e), s3)
                                    | Inr (_, s4) \<Rightarrow>
                                        (case SucceedOperation s4 opID of
                                           Inl e \<Rightarrow> (Inl (Wrapped ''succeed operation'' e), s4)
                                         | Inr s5 \<Rightarrow>
                                             (Inr \<lparr> ac_Location = ''/api/repos/'' @ org @ ''/'' @ repo @ ''/operations/'' @ opID,
                                                    ac_RetryAfter = retryAfterDeploy, ac_OperationID = opID \<rparr>, s5)))))))))"

section \<open>Platform-wide lists\<close>

record adminAppRow =
  ar_RepoSlug :: string
  ar_Name :: string
  ar_URL :: string
  ar_Status :: string
  ar_Hibernated :: bool
  ar_Tier :: string
  ar_CostMonthly :: real
  ar_LastDeploy :: time

text \<open>The zero values that remain when the look-up of the repo or of the tier fails.\<close>

definition zero_repo :: Repo where
  "zero_repo = \<lparr> r_Slug = [], r_Tier = [], r_CreatedAt = 0 \<rparr>"

definition zero_tier :: Tier where
  "zero_tier = \<lparr> t_Name = [], t_MaxApps = 0, t_CpuMilli = 0, t_MemoryMb = 0, t_BlobGb = 0, t_DatabaseGb = 0,
     t_QueueGb = 0, t_HibernateAfter = [], t_IsDefault = 0, t_CreatedAt = 0, t_UpdatedAt = 0 \<rparr>"

definition admin_app_row :: "henv \<Rightarrow> db \<Rightarrow> PriceSnapshot \<Rightarrow> App \<Rightarrow> adminAppRow" where
  "admin_app_row h s prices app =
     (let rp = (case GetRepo s (a_RepoSlug app) of Inl _ \<Rightarrow> zero_repo | Inr r \<Rightarrow> r);
          tier = (case GetTier s (r_Tier rp) of Inl _ \<Rightarrow> zero_tier | Inr t \<Rightarrow> t)
      in \<lparr> ar_RepoSlug = a_RepoSlug app, ar_Name = a_Name app,
           ar_URL = (if a_Type app = ''http''
                     then AppURL (a_Name app) (RepoName (a_RepoSlug app)) (h_BaseDomain h) (h_GatewayPort h) else []),
           ar_Status = a_Status app, ar_Hibernated = (a_Hibernated app \<noteq> 0), ar_Tier = r_Tier rp,
           ar_CostMonthly = AppCostMonthly s app tier prices (db_now s), ar_LastDeploy = a_UpdatedAt app \<rparr>)"

definition HandleAdminListApps :: "henv \<Rightarrow> db \<Rightarrow> string \<Rightarrow> auth_resp + adminAppRow list" where
  "HandleAdminListApps h s authorization =
     (case requireOperatorHTTP h (db_now s) authorization of
        Some r \<Rightarrow> Inl r
      | None \<Rightarrow>
          (case ListAllApps s of
             Inl _ \<Rightarrow> Inl (err_body 500 ''internal_error'' ''list apps failed'' [])
           | Inr allApps \<Rightarrow> Inr (map (admin_app_row h s (LatestPrices s)) allApps)))"

definition adminStaleThreshold :: duration where "adminStaleThreshold = 30 * 24 * Hour"

text \<open>The suppressed apps, as the strings \<open>slug/name\<close>; a failing list suppresses none.\<close>

definition suppressed_set :: "db \<Rightarrow> string set" where
  "suppressed_set s =
     (case ListActiveStaleSuppressed s of
        Inl _ \<Rightarrow> {}
      | Inr supp \<Rightarrow> set (map (\<lambda>x. ss_RepoSlug x @ ''/'' @ ss_AppName x) supp))"

definition stale_shown :: "db \<Rightarrow> App \<Rightarrow> bool" where
  "stale_shown s app \<longleftrightarrow>
     a_RepoSlug app @ ''/'' @ a_Name app \<notin> suppressed_set s \<and>
     time_Sub (db_now s) (a_UpdatedAt app) \<ge> adminStaleThreshold"

definition HandleAdminListStale :: "henv \<Rightarrow> db \<Rightarrow> string \<Rightarrow> auth_resp + (int \<times> string \<times> string \<times> time) list" where
  "HandleAdminListStale h s authorization =
     (case requireOperatorHTTP h (db_now s) authorization of
        Some r \<Rightarrow> Inl r
      | None \<Rightarrow>
          (case ListAllApps s of
             Inl _ \<Rightarrow> Inl (err_body 500 ''internal_error'' ''list apps failed'' [])
           | Inr allApps \<Rightarrow>
               Inr (map (\<lambda>a. (a_ID a, a_RepoSlug a, a_Name a, a_UpdatedAt a)) (filter (stale_shown s) allApps))))"

text \<open>Inr the status 204, written whether or not the suppression was stored.\<close>

definition HandleAdminIgnoreStale ::
  "henv \<Rightarrow> db \<Rightarrow> string \<Rightarrow> string \<Rightarrow> string \<Rightarrow> string \<Rightarrow> (auth_resp + int) \<times> db" where
  "HandleAdminIgnoreStale h s authorization org repo appName =
     (case requireOperatorHTTP h (db_now s) authorization of
        Some r \<Rightarrow> (Inl r, s)
      | None \<Rightarrow>
          (Inr 204, log_err s (SuppressStaleApp s (org @ ''/'' @ repo) appName (db_now s + 30 * 24 * Hour))))"

section \<open>Repos refer to tiers\<close>

text \<open>
  One tier is the default, flags are 0 or 1, and the tier of every repo exists. The database does not
  enforce this (there is no foreign key): the handlers do.
\<close>

definition tiers_ok :: "db \<Rightarrow> bool" where
  "tiers_ok s \<longleftrightarrow> tier_tab.uniq (t_tiers s) \<and>
     (\<exists>t \<in> set (t_tiers s). t_IsDefault t = 1 \<and> (\<forall>u \<in> set (t_tiers s). u \<noteq> t \<longrightarrow> t_IsDefault u = 0)) \<and>
     (\<forall>r \<in> set (t_repos s). r_Tier r \<in> t_Name ` set (t_tiers s))"

lemma tiers_okI:
  "tier_tab.uniq (t_tiers s) \<Longrightarrow> t \<in> set (t_tiers s) \<Longrightarrow> t_IsDefault t = 1 \<Longrightarrow>
   \<forall>u \<in> set (t_tiers s). u \<noteq> t \<longrightarrow> t_IsDefault u = 0 \<Longrightarrow>
   \<forall>r \<in> set (t_repos s). r_Tier r \<in> t_Name ` set (t_tiers s) \<Longrightarrow> tiers_ok s"
  unfolding tiers_ok_def by blast

lemma tiers_ok_refs: "tiers_ok s \<Longrightarrow> \<forall>r \<in> set (t_repos s). r_Tier r \<in> t_Name ` set (t_tiers s)"
  by (simp add: tiers_ok_def)

lemma tiers_ok_initial: "tiers_ok (initial_db now)"
  by (simp add: tiers_ok_def initial_db_def seed_tier_def tier_tab.uniq_def)

lemma GetTier_in: "GetTier s name = Inr t \<Longrightarrow> t \<in> set (t_tiers s) \<and> t_Name t = name"
  by (auto simp: GetTier_def GetTier_q_def guarded_Inr is_tier_def dest!: sel_Some)

lemma tiers_ok_frame:
  "t_tiers s' = t_tiers s \<Longrightarrow> t_repos s' = t_repos s \<Longrightarrow> tiers_ok s' = tiers_ok s"
  by (simp add: tiers_ok_def)

text \<open>A deleted tier was not the default and had no repos.\<close>

lemma DeleteTier_h_success:
  assumes "DeleteTier_h claims s name = (Inr (), s')"
  obtains t where "GetTier s name = Inr t" "t_IsDefault t = 0" "\<forall>r \<in> set (t_repos s). r_Tier r \<noteq> name"
    "t_tiers s' = del (is_tier name) (t_tiers s)" "t_repos s' = t_repos s"
  using assms
  by (auto simp: DeleteTier_h_def CountReposByTier_def CountReposByTier_q_def DeleteTier_def DeleteTier_q_def
      guarded_Inr filter_empty_conv split: option.splits sum.splits db_error.splits if_splits)

lemma DeleteTier_h_failure: "DeleteTier_h claims s name = (Inl e, s') \<Longrightarrow> s' = s"
  by (auto simp: DeleteTier_h_def split: option.splits sum.splits db_error.splits if_splits)

lemma DeleteTier_h_ok:
  assumes "tiers_ok s" "DeleteTier_h claims s name = (Inr (), s')"
  shows "tiers_ok s'"
proof -
  from DeleteTier_h_success [OF assms(2)] obtain t0 where
    t0: "t0 \<in> set (t_tiers s)" "t_Name t0 = name" "t_IsDefault t0 = 0"
    and free: "\<forall>r \<in> set (t_repos s). r_Tier r \<noteq> name"
    and s': "t_tiers s' = del (is_tier name) (t_tiers s)" "t_repos s' = t_repos s" by (metis GetTier_in)
  from assms(1) obtain t where u: "tier_tab.uniq (t_tiers s)" and t: "t \<in> set (t_tiers s)" "t_IsDefault t = 1"
    "\<forall>u \<in> set (t_tiers s). u \<noteq> t \<longrightarrow> t_IsDefault u = 0"
    and refs: "\<forall>r \<in> set (t_repos s). r_Tier r \<in> t_Name ` set (t_tiers s)" by (auto simp: tiers_ok_def)
  have "t_Name t \<noteq> name" using tier_tab.uniq_in [OF u t(1) t0(1)] t0 t(2) by auto
  then have "t \<in> set (t_tiers s')" using t(1) by (simp add: s' is_tier_def)
  moreover have "\<forall>u \<in> set (t_tiers s'). u \<noteq> t \<longrightarrow> t_IsDefault u = 0" using t(3) by (simp add: s')
  moreover have "\<forall>r \<in> set (t_repos s'). r_Tier r \<in> t_Name ` set (t_tiers s')"
    using refs free by (force simp: s' is_tier_def)
  ultimately show ?thesis using t(2) tier_tab.uniq_del [OF u, of "is_tier name"] by (auto simp: tiers_ok_def s')
qed

lemma SetDefaultTier_ok:
  assumes "tiers_ok s" "GetTier s name = Inr t0" "SetDefaultTier s name = Inr s'"
  shows "tiers_ok s'"
proof -
  let ?f = "\<lambda>t. t\<lparr>t_IsDefault := (if t_Name t = name then 1 else 0), t_UpdatedAt := sql_now s\<rparr>"
  have s': "t_tiers s' = map ?f (t_tiers s)" "t_repos s' = t_repos s"
    using assms(3) by (auto simp: SetDefaultTier_def SetDefaultTier_q_def guarded_Inr)
  have u: "tier_tab.uniq (t_tiers s)" and t0: "t0 \<in> set (t_tiers s)" "t_Name t0 = name"
    using assms(1) GetTier_in [OF assms(2)] by (auto simp: tiers_ok_def)
  have "tier_tab.uniq (t_tiers s')" using u by (simp add: s' tier_tab.uniq_def comp_def)
  moreover have "?f t0 \<in> set (t_tiers s')" "t_IsDefault (?f t0) = 1" using t0 by (auto simp: s')
  moreover have "\<forall>v \<in> set (t_tiers s'). v \<noteq> ?f t0 \<longrightarrow> t_IsDefault v = 0"
    using tier_tab.uniq_in [OF u _ t0(1)] t0(2) by (auto simp: s')
  moreover have "t_Name ` set (t_tiers s') = t_Name ` set (t_tiers s)" by (force simp: s' image_image)
  ultimately show ?thesis using assms(1) unfolding tiers_ok_def s'(2) by metis
qed

lemma InsertTier_ok:
  assumes "tiers_ok s" "InsertTier s name ma cpu mem blob dbg qg hib = Inr (t, s')"
  shows "tiers_ok s'"
proof -
  from assms(2) have s': "t_tiers s' = t_tiers s @ [t]" "t_repos s' = t_repos s" "t_IsDefault t = 0"
    "tier_tab.by_key (t_Name t) (t_tiers s) = None"
    by (auto simp: InsertTier_def InsertTier_q_def guarded_Inr Let_def sel_is_tier split: if_splits)
  from assms(1) obtain t1 where u: "tier_tab.uniq (t_tiers s)" and t1: "t1 \<in> set (t_tiers s)" "t_IsDefault t1 = 1"
    "\<forall>v \<in> set (t_tiers s). v \<noteq> t1 \<longrightarrow> t_IsDefault v = 0"
    and refs: "\<forall>r \<in> set (t_repos s). r_Tier r \<in> t_Name ` set (t_tiers s)" by (auto simp: tiers_ok_def)
  have "tier_tab.uniq (t_tiers s')" using tier_tab.uniq_insert [OF u s'(4)] by (simp add: s')
  moreover have "t1 \<in> set (t_tiers s')" "\<forall>v \<in> set (t_tiers s'). v \<noteq> t1 \<longrightarrow> t_IsDefault v = 0"
    using t1 s'(3) by (auto simp: s')
  ultimately show ?thesis using t1(2) refs by (auto simp: tiers_ok_def s')
qed

lemma UpdateTier_effect:
  assumes "UpdateTier_q s name ma cpu mem blob dbg qg hib = Inr (t, s')"
  shows "t_tiers s' = upd (is_tier name) (\<lambda>t. t\<lparr>t_MaxApps := ma, t_CpuMilli := cpu, t_MemoryMb := mem,
      t_BlobGb := blob, t_DatabaseGb := dbg, t_QueueGb := qg, t_HibernateAfter := hib, t_UpdatedAt := sql_now s\<rparr>)
      (t_tiers s) \<and> t_repos s' = t_repos s"
  using assms by (auto simp: UpdateTier_q_def guarded_Inr Let_def split: option.splits)

lemma UpdateTier_ok:
  assumes "tiers_ok s" "UpdateTier_q s name ma cpu mem blob dbg qg hib = Inr (t, s')"
  shows "tiers_ok s'"
proof -
  define f :: "Tier \<Rightarrow> Tier" where "f = (\<lambda>t. t\<lparr>t_MaxApps := ma, t_CpuMilli := cpu, t_MemoryMb := mem,
      t_BlobGb := blob, t_DatabaseGb := dbg, t_QueueGb := qg, t_HibernateAfter := hib, t_UpdatedAt := sql_now s\<rparr>)"
  have s': "t_tiers s' = upd (is_tier name) f (t_tiers s)" "t_repos s' = t_repos s"
    using UpdateTier_effect [OF assms(2)] by (simp_all add: f_def)
  have f: "t_Name (f t) = t_Name t" "t_IsDefault (f t) = t_IsDefault t" for t by (simp_all add: f_def)
  from assms(1) obtain t1 where u: "tier_tab.uniq (t_tiers s)" and t1: "t1 \<in> set (t_tiers s)" "t_IsDefault t1 = 1"
    "\<forall>v \<in> set (t_tiers s). v \<noteq> t1 \<longrightarrow> t_IsDefault v = 0" by (auto simp: tiers_ok_def)
  let ?g = "\<lambda>t. if is_tier name t then f t else t"
  have in': "?g t1 \<in> set (t_tiers s')" "t_IsDefault (?g t1) = 1" using t1 f(2) by (auto simp: s' set_upd)
  have others: "\<forall>v \<in> set (t_tiers s'). v \<noteq> ?g t1 \<longrightarrow> t_IsDefault v = 0"
  proof (intro ballI impI)
    fix v assume v: "v \<in> set (t_tiers s')" "v \<noteq> ?g t1"
    then obtain w where w: "w \<in> set (t_tiers s)" "v = ?g w" unfolding s' set_upd by blast
    with v(2) have "w \<noteq> t1" by blast
    with t1(3) w f(2) show "t_IsDefault v = 0" by simp
  qed
  have names: "t_Name ` set (t_tiers s') = t_Name ` set (t_tiers s)" unfolding s' by (rule image_upd) (rule f(1))
  have "tier_tab.uniq (t_tiers s')" unfolding s' using u f(1) by (intro tier_tab.uniq_upd)
  then show ?thesis
    using in' others by (rule tiers_okI) (use tiers_ok_refs [OF assms(1)] in \<open>simp add: names s'(2)\<close>)
qed

lemma PatchTier_ok:
  "tiers_ok s \<Longrightarrow> PatchTier s name ma cpu mem blob dbg qg hib = Inr (t, s') \<Longrightarrow> tiers_ok s'"
  by (auto simp: PatchTier_def intro: UpdateTier_ok split: sum.splits)

lemma SetRepoTier_ok:
  assumes "tiers_ok s" "GetTier s tier = Inr t" "SetRepoTier s slug tier = Inr (r, s')"
  shows "tiers_ok s'"
proof -
  have s': "t_repos s' = upd (is_repo slug) (\<lambda>r. r\<lparr>r_Tier := tier\<rparr>) (t_repos s)" "t_tiers s' = t_tiers s"
    using assms(3) by (auto simp: SetRepoTier_def UpdateRepoTier_q_def guarded_Inr split: option.splits)
  have "tier \<in> t_Name ` set (t_tiers s)" using GetTier_in [OF assms(2)] by auto
  with assms(1) show ?thesis by (auto simp: tiers_ok_def s' set_upd)
qed

text \<open>A new repo gets the default tier, which exists; the fallback name is used only on a fault.\<close>

lemma GetOrCreateRepo_ok:
  assumes "tiers_ok s" "db_fault s (''getDefaultTier'', []) = None"
    and "GetOrCreateRepo s slug (GetDefaultTierName s) = Inr (rp, s')"
  shows "tiers_ok s'"
proof -
  from assms(1) obtain t1 where "t1 \<in> set (t_tiers s)" "t_IsDefault t1 = 1" by (auto simp: tiers_ok_def)
  then obtain t where t: "sel (\<lambda>t. t_IsDefault t = 1) (t_tiers s) = Some t"
    by (cases "sel (\<lambda>t. t_IsDefault t = 1) (t_tiers s)") (auto simp: sel_None)
  then have "GetDefaultTierName s = t_Name t" "t \<in> set (t_tiers s)"
    using assms(2) sel_Some [OF t] by (auto simp: GetDefaultTierName_def GetDefaultTier_q_def)
  with assms(1,3) show ?thesis
    by (auto simp: GetOrCreateRepo_def UpsertRepo_q_def guarded_Inr Let_def new_repo_def tiers_ok_def split: option.splits)
qed

lemma UpsertApp_frame_tiers:
  "UpsertApp s slug name typ ns img idle = Inr (a, s') \<Longrightarrow> t_tiers s' = t_tiers s \<and> t_repos s' = t_repos s"
  by (auto simp: UpsertApp_def UpsertApp_q_def guarded_Inr Let_def add_app_def split: option.splits if_splits)

lemma CreateOperation_frame_tiers:
  "CreateOperation s i slug name knd = Inr (x, s') \<Longrightarrow> t_tiers s' = t_tiers s \<and> t_repos s' = t_repos s"
  by (auto simp: CreateOperation_def CreateOperation_q_def guarded_Inr Let_def split: if_splits)

lemma UpsertApp_h_repo:
  assumes "UpsertApp_h h claims s spec org repo = (r, s', ts)"
  shows "s' = s \<or> (\<exists>rp s1. GetOrCreateRepo s (RepoSlug org repo) (GetDefaultTierName s) = Inr (rp, s1) \<and>
    t_tiers s' = t_tiers s1 \<and> t_repos s' = t_repos s1)"
  using assms
  by (auto simp: UpsertApp_h_def Let_def dest!: UpsertApp_frame_tiers CreateOperation_frame_tiers
      split: option.splits sum.splits prod.splits)

lemma UpsertApp_h_tiers:
  assumes "tiers_ok s" "db_fault s (''getDefaultTier'', []) = None" "UpsertApp_h h claims s spec org repo = (r, s', ts)"
  shows "tiers_ok s'"
  using UpsertApp_h_repo [OF assms(3)] GetOrCreateRepo_ok [OF assms(1,2)] assms(1) tiers_ok_frame by blast

lemma UpdateRepoTier_tiers:
  "tiers_ok s \<Longrightarrow> UpdateRepoTier dep claims (s, k) tier org repo = (r, s', k') \<Longrightarrow> tiers_ok s'"
  by (auto simp: UpdateRepoTier_def Let_def intro: SetRepoTier_ok
      split: option.splits sum.splits db_error.splits prod.splits)



section \<open>Quotas and tiers\<close>

text \<open>
  Demotion cannot push a repo over its quota: when moving a repo to another tier succeeds and the
  repo was within the limit of its current tier, it is within the limit of the new one.
\<close>

theorem tier_change_keeps_quota:
  assumes "reliable s" "slug = RepoSlug org repo" "UpdateRepoTier dep claims (s, k) tier org repo = (Inr out, s', k')"
    and "GetRepo s slug = Inr rp" "GetTier s (r_Tier rp) = Inr cur" "live_count s slug \<le> t_MaxApps cur"
    and "GetTier s tier = Inr new"
  shows "live_count s' slug \<le> t_MaxApps new \<and> or_Tier out = tier"
proof -
  from assms(3,4,7) obtain upd' where
    guard: "demotion_blocked s slug (r_Tier rp) new = None" and set: "SetRepoTier s slug tier = Inr (upd', s')"
    and out: "or_Tier out = r_Tier upd'"
    by (auto simp: UpdateRepoTier_def Let_def assms(2) dbRepoToOAS_def
        split: option.splits sum.splits db_error.splits prod.splits)
  have apps: "t_apps s' = t_apps s" "r_Tier upd' = tier"
    using set by (auto simp: SetRepoTier_def UpdateRepoTier_q_def guarded_Inr split: option.splits)
  have "live_count s slug \<le> t_MaxApps new"
    using guard assms(1,5,6)
    by (auto simp: demotion_blocked_def currentMaxAppsFor_def CountAppsByRepo_live split: if_splits)
  with apps out show ?thesis by (simp add: live_count_def)
qed

lemma tier_change_keeps_quota_witness:
  "\<exists>out s' k'. UpdateRepoTier ok_deployer (Some (CreateOperatorClaims 0 ''op'')) (full_db, ()) ''medium'' ''o'' ''r'' =
     (Inr out, s', k') \<and> live_count s' ''o/r'' \<le> 10"
proof -
  let ?c = "Some (CreateOperatorClaims 0 ''op'')"
  let ?rp = "\<lparr> r_Slug = ''o/r'', r_Tier = ''small'', r_CreatedAt = 0 \<rparr>"
  let ?med = "seed_tier 0 ''medium'' 10 1000 1024 10 20 10 ''48h'' 0"
  have rel: "reliable full_db" and slug: "''o/r'' = RepoSlug ''o'' ''r''"
    by (simp_all add: reliable_def full_db_def initial_db_def RepoSlug_def)
  have look: "GetRepo full_db ''o/r'' = Inr ?rp" "GetTier full_db ''small'' = Inr small_tier"
    "GetTier full_db ''medium'' = Inr ?med" "live_count full_db ''o/r'' \<le> t_MaxApps small_tier"
    by (simp_all add: GetRepo_def GetRepo_q_def GetTier_def GetTier_q_def guarded_def full_db_def initial_db_def
        is_repo_def is_tier_def seed_tier_def small_tier_def live_count_def demo_app_def live_app_of_def)
  have "demotion_blocked full_db ''o/r'' ''small'' ?med = None"
    using look(2) by (simp add: demotion_blocked_def currentMaxAppsFor_def small_tier_def seed_tier_def)
  moreover obtain u s1 where "SetRepoTier full_db ''o/r'' ''medium'' = Inr (u, s1)"
    by (simp add: SetRepoTier_def UpdateRepoTier_q_def guarded_def full_db_def initial_db_def is_repo_def)
  ultimately obtain out s' k' where u: "UpdateRepoTier ok_deployer ?c (full_db, ()) ''medium'' ''o'' ''r'' = (Inr out, s', k')"
    using look(1,3) by (simp add: UpdateRepoTier_def Let_def requireOperator_def IsOperatorRole_def claims_defs RepoSlug_def)
  have t: "GetTier full_db (r_Tier ?rp) = Inr small_tier" using look(2) by simp
  from tier_change_keeps_quota [OF rel slug u look(1) t look(4,3)] u show ?thesis by (auto simp: seed_tier_def)
qed

end
