(* ===== verification/Net.thy ===== *)
theory Net
  imports Prelude
begin

text \<open>
  What the wake path uses of the packages \<open>net\<close> and \<open>net/url\<close>: \<open>SplitHostPort\<close> and the escaping and
  parsing of a query. Strings are byte strings.
\<close>

section \<open>Host and port\<close>

text \<open>\<open>net.SplitHostPort\<close>: the host, None for each of its errors.\<close>

definition SplitHostPort :: "string \<Rightarrow> string option" where
  "SplitHostPort s =
     (if CHR '':'' \<notin> set s then None
      else let port = rev (takeWhile (\<lambda>c. c \<noteq> CHR '':'') (rev s));
               pre = take (length s - length port - 1) s
        in if hd s = CHR ''['' then
             (if CHR '']'' \<notin> set s then None
              else let a = takeWhile (\<lambda>c. c \<noteq> CHR '']'') s; b = drop (length a + 1) s
                in if pre = a @ [CHR '']''] \<and> CHR ''['' \<notin> set (tl s) \<and> CHR '']'' \<notin> set b then Some (tl a) else None)
           else if CHR '':'' \<in> set pre \<or> CHR ''['' \<in> set s \<or> CHR '']'' \<in> set s then None
           else Some pre)"

lemma SplitHostPort_plain: "CHR '':'' \<notin> set s \<Longrightarrow> SplitHostPort s = None"
  by (simp add: SplitHostPort_def)

lemma SplitHostPort_port:
  assumes "CHR '':'' \<notin> set (host @ port)" "CHR ''['' \<notin> set (host @ port)" "CHR '']'' \<notin> set (host @ port)"
  shows "SplitHostPort (host @ CHR '':'' # port) = Some host"
proof -
  let ?s = "host @ CHR '':'' # port"
  have t: "takeWhile (\<lambda>c. c \<noteq> CHR '':'') (rev ?s) = rev port"
    using assms(1) by (subst rev_append) (auto simp: takeWhile_append)
  have "hd ?s \<noteq> CHR ''[''" using assms(2) by (cases host) auto
  with t assms show ?thesis by (auto simp: SplitHostPort_def)
qed

section \<open>Escaping\<close>

definition upperhex :: "nat \<Rightarrow> char" where
  "upperhex n = (if n < 10 then char_of (48 + n) else char_of (55 + n))"

definition unhex :: "char \<Rightarrow> nat option" where
  "unhex c = (let n = of_char c in
     if 48 \<le> n \<and> n \<le> 57 then Some (n - 48)
     else if 97 \<le> n \<and> n \<le> 102 then Some (n - 87)
     else if 65 \<le> n \<and> n \<le> 70 then Some (n - 55)
     else None)"

text \<open>The bytes that \<open>url.QueryEscape\<close> leaves as they are.\<close>

definition unreserved :: "char \<Rightarrow> bool" where
  "unreserved c = (let n = of_char c :: nat in
     (97 \<le> n \<and> n \<le> 122) \<or> (65 \<le> n \<and> n \<le> 90) \<or> (48 \<le> n \<and> n \<le> 57) \<or> c \<in> {CHR ''-'', CHR ''_'', CHR ''.'', CHR ''~''})"

definition escape_char :: "char \<Rightarrow> string" where
  "escape_char c =
     (if unreserved c then [c] else if c = CHR '' '' then ''+''
      else [CHR ''%'', upperhex (of_char c div 16), upperhex (of_char c mod 16)])"

definition QueryEscape :: "string \<Rightarrow> string" where
  "QueryEscape s = concat (map escape_char s)"

fun QueryUnescape :: "string \<Rightarrow> string option" where
  "QueryUnescape [] = Some []"
| "QueryUnescape (c # s) =
     (if c = CHR ''%'' then
        (case s of
           a # b # t \<Rightarrow>
             (case (unhex a, unhex b, QueryUnescape t) of
                (Some x, Some y, Some r) \<Rightarrow> Some (char_of (16 * x + y) # r)
              | _ \<Rightarrow> None)
         | _ \<Rightarrow> None)
      else map_option (Cons (if c = CHR ''+'' then CHR '' '' else c)) (QueryUnescape s))"

lemma unhex_upperhex: "n < 16 \<Longrightarrow> unhex (upperhex n) = Some n"
  by (auto simp: unhex_def upperhex_def Let_def)

lemma of_char_lt: "(of_char c :: nat) < 256"
  using of_char_mod_256 [of c] by (metis mod_less_divisor zero_less_numeral)

lemma unreserved_not: "unreserved c \<Longrightarrow> c \<notin> {CHR ''%'', CHR ''+'', CHR ''&'', CHR ''='', CHR '';'', CHR ''#'', CHR ''?''}"
  by (auto simp: unreserved_def Let_def)

lemma upperhex_not: "n < 16 \<Longrightarrow> upperhex n \<notin> {CHR ''&'', CHR ''='', CHR '';'', CHR ''#'', CHR ''?''}"
proof -
  assume "n < 16"
  then have "of_char (upperhex n) \<in> {48..57} \<union> {65..70::nat}" by (auto simp: upperhex_def)
  then show ?thesis by auto
qed

lemma QueryUnescape_escape_char: "QueryUnescape (escape_char c @ s) = map_option (Cons c) (QueryUnescape s)"
proof (cases "unreserved c")
  case True
  with unreserved_not [OF True] show ?thesis by (simp add: escape_char_def)
next
  case False
  have d: "(of_char c :: nat) div 16 < 16" using of_char_lt [of c] by (simp add: less_mult_imp_div_less)
  have "char_of (16 * (of_char c div 16 :: nat) + of_char c mod 16) = c" by (simp only: mult_div_mod_eq char_of_char)
  with False d show ?thesis
    by (auto simp: escape_char_def unhex_upperhex split: option.splits)
qed

lemma QueryUnescape_Escape: "QueryUnescape (QueryEscape s) = Some s"
proof (induction s)
  case (Cons c s)
  have "QueryEscape (c # s) = escape_char c @ QueryEscape s" by (simp add: QueryEscape_def)
  with Cons show ?case by (simp add: QueryUnescape_escape_char)
qed (simp add: QueryEscape_def)

lemma QueryEscape_safe: "c \<in> {CHR ''&'', CHR ''='', CHR '';'', CHR ''#'', CHR ''?''} \<Longrightarrow> c \<notin> set (QueryEscape s)"
proof -
  assume c: "c \<in> {CHR ''&'', CHR ''='', CHR '';'', CHR ''#'', CHR ''?''}"
  have "c \<notin> set (escape_char x)" for x
    using c unreserved_not [of x] upperhex_not [of "of_char x div 16"] upperhex_not [of "of_char x mod 16"] of_char_lt [of x]
    by (auto simp: escape_char_def less_mult_imp_div_less split: if_splits)
  then show ?thesis by (simp add: QueryEscape_def)
qed

section \<open>Queries\<close>

text \<open>\<open>url.ParseQuery\<close> followed by \<open>Get\<close>: pairs that do not parse are dropped.\<close>

definition query_pair :: "string \<Rightarrow> (string \<times> string) option" where
  "query_pair p =
     (if CHR '';'' \<in> set p \<or> p = [] then None
      else let (k, v, _) = strings_Cut p (CHR ''='') in
        (case (QueryUnescape k, QueryUnescape v) of (Some k, Some v) \<Rightarrow> Some (k, v) | _ \<Rightarrow> None))"

definition query_Get :: "string \<Rightarrow> string \<Rightarrow> string" where
  "query_Get rawQuery key =
     (case map_of (List.map_filter query_pair (strings_Split rawQuery (CHR ''&''))) key of None \<Rightarrow> [] | Some v \<Rightarrow> v)"

text \<open>The query of a URL without a fragment.\<close>

definition url_RawQuery :: "string \<Rightarrow> string" where
  "url_RawQuery url = fst (snd (strings_Cut url (CHR ''?'')))"

lemma query_Get_escaped:
  assumes "CHR ''?'' \<notin> set base"
  shows "query_Get (url_RawQuery (base @ ''?host='' @ QueryEscape v)) ''host'' = v"
proof -
  have q: "url_RawQuery (base @ ''?host='' @ QueryEscape v) = ''host='' @ QueryEscape v"
    using assms strings_Cut_append [of "CHR ''?''" base "''host='' @ QueryEscape v"] by (simp add: url_RawQuery_def)
  have "strings_Split (''host='' @ QueryEscape v) (CHR ''&'') = [''host='' @ QueryEscape v]"
    by (rule strings_Split_plain) (simp add: QueryEscape_safe)
  moreover have "query_pair (''host='' @ QueryEscape v) = Some (''host'', v)"
    using strings_Cut_append [of "CHR ''=''" "''host''" "QueryEscape v"]
    by (simp add: query_pair_def QueryEscape_safe QueryUnescape_Escape)
  ultimately show ?thesis unfolding query_Get_def q by (simp add: List.map_filter_def)
qed

end
