(* ===== verification/Filepath.thy ===== *)
theory Filepath
  imports Prelude
begin

text \<open>
  The lexical part of Go's \<open>path/filepath\<close> on Unix that the queue files use: \<open>Clean\<close> and \<open>Join\<close>. A path
  is cleaned part by part; \<open>..\<close> removes the part before it, which is how a name that contains slashes
  can leave the directory it is joined to.
\<close>

definition clean_part :: "bool \<Rightarrow> string list \<Rightarrow> string \<Rightarrow> string list" where
  "clean_part rooted stack p =
     (if p = [] \<or> p = ''.'' then stack
      else if p = ''..'' then
        (case stack of
           [] \<Rightarrow> if rooted then [] else [''..'']
         | t # ts \<Rightarrow> if t = ''..'' then ''..'' # stack else ts)
      else p # stack)"

definition clean_parts :: "bool \<Rightarrow> string list \<Rightarrow> string list" where
  "clean_parts rooted ps = rev (foldl (clean_part rooted) [] ps)"

definition is_rooted :: "string \<Rightarrow> bool" where
  "is_rooted s \<longleftrightarrow> strings_HasPrefix s ''/''"

definition path_parts :: "string \<Rightarrow> string list" where
  "path_parts s = clean_parts (is_rooted s) (strings_Split s (CHR ''/''))"

definition filepath_Clean :: "string \<Rightarrow> string" where
  "filepath_Clean s =
     (if is_rooted s then CHR ''/'' # strings_Join (path_parts s) ''/''
      else if path_parts s = [] then ''.'' else strings_Join (path_parts s) ''/'')"

definition filepath_Join :: "string list \<Rightarrow> string" where
  "filepath_Join elems =
     (let ne = filter (\<lambda>e. e \<noteq> []) elems in
      if ne = [] then [] else filepath_Clean (strings_Join ne ''/''))"

text \<open>A part that \<open>Clean\<close> keeps as it is, and the absolute paths.\<close>

definition plain :: "string \<Rightarrow> bool" where
  "plain c \<longleftrightarrow> c \<noteq> [] \<and> CHR ''/'' \<notin> set c \<and> c \<noteq> ''.'' \<and> c \<noteq> ''..''"

section \<open>Splitting and joining at slashes\<close>

lemma Split_ne [simp]: "strings_Split s c \<noteq> []"
  by (induction s) (auto split: list.splits)

lemma Split_append: "strings_Split (a @ c # b) c = strings_Split a c @ strings_Split b c"
  by (induction a) (auto split: list.splits)

lemma Split_single: "c \<notin> set s \<Longrightarrow> strings_Split s c = [s]"
  by (induction s) auto

lemma Split_parts: "p \<in> set (strings_Split s c) \<Longrightarrow> c \<notin> set p"
  by (induction s arbitrary: p) (auto split: list.splits if_splits)

lemma Join_append:
  "ps \<noteq> [] \<Longrightarrow> qs \<noteq> [] \<Longrightarrow> strings_Join (ps @ qs) sep = strings_Join ps sep @ sep @ strings_Join qs sep"
proof (induction ps)
  case (Cons p ps)
  show ?case
  proof (cases ps)
    case Nil
    with Cons.prems show ?thesis by (cases qs) auto
  next
    case (Cons a list)
    with Cons.IH Cons.prems show ?thesis by simp
  qed
qed simp

lemma Split_Join:
  "ps \<noteq> [] \<Longrightarrow> \<forall>p \<in> set ps. c \<notin> set p \<Longrightarrow> strings_Split (strings_Join ps [c]) c = ps"
proof (induction ps)
  case (Cons p ps)
  then show ?case
    by (cases ps) (simp_all add: Split_single Split_append)
qed simp

lemma Join_inj:
  "ps \<noteq> [] \<Longrightarrow> qs \<noteq> [] \<Longrightarrow> \<forall>p \<in> set ps \<union> set qs. c \<notin> set p \<Longrightarrow>
     strings_Join ps [c] = strings_Join qs [c] \<Longrightarrow> ps = qs"
  by (metis UnI1 UnI2 Split_Join)

section \<open>Joining plain parts to an absolute directory\<close>

lemma clean_part_plain: "plain p \<Longrightarrow> clean_part r st p = p # st"
  by (simp add: clean_part_def plain_def)

lemma clean_part_no_slash:
  "CHR ''/'' \<notin> set p \<Longrightarrow> \<forall>q \<in> set st. CHR ''/'' \<notin> set q \<Longrightarrow>
     q \<in> set (clean_part r st p) \<Longrightarrow> CHR ''/'' \<notin> set q"
  by (auto simp: clean_part_def split: if_splits list.splits)

lemma foldl_clean_no_slash:
  "\<forall>p \<in> set ps. CHR ''/'' \<notin> set p \<Longrightarrow> \<forall>q \<in> set st. CHR ''/'' \<notin> set q \<Longrightarrow>
     \<forall>q \<in> set (foldl (clean_part r) st ps). CHR ''/'' \<notin> set q"
proof (induction ps arbitrary: st)
  case (Cons p ps)
  have "\<forall>q \<in> set (clean_part r st p). CHR ''/'' \<notin> set q"
    using clean_part_no_slash Cons.prems by auto
  with Cons show ?case by simp
qed simp

lemma path_parts_no_slash: "p \<in> set (path_parts s) \<Longrightarrow> CHR ''/'' \<notin> set p"
  unfolding path_parts_def clean_parts_def set_rev
  by (rule foldl_clean_no_slash [THEN bspec, rotated -1]) (auto dest: Split_parts)

lemma is_rooted_append: "s \<noteq> [] \<Longrightarrow> is_rooted (s @ t) = is_rooted s"
  by (cases s) (simp_all add: is_rooted_def strings_HasPrefix_def)

lemma is_rooted_ne: "is_rooted s \<Longrightarrow> s \<noteq> []"
  by (auto simp: is_rooted_def strings_HasPrefix_def)

lemma path_parts_append:
  "is_rooted s \<Longrightarrow> path_parts (s @ CHR ''/'' # t) =
     rev (foldl (clean_part True) (rev (path_parts s)) (strings_Split t (CHR ''/'')))"
  by (simp add: path_parts_def clean_parts_def is_rooted_append is_rooted_ne Split_append)

text \<open>The parts of \<open>filepath.Join(base, ns, name)\<close> for an absolute base and a plain namespace.\<close>

lemma Join3_parts:
  assumes "is_rooted base" "plain ns" "name \<noteq> []"
  shows "filepath_Join [base, ns, name] =
    CHR ''/'' # strings_Join (rev (foldl (clean_part True) (ns # rev (path_parts base)) (strings_Split name (CHR ''/'')))) ''/''"
proof -
  have ne: "base \<noteq> []" "ns \<noteq> []" using assms is_rooted_ne by (auto simp: plain_def)
  have r: "is_rooted (base @ CHR ''/'' # ns @ CHR ''/'' # name)" "is_rooted (base @ CHR ''/'' # ns)"
    using assms(1) ne by (simp_all add: is_rooted_append)
  have "path_parts (base @ CHR ''/'' # ns) = path_parts base @ [ns]"
    using assms by (simp add: path_parts_append Split_single plain_def clean_part_plain [unfolded plain_def])
  then show ?thesis
    using assms ne r path_parts_append [of "base @ CHR ''/'' # ns" name]
    by (simp add: filepath_Join_def filepath_Clean_def)
qed

lemma Join3_plain:
  "is_rooted base \<Longrightarrow> plain ns \<Longrightarrow> plain f \<Longrightarrow>
     filepath_Join [base, ns, f] = CHR ''/'' # strings_Join (path_parts base @ [ns, f]) ''/''"
  by (simp add: Join3_parts Split_single plain_def clean_part_plain [unfolded plain_def])

lemma Join3_inj:
  assumes "is_rooted base" "plain ns" "plain f" "plain ns'" "plain f'"
    and "filepath_Join [base, ns, f] = filepath_Join [base, ns', f']"
  shows "ns = ns' \<and> f = f'"
proof -
  have "strings_Join (path_parts base @ [ns, f]) ''/'' = strings_Join (path_parts base @ [ns', f']) ''/''"
    using assms by (simp add: Join3_plain)
  then have "path_parts base @ [ns, f] = path_parts base @ [ns', f']"
    by (rule Join_inj [rotated -1]) (use assms path_parts_no_slash in \<open>auto simp: plain_def\<close>)
  then show ?thesis by simp
qed

text \<open>A name of the form \<open>../ns'/file\<close> leads into the directory of the other namespace.\<close>

lemma Join3_escape:
  assumes "is_rooted base" "plain ns" "plain ns'" "plain f"
  shows "filepath_Join [base, ns, ''../'' @ ns' @ ''/'' @ f] = filepath_Join [base, ns', f]"
proof -
  have "strings_Split (''../'' @ ns' @ ''/'' @ f) (CHR ''/'') = [''..'', ns', f]"
    using assms Split_append [of "''..''" "CHR ''/''" "ns' @ ''/'' @ f"]
      Split_append [of ns' "CHR ''/''" f] by (simp add: Split_single plain_def)
  moreover have "ns \<noteq> ''..''" using assms(2) by (simp add: plain_def)
  moreover have "clean_part True (ns # rev (path_parts base)) ''..'' = rev (path_parts base)"
    using \<open>ns \<noteq> ''..''\<close> by (simp add: clean_part_def)
  ultimately show ?thesis
    using assms by (simp add: Join3_parts Join3_plain clean_part_plain)
qed

section \<open>The parts of a joined path\<close>

lemma clean_part_rooted_plain:
  "CHR ''/'' \<notin> set p \<Longrightarrow> \<forall>q \<in> set st. plain q \<Longrightarrow> q \<in> set (clean_part True st p) \<Longrightarrow> plain q"
proof (cases "plain p")
  case False
  assume p: "CHR ''/'' \<notin> set p" and st: "\<forall>q \<in> set st. plain q" and q: "q \<in> set (clean_part True st p)"
  from p False have "p = [] \<or> p = ''.'' \<or> p = ''..''" by (auto simp: plain_def)
  moreover have "set (clean_part True st ''..'') \<subseteq> set st"
    using st by (cases st) (auto simp: clean_part_def plain_def)
  ultimately have "q \<in> set st" using q by (auto simp: clean_part_def [of _ _ "[]"] clean_part_def [of _ _ "''.''"])
  with st show "plain q" by simp
qed (auto simp: clean_part_plain)

lemma foldl_rooted_plain:
  "\<forall>p \<in> set ps. CHR ''/'' \<notin> set p \<Longrightarrow> \<forall>q \<in> set st. plain q \<Longrightarrow> \<forall>q \<in> set (foldl (clean_part True) st ps). plain q"
proof (induction ps arbitrary: st)
  case (Cons p ps)
  have "\<forall>q \<in> set (clean_part True st p). plain q" using clean_part_rooted_plain Cons.prems by auto
  with Cons show ?case by simp
qed simp

lemma path_parts_plain: "is_rooted s \<Longrightarrow> p \<in> set (path_parts s) \<Longrightarrow> plain p"
  unfolding path_parts_def clean_parts_def set_rev
  by (rule foldl_rooted_plain [THEN bspec, rotated -1]) (auto dest: Split_parts)

lemma foldl_clean_plain: "\<forall>p \<in> set ps. plain p \<Longrightarrow> foldl (clean_part r) st ps = rev ps @ st"
  by (induction ps arbitrary: st) (auto simp: clean_part_plain)

lemma path_parts_Join:
  assumes "ps \<noteq> []" "\<forall>p \<in> set ps. plain p"
  shows "path_parts (CHR ''/'' # strings_Join ps ''/'') = ps"
proof -
  have "strings_Split (CHR ''/'' # strings_Join ps ''/'') (CHR ''/'') = [] # ps"
    using Split_Join [of ps "CHR ''/''"] assms by (simp add: plain_def)
  then show ?thesis using assms(2)
    by (simp add: path_parts_def clean_parts_def clean_part_def is_rooted_def strings_HasPrefix_def foldl_clean_plain)
qed

lemma path_parts_Join3:
  "is_rooted base \<Longrightarrow> plain ns \<Longrightarrow> plain f \<Longrightarrow> path_parts (filepath_Join [base, ns, f]) = path_parts base @ [ns, f]"
  unfolding Join3_plain by (rule path_parts_Join) (auto dest: path_parts_plain)

end
