(* ===== verification/Queue.thy ===== *)
theory Queue
  imports Filepath Api
begin

text \<open>
  The queue storage: \<open>queue/local.go\<close> over \<open>queue/queries\<close>, one SQLite file per queue and a quota file
  per namespace.

  The state is the set of SQLite files with their tables, the clock, the random source and the
  notifier channels of the process (a channel has room for one signal). A file has all three tables:
  the schema that an open runs creates the missing ones, so that a table that was never opened reads
  as empty. Timestamps are kept in milliseconds, what \<open>sqliteTimeLayout\<close> prints; the order of the texts
  is the order of the numbers for years of four digits. \<open>q_fault\<close> may fail an open or a statement on
  a file; what fails has no effect.
\<close>

record message_row =
  mr_id :: string
  mr_body :: string
  mr_body_size :: int
  mr_enqueued_at :: int
  mr_visibility_until :: "int option"

record Quotum =
  qu_TotalBytes :: int
  qu_LimitBytes :: int

record qfile =
  f_path :: string
  f_messages :: "message_row list"
  f_meta :: "(string \<times> int) list"
  f_quota :: "Quotum list"

record qstate =
  q_files :: "qfile list"
  q_now :: time
  q_rand :: "(string + string) list"
  q_notifiers :: "(string \<times> bool) list"
  q_fault :: "string \<Rightarrow> string \<Rightarrow> string option"

datatype queue_error = ErrQueueNotFound | ErrQuotaExceeded | QErr string

record LocalQueue =
  lq_baseDir :: string
  lq_namespace :: string

record Message =
  msg_ID :: string
  msg_Body :: string
  msg_EnqueuedAt :: time

record Info =
  in_Name :: string
  in_Depth :: int
  in_Idle :: bool

definition defaultVisibilityTimeout :: duration where "defaultVisibilityTimeout = 30 * Second"

definition LongPollTimeout :: duration where "LongPollTimeout = 5 * Second"

text \<open>Milliseconds: what formatting an instant with \<open>sqliteTimeLayout\<close> keeps, and the instant read back.\<close>

definition Millisecond :: duration where "Millisecond = 1000000"

definition format_ms :: "time \<Rightarrow> int" where "format_ms t = t div Millisecond"

definition parse_ms :: "int \<Rightarrow> time" where "parse_ms m = m * Millisecond"

section \<open>Computations on the state\<close>

text \<open>A computation returns an error or a value, and the state after it.\<close>

type_synonym 'a q = "qstate \<Rightarrow> (queue_error + 'a) \<times> qstate"

definition qreturn :: "'a \<Rightarrow> 'a q" where "qreturn x st = (Inr x, st)"

definition qfail :: "queue_error \<Rightarrow> 'a q" where "qfail e st = (Inl e, st)"

definition qbind :: "'a q \<Rightarrow> ('a \<Rightarrow> 'b q) \<Rightarrow> 'b q" where
  "qbind m f st = (case m st of (Inl e, st') \<Rightarrow> (Inl e, st') | (Inr x, st') \<Rightarrow> f x st')"

text \<open>\<open>fmt.Errorf\<close> with \<open>%w\<close>: the sentinels stay recognisable for \<open>errors.Is\<close>.\<close>

definition qwrap :: "string \<Rightarrow> 'a q \<Rightarrow> 'a q" where
  "qwrap msg m st = (case m st of (Inl (QErr e), st') \<Rightarrow> (Inl (QErr (msg @ e)), st') | r \<Rightarrow> r)"

text \<open>An error that is only logged.\<close>

definition qlog :: "unit q \<Rightarrow> unit q" where
  "qlog m st = (Inr (), snd (m st))"

text \<open>A statement on a file, which the fault of the state may fail.\<close>

definition qguard :: "string \<Rightarrow> string \<Rightarrow> 'a q \<Rightarrow> 'a q" where
  "qguard label path m st = (case q_fault st label path of Some e \<Rightarrow> (Inl (QErr e), st) | None \<Rightarrow> m st)"

text \<open>A transaction on a file: an error, also one of the commit, rolls it back.\<close>

definition begin_tx :: "string \<Rightarrow> unit q" where
  "begin_tx path = qwrap ''begin: '' (qguard ''begin'' path (qreturn ()))"

definition in_tx :: "string \<Rightarrow> 'a q \<Rightarrow> 'a q" where
  "in_tx path m st =
     (case m st of
        (Inl e, _) \<Rightarrow> (Inl e, st)
      | (Inr x, st') \<Rightarrow>
          (case q_fault st ''commit'' path of Some e \<Rightarrow> (Inl (QErr (''commit: '' @ e)), st) | None \<Rightarrow> (Inr x, st')))"

section \<open>Files\<close>

interpretation file_tab: keyed_table f_path .

definition empty_file :: "string \<Rightarrow> qfile" where
  "empty_file p = \<lparr> f_path = p, f_messages = [], f_meta = [], f_quota = [] \<rparr>"

definition file_at :: "qstate \<Rightarrow> string \<Rightarrow> qfile option" where
  "file_at st p = file_tab.by_key p (q_files st)"

definition upd_file :: "string \<Rightarrow> (qfile \<Rightarrow> qfile) \<Rightarrow> qstate \<Rightarrow> qstate" where
  "upd_file p f st = st\<lparr>q_files := upd (\<lambda>x. f_path x = p) f (q_files st)\<rparr>"

text \<open>\<open>openSQLite\<close> creates a missing file.\<close>

definition ensure_file :: "string \<Rightarrow> qstate \<Rightarrow> qstate" where
  "ensure_file p st = (case file_at st p of Some _ \<Rightarrow> st | None \<Rightarrow> st\<lparr>q_files := q_files st @ [empty_file p]\<rparr>)"

definition queuePath :: "LocalQueue \<Rightarrow> string \<Rightarrow> string" where
  "queuePath lq name = filepath_Join [lq_baseDir lq, lq_namespace lq, name @ ''.db'']"

definition quotaPath :: "LocalQueue \<Rightarrow> string" where
  "quotaPath lq = filepath_Join [lq_baseDir lq, lq_namespace lq, ''quota.db'']"

definition openSQLite :: "string \<Rightarrow> (qfile \<Rightarrow> qfile) \<Rightarrow> unit q" where
  "openSQLite path schema = qguard ''open'' path (\<lambda>st. (Inr (), upd_file path schema (ensure_file path st)))"

text \<open>
  The schemas: that of a queue adds tables that are missing; that of the quota file also runs
  \<open>INSERT OR IGNORE INTO quota\<close>, which, the table having no key, appends a row at every open.
\<close>

definition messagesSchema :: "qfile \<Rightarrow> qfile" where "messagesSchema f = f"

definition quotaSchema :: "qfile \<Rightarrow> qfile" where
  "quotaSchema f = f\<lparr>f_quota := f_quota f @ [\<lparr> qu_TotalBytes = 0, qu_LimitBytes = 0 \<rparr>]\<rparr>"

definition openQueue :: "LocalQueue \<Rightarrow> string \<Rightarrow> unit q" where
  "openQueue lq name st =
     (case file_at st (queuePath lq name) of
        None \<Rightarrow> (Inl ErrQueueNotFound, st)
      | Some _ \<Rightarrow> openSQLite (queuePath lq name) messagesSchema st)"

definition openOrCreateQueue :: "LocalQueue \<Rightarrow> string \<Rightarrow> unit q" where
  "openOrCreateQueue lq name = openSQLite (queuePath lq name) messagesSchema"

definition openQuota :: "LocalQueue \<Rightarrow> unit q" where
  "openQuota lq = openSQLite (quotaPath lq) quotaSchema"

section \<open>Queries\<close>

definition messages_at :: "qstate \<Rightarrow> string \<Rightarrow> message_row list" where
  "messages_at st p = (case file_at st p of None \<Rightarrow> [] | Some f \<Rightarrow> f_messages f)"

definition quota_at :: "qstate \<Rightarrow> string \<Rightarrow> Quotum list" where
  "quota_at st p = (case file_at st p of None \<Rightarrow> [] | Some f \<Rightarrow> f_quota f)"

definition meta_at :: "qstate \<Rightarrow> string \<Rightarrow> (string \<times> int) list" where
  "meta_at st p = (case file_at st p of None \<Rightarrow> [] | Some f \<Rightarrow> f_meta f)"

definition upd_messages :: "string \<Rightarrow> (message_row list \<Rightarrow> message_row list) \<Rightarrow> qstate \<Rightarrow> qstate" where
  "upd_messages p g = upd_file p (\<lambda>f. f\<lparr>f_messages := g (f_messages f)\<rparr>)"

definition upd_quota :: "string \<Rightarrow> (Quotum \<Rightarrow> Quotum) \<Rightarrow> qstate \<Rightarrow> qstate" where
  "upd_quota p g = upd_file p (\<lambda>f. f\<lparr>f_quota := map g (f_quota f)\<rparr>)"

definition no_rows :: queue_error where "no_rows = QErr ''sql: no rows in result set''"

definition CountMessages_q :: "string \<Rightarrow> int q" where
  "CountMessages_q p = qguard ''countMessages'' p (\<lambda>st. (Inr (int (length (messages_at st p))), st))"

definition InsertMessage_q :: "string \<Rightarrow> string \<Rightarrow> string \<Rightarrow> int \<Rightarrow> int \<Rightarrow> unit q" where
  "InsertMessage_q p i body bodySize now = qguard ''insertMessage'' p (\<lambda>st.
     if i \<in> mr_id ` set (messages_at st p) then (Inl (QErr ''UNIQUE constraint failed: messages.id''), st)
     else (Inr (), upd_messages p
       (\<lambda>t. t @ [\<lparr> mr_id = i, mr_body = body, mr_body_size = bodySize, mr_enqueued_at = now, mr_visibility_until = None \<rparr>]) st))"

definition visible_at :: "int \<Rightarrow> message_row \<Rightarrow> bool" where
  "visible_at now r = (case mr_visibility_until r of None \<Rightarrow> True | Some u \<Rightarrow> u < now)"

definition SelectNextMessage_q :: "string \<Rightarrow> message_row option q" where
  "SelectNextMessage_q p = qguard ''selectNextMessage'' p (\<lambda>st.
     (Inr (case sort_key mr_enqueued_at (filter (visible_at (format_ms (q_now st))) (messages_at st p)) of
             [] \<Rightarrow> None | r # _ \<Rightarrow> Some r), st))"

definition SetVisibility_q :: "string \<Rightarrow> int \<Rightarrow> string \<Rightarrow> unit q" where
  "SetVisibility_q p until i = qguard ''setVisibility'' p (\<lambda>st.
     (Inr (), upd_messages p (upd (\<lambda>r. mr_id r = i) (\<lambda>r. r\<lparr>mr_visibility_until := Some until\<rparr>)) st))"

definition GetMessageBodySize_q :: "string \<Rightarrow> string \<Rightarrow> int option q" where
  "GetMessageBodySize_q p i = qguard ''getMessageBodySize'' p (\<lambda>st.
     (Inr (map_option mr_body_size (sel (\<lambda>r. mr_id r = i) (messages_at st p))), st))"

definition DeleteMessage_q :: "string \<Rightarrow> string \<Rightarrow> unit q" where
  "DeleteMessage_q p i = qguard ''deleteMessage'' p (\<lambda>st. (Inr (), upd_messages p (del (\<lambda>r. mr_id r = i)) st))"

definition GetMeta_q :: "string \<Rightarrow> string \<Rightarrow> int q" where
  "GetMeta_q p key = qguard ''getMeta'' p (\<lambda>st.
     (case sel (\<lambda>kv. fst kv = key) (meta_at st p) of None \<Rightarrow> (Inl no_rows, st) | Some kv \<Rightarrow> (Inr (snd kv), st)))"

definition UpsertMeta_q :: "string \<Rightarrow> string \<Rightarrow> int \<Rightarrow> unit q" where
  "UpsertMeta_q p key v = qguard ''upsertMeta'' p (\<lambda>st.
     (Inr (), upd_file p (\<lambda>f. f\<lparr>f_meta := del (\<lambda>kv. fst kv = key) (f_meta f) @ [(key, v)]\<rparr>) st))"

definition GetQuota_q :: "string \<Rightarrow> Quotum q" where
  "GetQuota_q p = qguard ''getQuota'' p (\<lambda>st.
     (case quota_at st p of [] \<Rightarrow> (Inl no_rows, st) | r # _ \<Rightarrow> (Inr r, st)))"

definition AddBytes_q :: "string \<Rightarrow> int \<Rightarrow> unit q" where
  "AddBytes_q p n = qguard ''addBytes'' p (\<lambda>st.
     (Inr (), upd_quota p (\<lambda>r. r\<lparr>qu_TotalBytes := qu_TotalBytes r + n\<rparr>) st))"

definition SetLimitBytes_q :: "string \<Rightarrow> int \<Rightarrow> unit q" where
  "SetLimitBytes_q p n = qguard ''setLimitBytes'' p (\<lambda>st. (Inr (), upd_quota p (\<lambda>r. r\<lparr>qu_LimitBytes := n\<rparr>) st))"

definition SubBytes_q :: "string \<Rightarrow> int \<Rightarrow> unit q" where
  "SubBytes_q p n = qguard ''subBytes'' p (\<lambda>st.
     (Inr (), upd_quota p (\<lambda>r. r\<lparr>qu_TotalBytes := max 0 (qu_TotalBytes r - n)\<rparr>) st))"

section \<open>Notifiers\<close>

definition notifierKey :: "string \<Rightarrow> string \<Rightarrow> string" where
  "notifierKey namespace name = namespace @ ''/'' @ name"

text \<open>A signal is dropped when no channel exists, and when the channel already holds one.\<close>

definition signalQueue :: "string \<Rightarrow> string \<Rightarrow> qstate \<Rightarrow> qstate" where
  "signalQueue namespace name st =
     st\<lparr>q_notifiers := upd (\<lambda>n. fst n = notifierKey namespace name) (\<lambda>n. (fst n, True)) (q_notifiers st)\<rparr>"

text \<open>
  \<open>WaitForMessage\<close>: creates the channel if there is none, then takes a signal if there is one.
  Otherwise it blocks: \<open>meanwhile\<close> is what the rest of the system does to the state until a signal
  arrives or the context is done, and a signal that arrived is taken.
\<close>

definition has_signal :: "string \<Rightarrow> qstate \<Rightarrow> bool" where
  "has_signal key st \<longleftrightarrow> (key, True) \<in> set (q_notifiers st)"

definition take_signal :: "string \<Rightarrow> qstate \<Rightarrow> qstate" where
  "take_signal key st = st\<lparr>q_notifiers := upd (\<lambda>n. fst n = key) (\<lambda>n. (fst n, False)) (q_notifiers st)\<rparr>"

definition WaitForMessage :: "LocalQueue \<Rightarrow> string \<Rightarrow> (qstate \<Rightarrow> qstate) \<Rightarrow> qstate \<Rightarrow> qstate" where
  "WaitForMessage lq name meanwhile st =
     (let key = notifierKey (lq_namespace lq) name;
          st1 = (if key \<in> fst ` set (q_notifiers st) then st else st\<lparr>q_notifiers := q_notifiers st @ [(key, False)]\<rparr>)
      in if has_signal key st1 then take_signal key st1
         else let st2 = meanwhile st1 in if has_signal key st2 then take_signal key st2 else st2)"

section \<open>The operations of \<open>LocalQueue\<close>\<close>

definition newMessageID :: "string q" where
  "newMessageID st =
     (case q_rand st of
        [] \<Rightarrow> (Inl (QErr ''EOF''), st)
      | Inl e # r \<Rightarrow> (Inl (QErr e), st\<lparr>q_rand := r\<rparr>)
      | Inr b # r \<Rightarrow> (Inr (''msg_'' @ hex_Encode b), st\<lparr>q_rand := r\<rparr>))"

definition CreateQueue :: "LocalQueue \<Rightarrow> string \<Rightarrow> unit q" where
  "CreateQueue lq name = openOrCreateQueue lq name"

definition DeleteQueue :: "LocalQueue \<Rightarrow> string \<Rightarrow> unit q" where
  "DeleteQueue lq name st =
     (let p = queuePath lq name in
      case file_at st p of
        None \<Rightarrow> (Inl ErrQueueNotFound, st)
      | Some _ \<Rightarrow> qwrap (''remove '' @ p @ '': '')
          (qguard ''remove'' p (\<lambda>st. (Inr (), st\<lparr>q_files := del (\<lambda>f. f_path f = p) (q_files st)\<rparr>))) st)"

definition queueInfo :: "LocalQueue \<Rightarrow> string \<Rightarrow> duration \<Rightarrow> Info q" where
  "queueInfo lq name idleAfter =
     qbind (openQueue lq name) (\<lambda>_.
     qbind (qwrap ''count: '' (CountMessages_q (queuePath lq name))) (\<lambda>count st.
       let idle = (if idleAfter > 0 then
                     (case fst (GetMeta_q (queuePath lq name) ''last_external_enqueue_at'' st) of
                        Inl _ \<Rightarrow> True
                      | Inr lastExt \<Rightarrow> \<not> time_Sub (q_now st) (parse_ms lastExt) < idleAfter)
                   else True)
       in (Inr \<lparr> in_Name = name, in_Depth = count, in_Idle = idle \<rparr>, st)))"

text \<open>\<open>os.ReadDir\<close>: the names of the files in a directory, sorted.\<close>

definition ReadDir :: "qstate \<Rightarrow> string \<Rightarrow> string list" where
  "ReadDir st dir =
     sort (map (\<lambda>f. drop (length dir + 1) (f_path f))
       (filter (\<lambda>f. strings_HasPrefix (f_path f) (dir @ ''/'') \<and>
                    CHR ''/'' \<notin> set (drop (length dir + 1) (f_path f))) (q_files st)))"

fun queue_infos :: "LocalQueue \<Rightarrow> duration \<Rightarrow> string list \<Rightarrow> Info list q" where
  "queue_infos lq idleAfter [] = qreturn []"
| "queue_infos lq idleAfter (e # es) =
     (if \<not> strings_HasSuffix e ''.db'' \<or> e = ''quota.db'' then queue_infos lq idleAfter es
      else qbind (queueInfo lq (strings_TrimSuffix e ''.db'') idleAfter) (\<lambda>info.
           qbind (queue_infos lq idleAfter es) (\<lambda>rest. qreturn (info # rest))))"

definition listQueues :: "LocalQueue \<Rightarrow> duration \<Rightarrow> Info list q" where
  "listQueues lq idleAfter st =
     (let dir = filepath_Join [lq_baseDir lq, lq_namespace lq] in
      qbind (qwrap ''read dir: '' (qguard ''readDir'' dir (qreturn ()))) (\<lambda>_. queue_infos lq idleAfter (ReadDir st dir)) st)"

definition ListQueues :: "LocalQueue \<Rightarrow> duration \<Rightarrow> Info list q" where
  "ListQueues lq idleAfter = listQueues lq idleAfter"

definition IdleStatus :: "LocalQueue \<Rightarrow> duration \<Rightarrow> Info list q" where
  "IdleStatus lq idleAfter = listQueues lq idleAfter"

text \<open>The transaction of \<open>Enqueue\<close>: the message and, for an external sender, the time of the enqueue.\<close>

definition enqueue_tx :: "LocalQueue \<Rightarrow> string \<Rightarrow> string \<Rightarrow> string \<Rightarrow> string \<Rightarrow> unit q" where
  "enqueue_tx lq name body senderID i st =
     (let p = queuePath lq name; now = format_ms (q_now st) in
      qbind (begin_tx p) (\<lambda>_.
      in_tx p (qbind (qwrap ''insert: '' (InsertMessage_q p i body (int (length body)) now)) (\<lambda>_.
        if senderID \<noteq> lq_namespace lq then qwrap ''update meta: '' (UpsertMeta_q p ''last_external_enqueue_at'' now)
        else qreturn ()))) st)"

definition Enqueue :: "LocalQueue \<Rightarrow> string \<Rightarrow> string \<Rightarrow> string \<Rightarrow> unit q" where
  "Enqueue lq name body senderID =
     qbind (qwrap ''open quota: '' (openQuota lq)) (\<lambda>_.
     qbind (qwrap ''read quota: '' (GetQuota_q (quotaPath lq))) (\<lambda>quota.
     if qu_LimitBytes quota > 0 \<and> wrap64 (qu_TotalBytes quota + int (length body)) > qu_LimitBytes quota
     then qfail ErrQuotaExceeded
     else
       qbind (qwrap ''open queue: '' (openOrCreateQueue lq name)) (\<lambda>_.
       qbind newMessageID (\<lambda>i.
       qbind (enqueue_tx lq name body senderID i) (\<lambda>_.
       qbind (qlog (AddBytes_q (quotaPath lq) (int (length body)))) (\<lambda>_ st.
         (Inr (), signalQueue (lq_namespace lq) name st)))))))"

definition Dequeue :: "LocalQueue \<Rightarrow> string \<Rightarrow> duration \<Rightarrow> Message option q" where
  "Dequeue lq name visibilityTimeout =
     qbind (openQueue lq name) (\<lambda>_ st.
       let p = queuePath lq name;
           vt = (if visibilityTimeout \<le> 0 then defaultVisibilityTimeout else visibilityTimeout);
           until = format_ms (q_now st + vt)
       in qbind (begin_tx p) (\<lambda>_.
          qbind (qwrap ''select: '' (SelectNextMessage_q p)) (\<lambda>row.
          case row of
            None \<Rightarrow> qreturn None
          | Some r \<Rightarrow> qbind (in_tx p (qwrap ''update visibility: '' (SetVisibility_q p until (mr_id r)))) (\<lambda>_.
              qreturn (Some \<lparr> msg_ID = mr_id r, msg_Body = mr_body r, msg_EnqueuedAt = parse_ms (mr_enqueued_at r) \<rparr>)))) st)"

definition Ack :: "LocalQueue \<Rightarrow> string \<Rightarrow> string \<Rightarrow> unit q" where
  "Ack lq name i =
     qbind (openQueue lq name) (\<lambda>_.
     qbind (qwrap ''read size: '' (GetMessageBodySize_q (queuePath lq name) i)) (\<lambda>row.
     case row of
       None \<Rightarrow> qreturn ()
     | Some bodySize \<Rightarrow>
         qbind (qwrap ''delete: '' (DeleteMessage_q (queuePath lq name) i)) (\<lambda>_.
         qbind (qwrap ''open quota: '' (openQuota lq)) (\<lambda>_.
         qlog (SubBytes_q (quotaPath lq) bodySize)))))"

definition Depth :: "LocalQueue \<Rightarrow> string \<Rightarrow> int q" where
  "Depth lq name = qbind (openQueue lq name) (\<lambda>_. qwrap ''count: '' (CountMessages_q (queuePath lq name)))"

definition SetQuota :: "LocalQueue \<Rightarrow> int \<Rightarrow> unit q" where
  "SetQuota lq limitBytes = qbind (openQuota lq) (\<lambda>_. SetLimitBytes_q (quotaPath lq) limitBytes)"

definition Usage :: "LocalQueue \<Rightarrow> int q" where
  "Usage lq = qbind (openQuota lq) (\<lambda>_.
     qbind (qwrap ''read quota: '' (GetQuota_q (quotaPath lq))) (\<lambda>r. qreturn (qu_TotalBytes r)))"

lemmas q_defs = qreturn_def qfail_def qbind_def qwrap_def qlog_def qguard_def begin_tx_def in_tx_def Let_def

lemmas query_defs = CountMessages_q_def InsertMessage_q_def SelectNextMessage_q_def SetVisibility_q_def
  GetMessageBodySize_q_def DeleteMessage_q_def GetMeta_q_def UpsertMeta_q_def GetQuota_q_def AddBytes_q_def
  SetLimitBytes_q_def SubBytes_q_def

end
