(* ===== verification/Queue_Laws.thy ===== *)
theory Queue_Laws
  imports Queue
begin

text \<open>
  What the queue storage guarantees. Frame relations of computations come first (the locale \<open>q_frame\<close>:
  a reflexive and transitive relation that the primitive steps respect is respected by everything
  composed of them), then delivery, durability and the accounting of the quota.
\<close>

section \<open>Files after an update\<close>

lemma file_at_upd_file:
  "(\<And>f. f_path (g f) = f_path f) \<Longrightarrow>
     file_at (upd_file p g st) p' = (if p' = p then map_option g (file_at st p) else file_at st p')"
  by (simp add: file_at_def upd_file_def file_tab.by_key_upd)

lemma file_at_ensure_file:
  "file_at (ensure_file p st) p' =
     (if p' = p then Some (case file_at st p of Some f \<Rightarrow> f | None \<Rightarrow> empty_file p) else file_at st p')"
  using file_tab.by_key_insert [of "empty_file p" "q_files st" p']
  by (auto simp: ensure_file_def file_at_def empty_file_def split: option.splits)

lemma schema_path [simp]:
  "f_path (messagesSchema f) = f_path f" "f_path (quotaSchema f) = f_path f"
  "f_messages (messagesSchema f) = f_messages f" "f_messages (quotaSchema f) = f_messages f"
  "f_meta (messagesSchema f) = f_meta f" "f_meta (quotaSchema f) = f_meta f"
  by (simp_all add: messagesSchema_def quotaSchema_def)

lemma file_state [simp]:
  "file_at (st\<lparr>q_now := t\<rparr>) p = file_at st p" "file_at (st\<lparr>q_rand := r\<rparr>) p = file_at st p"
  "file_at (st\<lparr>q_notifiers := n\<rparr>) p = file_at st p" "file_at (st\<lparr>q_fault := g\<rparr>) p = file_at st p"
  "file_at (signalQueue ns name st) p = file_at st p"
  by (simp_all add: file_at_def signalQueue_def)

lemma upd_file_rest [simp]:
  "q_now (upd_file p g st) = q_now st" "q_fault (upd_file p g st) = q_fault st" "q_rand (upd_file p g st) = q_rand st"
  "q_now (ensure_file p st) = q_now st" "q_fault (ensure_file p st) = q_fault st" "q_rand (ensure_file p st) = q_rand st"
  by (simp_all add: upd_file_def ensure_file_def split: option.splits)

lemma messages_at_simps [simp]:
  "messages_at (upd_messages p g st) p' = (if p' = p \<and> file_at st p \<noteq> None then g (messages_at st p) else messages_at st p')"
  "messages_at (upd_quota p h st) p' = messages_at st p'"
  "messages_at (upd_file p messagesSchema (ensure_file p st)) p' = messages_at st p'"
  "messages_at (upd_file p quotaSchema (ensure_file p st)) p' = messages_at st p'"
  by (auto simp: messages_at_def upd_messages_def upd_quota_def file_at_upd_file file_at_ensure_file
      empty_file_def split: option.splits)

lemma messages_at_meta [simp]:
  "messages_at (upd_file p (\<lambda>f. f\<lparr>f_meta := h f\<rparr>) st) p' = messages_at st p'"
  by (auto simp: messages_at_def file_at_upd_file split: option.splits)

lemma messages_at_rest [simp]:
  "messages_at (st\<lparr>q_now := t\<rparr>) p = messages_at st p" "messages_at (st\<lparr>q_rand := r\<rparr>) p = messages_at st p"
  "messages_at (signalQueue ns name st) p = messages_at st p"
  by (simp_all add: messages_at_def)

section \<open>Frames\<close>

locale q_frame =
  fixes R :: "qstate \<Rightarrow> qstate \<Rightarrow> bool"
  assumes refl: "R st st"
    and trans: "R st st' \<Longrightarrow> R st' st'' \<Longrightarrow> R st st''"
begin

definition keeps :: "'a q \<Rightarrow> bool" where
  "keeps m \<longleftrightarrow> (\<forall>st. R st (snd (m st)))"

lemma keepsD: "keeps m \<Longrightarrow> m st = (r, st') \<Longrightarrow> R st st'"
  unfolding keeps_def by (metis snd_conv)

lemma keeps_return: "keeps (qreturn x)"
  by (simp add: keeps_def qreturn_def refl)

lemma keeps_fail: "keeps (qfail e)"
  by (simp add: keeps_def qfail_def refl)

lemma keeps_bind: "keeps m \<Longrightarrow> (\<And>x. keeps (f x)) \<Longrightarrow> keeps (qbind m f)"
  unfolding keeps_def qbind_def
  by (auto split: prod.splits sum.splits) (metis snd_conv trans)+

lemma keeps_wrap: "keeps m \<Longrightarrow> keeps (qwrap msg m)"
  unfolding keeps_def qwrap_def
  by (auto split: prod.splits sum.splits queue_error.splits) (metis snd_conv)+

lemma keeps_log: "keeps m \<Longrightarrow> keeps (qlog m)"
  by (simp add: keeps_def qlog_def)

lemma keeps_guard: "keeps m \<Longrightarrow> keeps (qguard l p m)"
  by (auto simp: keeps_def qguard_def refl split: option.splits)

lemma keeps_begin: "keeps (begin_tx p)"
  unfolding begin_tx_def by (intro keeps_wrap keeps_guard keeps_return)

lemma keeps_in_tx: "keeps m \<Longrightarrow> keeps (in_tx p m)"
  unfolding keeps_def in_tx_def
  by (auto simp: refl split: prod.splits sum.splits option.splits) (metis snd_conv)+

lemma keeps_read: "(\<And>st. snd (m st) = st) \<Longrightarrow> keeps m"
  by (simp add: keeps_def refl)

lemma keeps_write: "(\<And>st. R st (g st)) \<Longrightarrow> keeps (\<lambda>st. (Inr (), g st))"
  by (simp add: keeps_def)

lemma keeps_if: "keeps m \<Longrightarrow> keeps n \<Longrightarrow> keeps (if b then m else n)"
  by simp

lemmas keeps_intros = keeps_return keeps_fail keeps_bind keeps_wrap keeps_log keeps_guard keeps_begin
  keeps_in_tx keeps_if

lemma keeps_reads:
  "keeps (CountMessages_q p)" "keeps (SelectNextMessage_q p)" "keeps (GetMessageBodySize_q p i)"
  "keeps (GetMeta_q p k)" "keeps (GetQuota_q p)"
  by (rule keeps_read, simp add: query_defs qguard_def split: option.splits list.splits)+

end

text \<open>
  A frame that also allows what every operation may do (opening files, drawing an id, hiding a message,
  signalling) is kept by all operations that neither add nor remove a message, and by the others when
  it allows their queries; the second locale allows the note of an external enqueue as well.
\<close>

locale q_calm = q_frame +
  assumes open_messages: "keeps (openSQLite p messagesSchema)"
    and open_quota: "keeps (openSQLite p quotaSchema)"
    and rand: "keeps newMessageID"
    and hide: "keeps (SetVisibility_q p u i)"
    and signal: "R st (signalQueue ns name st)"
begin

lemma keeps_opens: "keeps (openQuota lq)" "keeps (openOrCreateQueue lq name)" "keeps (openQueue lq name)"
  using open_messages open_quota
  by (auto simp: openQuota_def openOrCreateQueue_def openQueue_def keeps_def refl split: option.splits)

lemmas keeps_steps = keeps_opens keeps_reads rand hide

lemma keeps_simple_ops: "keeps (CreateQueue lq name)" "keeps (Depth lq name)" "keeps (Usage lq)"
  unfolding CreateQueue_def Depth_def Usage_def by (intro keeps_intros keeps_steps)+

lemma keeps_info: "keeps (queueInfo lq name d)"
  unfolding queueInfo_def Let_def
  by (rule keeps_bind, rule keeps_steps, rule keeps_bind, rule keeps_wrap, rule keeps_steps)
    (rule keeps_read, simp)

lemma keeps_infos: "keeps (queue_infos lq d es)"
  by (induction es) (auto intro!: keeps_intros keeps_info)

lemma keeps_list: "keeps (ListQueues lq d)"
proof -
  have "keeps (qbind (qwrap ''read dir: '' (qguard ''readDir'' dir (qreturn ()))) (\<lambda>_. queue_infos lq d es))" for dir es
    by (intro keeps_intros keeps_infos)
  then show ?thesis by (simp add: ListQueues_def listQueues_def keeps_def Let_def)
qed

lemma keeps_Dequeue: "keeps (Dequeue lq name vt)"
proof -
  have "keeps (qbind (begin_tx p) (\<lambda>_.
      qbind (qwrap ''select: '' (SelectNextMessage_q p)) (\<lambda>row. case row of
          None \<Rightarrow> qreturn None
        | Some r \<Rightarrow> qbind (in_tx p (qwrap ''update visibility: '' (SetVisibility_q p until (mr_id r)))) (\<lambda>_.
            qreturn (Some \<lparr> msg_ID = mr_id r, msg_Body = mr_body r, msg_EnqueuedAt = parse_ms (mr_enqueued_at r) \<rparr>)))))"
    for p until
    by (intro keeps_intros keeps_steps) (auto split: option.splits intro!: keeps_intros keeps_steps)
  then show ?thesis
    unfolding Dequeue_def Let_def by (intro keeps_bind keeps_steps) (simp add: keeps_def)
qed

lemma keeps_enqueue_tx_if:
  assumes "\<And>now. keeps (InsertMessage_q (queuePath lq name) i body (int (length body)) now)"
    and "\<And>k now. sender \<noteq> lq_namespace lq \<Longrightarrow> keeps (UpsertMeta_q (queuePath lq name) k now)"
  shows "keeps (enqueue_tx lq name body sender i)"
proof -
  have "keeps (if sender \<noteq> lq_namespace lq then qwrap ''update meta: '' (UpsertMeta_q (queuePath lq name) k now) else qreturn ())" for k now
    using assms(2) by (auto intro: keeps_intros)
  then have "keeps (qbind (begin_tx (queuePath lq name)) (\<lambda>_.
      in_tx (queuePath lq name) (qbind (qwrap ''insert: '' (InsertMessage_q (queuePath lq name) i body (int (length body)) now)) (\<lambda>_.
        if sender \<noteq> lq_namespace lq then qwrap ''update meta: '' (UpsertMeta_q (queuePath lq name) ''last_external_enqueue_at'' now)
        else qreturn ()))))" for now
    by (intro keeps_bind keeps_begin keeps_in_tx keeps_wrap assms(1))
  then show ?thesis by (simp add: enqueue_tx_def keeps_def Let_def)
qed

lemma keeps_Enqueue_if:
  assumes "\<And>i now. keeps (InsertMessage_q (queuePath lq name) i body (int (length body)) now)"
    and "keeps (AddBytes_q (quotaPath lq) (int (length body)))"
    and "\<And>k now. sender \<noteq> lq_namespace lq \<Longrightarrow> keeps (UpsertMeta_q (queuePath lq name) k now)"
  shows "keeps (Enqueue lq name body sender)"
  unfolding Enqueue_def
  by (intro keeps_intros keeps_steps keeps_enqueue_tx_if keeps_write assms signal)

lemma keeps_Ack:
  assumes "keeps (DeleteMessage_q (queuePath lq name) i)" and "\<And>n. keeps (SubBytes_q (quotaPath lq) n)"
  shows "keeps (Ack lq name i)"
  unfolding Ack_def
  by (intro keeps_intros keeps_steps) (auto split: option.splits intro!: keeps_intros keeps_steps assms)

lemma keeps_SetQuota: "keeps (SetLimitBytes_q (quotaPath lq) n) \<Longrightarrow> keeps (SetQuota lq n)"
  unfolding SetQuota_def by (intro keeps_intros keeps_steps)

end

locale q_ops = q_calm +
  assumes meta: "keeps (UpsertMeta_q p k v)"
begin

lemmas keeps_enqueue_tx = keeps_enqueue_tx_if [OF _ meta]

lemmas keeps_Enqueue = keeps_Enqueue_if [OF _ _ meta]

end

text \<open>Steps that touch no message: opening files, the quota table, the meta table, the notifiers.\<close>

definition same_messages :: "qstate \<Rightarrow> qstate \<Rightarrow> bool" where
  "same_messages st st' \<longleftrightarrow> (\<forall>p. messages_at st' p = messages_at st p)"

interpretation msgs: q_frame same_messages
  by unfold_locales (auto simp: same_messages_def)

lemma msgs_opens: "msgs.keeps (openQuota lq)" "msgs.keeps (openOrCreateQueue lq name)" "msgs.keeps (openQueue lq name)"
  unfolding openQuota_def openOrCreateQueue_def openQueue_def openSQLite_def msgs.keeps_def
  by (auto simp: qguard_def same_messages_def split: option.splits)

lemma msgs_quota: "msgs.keeps (AddBytes_q p n)" "msgs.keeps (SubBytes_q p n)" "msgs.keeps (SetLimitBytes_q p n)"
  unfolding AddBytes_q_def SubBytes_q_def SetLimitBytes_q_def
  by (intro msgs.keeps_guard msgs.keeps_write; simp add: same_messages_def)+

lemma msgs_rand: "msgs.keeps newMessageID"
  by (auto simp: msgs.keeps_def newMessageID_def same_messages_def split: list.splits sum.splits)

text \<open>
  Messages that may get lost: \<open>L\<close> is the set of the pairs of a file and a message id that a computation
  is allowed to remove; every other stored message stays, with its body.
\<close>

definition content :: "qstate \<Rightarrow> string \<Rightarrow> (string \<times> string) set" where
  "content st p = (\<lambda>r. (mr_id r, mr_body r)) ` set (messages_at st p)"

definition loses_at_most :: "(string \<times> string) set \<Rightarrow> qstate \<Rightarrow> qstate \<Rightarrow> bool" where
  "loses_at_most L st st' \<longleftrightarrow>
     (\<forall>p i b. (i, b) \<in> content st p \<longrightarrow> (p, i) \<in> L \<or> (i, b) \<in> content st' p)"

lemma loses_at_mostD:
  "loses_at_most L st st' \<Longrightarrow> (i, b) \<in> content st p \<Longrightarrow> (p, i) \<notin> L \<Longrightarrow> (i, b) \<in> content st' p"
  by (auto simp: loses_at_most_def)

lemma loses_mono: "loses_at_most L st st' \<Longrightarrow> L \<subseteq> L' \<Longrightarrow> loses_at_most L' st st'"
  by (auto simp: loses_at_most_def)

lemma same_loses: "same_messages st st' \<Longrightarrow> loses_at_most L st st'"
  by (auto simp: same_messages_def loses_at_most_def content_def)

interpretation loss: q_frame "loses_at_most L" for L
  by unfold_locales (auto simp: loses_at_most_def, blast)

lemma msgs_loss: "msgs.keeps m \<Longrightarrow> loss.keeps L m"
  by (auto simp: msgs.keeps_def loss.keeps_def same_loses)

interpretation loss_ops: q_ops "loses_at_most L" for L
proof
  fix p k v u i st ns name
  show "loss.keeps L (openSQLite p messagesSchema)" "loss.keeps L (openSQLite p quotaSchema)"
    by (auto simp: loss.keeps_def openSQLite_def qguard_def loses_at_most_def content_def split: option.splits)
  show "loss.keeps L newMessageID" by (rule msgs_loss [OF msgs_rand])
  show "loss.keeps L (UpsertMeta_q p k v)" "loss.keeps L (SetVisibility_q p u i)"
    by (auto simp: loss.keeps_def query_defs qguard_def loses_at_most_def content_def image_upd split: option.splits)
  show "loses_at_most L st (signalQueue ns name st)" by (simp add: loses_at_most_def content_def)
qed

lemma loss_insert: "loss.keeps L (InsertMessage_q p i body n now)"
  unfolding InsertMessage_q_def
  by (intro loss.keeps_guard) (auto simp: loss.keeps_def loses_at_most_def content_def)

lemma loss_delete: "(p, i) \<in> L \<Longrightarrow> loss.keeps L (DeleteMessage_q p i)"
  unfolding DeleteMessage_q_def
  by (intro loss.keeps_guard loss.keeps_write) (auto simp: loses_at_most_def content_def)

lemmas loss_quota = msgs_quota [THEN msgs_loss]

lemma loss_Delete: "{queuePath lq name} \<times> UNIV \<subseteq> L \<Longrightarrow> loss.keeps L (DeleteQueue lq name)"
  by (auto simp: DeleteQueue_def loss.keeps_def Let_def qwrap_def qguard_def loses_at_most_def content_def
      messages_at_def file_at_def file_tab.by_key_del split: option.splits queue_error.splits)

section \<open>Histories\<close>

text \<open>
  The operations that the clients of all namespaces send, and a history: operations in any order,
  each of which may fail, between which time passes, channels change and faults come and go; \<open>F\<close> says
  which faults are possible.
\<close>

datatype qop =
    OpCreate string string
  | OpDelete string string
  | OpList string duration
  | OpEnqueue string string string string
  | OpDequeue string string duration
  | OpAck string string string
  | OpDepth string string
  | OpSetQuota string int
  | OpUsage string

definition queue_of :: "string \<Rightarrow> string \<Rightarrow> LocalQueue" where
  "queue_of base ns = \<lparr> lq_baseDir = base, lq_namespace = ns \<rparr>"

fun run_qop :: "string \<Rightarrow> qop \<Rightarrow> qstate \<Rightarrow> qstate" where
  "run_qop base (OpCreate ns name) st = snd (CreateQueue (queue_of base ns) name st)"
| "run_qop base (OpDelete ns name) st = snd (DeleteQueue (queue_of base ns) name st)"
| "run_qop base (OpList ns d) st = snd (ListQueues (queue_of base ns) d st)"
| "run_qop base (OpEnqueue ns name body sender) st = snd (Enqueue (queue_of base ns) name body sender st)"
| "run_qop base (OpDequeue ns name vt) st = snd (Dequeue (queue_of base ns) name vt st)"
| "run_qop base (OpAck ns name i) st = snd (Ack (queue_of base ns) name i st)"
| "run_qop base (OpDepth ns name) st = snd (Depth (queue_of base ns) name st)"
| "run_qop base (OpSetQuota ns n) st = snd (SetQuota (queue_of base ns) n st)"
| "run_qop base (OpUsage ns) st = snd (Usage (queue_of base ns) st)"

inductive queue_run ::
  "string \<Rightarrow> ((string \<Rightarrow> string \<Rightarrow> string option) \<Rightarrow> bool) \<Rightarrow> qstate \<Rightarrow> qop list \<Rightarrow> qstate \<Rightarrow> bool" for base F where
  run_nil: "queue_run base F st [] st"
| run_env: "queue_run base F st ops st' \<Longrightarrow> q_files st'' = q_files st' \<Longrightarrow> F (q_fault st'') \<Longrightarrow> queue_run base F st ops st''"
| run_op: "queue_run base F st ops st' \<Longrightarrow> queue_run base F st (ops @ [l]) (run_qop base l st')"

text \<open>What an operation removes, and the operations whose names stay in their directory.\<close>

fun removes :: "string \<Rightarrow> qop \<Rightarrow> (string \<times> string) set" where
  "removes base (OpAck ns name i) = {(queuePath (queue_of base ns) name, i)}"
| "removes base (OpDelete ns name) = {queuePath (queue_of base ns) name} \<times> UNIV"
| "removes base _ = {}"

fun proper :: "qop \<Rightarrow> bool" where
  "proper (OpCreate ns name) = (plain ns \<and> CHR ''/'' \<notin> set name)"
| "proper (OpDelete ns name) = (plain ns \<and> CHR ''/'' \<notin> set name)"
| "proper (OpEnqueue ns name body sender) = (plain ns \<and> CHR ''/'' \<notin> set name)"
| "proper (OpDequeue ns name vt) = (plain ns \<and> CHR ''/'' \<notin> set name)"
| "proper (OpAck ns name i) = (plain ns \<and> CHR ''/'' \<notin> set name)"
| "proper (OpDepth ns name) = (plain ns \<and> CHR ''/'' \<notin> set name)"
| "proper (OpList ns d) = plain ns"
| "proper (OpSetQuota ns n) = plain ns"
| "proper (OpUsage ns) = plain ns"

lemma loses_qop: "loses_at_most (removes base l) st (run_qop base l st)"
  using loss_ops.keeps_Enqueue [OF loss_insert loss_quota(1)] loss_ops.keeps_Dequeue loss_ops.keeps_Ack [OF loss_delete loss_quota(2)]
    loss_Delete [OF subset_refl] loss_ops.keeps_simple_ops loss_ops.keeps_list loss_ops.keeps_SetQuota [OF loss_quota(3)]
  by (cases l) (simp_all add: loss.keeps_def)

lemma queue_run_loses:
  "queue_run base F st ops st' \<Longrightarrow> loses_at_most (\<Union> (removes base ` set ops)) st st'"
proof (induction rule: queue_run.induct)
  case (run_nil st)
  show ?case by (simp add: loss.refl)
next
  case (run_env st ops st' st'')
  then show ?case by (simp add: loses_at_most_def content_def messages_at_def file_at_def)
next
  case (run_op st ops st' l)
  have "loses_at_most (\<Union> (removes base ` set (ops @ [l]))) st st'"
    by (rule loses_mono [OF run_op.IH]) auto
  moreover have "loses_at_most (\<Union> (removes base ` set (ops @ [l]))) st' (run_qop base l st')"
    by (rule loses_mono [OF loses_qop]) auto
  ultimately show ?case by (rule loss.trans)
qed

lemma plain_db: "CHR ''/'' \<notin> set name \<Longrightarrow> plain (name @ ''.db'')"
  by (cases name) (auto simp: plain_def)

lemma queuePath_inj:
  assumes "is_rooted base" "plain ns" "plain ns'" "CHR ''/'' \<notin> set name" "CHR ''/'' \<notin> set name'"
  shows "queuePath (queue_of base ns) name = queuePath (queue_of base ns') name' \<longleftrightarrow> ns = ns' \<and> name = name'"
  using Join3_inj [OF assms(1,2) plain_db [OF assms(4)] assms(3) plain_db [OF assms(5)]]
  by (auto simp: queuePath_def queue_of_def)

lemma not_removed:
  "is_rooted base \<Longrightarrow> plain ns \<Longrightarrow> CHR ''/'' \<notin> set name \<Longrightarrow> proper l \<Longrightarrow> l \<noteq> OpAck ns name i \<Longrightarrow> l \<noteq> OpDelete ns name \<Longrightarrow>
     (queuePath (queue_of base ns) name, i) \<notin> removes base l"
  by (cases l) (auto simp: queuePath_inj)

section \<open>Durability\<close>

text \<open>The message of an accepted enqueue is stored, with a new id.\<close>

lemma qbind_Inr:
  "qbind m f st = (Inr y, st') \<longleftrightarrow> (\<exists>x s1. m st = (Inr x, s1) \<and> f x s1 = (Inr y, st'))"
  by (auto simp: qbind_def split: prod.splits sum.splits)

lemma qwrap_Inr [simp]: "qwrap msg m st = (Inr y, st') \<longleftrightarrow> m st = (Inr y, st')"
  by (auto simp: qwrap_def split: prod.splits sum.splits queue_error.splits)

lemma qguard_Inr: "qguard l p m st = (Inr y, st') \<longleftrightarrow> q_fault st l p = None \<and> m st = (Inr y, st')"
  by (auto simp: qguard_def split: option.splits)

lemma in_tx_Inr: "in_tx p m st = (Inr y, st') \<longleftrightarrow> q_fault st ''commit'' p = None \<and> m st = (Inr y, st')"
  by (auto simp: in_tx_def split: prod.splits sum.splits option.splits)

lemma begin_tx_Inr: "begin_tx p st = (Inr y, st') \<longleftrightarrow> q_fault st ''begin'' p = None \<and> st' = st"
  by (auto simp: begin_tx_def qguard_Inr qreturn_def)

lemmas run_Inr = qbind_Inr qguard_Inr in_tx_Inr begin_tx_Inr

lemma enqueue_tx_Inr:
  assumes "enqueue_tx lq name body sender i st = (Inr (), st')" "file_at st (queuePath lq name) \<noteq> None"
  shows "messages_at st' (queuePath lq name) = messages_at st (queuePath lq name) @
      [\<lparr> mr_id = i, mr_body = body, mr_body_size = int (length body), mr_enqueued_at = format_ms (q_now st),
         mr_visibility_until = None \<rparr>] \<and> i \<notin> mr_id ` set (messages_at st (queuePath lq name))"
  using assms
  by (auto simp: enqueue_tx_def Let_def run_Inr InsertMessage_q_def UpsertMeta_q_def qreturn_def split: if_splits)

lemma openSQLite_Inr:
  "openSQLite p schema st = (Inr y, st') \<longleftrightarrow> q_fault st ''open'' p = None \<and> st' = upd_file p schema (ensure_file p st)"
  by (auto simp: openSQLite_def qguard_Inr)

lemma newMessageID_Inr:
  "newMessageID st = (Inr i, st') \<Longrightarrow> \<exists>b r. q_rand st = Inr b # r \<and> i = ''msg_'' @ hex_Encode b \<and> st' = st\<lparr>q_rand := r\<rparr>"
  by (auto simp: newMessageID_def split: list.splits sum.splits)

lemma Enqueue_Inr:
  assumes "Enqueue lq name body sender st = (Inr (), st')"
  shows "\<exists>i. messages_at st' (queuePath lq name) = messages_at st (queuePath lq name) @
      [\<lparr> mr_id = i, mr_body = body, mr_body_size = int (length body), mr_enqueued_at = format_ms (q_now st),
         mr_visibility_until = None \<rparr>] \<and> i \<notin> mr_id ` set (messages_at st (queuePath lq name))"
proof -
  obtain s1 s2 i s3 s4 s5 where s: "openQuota lq st = (Inr (), s1)" "openOrCreateQueue lq name s1 = (Inr (), s2)"
    "newMessageID s2 = (Inr i, s3)" "enqueue_tx lq name body sender i s3 = (Inr (), s4)"
    "s5 = snd (AddBytes_q (quotaPath lq) (int (length body)) s4)" "st' = signalQueue (lq_namespace lq) name s5"
    using assms
    by (auto simp: Enqueue_def run_Inr GetQuota_q_def qfail_def qlog_def split: if_splits list.splits)
  have now: "q_now s3 = q_now st"
    using s(1,2) newMessageID_Inr [OF s(3)] by (auto simp: openQuota_def openOrCreateQueue_def openSQLite_Inr)
  have "messages_at s3 p = messages_at st p" for p
    using msgs.keepsD [OF msgs_opens(1) s(1)] msgs.keepsD [OF msgs_opens(2) s(2)] msgs.keepsD [OF msgs_rand s(3)]
    by (simp add: same_messages_def)
  moreover have "file_at s3 (queuePath lq name) \<noteq> None"
    using s(2) newMessageID_Inr [OF s(3)] by (auto simp: openOrCreateQueue_def openSQLite_Inr file_at_upd_file file_at_ensure_file)
  moreover have "messages_at st' p = messages_at s4 p" for p
    using msgs_quota(1) [of "quotaPath lq" "int (length body)"] s(5,6) by (simp add: msgs.keeps_def same_messages_def)
  ultimately show ?thesis using enqueue_tx_Inr [OF s(4)] now by auto
qed

text \<open>
  C4. No accepted message is lost, whatever happens afterwards: when an enqueue succeeds the message is
  stored under a fresh id, and after any history of operations of all namespaces, failing or not, it
  is still stored with its body unless that very id was acknowledged or the queue was deleted. The
  operations of the history use names without slashes.
\<close>

theorem queue_no_loss:
  assumes "is_rooted base" "plain ns" "CHR ''/'' \<notin> set name"
    and "Enqueue (queue_of base ns) name body sender st = (Inr (), st1)"
    and "queue_run base F st1 ops st2" "list_all proper ops" "OpDelete ns name \<notin> set ops"
  shows "\<exists>i. i \<notin> fst ` content st (queuePath (queue_of base ns) name) \<and>
    (i, body) \<in> content st1 (queuePath (queue_of base ns) name) \<and>
    (OpAck ns name i \<notin> set ops \<longrightarrow> (i, body) \<in> content st2 (queuePath (queue_of base ns) name))"
proof -
  let ?p = "queuePath (queue_of base ns) name"
  obtain i where i: "messages_at st1 ?p = messages_at st ?p @
      [\<lparr> mr_id = i, mr_body = body, mr_body_size = int (length body), mr_enqueued_at = format_ms (q_now st),
         mr_visibility_until = None \<rparr>]" "i \<notin> mr_id ` set (messages_at st ?p)"
    using Enqueue_Inr [OF assms(4)] by auto
  have stored: "(i, body) \<in> content st1 ?p" using i(1) by (simp add: content_def)
  have "(?p, i) \<notin> removes base l" if "l \<in> set ops" "OpAck ns name i \<notin> set ops" for l
    by (rule not_removed) (use that assms in \<open>auto simp: list_all_iff\<close>)
  then have "(i, body) \<in> content st2 ?p" if "OpAck ns name i \<notin> set ops"
    using loses_at_mostD [OF queue_run_loses [OF assms(5)] stored] that by blast
  with stored i(2) show ?thesis by (auto simp: content_def image_image)
qed

definition demo_q :: qstate where
  "demo_q = \<lparr> q_files = [], q_now = 5 * Day, q_rand = [Inr ''a'', Inr ''b''], q_notifiers = [], q_fault = \<lambda>_ _. None \<rparr>"

definition demo_lq :: LocalQueue where "demo_lq = queue_of ''/data'' ''team--app''"

lemma demo_paths:
  "queuePath demo_lq ''jobs'' = ''/data/team--app/jobs.db''" "quotaPath demo_lq = ''/data/team--app/quota.db''"
  "is_rooted ''/data''" "plain ''team--app''"
  by (simp_all add: demo_lq_def queue_of_def queuePath_def quotaPath_def filepath_Join_def filepath_Clean_def
      path_parts_def clean_parts_def clean_part_def is_rooted_def strings_HasPrefix_def plain_def)

lemmas q_eval = q_defs query_defs openQuota_def openOrCreateQueue_def openQueue_def openSQLite_def ensure_file_def
  upd_file_def file_at_def file_tab.by_key_def empty_file_def quotaSchema_def messagesSchema_def quota_at_def
  messages_at_def meta_at_def upd_messages_def upd_quota_def newMessageID_def

lemma demo_enqueue:
  "Enqueue demo_lq ''jobs'' ''hi'' ''team--app'' demo_q =
     (Inr (), demo_q\<lparr>q_rand := [Inr ''b''], q_files :=
       [\<lparr> f_path = ''/data/team--app/quota.db'', f_messages = [], f_meta = [], f_quota = [\<lparr> qu_TotalBytes = 2, qu_LimitBytes = 0 \<rparr>] \<rparr>,
        \<lparr> f_path = ''/data/team--app/jobs.db'',
          f_messages = [\<lparr> mr_id = ''msg_61'', mr_body = ''hi'', mr_body_size = 2, mr_enqueued_at = 432000000, mr_visibility_until = None \<rparr>],
          f_meta = [], f_quota = [] \<rparr>]\<rparr>)"
  by (simp add: Enqueue_def demo_paths q_eval demo_q_def enqueue_tx_def hex_Encode_def hex_digit_def signalQueue_def
      format_ms_def Millisecond_def Day_def Hour_def Minute_def Second_def char_of_eq_iff)
    (simp add: demo_lq_def queue_of_def)

theorem queue_no_loss_witness:
  "let st1 = snd (Enqueue demo_lq ''jobs'' ''hi'' ''team--app'' demo_q);
       st2 = run_qop ''/data'' (OpDequeue ''team--app'' ''jobs'' 0) st1 in
   \<exists>i. (i, ''hi'') \<in> content st1 (queuePath demo_lq ''jobs'') \<and> (i, ''hi'') \<in> content st2 (queuePath demo_lq ''jobs'')"
proof -
  let ?st1 = "snd (Enqueue demo_lq ''jobs'' ''hi'' ''team--app'' demo_q)"
  have "queue_run ''/data'' (\<lambda>_. True) ?st1 ([] @ [OpDequeue ''team--app'' ''jobs'' 0])
      (run_qop ''/data'' (OpDequeue ''team--app'' ''jobs'' 0) ?st1)"
    by (intro run_op run_nil)
  from queue_no_loss [of "''/data''" "''team--app''" "''jobs''", OF demo_paths(3,4) _ _ this, of "''hi''" "''team--app''" demo_q]
  show ?thesis
    using demo_enqueue demo_paths(4) by (auto simp: demo_lq_def Let_def)
qed

section \<open>Delivery\<close>

lemma Dequeue_Inr:
  assumes "Dequeue lq name vt st = (Inr r, st')"
  shows "case r of
      None \<Rightarrow> filter (visible_at (format_ms (q_now st))) (messages_at st (queuePath lq name)) = [] \<and> same_messages st st'
    | Some m \<Rightarrow> \<exists>row \<in> set (messages_at st (queuePath lq name)).
        m = \<lparr> msg_ID = mr_id row, msg_Body = mr_body row, msg_EnqueuedAt = parse_ms (mr_enqueued_at row) \<rparr> \<and>
        visible_at (format_ms (q_now st)) row \<and>
        (\<forall>row' \<in> set (messages_at st (queuePath lq name)). visible_at (format_ms (q_now st)) row' \<longrightarrow>
           mr_enqueued_at row \<le> mr_enqueued_at row') \<and>
        messages_at st' (queuePath lq name) = upd (\<lambda>x. mr_id x = mr_id row)
          (\<lambda>x. x\<lparr>mr_visibility_until := Some (format_ms (q_now st + (if vt \<le> 0 then defaultVisibilityTimeout else vt)))\<rparr>)
          (messages_at st (queuePath lq name))"
proof -
  let ?p = "queuePath lq name"
  let ?vis = "filter (visible_at (format_ms (q_now st))) (messages_at st ?p)"
  obtain s1 where s1: "openQueue lq name st = (Inr (), s1)"
    using assms by (auto simp: Dequeue_def run_Inr)
  have eq: "messages_at s1 p = messages_at st p" for p
    using msgs.keepsD [OF msgs_opens(3) s1] by (simp add: same_messages_def)
  have open_ok: "q_now s1 = q_now st" "file_at s1 ?p \<noteq> None"
    using s1 by (auto simp: openQueue_def openSQLite_Inr file_at_upd_file file_at_ensure_file split: option.splits)
  show ?thesis
  proof (cases "sort_key mr_enqueued_at ?vis")
    case Nil
    then have "?vis = []" by (metis set_empty set_sort)
    moreover have "r = None \<and> st' = s1"
      using assms Nil by (auto simp: Dequeue_def run_Inr s1 Let_def SelectNextMessage_q_def eq open_ok qreturn_def)
    ultimately show ?thesis using eq by (simp add: same_messages_def)
  next
    case (Cons row rows)
    have "row \<in> set ?vis" by (metis Cons list.set_intros(1) set_sort)
    moreover have "\<forall>row' \<in> set ?vis. mr_enqueued_at row \<le> mr_enqueued_at row'"
      using insort_key_hd_le [OF Cons] by blast
    moreover have "r = Some \<lparr> msg_ID = mr_id row, msg_Body = mr_body row, msg_EnqueuedAt = parse_ms (mr_enqueued_at row) \<rparr> \<and>
        messages_at st' ?p = upd (\<lambda>x. mr_id x = mr_id row)
          (\<lambda>x. x\<lparr>mr_visibility_until := Some (format_ms (q_now st + (if vt \<le> 0 then defaultVisibilityTimeout else vt)))\<rparr>)
          (messages_at st ?p)"
      using assms Cons open_ok
      by (auto simp: Dequeue_def run_Inr s1 Let_def SelectNextMessage_q_def SetVisibility_q_def eq qreturn_def)
    ultimately show ?thesis by (simp only: option.case set_filter mem_Collect_eq) blast
  qed
qed

text \<open>
  C22. Delivery: when a dequeue answers with a message, the message was visible and no visible message was
  enqueued before it; from then on it is hidden until the visibility timeout has passed and visible
  again afterwards, and no other message changed. When it answers with no message, no message was
  visible, and nothing changed.
\<close>

theorem dequeue_oldest_visible:
  assumes "Dequeue lq name vt st = (Inr r, st')" "p = queuePath lq name"
    and "vt' = (if vt \<le> 0 then 30 * Second else vt)"
  shows "case r of
      None \<Rightarrow> (\<forall>row \<in> set (messages_at st p). \<not> visible_at (format_ms (q_now st)) row) \<and> messages_at st' p = messages_at st p
    | Some m \<Rightarrow> \<exists>row \<in> set (messages_at st p). mr_id row = msg_ID m \<and> mr_body row = msg_Body m \<and>
        visible_at (format_ms (q_now st)) row \<and>
        (\<forall>x \<in> set (messages_at st p). visible_at (format_ms (q_now st)) x \<longrightarrow> mr_enqueued_at row \<le> mr_enqueued_at x) \<and>
        (\<forall>x \<in> set (messages_at st' p). mr_id x = msg_ID m \<longrightarrow>
           (\<forall>t. visible_at (format_ms t) x = (format_ms (q_now st + vt') < format_ms t))) \<and>
        filter (\<lambda>x. mr_id x \<noteq> msg_ID m) (messages_at st' p) = filter (\<lambda>x. mr_id x \<noteq> msg_ID m) (messages_at st p)"
proof (cases r)
  case None
  with Dequeue_Inr [OF assms(1)] show ?thesis by (auto simp: assms(2) same_messages_def filter_empty_conv)
next
  case (Some m)
  have others: "filter (\<lambda>x. mr_id x \<noteq> i) (upd (\<lambda>x. mr_id x = i) (\<lambda>x. x\<lparr>mr_visibility_until := u\<rparr>) t) =
      filter (\<lambda>x. mr_id x \<noteq> i) t" for i u t
    by (induction t) auto
  obtain row where row: "row \<in> set (messages_at st p)" "msg_ID m = mr_id row" "msg_Body m = mr_body row"
    "visible_at (format_ms (q_now st)) row"
    "\<forall>x \<in> set (messages_at st p). visible_at (format_ms (q_now st)) x \<longrightarrow> mr_enqueued_at row \<le> mr_enqueued_at x"
    "messages_at st' p = upd (\<lambda>x. mr_id x = mr_id row)
       (\<lambda>x. x\<lparr>mr_visibility_until := Some (format_ms (q_now st + vt'))\<rparr>) (messages_at st p)"
    using Dequeue_Inr [OF assms(1)] Some
    by (auto simp: assms(2,3) defaultVisibilityTimeout_def simp del: messages_at_simps)
  have "\<forall>x \<in> set (messages_at st' p). mr_id x = msg_ID m \<longrightarrow>
      (\<forall>t. visible_at (format_ms t) x = (format_ms (q_now st + vt') < format_ms t))"
    unfolding row(6) set_upd by (auto simp: visible_at_def row(2))
  moreover have "filter (\<lambda>x. mr_id x \<noteq> msg_ID m) (messages_at st' p) = filter (\<lambda>x. mr_id x \<noteq> msg_ID m) (messages_at st p)"
    unfolding row(2,6) by (rule others)
  ultimately show ?thesis unfolding Some option.case using row(1-5) by metis
qed

theorem dequeue_oldest_visible_witness:
  "let st = snd (Enqueue demo_lq ''jobs'' ''hi'' ''team--app'' demo_q);
       st' = snd (Dequeue demo_lq ''jobs'' 0 st) in
   \<forall>x \<in> set (messages_at st' (queuePath demo_lq ''jobs'')). mr_id x = ''msg_61'' \<longrightarrow>
     (\<forall>t. visible_at (format_ms t) x = (format_ms (q_now st + 30 * Second) < format_ms t))"
proof -
  let ?st = "snd (Enqueue demo_lq ''jobs'' ''hi'' ''team--app'' demo_q)"
  have "Dequeue demo_lq ''jobs'' 0 ?st =
      (Inr (Some \<lparr> msg_ID = ''msg_61'', msg_Body = ''hi'', msg_EnqueuedAt = parse_ms 432000000 \<rparr>), snd (Dequeue demo_lq ''jobs'' 0 ?st))"
    unfolding demo_enqueue snd_conv by (simp add: Dequeue_def demo_paths q_eval demo_q_def visible_at_def)
  from dequeue_oldest_visible [OF this refl refl] show ?thesis by (auto simp: Let_def simp del: messages_at_simps)
qed

end
