(* ===== verification/Queue_Quota.thy ===== *)
theory Queue_Quota
  imports Queue_Laws
begin

text \<open>
  The storage quota of a namespace: what the messages of its queues weigh, what the quota file says,
  and that the second bounds the first whatever the clients of all namespaces do.
\<close>

definition in_ns :: "LocalQueue \<Rightarrow> string \<Rightarrow> bool" where
  "in_ns lq p \<longleftrightarrow> butlast (path_parts p) = path_parts (lq_baseDir lq) @ [lq_namespace lq]"

definition weight :: "LocalQueue \<Rightarrow> qfile \<Rightarrow> int" where
  "weight lq f = (if in_ns lq (f_path f) then sum_list (map mr_body_size (f_messages f)) else 0)"

definition stored_bytes :: "LocalQueue \<Rightarrow> qstate \<Rightarrow> int" where
  "stored_bytes lq st = sum_list (map (weight lq) (q_files st))"

definition first_quota :: "Quotum list \<Rightarrow> Quotum" where
  "first_quota rows = (case rows of [] \<Rightarrow> \<lparr> qu_TotalBytes = 0, qu_LimitBytes = 0 \<rparr> | r # _ \<Rightarrow> r)"

definition used_bytes :: "LocalQueue \<Rightarrow> qstate \<Rightarrow> int" where
  "used_bytes lq st = qu_TotalBytes (first_quota (quota_at st (quotaPath lq)))"

definition limit_bytes :: "LocalQueue \<Rightarrow> qstate \<Rightarrow> int" where
  "limit_bytes lq st = qu_LimitBytes (first_quota (quota_at st (quotaPath lq)))"

definition wf_file :: "qfile \<Rightarrow> bool" where
  "wf_file f \<longleftrightarrow> distinct (map mr_id (f_messages f)) \<and> (\<forall>r \<in> set (f_messages f). mr_body_size r = int (length (mr_body r)))"

definition wf_q :: "qstate \<Rightarrow> bool" where
  "wf_q st \<longleftrightarrow> file_tab.uniq (q_files st) \<and> (\<forall>f \<in> set (q_files st). wf_file f)"

section \<open>Sums over the files\<close>

lemma sum_upd_file:
  assumes "file_tab.uniq t" "\<And>f. f_path (g f) = f_path f"
  shows "sum_list (map w (upd (\<lambda>x. f_path x = p) g t)) =
    sum_list (map w t) + (case file_tab.by_key p t of None \<Rightarrow> 0 | Some f \<Rightarrow> w (g f) - (w f :: int))"
  using assms(1)
proof (induction t)
  case (Cons f t)
  show ?case
  proof (cases "f_path f = p")
    case True
    with Cons.prems have "p \<notin> f_path ` set t" by (auto simp: file_tab.uniq_def)
    with True show ?thesis by (simp add: file_tab.by_key_def upd_absent)
  next
    case False
    with Cons show ?thesis by (simp add: file_tab.uniq_def file_tab.by_key_def)
  qed
qed (simp add: file_tab.by_key_def)

lemma stored_upd_file:
  assumes "wf_q st" "\<And>f. f_path (g f) = f_path f"
  shows "stored_bytes lq (upd_file p g st) =
    stored_bytes lq st + (case file_at st p of None \<Rightarrow> 0 | Some f \<Rightarrow> weight lq (g f) - weight lq f)"
  using assms sum_upd_file [of "q_files st" g "weight lq" p]
  by (simp add: stored_bytes_def upd_file_def file_at_def wf_q_def)

lemma stored_ensure [simp]: "stored_bytes lq (ensure_file p st) = stored_bytes lq st"
  by (simp add: stored_bytes_def ensure_file_def empty_file_def weight_def split: option.splits)

lemma wf_ensure: "wf_q st \<Longrightarrow> wf_q (ensure_file p st)"
  using file_tab.uniq_insert [of "q_files st" "empty_file p"]
  by (auto simp: wf_q_def ensure_file_def file_at_def wf_file_def empty_file_def split: option.splits)

lemma wf_upd_file:
  "wf_q st \<Longrightarrow> (\<And>f. f_path (g f) = f_path f) \<Longrightarrow>
     (\<And>f. f \<in> set (q_files st) \<Longrightarrow> f_path f = p \<Longrightarrow> wf_file f \<Longrightarrow> wf_file (g f)) \<Longrightarrow> wf_q (upd_file p g st)"
  by (auto simp: wf_q_def upd_file_def file_tab.uniq_upd set_upd)

lemma file_at_mem: "wf_q st \<Longrightarrow> file_at st p = Some f \<longleftrightarrow> f \<in> set (q_files st) \<and> f_path f = p"
  by (simp add: wf_q_def file_at_def file_tab.by_key_Some)

lemma quota_at_upd_file:
  "(\<And>f. f_path (g f) = f_path f) \<Longrightarrow> quota_at (upd_file p g st) p' =
     (if p' = p then (case file_at st p of None \<Rightarrow> [] | Some f \<Rightarrow> f_quota (g f)) else quota_at st p')"
  by (auto simp: quota_at_def file_at_upd_file split: option.splits)

lemma quota_at_ensure [simp]: "quota_at (ensure_file p st) p' = quota_at st p'"
  by (auto simp: quota_at_def file_at_ensure_file empty_file_def split: option.splits)

text \<open>The state of the account: a frame that keeps it and the well-formedness.\<close>

definition same_account :: "LocalQueue \<Rightarrow> qstate \<Rightarrow> qstate \<Rightarrow> bool" where
  "same_account lq st st' \<longleftrightarrow> (wf_q st \<longrightarrow> wf_q st' \<and> stored_bytes lq st' = stored_bytes lq st \<and>
     used_bytes lq st' = used_bytes lq st \<and> limit_bytes lq st' = limit_bytes lq st)"

interpretation acct: q_frame "same_account lq" for lq
  by unfold_locales (auto simp: same_account_def)

lemma account_files: "q_files st' = q_files st \<Longrightarrow> same_account lq st st'"
  by (simp add: same_account_def wf_q_def stored_bytes_def used_bytes_def limit_bytes_def quota_at_def file_at_def)

lemma account_upd_file:
  assumes "\<And>f. f_path (g f) = f_path f" "\<And>f. wf_file f \<Longrightarrow> wf_file (g f)"
    and "\<And>f. weight lq (g f) = weight lq f" "\<And>f. first_quota (f_quota (g f)) = first_quota (f_quota f)"
  shows "same_account lq st (upd_file p g st)"
proof -
  have "first_quota (quota_at (upd_file p g st) p') = first_quota (quota_at st p')" for p'
    by (cases "file_at st p") (simp_all add: file_at_upd_file [OF assms(1)] quota_at_def assms(4))
  then show ?thesis
    using assms(1-3) wf_upd_file [of st g p] stored_upd_file [of st g lq p]
    by (auto simp: same_account_def used_bytes_def limit_bytes_def split: option.splits)
qed

lemma account_ensure: "same_account lq st (ensure_file p st)"
  by (simp add: same_account_def used_bytes_def limit_bytes_def wf_ensure)

lemmas account_open = acct.trans [OF account_ensure account_upd_file]

lemma weight_upd_visibility [simp]:
  "map mr_body_size (upd P (\<lambda>r. r\<lparr>mr_visibility_until := u\<rparr>) t) = map mr_body_size t"
  "map mr_id (upd P (\<lambda>r. r\<lparr>mr_visibility_until := u\<rparr>) t) = map mr_id t"
  by (simp_all add: map_upd)

interpretation acct_ops: q_ops "same_account lq" for lq
proof
  fix p k v u i st ns name
  show "acct.keeps lq (openSQLite p messagesSchema)" "acct.keeps lq (openSQLite p quotaSchema)"
    unfolding openSQLite_def
    by (intro acct.keeps_guard acct.keeps_write account_open;
        simp add: messagesSchema_def quotaSchema_def wf_file_def weight_def first_quota_def split: list.splits)+
  show "acct.keeps lq newMessageID"
    by (auto simp: acct.keeps_def newMessageID_def acct.refl account_files split: list.splits sum.splits)
  show "acct.keeps lq (UpsertMeta_q p k v)" "acct.keeps lq (SetVisibility_q p u i)"
    unfolding UpsertMeta_q_def SetVisibility_q_def upd_messages_def
    by (intro acct.keeps_guard acct.keeps_write account_upd_file; auto simp: wf_file_def weight_def set_upd)+
  show "same_account lq st (signalQueue ns name st)" by (rule account_files) (simp add: signalQueue_def)
qed

section \<open>Adding and removing messages\<close>

lemma used_upd_messages [simp]:
  "used_bytes lq (upd_messages p g st) = used_bytes lq st" "limit_bytes lq (upd_messages p g st) = limit_bytes lq st"
proof -
  have "quota_at (upd_messages p g st) p' = quota_at st p'" for p'
    by (cases "file_at st p") (simp_all add: upd_messages_def quota_at_def file_at_upd_file)
  then show "used_bytes lq (upd_messages p g st) = used_bytes lq st" "limit_bytes lq (upd_messages p g st) = limit_bytes lq st"
    by (simp_all add: used_bytes_def limit_bytes_def)
qed

lemma stored_upd_messages:
  assumes "wf_q st"
  shows "stored_bytes lq (upd_messages p g st) = stored_bytes lq st +
     (if in_ns lq p \<and> file_at st p \<noteq> None
      then sum_list (map mr_body_size (g (messages_at st p))) - sum_list (map mr_body_size (messages_at st p)) else 0)"
proof (cases "file_at st p")
  case (Some f)
  then have "f_path f = p" using file_at_mem [OF assms] by simp
  with Some stored_upd_file [OF assms, of "\<lambda>f. f\<lparr>f_messages := g (f_messages f)\<rparr>" lq p] show ?thesis
    by (simp add: upd_messages_def weight_def messages_at_def)
qed (use stored_upd_file [OF assms, of "\<lambda>f. f\<lparr>f_messages := g (f_messages f)\<rparr>" lq p] in \<open>simp add: upd_messages_def\<close>)

lemma wf_messages:
  assumes "wf_q st"
  shows "distinct (map mr_id (messages_at st p)) \<and> (\<forall>r \<in> set (messages_at st p). mr_body_size r = int (length (mr_body r)))"
proof (cases "file_at st p")
  case (Some f)
  then have "wf_file f" using file_at_mem [OF assms] assms by (simp add: wf_q_def)
  with Some show ?thesis by (simp add: messages_at_def wf_file_def)
qed (simp add: messages_at_def)

lemma wf_upd_messages:
  assumes "wf_q st" "distinct (map mr_id (g (messages_at st p)))" "\<forall>r \<in> set (g (messages_at st p)). mr_body_size r = int (length (mr_body r))"
  shows "wf_q (upd_messages p g st)"
  unfolding upd_messages_def
proof (rule wf_upd_file [OF assms(1)])
  fix f assume "f \<in> set (q_files st)" "f_path f = p" "wf_file f"
  then have "file_at st p = Some f" using file_at_mem [OF assms(1)] by simp
  with assms(2,3) show "wf_file (f\<lparr>f_messages := g (f_messages f)\<rparr>)" by (simp add: wf_file_def messages_at_def)
qed simp

lemma wf_upd_del: "wf_q st \<Longrightarrow> wf_q (upd_messages p (del P) st)"
  by (rule wf_upd_messages) (use wf_messages [of st p] in \<open>simp_all add: distinct_map_del\<close>)

lemma sum_del:
  "distinct (map mr_id t) \<Longrightarrow> sum_list (map mr_body_size (del (\<lambda>r. mr_id r = i) t)) =
     sum_list (map mr_body_size t) - (case sel (\<lambda>r. mr_id r = i) t of None \<Rightarrow> 0 | Some r \<Rightarrow> mr_body_size r)"
proof (induction t)
  case (Cons r t)
  show ?case
  proof (cases "mr_id r = i")
    case True
    with Cons.prems have "i \<notin> mr_id ` set t" by simp
    then have "\<forall>x \<in> set t. mr_id x \<noteq> i" by blast
    then have "del (\<lambda>r. mr_id r = i) t = t" by (simp add: del_def)
    with True show ?thesis by simp
  next
    case False
    with Cons show ?thesis by simp
  qed
qed simp

lemma insert_account:
  assumes "wf_q st" "InsertMessage_q p i body (int (length body)) now st = (Inr (), st')" "file_at st p \<noteq> None"
  shows "wf_q st' \<and> stored_bytes lq st' = stored_bytes lq st + (if in_ns lq p then int (length body) else 0) \<and>
    used_bytes lq st' = used_bytes lq st \<and> limit_bytes lq st' = limit_bytes lq st"
proof -
  let ?g = "\<lambda>t. t @ [\<lparr> mr_id = i, mr_body = body, mr_body_size = int (length body), mr_enqueued_at = now, mr_visibility_until = None \<rparr>]"
  have st': "st' = upd_messages p ?g st" and fresh: "i \<notin> mr_id ` set (messages_at st p)"
    using assms(2) by (auto simp: InsertMessage_q_def qguard_Inr split: if_splits)
  have "wf_q st'"
    unfolding st' by (rule wf_upd_messages [OF assms(1)]) (use wf_messages [OF assms(1)] fresh in auto)
  with assms show ?thesis by (simp add: st' stored_upd_messages)
qed

lemma delete_account:
  assumes "wf_q st" "DeleteMessage_q p i st = (Inr (), st')"
  shows "wf_q st' \<and> stored_bytes lq st' = stored_bytes lq st -
      (if in_ns lq p then (case sel (\<lambda>r. mr_id r = i) (messages_at st p) of None \<Rightarrow> 0 | Some r \<Rightarrow> mr_body_size r) else 0) \<and>
    used_bytes lq st' = used_bytes lq st \<and> limit_bytes lq st' = limit_bytes lq st"
proof -
  have st': "st' = upd_messages p (del (\<lambda>r. mr_id r = i)) st"
    using assms(2) by (auto simp: DeleteMessage_q_def qguard_Inr)
  have "wf_q st'"
    unfolding st' by (rule wf_upd_del [OF assms(1)])
  moreover have "messages_at st p = []" if "file_at st p = None" using that by (simp add: messages_at_def)
  ultimately show ?thesis
    using assms(1) wf_messages [OF assms(1), of p] by (auto simp: st' stored_upd_messages sum_del)
qed

text \<open>The quota table.\<close>

lemma upd_quota_account:
  assumes "wf_q st"
  shows "wf_q (upd_quota p h st) \<and> stored_bytes lq (upd_quota p h st) = stored_bytes lq st"
proof -
  have "weight lq (f\<lparr>f_quota := x\<rparr>) = weight lq f" for f x by (simp add: weight_def)
  then show ?thesis
    using assms wf_upd_file [of st "\<lambda>f. f\<lparr>f_quota := map h (f_quota f)\<rparr>" p]
      stored_upd_file [of st "\<lambda>f. f\<lparr>f_quota := map h (f_quota f)\<rparr>" lq p]
    by (simp add: upd_quota_def wf_file_def split: option.splits)
qed

lemma quota_at_upd_quota: "quota_at (upd_quota p h st) p' = (if p' = p then map h (quota_at st p) else quota_at st p')"
  by (cases "file_at st p") (simp_all add: upd_quota_def quota_at_def file_at_upd_file)

lemma foreign_quota:
  "p \<noteq> quotaPath lq \<Longrightarrow> acct.keeps lq (AddBytes_q p n)" "p \<noteq> quotaPath lq \<Longrightarrow> acct.keeps lq (SubBytes_q p n)"
  "p \<noteq> quotaPath lq \<Longrightarrow> acct.keeps lq (SetLimitBytes_q p n)"
  unfolding AddBytes_q_def SubBytes_q_def SetLimitBytes_q_def
  by (intro acct.keeps_guard acct.keeps_write;
      simp add: same_account_def upd_quota_account used_bytes_def limit_bytes_def quota_at_upd_quota)+

lemma foreign_insert: "\<not> in_ns lq p \<Longrightarrow> acct.keeps lq (InsertMessage_q p i body (int (length body)) now)"
  unfolding acct.keeps_def
proof
  fix st assume p: "\<not> in_ns lq p"
  show "same_account lq st (snd (InsertMessage_q p i body (int (length body)) now st))"
  proof (cases "InsertMessage_q p i body (int (length body)) now st")
    case (Pair r st')
    show ?thesis
    proof (cases "r = Inr () \<and> file_at st p \<noteq> None")
      case True
      with Pair p insert_account [of st p i body now st'] show ?thesis by (auto simp: same_account_def)
    next
      case False
      with Pair have "q_files st' = q_files st"
        by (auto simp: InsertMessage_q_def qguard_def upd_messages_def upd_file_def file_at_def file_tab.by_key_def sel_None upd_idle
            split: option.splits if_splits)
      with Pair show ?thesis by (simp add: account_files)
    qed
  qed
qed

lemma foreign_delete: "\<not> in_ns lq p \<Longrightarrow> acct.keeps lq (DeleteMessage_q p i)"
  unfolding DeleteMessage_q_def
  by (intro acct.keeps_guard acct.keeps_write)
    (simp add: same_account_def stored_upd_messages wf_upd_del)

section \<open>Operations on the account\<close>

text \<open>No operation changes which faults occur.\<close>

interpretation faults: q_frame "\<lambda>st st'. q_fault st' = q_fault st"
  by unfold_locales auto

interpretation faults_ops: q_ops "\<lambda>st st'. q_fault st' = q_fault st"
  by unfold_locales
    (auto simp: faults.keeps_def openSQLite_def query_defs qguard_def newMessageID_def upd_messages_def signalQueue_def
      split: option.splits list.splits sum.splits)

lemma faults_queries:
  "faults.keeps (InsertMessage_q p i body n now)" "faults.keeps (DeleteMessage_q p i)" "faults.keeps (AddBytes_q p n)"
  "faults.keeps (SubBytes_q p n)" "faults.keeps (SetLimitBytes_q p n)"
  by (auto simp: faults.keeps_def query_defs qguard_def upd_messages_def upd_quota_def split: option.splits)

lemma faults_qop: "q_fault (run_qop base l st) = q_fault st"
  using faults_ops.keeps_Enqueue [OF faults_queries(1,3)] faults_ops.keeps_Dequeue faults_ops.keeps_Ack [OF faults_queries(2,4)]
    faults_ops.keeps_simple_ops faults_ops.keeps_list faults_ops.keeps_SetQuota [OF faults_queries(5)]
  by (cases l) (auto simp: faults.keeps_def DeleteQueue_def qwrap_def qguard_def Let_def split: option.splits)

lemma qbind_Inl:
  "qbind m f st = (Inl e, st') \<longleftrightarrow> m st = (Inl e, st') \<or> (\<exists>x s1. m st = (Inr x, s1) \<and> f x s1 = (Inl e, st'))"
  by (auto simp: qbind_def split: prod.splits sum.splits)

lemma tx_Inl: "in_tx p m st = (Inl e, st') \<Longrightarrow> st' = st" "begin_tx p st = (Inl e, st') \<Longrightarrow> st' = st"
  by (auto simp: in_tx_def begin_tx_def qwrap_def qguard_def qreturn_def
      split: prod.splits sum.splits option.splits queue_error.splits)

lemma enqueue_tx_Inl: "enqueue_tx lq name body sender i st = (Inl e, st') \<Longrightarrow> st' = st"
  by (auto simp: enqueue_tx_def Let_def qbind_Inl begin_tx_Inr dest: tx_Inl)

lemma qwrap_snd: "snd (qwrap msg m st) = snd (m st)"
  by (auto simp: qwrap_def split: prod.splits sum.splits queue_error.splits)

lemma qwrap_Inl: "qwrap msg m st = (Inl e, st') \<Longrightarrow> \<exists>e'. m st = (Inl e', st')"
  by (auto simp: qwrap_def split: prod.splits sum.splits queue_error.splits)

lemma Enqueue_Inl: "Enqueue lq' name body sender st = (Inl e, st') \<Longrightarrow> same_account lq st st'"
proof -
  assume run: "Enqueue lq' name body sender st = (Inl e, st')"
  let ?pre = "qbind (qwrap ''open quota: '' (openQuota lq')) (\<lambda>_.
     qbind (qwrap ''read quota: '' (GetQuota_q (quotaPath lq'))) (\<lambda>quota.
     if qu_LimitBytes quota > 0 \<and> wrap64 (qu_TotalBytes quota + int (length body)) > qu_LimitBytes quota
     then qfail ErrQuotaExceeded
     else qbind (qwrap ''open queue: '' (openOrCreateQueue lq' name)) (\<lambda>_. newMessageID)))"
  have pre: "acct.keeps lq ?pre" by (intro acct.keeps_intros acct_ops.keeps_steps)
  obtain r s1 where r: "?pre st = (r, s1)" by fastforce
  have "st' = s1"
    using run r unfolding Enqueue_def
    by (auto simp: qbind_def qfail_def qlog_def split: prod.splits sum.splits if_splits dest: enqueue_tx_Inl)
  with acct.keepsD [OF pre r] show ?thesis by simp
qed

lemma enqueue_tx_account:
  assumes "wf_q st" "enqueue_tx lq' name body sender i st = (Inr (), st')" "file_at st (queuePath lq' name) \<noteq> None"
  shows "wf_q st' \<and> stored_bytes lq st' = stored_bytes lq st + (if in_ns lq (queuePath lq' name) then int (length body) else 0) \<and>
    used_bytes lq st' = used_bytes lq st \<and> limit_bytes lq st' = limit_bytes lq st \<and>
    (quota_at st p = [] \<longleftrightarrow> quota_at st' p = [])"
proof -
  let ?p = "queuePath lq' name" and ?now = "format_ms (q_now st)"
  obtain s1 where s1: "InsertMessage_q ?p i body (int (length body)) ?now st = (Inr (), s1)"
    and s2: "st' = s1 \<or> UpsertMeta_q ?p ''last_external_enqueue_at'' ?now s1 = (Inr (), st')"
    using assms(2) by (auto simp: enqueue_tx_def Let_def run_Inr qreturn_def split: if_splits)
  have "same_account lq s1 st'"
    using s2 acct.keepsD [OF acct_ops.meta] by (auto simp: acct.refl)
  moreover have "(quota_at st p = []) = (quota_at st' p = [])"
    using s1 s2
    by (auto simp: InsertMessage_q_def UpsertMeta_q_def qguard_Inr quota_at_def upd_messages_def file_at_upd_file
        split: if_splits option.splits)
  ultimately show ?thesis
    using insert_account [OF assms(1) s1 assms(3), of lq] by (simp add: same_account_def)
qed

lemma Enqueue_account:
  assumes wf: "wf_q st" and run: "Enqueue lq name body sender st = (Inr (), st')"
    and own: "in_ns lq (queuePath lq name)" and ok: "q_fault st ''addBytes'' (quotaPath lq) = None"
  shows "wf_q st' \<and> stored_bytes lq st' = stored_bytes lq st + int (length body) \<and>
    used_bytes lq st' = used_bytes lq st + int (length body) \<and> limit_bytes lq st' = limit_bytes lq st \<and>
    \<not> (limit_bytes lq st > 0 \<and> wrap64 (used_bytes lq st + int (length body)) > limit_bytes lq st)"
proof -
  let ?n = "int (length body)"
  obtain s1 s2 i s3 s4 quota where s: "openQuota lq st = (Inr (), s1)" "quota_at s1 (quotaPath lq) \<noteq> []"
    "\<not> (qu_LimitBytes (hd (quota_at s1 (quotaPath lq))) > 0 \<and>
       wrap64 (qu_TotalBytes (hd (quota_at s1 (quotaPath lq))) + ?n) > qu_LimitBytes (hd (quota_at s1 (quotaPath lq))))"
    "openOrCreateQueue lq name s1 = (Inr (), s2)" "newMessageID s2 = (Inr i, s3)" "enqueue_tx lq name body sender i s3 = (Inr (), s4)"
    "st' = signalQueue (lq_namespace lq) name (snd (AddBytes_q (quotaPath lq) ?n s4))"
    using run by (auto simp: Enqueue_def run_Inr GetQuota_q_def qfail_def qlog_def split: if_splits list.splits)
  have a1: "same_account lq st s1" and a3: "same_account lq s1 s3"
    using acct.keepsD [OF acct_ops.keeps_opens(1) s(1)]
      acct.trans [OF acct.keepsD [OF acct_ops.keeps_opens(2) s(4)] acct.keepsD [OF acct_ops.rand s(5)]] by auto
  have f3: "file_at s3 (queuePath lq name) \<noteq> None"
    using s(4) newMessageID_Inr [OF s(5)]
    by (auto simp: openOrCreateQueue_def openSQLite_Inr file_at_upd_file file_at_ensure_file)
  have fault: "q_fault s4 = q_fault st"
    using faults.keepsD [OF faults_ops.keeps_opens(1) s(1)] faults.keepsD [OF faults_ops.keeps_opens(2) s(4)]
      faults.keepsD [OF faults_ops.rand s(5)] faults.keepsD [OF faults_ops.keeps_enqueue_tx [OF faults_queries(1)] s(6)] by simp
  have q3: "quota_at s3 (quotaPath lq) \<noteq> []"
    using s(2,4) newMessageID_Inr [OF s(5)]
    by (auto simp: openOrCreateQueue_def openSQLite_Inr quota_at_def file_at_upd_file file_at_ensure_file empty_file_def
        messagesSchema_def split: option.splits)
  have wf3: "wf_q s3" using wf a1 a3 by (simp add: same_account_def)
  note tx = enqueue_tx_account [OF wf3 s(6) f3, of lq "quotaPath lq"]
  have st': "st' = signalQueue (lq_namespace lq) name (upd_quota (quotaPath lq) (\<lambda>r. r\<lparr>qu_TotalBytes := qu_TotalBytes r + ?n\<rparr>) s4)"
    using s(7) fault ok by (simp add: AddBytes_q_def qguard_def)
  have add: "used_bytes lq st' = used_bytes lq s4 + ?n \<and> limit_bytes lq st' = limit_bytes lq s4 \<and>
      wf_q st' \<and> stored_bytes lq st' = stored_bytes lq s4"
  proof -
    let ?s5 = "upd_quota (quotaPath lq) (\<lambda>r. r\<lparr>qu_TotalBytes := qu_TotalBytes r + ?n\<rparr>) s4"
    have "same_account lq ?s5 st'" unfolding st' by (rule acct_ops.signal)
    moreover have "used_bytes lq ?s5 = used_bytes lq s4 + ?n \<and> limit_bytes lq ?s5 = limit_bytes lq s4"
      using tx q3 by (cases "quota_at s4 (quotaPath lq)")
        (simp_all add: used_bytes_def limit_bytes_def quota_at_upd_quota first_quota_def)
    ultimately show ?thesis using tx upd_quota_account [of s4 "quotaPath lq"] by (simp add: same_account_def)
  qed
  have "first_quota (quota_at s1 (quotaPath lq)) = hd (quota_at s1 (quotaPath lq))"
    using s(2) by (simp add: first_quota_def split: list.splits)
  then have "used_bytes lq st = qu_TotalBytes (hd (quota_at s1 (quotaPath lq)))"
    "limit_bytes lq st = qu_LimitBytes (hd (quota_at s1 (quotaPath lq)))"
    using a1 wf by (simp_all add: same_account_def used_bytes_def limit_bytes_def)
  with s(3) tx add a1 a3 wf own show ?thesis by (simp add: same_account_def)
qed

lemma weight_nonneg: "wf_file f \<Longrightarrow> 0 \<le> weight lq f"
  by (auto simp: weight_def wf_file_def intro!: sum_list_nonneg)

lemma stored_nonneg: "wf_q st \<Longrightarrow> 0 \<le> stored_bytes lq st"
  by (auto simp: stored_bytes_def wf_q_def weight_nonneg intro!: sum_list_nonneg)

lemma Ack_account:
  assumes wf: "wf_q st" and run: "Ack lq name i st = (r, st')" and own: "in_ns lq (queuePath lq name)"
  shows "wf_q st' \<and> limit_bytes lq st' = limit_bytes lq st \<and>
    (\<exists>n \<ge> 0. stored_bytes lq st' = stored_bytes lq st - n \<and> used_bytes lq st' \<in> {used_bytes lq st, max 0 (used_bytes lq st - n)})"
proof -
  let ?p = "queuePath lq name"
  let ?pre = "qbind (openQueue lq name) (\<lambda>_. qwrap ''read size: '' (GetMessageBodySize_q ?p i))"
  obtain x s1 where x: "?pre st = (x, s1)" by fastforce
  have "acct.keeps lq ?pre" by (intro acct.keeps_intros acct_ops.keeps_steps)
  from acct.keepsD [OF this x] have a1: "same_account lq st s1" .
  have wf1: "wf_q s1" using a1 wf by (simp add: same_account_def)
  show ?thesis
  proof (cases "\<exists>size s2. x = Inr (Some size) \<and> DeleteMessage_q ?p i s1 = (Inr (), s2)")
    case False
    with run x have "st' = s1"
      by (auto simp: Ack_def qbind_def qreturn_def DeleteMessage_q_def qguard_def
          split: prod.splits sum.splits option.splits dest!: qwrap_Inl)
    with a1 wf show ?thesis by (auto simp: same_account_def intro!: exI [of _ 0])
  next
    case True
    then obtain n s2 where s2: "x = Inr (Some n)" "DeleteMessage_q ?p i s1 = (Inr (), s2)" by blast
    obtain y s3 where s3: "openQuota lq s2 = (y, s3)" by fastforce
    have "sel (\<lambda>r. mr_id r = i) (messages_at s1 ?p) = Some r \<Longrightarrow> mr_body_size r = n" for r
      using x s2(1) by (auto simp: qbind_Inr GetMessageBodySize_q_def qguard_Inr)
    moreover obtain row where row: "sel (\<lambda>r. mr_id r = i) (messages_at s1 ?p) = Some row" "mr_body_size row = n"
      using x s2(1) by (auto simp: qbind_Inr GetMessageBodySize_q_def qguard_Inr)
    moreover have "0 \<le> n" using row sel_Some [OF row(1)] wf_messages [OF wf1, of ?p] by auto
    ultimately have del: "wf_q s2" "stored_bytes lq s2 = stored_bytes lq s1 - n" "used_bytes lq s2 = used_bytes lq s1"
      "limit_bytes lq s2 = limit_bytes lq s1" "0 \<le> n"
      using delete_account [OF wf1 s2(2), of lq] own by auto
    have a3: "same_account lq s2 s3" by (rule acct.keepsD [OF acct_ops.keeps_opens(1) s3])
    have "st' = s3 \<or> st' = upd_quota (quotaPath lq) (\<lambda>r. r\<lparr>qu_TotalBytes := max 0 (qu_TotalBytes r - n)\<rparr>) s3"
    proof -
      from x s2(1) have "?pre st = (Inr (Some n), s1)" by simp
      then obtain u s0 where s0: "openQueue lq name st = (Inr u, s0)"
          "qwrap ''read size: '' (GetMessageBodySize_q ?p i) s0 = (Inr (Some n), s1)"
        unfolding qbind_Inr by blast
      have "qwrap ''delete: '' (DeleteMessage_q ?p i) s1 = (Inr (), s2)" using s2(2) by simp
      with run s0 have eq: "qbind (qwrap ''open quota: '' (openQuota lq)) (\<lambda>_. qlog (SubBytes_q (quotaPath lq) n)) s2 = (r, st')"
        by (simp add: Ack_def qbind_def)
      obtain y' where "qwrap ''open quota: '' (openQuota lq) s2 = (y', s3)"
        using s3 qwrap_snd by (metis prod.collapse snd_conv)
      with eq show ?thesis
        by (auto simp: qbind_def qlog_def SubBytes_q_def qguard_def split: sum.splits option.splits)
    qed
    moreover have "limit_bytes lq (upd_quota (quotaPath lq) (\<lambda>r. r\<lparr>qu_TotalBytes := max 0 (qu_TotalBytes r - n)\<rparr>) s3) = limit_bytes lq s3"
      "used_bytes lq (upd_quota (quotaPath lq) (\<lambda>r. r\<lparr>qu_TotalBytes := max 0 (qu_TotalBytes r - n)\<rparr>) s3) =
       max 0 (used_bytes lq s3 - n)"
      using del(5) by (cases "quota_at s3 (quotaPath lq)";
        simp add: used_bytes_def limit_bytes_def quota_at_upd_quota first_quota_def)+
    ultimately show ?thesis
      using a1 a3 wf del upd_quota_account [of s3] by (auto simp: same_account_def intro!: exI [of _ n])
  qed
qed

lemma sum_filter_le:
  fixes w :: "'a \<Rightarrow> int"
  shows "\<forall>f \<in> set t. 0 \<le> w f \<Longrightarrow> sum_list (map w (filter P t)) \<le> sum_list (map w t)"
  by (induction t) auto

lemma sum_filter_eq:
  fixes w :: "'a \<Rightarrow> int"
  shows "\<forall>f \<in> set t. \<not> P f \<longrightarrow> w f = 0 \<Longrightarrow> sum_list (map w (filter P t)) = sum_list (map w t)"
  by (induction t) auto

lemma Delete_account:
  assumes wf: "wf_q st" and p: "p = queuePath lq' name" "p \<noteq> quotaPath lq" and run: "DeleteQueue lq' name st = (r, st')"
  shows "wf_q st' \<and> used_bytes lq st' = used_bytes lq st \<and> limit_bytes lq st' = limit_bytes lq st \<and>
    stored_bytes lq st' \<le> stored_bytes lq st \<and> (\<not> in_ns lq p \<longrightarrow> stored_bytes lq st' = stored_bytes lq st)"
proof -
  let ?s = "st\<lparr>q_files := del (\<lambda>f. f_path f = p) (q_files st)\<rparr>"
  have "st' = st \<or> st' = ?s"
    using run p by (auto simp: DeleteQueue_def Let_def qwrap_def qguard_def split: option.splits)
  moreover have "wf_q ?s" using wf by (simp add: wf_q_def file_tab.uniq_del)
  moreover have "quota_at ?s (quotaPath lq) = quota_at st (quotaPath lq)"
    using p(2) by (simp add: quota_at_def file_at_def file_tab.by_key_del)
  moreover have "stored_bytes lq ?s \<le> stored_bytes lq st"
    using wf weight_nonneg by (auto simp: stored_bytes_def del_def wf_q_def intro!: sum_filter_le)
  moreover have "stored_bytes lq ?s = stored_bytes lq st" if "\<not> in_ns lq p"
    using that by (auto simp: stored_bytes_def del_def weight_def intro!: sum_filter_eq)
  ultimately show ?thesis using wf by (auto simp: used_bytes_def limit_bytes_def)
qed

section \<open>The quota bounds what is stored\<close>

lemma quotaPath_queue: "quotaPath lq = queuePath lq ''quota''"
  by (simp add: quotaPath_def queuePath_def)

lemma in_ns_queuePath:
  "is_rooted base \<Longrightarrow> plain ns' \<Longrightarrow> CHR ''/'' \<notin> set name \<Longrightarrow>
     in_ns (queue_of base ns) (queuePath (queue_of base ns') name) \<longleftrightarrow> ns = ns'"
  by (auto simp: in_ns_def queuePath_def queue_of_def path_parts_Join3 plain_db butlast_append)

definition quota_inv :: "int \<Rightarrow> LocalQueue \<Rightarrow> qstate \<Rightarrow> bool" where
  "quota_inv L lq st \<longleftrightarrow> wf_q st \<and> stored_bytes lq st \<le> used_bytes lq st \<and> used_bytes lq st \<le> L \<and> limit_bytes lq st = L"

lemma quota_inv_same: "same_account lq st st' \<Longrightarrow> quota_inv L lq st \<Longrightarrow> quota_inv L lq st'"
  by (simp add: same_account_def quota_inv_def)

text \<open>The operations that the bound allows: all but a change of the limit and the deletion of the quota file itself.\<close>

fun quota_safe :: "int \<Rightarrow> string \<Rightarrow> qop \<Rightarrow> bool" where
  "quota_safe L ns (OpDelete ns' name) = (ns' = ns \<longrightarrow> name \<noteq> ''quota'')"
| "quota_safe L ns (OpSetQuota ns' n) = (ns' \<noteq> ns)"
| "quota_safe L ns (OpEnqueue ns' name body sender) = (L + int (length body) \<le> int64_max)"
| "quota_safe L ns _ = True"

lemma foreign_qop:
  assumes "is_rooted base" "plain ns" "plain ns'" "ns' \<noteq> ns" "CHR ''/'' \<notin> set name"
  shows "acct.keeps (queue_of base ns) (Enqueue (queue_of base ns') name body sender)"
    and "acct.keeps (queue_of base ns) (Ack (queue_of base ns') name i)"
    and "acct.keeps (queue_of base ns) (SetQuota (queue_of base ns') n)"
proof -
  have q: "quotaPath (queue_of base ns') \<noteq> quotaPath (queue_of base ns)"
    using assms queuePath_inj [of base ns' ns "''quota''" "''quota''"] by (simp add: quotaPath_queue)
  have p: "\<not> in_ns (queue_of base ns) (queuePath (queue_of base ns') name)"
    using assms by (simp add: in_ns_queuePath)
  show "acct.keeps (queue_of base ns) (Enqueue (queue_of base ns') name body sender)"
    "acct.keeps (queue_of base ns) (Ack (queue_of base ns') name i)"
    "acct.keeps (queue_of base ns) (SetQuota (queue_of base ns') n)"
    by (intro acct_ops.keeps_Enqueue acct_ops.keeps_Ack acct_ops.keeps_SetQuota foreign_insert foreign_delete foreign_quota p q)+
qed

lemma Enqueue_inv:
  assumes base: "is_rooted base" "plain ns" "CHR ''/'' \<notin> set name" and inv: "quota_inv L (queue_of base ns) st" and L: "0 < L"
    and small: "L + int (length body) \<le> int64_max" and ok: "\<forall>p. q_fault st ''addBytes'' p = None"
  shows "quota_inv L (queue_of base ns) (snd (Enqueue (queue_of base ns) name body sender st))"
proof (cases "Enqueue (queue_of base ns) name body sender st")
  case (Pair r st')
  show ?thesis
  proof (cases r)
    case (Inl e)
    with Pair Enqueue_Inl quota_inv_same inv show ?thesis by (metis snd_conv)
  next
    case (Inr u)
    let ?lq = "queue_of base ns"
    have used: "0 \<le> used_bytes ?lq st" using inv stored_nonneg [of st ?lq] by (simp add: quota_inv_def)
    then have "wrap64 (used_bytes ?lq st + int (length body)) = used_bytes ?lq st + int (length body)"
      using inv small by (intro wrap64_id) (simp_all add: quota_inv_def int64_min_def)
    with Enqueue_account [of st ?lq name body sender st'] Pair Inr inv L ok base show ?thesis
      by (simp add: quota_inv_def in_ns_queuePath)
  qed
qed

lemma Ack_inv:
  assumes "is_rooted base" "plain ns" "CHR ''/'' \<notin> set name" "quota_inv L (queue_of base ns) st"
  shows "quota_inv L (queue_of base ns) (snd (Ack (queue_of base ns) name i st))"
proof -
  let ?lq = "queue_of base ns"
  obtain r st' where run: "Ack ?lq name i st = (r, st')" by fastforce
  have "wf_q st" "0 \<le> stored_bytes ?lq st" using assms(4) stored_nonneg by (auto simp: quota_inv_def)
  with Ack_account [OF _ run] assms run show ?thesis by (auto simp: quota_inv_def in_ns_queuePath)
qed

lemma quota_inv_step:
  assumes "is_rooted base" "plain ns" "quota_inv L (queue_of base ns) st" "0 < L" "proper l" "quota_safe L ns l"
    and "\<forall>p. q_fault st ''addBytes'' p = None"
  shows "quota_inv L (queue_of base ns) (run_qop base l st)"
proof -
  let ?lq = "queue_of base ns"
  have keep: "acct.keeps ?lq m \<Longrightarrow> quota_inv L ?lq (snd (m st))" for m :: "'a q"
    using assms(3) by (auto simp: acct.keeps_def intro: quota_inv_same)
  have del: "quota_inv L ?lq (snd (DeleteQueue (queue_of base ns') name st))"
    if "plain ns'" "CHR ''/'' \<notin> set name" "ns' = ns \<longrightarrow> name \<noteq> ''quota''" for ns' name
  proof -
    obtain r st' where run: "DeleteQueue (queue_of base ns') name st = (r, st')" by fastforce
    have "queuePath (queue_of base ns') name \<noteq> quotaPath ?lq"
      using that assms queuePath_inj [of base ns' ns name "''quota''"] by (auto simp: quotaPath_queue)
    with Delete_account [OF _ refl _ run, of ?lq] assms(3) run show ?thesis by (auto simp: quota_inv_def)
  qed
  show ?thesis
  proof (cases l)
    case (OpEnqueue ns' name body sender)
    then show ?thesis using assms Enqueue_inv [of base ns name L st body sender] keep [OF foreign_qop(1)]
      by (cases "ns' = ns") auto
  next
    case (OpAck ns' name i)
    then show ?thesis using assms Ack_inv keep [OF foreign_qop(2)] by (cases "ns' = ns") auto
  next
    case (OpSetQuota ns' n)
    then show ?thesis using assms keep [OF foreign_qop(3) [of base ns ns' "[]"]] by auto
  qed (use assms del keep [OF acct_ops.keeps_simple_ops(1)] keep [OF acct_ops.keeps_simple_ops(2)]
        keep [OF acct_ops.keeps_simple_ops(3)] keep [OF acct_ops.keeps_list] keep [OF acct_ops.keeps_Dequeue] in auto)
qed

lemma SetQuota_inv:
  assumes "q_files st0 = []" "SetQuota lq L st0 = (Inr (), st)" "0 < L"
  shows "quota_inv L lq st"
proof -
  have files: "q_files st = [(empty_file (quotaPath lq))\<lparr>f_quota := [\<lparr> qu_TotalBytes = 0, qu_LimitBytes = L \<rparr>]\<rparr>]"
    using assms(1,2)
    by (auto simp: SetQuota_def run_Inr openQuota_def openSQLite_Inr SetLimitBytes_q_def upd_quota_def upd_file_def
        ensure_file_def file_at_def file_tab.by_key_def quotaSchema_def empty_file_def)
  then show ?thesis
    using assms(3)
    by (simp add: quota_inv_def wf_q_def wf_file_def file_tab.uniq_def stored_bytes_def weight_def empty_file_def used_bytes_def
        limit_bytes_def quota_at_def file_at_def file_tab.by_key_def first_quota_def)
qed

lemma quota_inv_run:
  assumes "queue_run base F st ops st'" "\<forall>f. F f \<longrightarrow> (\<forall>p. f ''addBytes'' p = None)"
    and "is_rooted base" "plain ns" "0 < L" "list_all proper ops" "list_all (quota_safe L ns) ops"
    and "quota_inv L (queue_of base ns) st" "\<forall>p. q_fault st ''addBytes'' p = None"
  shows "quota_inv L (queue_of base ns) st' \<and> (\<forall>p. q_fault st' ''addBytes'' p = None)"
  using assms
proof (induction rule: queue_run.induct)
  case (run_env st ops st' st'')
  then show ?case using account_files quota_inv_same by blast
next
  case (run_op st ops st' l)
  then show ?case using quota_inv_step [of base ns L st' l] by (simp add: faults_qop)
qed simp



text \<open>Only the test of the quota answers with \<open>ErrQuotaExceeded\<close>.\<close>

definition not_exceeded :: "'a q \<Rightarrow> bool" where
  "not_exceeded m \<longleftrightarrow> (\<forall>st. fst (m st) \<noteq> Inl ErrQuotaExceeded)"

lemma not_exceeded_bind: "not_exceeded m \<Longrightarrow> (\<And>x. not_exceeded (f x)) \<Longrightarrow> not_exceeded (qbind m f)"
  unfolding not_exceeded_def qbind_def by (auto split: prod.splits sum.splits) (metis fst_conv)+

lemma not_exceeded_wrap: "not_exceeded m \<Longrightarrow> not_exceeded (qwrap msg m)"
  unfolding not_exceeded_def qwrap_def by (auto split: prod.splits sum.splits queue_error.splits) (metis fst_conv)+

lemma not_exceeded_guard: "not_exceeded m \<Longrightarrow> not_exceeded (qguard l p m)"
  by (simp add: not_exceeded_def qguard_def split: option.splits)

lemma not_exceeded_in_tx: "not_exceeded m \<Longrightarrow> not_exceeded (in_tx p m)"
  unfolding not_exceeded_def in_tx_def by (auto split: prod.splits sum.splits option.splits) (metis fst_conv)+

lemma not_exceeded_basic:
  "not_exceeded (qreturn x)" "not_exceeded (\<lambda>st. (Inr y, g st))" "not_exceeded newMessageID" "not_exceeded (qlog m)"
  by (auto simp: not_exceeded_def qreturn_def newMessageID_def qlog_def split: list.splits sum.splits)

lemmas not_exceeded_intros = not_exceeded_bind not_exceeded_wrap not_exceeded_guard not_exceeded_in_tx not_exceeded_basic

lemma not_exceeded_steps:
  "not_exceeded (openQuota lq)" "not_exceeded (openOrCreateQueue lq name)" "not_exceeded (UpsertMeta_q p k v)"
  "not_exceeded (InsertMessage_q p i body n now)" "not_exceeded (begin_tx p)"
  unfolding openQuota_def openOrCreateQueue_def openSQLite_def UpsertMeta_q_def InsertMessage_q_def begin_tx_def
  by (intro not_exceeded_intros | simp add: not_exceeded_def)+

lemma not_exceeded_tx: "not_exceeded (enqueue_tx lq name body sender i)"
proof -
  have "not_exceeded (qbind (begin_tx (queuePath lq name)) (\<lambda>_.
      in_tx (queuePath lq name) (qbind (qwrap ''insert: '' (InsertMessage_q (queuePath lq name) i body (int (length body)) now)) (\<lambda>_.
        if sender \<noteq> lq_namespace lq then qwrap ''update meta: '' (UpsertMeta_q (queuePath lq name) ''last_external_enqueue_at'' now)
        else qreturn ()))))" for now
    by (cases "sender \<noteq> lq_namespace lq") (simp_all, (intro not_exceeded_intros not_exceeded_steps)+)
  then show ?thesis by (simp add: not_exceeded_def enqueue_tx_def Let_def)
qed

lemma not_exceeded_rest:
  "not_exceeded (qbind (qwrap ''open queue: '' (openOrCreateQueue lq name)) (\<lambda>_.
     qbind newMessageID (\<lambda>i. qbind (enqueue_tx lq name body sender i) (\<lambda>_.
     qbind (qlog (AddBytes_q (quotaPath lq) (int (length body)))) (\<lambda>_ st. (Inr (), signalQueue (lq_namespace lq) name st))))))"
  by (intro not_exceeded_intros not_exceeded_steps not_exceeded_tx)

text \<open>
  Deleting queues breaks the accounting in two ways. Deleting a queue leaves the byte count of the
  namespace as it was: the bytes of its messages stay charged. And a queue called quota shares the
  file of the quota: deleting it sets the limit, which an operator had set, back to none, so that no
  enqueue of the namespace is refused for its quota any more.
\<close>

theorem queue_deletion_and_quota:
  assumes "wf_q st" "DeleteQueue lq name st = (Inr (), st1)" "queuePath lq name \<noteq> quotaPath lq"
    and "DeleteQueue lq ''quota'' st = (Inr (), st2)"
  shows "used_bytes lq st1 = used_bytes lq st \<and> messages_at st1 (queuePath lq name) = [] \<and>
    limit_bytes lq st2 = 0 \<and> used_bytes lq st2 = 0 \<and>
    fst (Enqueue lq q body sender st2) \<noteq> Inl ErrQuotaExceeded"
proof -
  have q2: "quota_at st2 (quotaPath lq) = []"
    using assms(4) by (auto simp: DeleteQueue_def Let_def qguard_Inr quota_at_def file_at_def file_tab.by_key_del quotaPath_queue
        split: option.splits)
  have "messages_at st1 (queuePath lq name) = []"
    using assms(2) by (auto simp: DeleteQueue_def Let_def qguard_Inr messages_at_def file_at_def file_tab.by_key_del
        split: option.splits)
  moreover have "fst (Enqueue lq q body sender st2) \<noteq> Inl ErrQuotaExceeded"
  proof (cases "openQuota lq st2")
    case (Pair r s)
    show ?thesis
    proof (cases r)
      case (Inl e)
      with Pair not_exceeded_steps(1) [of lq] show ?thesis
        by (auto simp: Enqueue_def qbind_def qwrap_def not_exceeded_def split: queue_error.splits) (metis fst_conv)
    next
      case (Inr u)
      with Pair q2 have row: "quota_at s (quotaPath lq) = [\<lparr> qu_TotalBytes = 0, qu_LimitBytes = 0 \<rparr>]"
        by (auto simp: openQuota_def openSQLite_Inr quota_at_def file_at_upd_file file_at_ensure_file quotaSchema_def
          empty_file_def split: option.splits)
      have "qwrap ''open quota: '' (openQuota lq) st2 = (Inr u, s)" using Pair Inr by simp
      then show ?thesis
        using row not_exceeded_rest [of lq q body sender, unfolded not_exceeded_def]
        by (auto simp: Enqueue_def qbind_def [of "qwrap ''open quota: '' (openQuota lq)"] qbind_def [of "qwrap ''read quota: '' m" for m]
            qwrap_def GetQuota_q_def qguard_def split: option.splits)
    qed
  qed
  ultimately show ?thesis
    using Delete_account [OF assms(1) refl assms(3,2)] q2
    by (simp add: used_bytes_def limit_bytes_def first_quota_def)
qed

theorem queue_deletion_and_quota_witness:
  "let st = snd (Enqueue demo_lq ''jobs'' ''hi'' ''team--app'' demo_q) in
   used_bytes demo_lq (snd (DeleteQueue demo_lq ''jobs'' st)) = 2 \<and>
   limit_bytes demo_lq (snd (DeleteQueue demo_lq ''quota'' st)) = 0"
proof -
  let ?st = "snd (Enqueue demo_lq ''jobs'' ''hi'' ''team--app'' demo_q)"
  have wf: "wf_q ?st" by (simp add: demo_enqueue wf_q_def wf_file_def file_tab.uniq_def)
  have del: "DeleteQueue demo_lq ''jobs'' ?st = (Inr (), snd (DeleteQueue demo_lq ''jobs'' ?st))"
    "DeleteQueue demo_lq ''quota'' ?st = (Inr (), snd (DeleteQueue demo_lq ''quota'' ?st))"
    unfolding demo_enqueue snd_conv
    by (simp_all add: DeleteQueue_def demo_paths quotaPath_queue [symmetric] file_at_def file_tab.by_key_def
        qwrap_def qguard_def demo_q_def)
  have "used_bytes demo_lq ?st = 2"
    by (simp add: demo_enqueue used_bytes_def quota_at_def file_at_def file_tab.by_key_def demo_paths first_quota_def)
  with queue_deletion_and_quota [OF wf del(1) _ del(2)] show ?thesis by (simp add: demo_paths Let_def)
qed

text \<open>
  A queue name is not confined to its namespace. The name is joined to the directory of the namespace
  and cleaned, so that a name of the form ../other/name, which a caller sends with escaped slashes,
  is the queue of another namespace: a pod of one namespace reads and acknowledges the messages of
  another.
\<close>

theorem queue_name_escapes_namespace:
  assumes "is_rooted base" "plain ns" "plain other" "CHR ''/'' \<notin> set name"
  shows "queuePath (queue_of base ns) (''../'' @ other @ ''/'' @ name) = queuePath (queue_of base other) name \<and>
    Dequeue (queue_of base ns) (''../'' @ other @ ''/'' @ name) vt st = Dequeue (queue_of base other) name vt st"
proof -
  have p: "queuePath (queue_of base ns) (''../'' @ other @ ''/'' @ name) = queuePath (queue_of base other) name"
    using Join3_escape [OF assms(1-3) plain_db [OF assms(4)]] by (simp add: queuePath_def queue_of_def)
  moreover have "openQueue (queue_of base ns) (''../'' @ other @ ''/'' @ name) = openQueue (queue_of base other) name"
    unfolding openQueue_def p ..
  ultimately show ?thesis unfolding Dequeue_def by (simp only: simp_thms)
qed

theorem queue_name_escapes_namespace_witness:
  "queuePath (queue_of ''/data'' ''a'') (''../'' @ ''b'' @ ''/'' @ ''jobs'') = queuePath (queue_of ''/data'' ''b'') ''jobs''"
  by (rule queue_name_escapes_namespace [THEN conjunct1, OF demo_paths(3)]) (simp_all add: plain_def)

end
