(* ===== verification/Durations.thy ===== *)
theory Durations
  imports Prelude
begin

text \<open>
  \<open>time.ParseDuration\<close> of the Go library, which reads \<open>idle_after\<close> (\<open>watchers/hibernation.go\<close>,
  \<open>svc_queue.go\<close>): an optional sign, then numbers with an optional fraction and a unit. Numbers are
  limited to 63 bits as in the library. A fraction is computed exactly and truncated; the library uses
  float64 there.
\<close>

definition is_digit :: "char \<Rightarrow> bool" where
  "is_digit c \<longleftrightarrow> 48 \<le> (of_char c :: nat) \<and> (of_char c :: nat) \<le> 57"

definition digit_val :: "char \<Rightarrow> int" where
  "digit_val c = int (of_char c) - 48"

definition two63 :: int where "two63 = 2 ^ 63"

text \<open>The leading number, None when it exceeds \<open>1 << 63\<close>, and the rest of the text.\<close>

fun leadingInt :: "int \<Rightarrow> string \<Rightarrow> (int \<times> string) option" where
  "leadingInt x [] = Some (x, [])"
| "leadingInt x (c # s) =
     (if \<not> is_digit c then Some (x, c # s)
      else if x > two63 div 10 then None
      else let y = x * 10 + digit_val c in if y > two63 then None else leadingInt y s)"

text \<open>The digits of a fraction, its scale and the rest; digits that would overflow are dropped.\<close>

fun leadingFraction :: "int \<Rightarrow> int \<Rightarrow> bool \<Rightarrow> string \<Rightarrow> int \<times> int \<times> string" where
  "leadingFraction x scale overflow [] = (x, scale, [])"
| "leadingFraction x scale overflow (c # s) =
     (if \<not> is_digit c then (x, scale, c # s)
      else if overflow then leadingFraction x scale True s
      else if x > (two63 - 1) div 10 then leadingFraction x scale True s
      else let y = x * 10 + digit_val c in
           if y > two63 then leadingFraction x scale True s
           else leadingFraction y (scale * 10) False s)"

definition unitMap :: "string \<Rightarrow> int option" where
  "unitMap u =
     (if u = ''ns'' then Some 1 else if u = ''us'' then Some 1000
      else if u = [char_of (194 :: nat), char_of (181 :: nat), CHR ''s''] then Some 1000
      else if u = [char_of (206 :: nat), char_of (188 :: nat), CHR ''s''] then Some 1000
      else if u = ''ms'' then Some 1000000 else if u = ''s'' then Some Second
      else if u = ''m'' then Some Minute else if u = ''h'' then Some Hour else None)"

definition unit_char :: "char \<Rightarrow> bool" where
  "unit_char c \<longleftrightarrow> c \<noteq> CHR ''.'' \<and> \<not> is_digit c"

text \<open>One number with its unit: its value in nanoseconds and the rest of the text.\<close>

definition parse_term :: "string \<Rightarrow> (int \<times> string) option" where
  "parse_term s =
     (case s of [] \<Rightarrow> None | c # _ \<Rightarrow>
      if \<not> (c = CHR ''.'' \<or> is_digit c) then None
      else case leadingInt 0 s of
        None \<Rightarrow> None
      | Some (v, s1) \<Rightarrow>
          let pre = (length s1 \<noteq> length s);
              (f, scale, s2, post) =
                (if s1 \<noteq> [] \<and> hd s1 = CHR ''.'' then
                   (case leadingFraction 0 1 False (tl s1) of (f, scale, s2) \<Rightarrow> (f, scale, s2, length s2 \<noteq> length (tl s1)))
                 else (0, 1, s1, False))
          in if \<not> pre \<and> \<not> post then None
             else let u = takeWhile unit_char s2 in
             if u = [] then None
             else case unitMap u of
               None \<Rightarrow> None
             | Some unit \<Rightarrow>
                 if v > two63 div unit then None
                 else let w = v * unit + (if f > 0 then f * unit div scale else 0) in
                      if w > two63 then None else Some (w, dropWhile unit_char s2))"

lemma leadingInt_length: "leadingInt x s = Some (v, s') \<Longrightarrow> length s' \<le> length s"
  by (induction x s rule: leadingInt.induct) (auto simp: Let_def split: if_splits)

lemma leadingFraction_length: "leadingFraction x sc b s = (f, sc', s') \<Longrightarrow> length s' \<le> length s"
  by (induction x sc b s rule: leadingFraction.induct) (auto simp: Let_def split: if_splits)

lemma drop_unit: "takeWhile P s \<noteq> [] \<Longrightarrow> length (dropWhile P s) < length s"
  by (cases s) (auto simp: le_imp_less_Suc length_dropWhile_le split: if_splits)

lemma parse_term_length: "parse_term s = Some (w, s') \<Longrightarrow> length s' < length s"
  by (auto simp: parse_term_def Let_def split: list.splits if_splits option.splits prod.splits
      dest!: leadingInt_length leadingFraction_length drop_unit)

text \<open>The loop over the terms; \<open>acc\<close> is the sum so far.\<close>

function parse_terms :: "int \<Rightarrow> string \<Rightarrow> int option" where
  "parse_terms acc s =
     (if s = [] then Some acc
      else case parse_term s of
        None \<Rightarrow> None
      | Some (w, s') \<Rightarrow> if acc + w > two63 then None else parse_terms (acc + w) s')"
  by pat_completeness auto

termination
  by (relation "measure (\<lambda>(acc, s). length s)") (auto dest: parse_term_length)

declare parse_terms.simps [simp del]

definition ParseDuration :: "string \<Rightarrow> duration option" where
  "ParseDuration s =
     (let neg = (s \<noteq> [] \<and> hd s = CHR ''-'');
          s1 = (if s \<noteq> [] \<and> (hd s = CHR ''-'' \<or> hd s = CHR ''+'') then tl s else s)
      in if s1 = ''0'' then Some 0
         else if s1 = [] then None
         else case parse_terms 0 s1 of
           None \<Rightarrow> None
         | Some d \<Rightarrow> if neg then Some (- d) else if d > two63 - 1 then None else Some d)"

section \<open>Whole numbers of a unit\<close>

lemma digit_char: "n < 10 \<Longrightarrow> is_digit (char_of (48 + n)) \<and> digit_val (char_of (48 + n)) = int n"
  by (simp add: is_digit_def digit_val_def)

lemma leadingInt_show: "int n \<le> two63 \<Longrightarrow> leadingInt 0 (show_nat n @ t) = leadingInt (int n) t"
proof (induction n arbitrary: t rule: show_nat.induct)
  case (1 n)
  show ?case
  proof (cases "n < 10")
    case True
    then show ?thesis using 1(2) digit_char [of n]
      by (simp add: show_nat.simps [of n] Let_def two63_def)
  next
    case False
    have d: "is_digit (char_of (48 + n mod 10)) \<and> digit_val (char_of (48 + n mod 10)) = int (n mod 10)"
      by (rule digit_char) simp
    have le: "int (n div 10) \<le> two63 div 10" using 1(2) by (simp add: zdiv_int zdiv_mono1)
    have "leadingInt 0 (show_nat (n div 10) @ (char_of (48 + n mod 10) # t)) =
        leadingInt (int (n div 10)) (char_of (48 + n mod 10) # t)"
      using 1 False by (simp add: zdiv_int)
    moreover have "int (n div 10) * 10 + int (n mod 10) = int n"
      by (metis div_mult_mod_eq of_nat_add of_nat_mult of_nat_numeral)
    ultimately show ?thesis
      using False d le 1(2) by (simp add: show_nat.simps [of n] Let_def)
  qed
qed

lemma show_nat_hd: "show_nat n \<noteq> [] \<and> is_digit (hd (show_nat n))"
proof (induction n rule: show_nat.induct)
  case (1 n)
  then show ?case using digit_char [of n] by (cases "n < 10") (auto simp: show_nat.simps [of n])
qed

lemma parse_term_show:
  assumes "unitMap u = Some unit" "list_all unit_char u" "u \<noteq> []" "0 < unit" "int n * unit \<le> two63"
  shows "parse_term (show_nat n @ u) = Some (int n * unit, [])"
proof -
  obtain c r where cr: "show_nat n = c # r" "is_digit c" using show_nat_hd [of n] by (cases "show_nat n") auto
  have n: "int n \<le> two63"
    using assms(4,5) by (metis mult_le_cancel_left1 nle_le of_nat_0_le_iff order_trans int_one_le_iff_zero_less not_less)
  obtain x xs where u: "u = x # xs" "\<not> is_digit x" "x \<noteq> CHR ''.''" using assms(2,3) by (cases u) (auto simp: unit_char_def)
  have "leadingInt 0 (show_nat n @ u) = Some (int n, u)" using leadingInt_show [OF n, of u] u by simp
  moreover have "takeWhile unit_char u = u" "dropWhile unit_char u = []" using assms(2) by (simp_all add: list_all_iff)
  moreover have "\<not> int n > two63 div unit" using assms(4,5) by (simp add: pos_imp_zdiv_neg_iff zdiv_mono1 not_less)
      (metis assms(4) assms(5) nonzero_mult_div_cancel_right order_less_irrefl zdiv_mono1)
  moreover have "\<forall>c \<in> set xs. unit_char c" "unit_char x" using assms(2) u by (simp_all add: list_all_iff)
  ultimately show ?thesis using cr u assms(1,4,5)
    by (simp add: parse_term_def Let_def takeWhile_eq_all_conv [THEN iffD2])
qed

lemma ParseDuration_whole:
  assumes "unitMap u = Some unit" "list_all unit_char u" "u \<noteq> []" "0 < unit" "int n * unit < two63"
  shows "ParseDuration (show_nat n @ u) = Some (int n * unit)"
proof -
  obtain c r where cr: "show_nat n = c # r" "is_digit c" using show_nat_hd [of n] by (cases "show_nat n") auto
  obtain x xs where u: "u = x # xs" "\<not> is_digit x" using assms(2,3) by (cases u) (auto simp: unit_char_def)
  have "show_nat n @ u \<noteq> ''0''" using cr(1) u by auto
  moreover have "c \<noteq> CHR ''-''" "c \<noteq> CHR ''+''" using cr(2) by (auto simp: is_digit_def)
  moreover have "parse_terms 0 (show_nat n @ u) = Some (int n * unit)"
    using parse_term_show [OF assms(1-4), of n] assms(5) cr(1)
    by (simp add: parse_terms.simps [of 0] parse_terms.simps [of _ "[]"])
  ultimately show ?thesis using cr(1) assms(3,5) by (simp add: ParseDuration_def Let_def)
qed

end
