(* ===== verification/Queue_Service.thy ===== *)
theory Queue_Service
  imports Queue_Quota Durations
begin

text \<open>
  The HTTP handlers of the queue service, \<open>svc_queue.go\<close>. The token review of the Kubernetes API is an
  argument: it returns an error, or whether the token is authentic and the user name. A response is
  its status and the content that is rendered as JSON; the rendering, with the base64 text of a body,
  is not modelled.
\<close>

record queueHandler =
  qh_baseDir :: string
  qh_TokenReview :: "string \<Rightarrow> string + bool \<times> string"
  qh_internalToken :: string

datatype qbody =
    QEmpty
  | QError string string
  | QQueues "Info list"
  | QMessage Message
  | QDepth int
  | QQuotaExceeded int

type_synonym qresp = "int \<times> qbody"

definition queueFor :: "queueHandler \<Rightarrow> string \<Rightarrow> LocalQueue" where
  "queueFor h ns = \<lparr> lq_baseDir = qh_baseDir h, lq_namespace = ns \<rparr>"

definition bearer :: "string \<Rightarrow> string" where
  "bearer auth = strings_TrimPrefix auth ''Bearer ''"

definition identify :: "queueHandler \<Rightarrow> string \<Rightarrow> string + string" where
  "identify h auth =
     (let tok = bearer auth in
      if tok = [] then Inl ''missing bearer token''
      else case qh_TokenReview h tok of
        Inl e \<Rightarrow> Inl (''token review: '' @ e)
      | Inr (authenticated, username) \<Rightarrow>
          if \<not> authenticated then Inl ''not authenticated''
          else let parts = strings_Split username (CHR '':'') in
            if length parts \<noteq> 4 \<or> parts ! 0 \<noteq> ''system'' \<or> parts ! 1 \<noteq> ''serviceaccount''
            then Inl (''unexpected username: '' @ username)
            else Inr (parts ! 2))"

definition checkInternalToken :: "queueHandler \<Rightarrow> string \<Rightarrow> bool" where
  "checkInternalToken h auth \<longleftrightarrow> bearer auth \<noteq> [] \<and> bearer auth = qh_internalToken h"

definition queue_error_text :: "queue_error \<Rightarrow> string" where
  "queue_error_text e =
     (case e of ErrQueueNotFound \<Rightarrow> ''queue not found'' | ErrQuotaExceeded \<Rightarrow> ''queue quota exceeded'' | QErr m \<Rightarrow> m)"

definition unauthorized :: "string \<Rightarrow> qresp" where
  "unauthorized msg = (401, QError ''unauthorized'' msg)"

definition internal_failure :: "queue_error \<Rightarrow> qresp" where
  "internal_failure e = (500, QError ''internal_error'' (queue_error_text e))"

definition queue_missing :: qresp where
  "queue_missing = (404, QError ''queue_not_found'' ''queue does not exist'')"

text \<open>The caller's namespace, or 401.\<close>

definition as_caller :: "queueHandler \<Rightarrow> string \<Rightarrow> qstate \<Rightarrow> (string \<Rightarrow> qresp \<times> qstate) \<Rightarrow> qresp \<times> qstate" where
  "as_caller h auth st k = (case identify h auth of Inl e \<Rightarrow> (unauthorized e, st) | Inr ns \<Rightarrow> k ns)"

definition createQueue_h :: "queueHandler \<Rightarrow> string \<Rightarrow> string \<Rightarrow> qstate \<Rightarrow> qresp \<times> qstate" where
  "createQueue_h h auth name st = as_caller h auth st (\<lambda>ns.
     case CreateQueue (queueFor h ns) name st of
       (Inl e, st') \<Rightarrow> (internal_failure e, st')
     | (Inr _, st') \<Rightarrow> ((200, QEmpty), st'))"

definition deleteQueue_h :: "queueHandler \<Rightarrow> string \<Rightarrow> string \<Rightarrow> qstate \<Rightarrow> qresp \<times> qstate" where
  "deleteQueue_h h auth name st = as_caller h auth st (\<lambda>ns.
     case DeleteQueue (queueFor h ns) name st of
       (Inl ErrQueueNotFound, st') \<Rightarrow> (queue_missing, st')
     | (Inl e, st') \<Rightarrow> (internal_failure e, st')
     | (Inr _, st') \<Rightarrow> ((204, QEmpty), st'))"

text \<open>A missing or malformed \<open>idle_after\<close> is zero.\<close>

definition parseIdleAfterDuration :: "string \<Rightarrow> duration" where
  "parseIdleAfterDuration s = (if s = [] then 0 else case ParseDuration s of None \<Rightarrow> 0 | Some d \<Rightarrow> d)"

definition listQueues_h :: "queueHandler \<Rightarrow> string \<Rightarrow> string \<Rightarrow> qstate \<Rightarrow> qresp \<times> qstate" where
  "listQueues_h h auth idle_after st = as_caller h auth st (\<lambda>ns.
     case ListQueues (queueFor h ns) (parseIdleAfterDuration idle_after) st of
       (Inl e, st') \<Rightarrow> (internal_failure e, st')
     | (Inr infos, st') \<Rightarrow> ((200, QQueues infos), st'))"

text \<open>
  \<open>readRequestBody\<close>: the body arrives in chunks until it ends or fails; the reader gives at most
  \<open>maxBody\<close> bytes and then an error. The loop takes every error for the end.
\<close>

definition maxBody :: nat where "maxBody = 32 * 2 ^ 20"

fun read_chunks :: "nat \<Rightarrow> string list \<Rightarrow> string" where
  "read_chunks n [] = []"
| "read_chunks n (c # cs) = (if length c \<le> n then c @ read_chunks (n - length c) cs else take n c)"

definition readRequestBody :: "string list \<Rightarrow> string" where
  "readRequestBody chunks = read_chunks maxBody chunks"

definition enqueue_h :: "queueHandler \<Rightarrow> string \<Rightarrow> string \<Rightarrow> string list \<Rightarrow> qstate \<Rightarrow> qresp \<times> qstate" where
  "enqueue_h h auth name chunks st = as_caller h auth st (\<lambda>senderNS.
     let body = readRequestBody chunks; q = queueFor h senderNS in
     case Enqueue q name body senderNS st of
       (Inl ErrQuotaExceeded, st') \<Rightarrow>
         (case Usage q st' of
            (Inl _, st'') \<Rightarrow> ((429, QQuotaExceeded 0), st'')
          | (Inr used, st'') \<Rightarrow> ((429, QQuotaExceeded used), st''))
     | (Inl ErrQueueNotFound, st') \<Rightarrow> (queue_missing, st')
     | (Inl e, st') \<Rightarrow> (internal_failure e, st')
     | (Inr _, st') \<Rightarrow> ((202, QEmpty), st'))"

text \<open>\<open>meanwhile\<close> is what happens to the state during the long poll.\<close>

definition dequeue_h :: "queueHandler \<Rightarrow> string \<Rightarrow> string \<Rightarrow> (qstate \<Rightarrow> qstate) \<Rightarrow> qstate \<Rightarrow> qresp \<times> qstate" where
  "dequeue_h h auth name meanwhile st = as_caller h auth st (\<lambda>ns.
     let q = queueFor h ns in
     case Dequeue q name 0 st of
       (Inl e, st') \<Rightarrow> (internal_failure e, st')
     | (Inr (Some msg), st') \<Rightarrow> ((200, QMessage msg), st')
     | (Inr None, st') \<Rightarrow>
         (case Dequeue q name 0 (WaitForMessage q name meanwhile st') of
            (Inl e, st'') \<Rightarrow> (internal_failure e, st'')
          | (Inr None, st'') \<Rightarrow> ((204, QEmpty), st'')
          | (Inr (Some msg), st'') \<Rightarrow> ((200, QMessage msg), st'')))"

definition ack_h :: "queueHandler \<Rightarrow> string \<Rightarrow> string \<Rightarrow> string \<Rightarrow> qstate \<Rightarrow> qresp \<times> qstate" where
  "ack_h h auth name i st = as_caller h auth st (\<lambda>ns.
     case Ack (queueFor h ns) name i st of
       (Inl ErrQueueNotFound, st') \<Rightarrow> (queue_missing, st')
     | (Inl e, st') \<Rightarrow> (internal_failure e, st')
     | (Inr _, st') \<Rightarrow> ((204, QEmpty), st'))"

definition depth_h :: "queueHandler \<Rightarrow> string \<Rightarrow> string \<Rightarrow> qstate \<Rightarrow> qresp \<times> qstate" where
  "depth_h h auth name st = as_caller h auth st (\<lambda>ns.
     case Depth (queueFor h ns) name st of
       (Inl ErrQueueNotFound, st') \<Rightarrow> (queue_missing, st')
     | (Inl e, st') \<Rightarrow> (internal_failure e, st')
     | (Inr d, st') \<Rightarrow> ((200, QDepth d), st'))"

text \<open>The body of the quota request, None when it is not valid JSON.\<close>

definition setQuota_h ::
  "queueHandler \<Rightarrow> string \<Rightarrow> string \<Rightarrow> string \<Rightarrow> string + int \<Rightarrow> qstate \<Rightarrow> qresp \<times> qstate" where
  "setQuota_h h auth namespace app body st =
     (if \<not> checkInternalToken h auth then (unauthorized ''invalid internal token'', st)
      else case body of
        Inl e \<Rightarrow> ((400, QError ''bad_request'' e), st)
      | Inr queueBytes \<Rightarrow>
          (case SetQuota (queueFor h (namespace @ ''--'' @ app)) queueBytes st of
             (Inl e, st') \<Rightarrow> (internal_failure e, st')
           | (Inr _, st') \<Rightarrow> ((200, QEmpty), st')))"

definition idleStatus_h ::
  "queueHandler \<Rightarrow> string \<Rightarrow> string \<Rightarrow> string \<Rightarrow> string \<Rightarrow> qstate \<Rightarrow> qresp \<times> qstate" where
  "idleStatus_h h auth namespace app idle_after st =
     (if \<not> checkInternalToken h auth then (unauthorized ''invalid internal token'', st)
      else case IdleStatus (queueFor h (namespace @ ''--'' @ app)) (parseIdleAfterDuration idle_after) st of
             (Inl e, st') \<Rightarrow> (internal_failure e, st')
           | (Inr infos, st') \<Rightarrow> ((200, QQueues infos), st'))"

lemmas service_defs = createQueue_h_def deleteQueue_h_def listQueues_h_def enqueue_h_def dequeue_h_def ack_h_def
  depth_h_def setQuota_h_def idleStatus_h_def as_caller_def Let_def

section \<open>Bodies\<close>

lemma read_chunks_take: "read_chunks n cs = take n (concat cs)"
  by (induction n cs rule: read_chunks.induct) auto

text \<open>
  A body longer than 32 MiB is not refused: it is cut there, the first 32 MiB are enqueued as the
  message and the answer is that of a complete enqueue.
\<close>

lemma long_body_truncated:
  assumes "identify h auth = Inr ns" "Enqueue (queueFor h ns) name (take maxBody (concat chunks)) ns st = (Inr (), st')"
  shows "enqueue_h h auth name chunks st = ((202, QEmpty), st') \<and>
    (maxBody < length (concat chunks) \<longrightarrow> length (readRequestBody chunks) = maxBody)"
  using assms by (simp add: enqueue_h_def as_caller_def readRequestBody_def read_chunks_take Let_def)

section \<open>Long polling\<close>


definition demo_qh :: queueHandler where
  "demo_qh = \<lparr> qh_baseDir = ''/data'', qh_TokenReview = \<lambda>_. Inr (True, ''system:serviceaccount:team--app:default''),
     qh_internalToken = ''t'' \<rparr>"

lemma demo_identify: "identify demo_qh ''Bearer x'' = Inr ''team--app''" "queueFor demo_qh ''team--app'' = demo_lq"
  by (simp_all add: identify_def demo_qh_def bearer_def strings_TrimPrefix_def strings_HasPrefix_def Let_def queueFor_def
      demo_lq_def queue_of_def)


section \<open>Idle queues\<close>

text \<open>No file notes an external enqueue.\<close>

definition no_meta :: "qstate \<Rightarrow> bool" where
  "no_meta st \<longleftrightarrow> (\<forall>f \<in> set (q_files st). f_meta f = [])"

interpretation nometa: q_frame "\<lambda>st st'. no_meta st \<longrightarrow> no_meta st'"
  by unfold_locales auto

lemma no_meta_simps [simp]:
  "no_meta (signalQueue ns name st) = no_meta st" "no_meta (st\<lparr>q_rand := r\<rparr>) = no_meta st"
  "no_meta (ensure_file p st) = no_meta st"
  by (auto simp: no_meta_def signalQueue_def ensure_file_def empty_file_def split: option.splits)

lemma no_meta_image: "no_meta st \<longleftrightarrow> f_meta ` set (q_files st) \<subseteq> {[]}"
  by (auto simp: no_meta_def)

lemma no_meta_upd: "(\<And>f. f_meta (g f) = f_meta f) \<Longrightarrow> no_meta (upd_file p g st) = no_meta st"
  by (simp add: no_meta_image upd_file_def image_upd)

lemma nometa_steps:
  "nometa.keeps (openSQLite p messagesSchema)" "nometa.keeps (openSQLite p quotaSchema)" "nometa.keeps newMessageID"
  "nometa.keeps (SetVisibility_q p u i)" "nometa.keeps (InsertMessage_q p i body n now)" "nometa.keeps (DeleteMessage_q p i)"
  "nometa.keeps (AddBytes_q p n)" "nometa.keeps (SubBytes_q p n)" "nometa.keeps (SetLimitBytes_q p n)"
  by (auto simp: nometa.keeps_def openSQLite_def newMessageID_def query_defs qguard_def upd_messages_def upd_quota_def no_meta_upd
      split: option.splits list.splits sum.splits)

interpretation nometa_ops: q_calm "\<lambda>st st'. no_meta st \<longrightarrow> no_meta st'"
  by unfold_locales (auto simp: nometa_steps)

text \<open>The requests of the service: whoever enqueues is in the namespace of the queue.\<close>

fun by_service :: "qop \<Rightarrow> bool" where
  "by_service (OpEnqueue ns name body sender) = (sender = ns)"
| "by_service _ = True"

lemma no_meta_qop:
  assumes "by_service l" "no_meta st"
  shows "no_meta (run_qop base l st)"
proof -
  have keep: "nometa.keeps m \<Longrightarrow> no_meta (snd (m st))" for m :: "'a q"
    using assms(2) by (simp add: nometa.keeps_def)
  have "no_meta (snd (Enqueue (queue_of base ns) name body ns st))" for ns name body
    by (rule keep, rule nometa_ops.keeps_Enqueue_if) (simp_all add: nometa_steps queue_of_def)
  moreover have "no_meta (snd (Ack lq name i st))" "no_meta (snd (SetQuota lq n st))" for lq name i n
    by (rule keep, intro nometa_ops.keeps_Ack nometa_ops.keeps_SetQuota nometa_steps)+
  moreover have "no_meta (snd (DeleteQueue lq name st))" for lq name
    using assms(2) by (auto simp: no_meta_def DeleteQueue_def Let_def qwrap_def qguard_def split: option.splits)
  ultimately show ?thesis
    using assms keep [OF nometa_ops.keeps_simple_ops(1)] keep [OF nometa_ops.keeps_simple_ops(2)]
      keep [OF nometa_ops.keeps_simple_ops(3)] keep [OF nometa_ops.keeps_list] keep [OF nometa_ops.keeps_Dequeue]
    by (cases l) auto
qed

lemma no_meta_run: "queue_run base F st ops st' \<Longrightarrow> no_meta st \<Longrightarrow> list_all by_service ops \<Longrightarrow> no_meta st'"
proof (induction rule: queue_run.induct)
  case (run_env st ops st' st'')
  then show ?case by (simp add: no_meta_def)
qed (simp_all add: no_meta_qop)

lemma no_meta_GetMeta: "no_meta st \<Longrightarrow> \<exists>e. fst (GetMeta_q p k st) = Inl e"
  by (auto simp: GetMeta_q_def qguard_def meta_at_def no_meta_def file_at_def file_tab.by_key_def dest: sel_Some
      split: option.splits)

lemma queueInfo_idle: "queueInfo lq name d st = (Inr info, st') \<Longrightarrow> no_meta st \<Longrightarrow> in_Idle info \<and> no_meta st'"
proof -
  assume run: "queueInfo lq name d st = (Inr info, st')" and meta: "no_meta st"
  obtain s1 count where s1: "openQueue lq name st = (Inr (), s1)" "CountMessages_q (queuePath lq name) s1 = (Inr count, st')"
    and info: "info = \<lparr> in_Name = name, in_Depth = count, in_Idle = (if d > 0 then
       (case fst (GetMeta_q (queuePath lq name) ''last_external_enqueue_at'' st') of
          Inl _ \<Rightarrow> True | Inr lastExt \<Rightarrow> \<not> time_Sub (q_now st') (parse_ms lastExt) < d) else True) \<rparr>"
    using run by (auto simp: queueInfo_def run_Inr Let_def)
  have "no_meta s1" using nometa.keepsD [OF nometa_ops.keeps_opens(3) s1(1)] meta by simp
  then have "no_meta st'" using nometa.keepsD [OF nometa.keeps_reads(1) s1(2)] by simp
  with info no_meta_GetMeta [of st'] show ?thesis by (auto split: sum.splits) (metis sum.simps(4))
qed

lemma queue_infos_idle:
  "queue_infos lq d es st = (Inr infos, st') \<Longrightarrow> no_meta st \<Longrightarrow> \<forall>info \<in> set infos. in_Idle info"
proof (induction es arbitrary: st infos)
  case (Cons e es)
  show ?case
  proof (cases "\<not> strings_HasSuffix e ''.db'' \<or> e = ''quota.db''")
    case False
    then obtain info s1 rest where "queueInfo lq (strings_TrimSuffix e ''.db'') d st = (Inr info, s1)"
      "queue_infos lq d es s1 = (Inr rest, st')" "infos = info # rest"
      using Cons.prems(1) by (auto simp: qbind_Inr qreturn_def)
    with queueInfo_idle Cons show ?thesis by fastforce
  qed (use Cons in auto)
qed (simp add: qreturn_def)

text \<open>
  Through the service no enqueue is external, since a request is served with the namespace of the
  caller both as the queue's namespace and as the sender: from an empty store, whatever was enqueued
  and however recently, the idle status of every queue of every namespace is idle for every idle time.
\<close>

theorem service_queues_always_idle:
  assumes "q_files st0 = []" "queue_run base F st0 ops st" "list_all by_service ops"
    and "IdleStatus (queue_of base ns) idleAfter st = (Inr infos, st')"
    and "identify h auth = Inr caller" "qh_baseDir h = base"
  shows "(\<forall>info \<in> set infos. in_Idle info) \<and>
    (\<exists>l. by_service l \<and> (snd (enqueue_h h auth name chunks st) = run_qop base l st \<or>
       snd (enqueue_h h auth name chunks st) = run_qop base (OpUsage caller) (run_qop base l st)))"
proof
  have "no_meta st" by (rule no_meta_run [OF assms(2)]) (use assms in \<open>simp_all add: no_meta_def\<close>)
  with assms(4) show "\<forall>info \<in> set infos. in_Idle info"
    by (auto simp: IdleStatus_def listQueues_def Let_def qbind_Inr qguard_Inr qreturn_def dest: queue_infos_idle)
  let ?l = "OpEnqueue caller name (readRequestBody chunks) caller"
  have q: "queueFor h caller = queue_of base caller" using assms(6) by (simp add: queueFor_def queue_of_def)
  show "\<exists>l. by_service l \<and> (snd (enqueue_h h auth name chunks st) = run_qop base l st \<or>
       snd (enqueue_h h auth name chunks st) = run_qop base (OpUsage caller) (run_qop base l st))"
    by (rule exI [of _ ?l])
      (auto simp: enqueue_h_def as_caller_def assms(5) Let_def q split: prod.splits sum.splits queue_error.splits)
qed

theorem service_queues_always_idle_witness:
  "fst (IdleStatus demo_lq Hour (run_qop ''/data'' (OpEnqueue ''team--app'' ''jobs'' ''hi'' ''team--app'') demo_q)) =
     Inr [\<lparr> in_Name = ''jobs'', in_Depth = 1, in_Idle = True \<rparr>]"
proof -
  let ?st = "run_qop ''/data'' (OpEnqueue ''team--app'' ''jobs'' ''hi'' ''team--app'') demo_q"
  have st: "?st = snd (Enqueue demo_lq ''jobs'' ''hi'' ''team--app'' demo_q)" by (simp add: demo_lq_def)
  have dir: "filepath_Join [''/data'', ''team--app''] = ''/data/team--app''"
    by (simp add: filepath_Join_def filepath_Clean_def path_parts_def clean_parts_def clean_part_def is_rooted_def strings_HasPrefix_def)
  obtain b st' where run: "IdleStatus demo_lq Hour ?st = (Inr [\<lparr> in_Name = ''jobs'', in_Depth = 1, in_Idle = b \<rparr>], st')"
    unfolding st demo_enqueue snd_conv
    by (simp add: IdleStatus_def listQueues_def ReadDir_def dir demo_lq_def queue_of_def strings_HasPrefix_def strings_HasSuffix_def
        strings_TrimSuffix_def queueInfo_def demo_paths [unfolded demo_lq_def queue_of_def] q_eval demo_q_def Let_def)
  have hist: "queue_run ''/data'' (\<lambda>_. True) demo_q ([] @ [OpEnqueue ''team--app'' ''jobs'' ''hi'' ''team--app'']) ?st"
    by (intro run_op run_nil)
  have "b"
    using service_queues_always_idle [OF _ hist _ run [unfolded demo_lq_def] demo_identify(1), of "''jobs''" "[]"]
    by (simp add: demo_q_def demo_qh_def)
  with run show ?thesis by simp
qed

end
