(* ===== verification/Watchers.thy ===== *)
theory Watchers
  imports Apps Queue_Service
begin

text \<open>
  The background watchers: \<open>watchers/budget.go\<close> and \<open>watchers/hibernation.go\<close>. A watcher runs its check at
  every tick; the checks are modelled, the ticker loop is not. The clock is that of the database.
\<close>

section \<open>The budget watcher\<close>

definition app_cost :: "db \<Rightarrow> Tier \<Rightarrow> PriceSnapshot \<Rightarrow> time \<Rightarrow> time \<Rightarrow> real \<Rightarrow> App \<Rightarrow> real" where
  "app_cost s tier prices periodStart now acc app =
     (case a_Namespace app of
        None \<Rightarrow> acc
      | Some ns \<Rightarrow>
          if ns = [] then acc
          else (case ListScaleEventsSince s ns (a_Name app) periodStart of
                  Inl _ \<Rightarrow> acc
                | Inr events \<Rightarrow>
                    acc + EstimateAppCostMonthly tier (RunningHours events periodStart now (a_Hibernated app \<noteq> 0)) prices))"

definition repoCost :: "db \<Rightarrow> Repo \<Rightarrow> PriceSnapshot \<Rightarrow> time \<Rightarrow> time \<Rightarrow> real" where
  "repoCost s repo prices periodStart now =
     (case GetTier s (r_Tier repo) of
        Inl _ \<Rightarrow> 0
      | Inr tier \<Rightarrow>
          (case ListApps s (r_Slug repo) of
             Inl _ \<Rightarrow> 0
           | Inr apps \<Rightarrow> foldl (app_cost s tier prices periodStart now) 0 apps))"

definition totalCost :: "db \<Rightarrow> time \<Rightarrow> real" where
  "totalCost s now =
     (case GetLatestPriceSnapshot s of
        Inl _ \<Rightarrow> 0
      | Inr prices \<Rightarrow>
          (case ListRepos s of
             Inl _ \<Rightarrow> 0
           | Inr repos \<Rightarrow>
               let periodStart = BillingPeriodStart now in
               foldl (\<lambda>total repo. total + repoCost s repo prices periodStart now) 0 repos))"

text \<open>The body of the loop of \<open>forceHibernateAll\<close>, on a row as it was listed.\<close>

definition force_hibernate_app :: "henv \<Rightarrow> 'k AppDeployer \<Rightarrow> App \<Rightarrow> db \<times> 'k \<Rightarrow> db \<times> 'k" where
  "force_hibernate_app h dep app = (\<lambda>(s, k).
     case a_Namespace app of
       None \<Rightarrow> (s, k)
     | Some ns \<Rightarrow>
         if a_Hibernated app \<noteq> 0 then (s, k)
         else (case IsAppExempt s (a_RepoSlug app) (a_Name app) of
                 Inl _ \<Rightarrow> (s, k)
               | Inr exempt \<Rightarrow>
                   if exempt then (s, k)
                   else let host = AppHostname (a_Name app) (RepoName (a_RepoSlug app)) (h_BaseDomain h) in
                     (case scale_down dep (h_Namespace h) (a_Type app) ns host k of
                        (Some _, k1) \<Rightarrow> (s, k1)
                      | (None, k1) \<Rightarrow> (record_hibernated s ns (a_Name app) (a_ID app) ''budget'', k1))))"

fun force_hibernate_apps :: "henv \<Rightarrow> 'k AppDeployer \<Rightarrow> App list \<Rightarrow> db \<times> 'k \<Rightarrow> db \<times> 'k" where
  "force_hibernate_apps h dep [] w = w"
| "force_hibernate_apps h dep (app # apps) w = force_hibernate_apps h dep apps (force_hibernate_app h dep app w)"

definition forceHibernateAll :: "henv \<Rightarrow> 'k AppDeployer \<Rightarrow> db \<times> 'k \<Rightarrow> db \<times> 'k" where
  "forceHibernateAll h dep = (\<lambda>(s, k).
     case ListAllApps s of
       Inl _ \<Rightarrow> (s, k)
     | Inr apps \<Rightarrow> force_hibernate_apps h dep apps (s, k))"

text \<open>The switch on the thresholds: the soft and the hard flag.\<close>

definition limit_flags :: "real \<Rightarrow> PlatformConfig \<Rightarrow> int \<times> int" where
  "limit_flags spend cfg =
     (let ceiling = c_BudgetCeilingMonthly cfg in
      if spend \<ge> ceiling * c_HardLimitPct cfg then (1, 1)
      else if spend \<ge> ceiling * c_SoftLimitPct cfg then (1, 0)
      else (0, 0))"

text \<open>The rollover of the billing period: the configuration to go on with, None when it could not be stored.\<close>

definition roll_period :: "db \<Rightarrow> PlatformConfig \<Rightarrow> time \<Rightarrow> PlatformConfig option \<times> db" where
  "roll_period s cfg now =
     (let currentPeriod = BillingPeriodKey now;
          rolled = (c_BillingPeriod cfg \<noteq> [] \<and> c_BillingPeriod cfg \<noteq> currentPeriod);
          s1 = (if rolled then log_err s (ExpirePeriodExemptions s now) else s);
          cfg1 = (if rolled then cfg\<lparr>c_BudgetSoftLimitActive := 0, c_BudgetHardLimitActive := 0\<rparr> else cfg)
      in if c_BillingPeriod cfg1 \<noteq> currentPeriod then
           (case UpdatePlatformConfig s1 (cfg1\<lparr>c_BillingPeriod := currentPeriod\<rparr>) of
              Inl _ \<Rightarrow> (None, s1)
            | Inr (cfg2, s2) \<Rightarrow> (Some cfg2, s2))
         else (Some cfg1, s1))"

definition tick :: "henv \<Rightarrow> 'k AppDeployer \<Rightarrow> db \<times> 'k \<Rightarrow> db \<times> 'k" where
  "tick h dep = (\<lambda>(s, k).
     case GetPlatformConfig s of
       Inl _ \<Rightarrow> (s, k)
     | Inr cfg0 \<Rightarrow>
         (case roll_period s cfg0 (db_now s) of
            (None, s1) \<Rightarrow> (s1, k)
          | (Some cfg, s1) \<Rightarrow>
              let spend = totalCost s1 (db_now s);
                  (soft, hard) = limit_flags spend cfg;
                  prevSoft = c_BudgetSoftLimitActive cfg;
                  prevHard = c_BudgetHardLimitActive cfg;
                  (s2, k2) = (if hard \<noteq> 0 \<and> prevHard = 0 then forceHibernateAll h dep (s1, k) else (s1, k))
              in if soft \<noteq> prevSoft \<or> hard \<noteq> prevHard then
                   (case UpdatePlatformConfig s2 (cfg\<lparr>c_BudgetSoftLimitActive := soft, c_BudgetHardLimitActive := hard\<rparr>) of
                      Inl _ \<Rightarrow> (s2, k2)
                    | Inr (_, s3) \<Rightarrow> (s3, k2))
                 else (s2, k2)))"

section \<open>The watchers change the database by steps of the store\<close>

lemma force_hibernate_app_steps: "store_steps c s \<Longrightarrow> store_steps c (fst (force_hibernate_app h dep app (s, k)))"
  by (auto simp: force_hibernate_app_def Let_def record_hibernated_steps split: option.splits sum.splits prod.splits)

lemma force_hibernate_apps_steps: "store_steps c s \<Longrightarrow> store_steps c (fst (force_hibernate_apps h dep apps (s, k)))"
proof (induction apps arbitrary: s k)
  case (Cons app apps)
  obtain s1 k1 where "force_hibernate_app h dep app (s, k) = (s1, k1)" by fastforce
  with Cons.IH [of s1 k1] force_hibernate_app_steps [OF Cons.prems, of h dep app k] show ?case by simp
qed simp

lemma forceHibernateAll_steps: "store_steps c s \<Longrightarrow> store_steps c (fst (forceHibernateAll h dep (s, k)))"
  by (simp add: forceHibernateAll_def force_hibernate_apps_steps split: sum.splits)

lemma roll_period_steps: "roll_period s cfg now = (r, s') \<Longrightarrow> store_steps s s'"
proof -
  assume r: "roll_period s cfg now = (r, s')"
  have e: "store_steps s (log_err s (ExpirePeriodExemptions s now))"
    by (intro log_err_steps) (auto intro: store_step.intros)
  have u: "UpdatePlatformConfig d c = Inr (c', d') \<Longrightarrow> store_steps s d \<Longrightarrow> store_steps s d'" for d c c' d'
    by (meson rtranclp.rtrancl_into_rtrancl store_step.intros)
  from r e show ?thesis
    by (auto simp: roll_period_def Let_def split: if_splits sum.splits intro: u)
qed

lemma tick_steps: "store_steps s (fst (tick h dep (s, k)))"
proof -
  have u: "UpdatePlatformConfig d c = Inr (c', d') \<Longrightarrow> store_steps s d \<Longrightarrow> store_steps s d'" for d c c' d'
    by (meson rtranclp.rtrancl_into_rtrancl store_step.intros)
  have f: "forceHibernateAll h dep (d, k) = (d', k') \<Longrightarrow> store_steps s d \<Longrightarrow> store_steps s d'" for d d' k'
    using forceHibernateAll_steps [of s d h dep k] by simp
  show ?thesis
    by (auto simp: tick_def Let_def split: sum.splits prod.splits option.splits if_splits
        intro: u f dest: roll_period_steps)
qed

section \<open>Budget enforcement\<close>

text \<open>What a hibernation writes into the row, and which rows the hard limit hibernates.\<close>

definition hibernated_row :: "db \<Rightarrow> string \<Rightarrow> App \<Rightarrow> App" where
  "hibernated_row s reason a = a\<lparr>a_Hibernated := 1, a_HibernatedAt := Some (sql_now s),
     a_HibernationReason := null_string reason, a_Status := ''hibernated'', a_UpdatedAt := sql_now s\<rparr>"

definition budget_target :: "db \<Rightarrow> App \<Rightarrow> bool" where
  "budget_target s a \<longleftrightarrow> a_Hibernated a = 0 \<and> a_Namespace a \<noteq> None \<and> \<not> exempt_at s (a_RepoSlug a) (a_Name a)"

definition cluster_works :: "henv \<Rightarrow> 'k AppDeployer \<Rightarrow> bool" where
  "cluster_works h dep \<longleftrightarrow> (\<forall>typ ns host k. fst (scale_down dep (h_Namespace h) typ ns host k) = None)"

text \<open>The tables that the enforcement leaves alone.\<close>

definition enforcement_frame :: "db \<Rightarrow> db \<Rightarrow> bool" where
  "enforcement_frame s s' \<longleftrightarrow> reliable s' = reliable s \<and> t_exemptions s' = t_exemptions s \<and> sql_now s' = sql_now s \<and>
     t_platform_config s' = t_platform_config s"

lemma frame_exempt: "enforcement_frame s s' \<Longrightarrow> exempt_at s' slug app = exempt_at s slug app"
  by (simp add: enforcement_frame_def exempt_at_def)

lemma frame_trans: "enforcement_frame s s' \<Longrightarrow> enforcement_frame s' s'' \<Longrightarrow> enforcement_frame s s''"
  by (simp add: enforcement_frame_def)

lemma record_hibernated_reliable:
  assumes "reliable s"
  shows "enforcement_frame s (record_hibernated s ns name i reason)"
    and "find_app (record_hibernated s ns name i reason) j =
      (if j = i then map_option (hibernated_row s reason) (find_app s j) else find_app s j)"
proof -
  show "enforcement_frame s (record_hibernated s ns name i reason)"
    using assms by (simp add: record_hibernated_def enforcement_frame_def Let_def) (simp add: update_app_def add_event_def)
  show "find_app (record_hibernated s ns name i reason) j =
      (if j = i then map_option (hibernated_row s reason) (find_app s j) else find_app s j)"
    using assms by (cases "find_app s i") (simp_all add: record_hibernated_def Let_def hibernated_row_def)
qed

lemma force_hibernate_app_effect:
  assumes "reliable s" "force_hibernate_app h dep app (s, k) = (s', k')"
  shows "enforcement_frame s s' \<and> (\<forall>j. j \<noteq> a_ID app \<longrightarrow> find_app s' j = find_app s j) \<and>
    (\<not> budget_target s app \<longrightarrow> find_app s' (a_ID app) = find_app s (a_ID app)) \<and>
    (budget_target s app \<longrightarrow> cluster_works h dep \<longrightarrow>
       find_app s' (a_ID app) = map_option (hibernated_row s ''budget'') (find_app s (a_ID app)))"
proof (cases "budget_target s app")
  case False
  then have "s' = s"
    using assms by (auto simp: force_hibernate_app_def budget_target_def Let_def split: option.splits if_splits)
  with False show ?thesis by (simp add: enforcement_frame_def)
next
  case True
  then obtain ns where ns: "a_Namespace app = Some ns" by (auto simp: budget_target_def)
  obtain e k1 where sd: "scale_down dep (h_Namespace h) (a_Type app) ns
      (AppHostname (a_Name app) (RepoName (a_RepoSlug app)) (h_BaseDomain h)) k = (e, k1)" by fastforce
  have "cluster_works h dep \<Longrightarrow> e = None" using sd by (metis cluster_works_def fst_conv)
  moreover have "s' = (if e = None then record_hibernated s ns (a_Name app) (a_ID app) ''budget'' else s)"
    using assms True ns sd by (auto simp: force_hibernate_app_def budget_target_def Let_def split: option.splits)
  moreover have "enforcement_frame s s" by (simp add: enforcement_frame_def)
  ultimately show ?thesis using True record_hibernated_reliable [OF assms(1)] by (auto split: if_splits)
qed

lemma force_hibernate_apps_effect:
  assumes "reliable s" "distinct (map a_ID apps)" "\<forall>a \<in> set apps. find_app s (a_ID a) = Some a"
    and "cluster_works h dep" "force_hibernate_apps h dep apps (s, k) = (s', k')"
  shows "enforcement_frame s s' \<and> (\<forall>j. j \<notin> a_ID ` set apps \<longrightarrow> find_app s' j = find_app s j) \<and>
    (\<forall>a \<in> set apps. find_app s' (a_ID a) = Some (if budget_target s a then hibernated_row s ''budget'' a else a))"
  using assms
proof (induction apps arbitrary: s k)
  case Nil
  then show ?case by (simp add: enforcement_frame_def)
next
  case (Cons app apps)
  obtain s1 k1 where s1: "force_hibernate_app h dep app (s, k) = (s1, k1)" by fastforce
  note e = force_hibernate_app_effect [OF Cons.prems(1) s1]
  have fr: "enforcement_frame s s1" using e by blast
  have "a_ID app \<notin> a_ID ` set apps" using Cons.prems(2) by simp
  then have notin: "\<forall>a \<in> set apps. a_ID a \<noteq> a_ID app" by (metis imageI)
  have look: "\<forall>a \<in> set apps. find_app s1 (a_ID a) = Some a" using e notin Cons.prems(3) by auto
  have rel: "reliable s1" using fr Cons.prems(1) by (simp add: enforcement_frame_def)
  have ih: "enforcement_frame s1 s' \<and> (\<forall>j. j \<notin> a_ID ` set apps \<longrightarrow> find_app s' j = find_app s1 j) \<and>
    (\<forall>a \<in> set apps. find_app s' (a_ID a) = Some (if budget_target s1 a then hibernated_row s1 ''budget'' a else a))"
    using Cons.IH [OF rel _ look Cons.prems(4)] Cons.prems(2,5) s1 by simp
  have same: "budget_target s1 a = budget_target s a" "hibernated_row s1 r a = hibernated_row s r a" for a r
    using fr frame_exempt [OF fr] by (simp_all add: budget_target_def hibernated_row_def enforcement_frame_def)
  have app: "find_app s1 (a_ID app) = Some (if budget_target s app then hibernated_row s ''budget'' app else app)"
    using e Cons.prems(3,4) by auto
  have "a_ID app \<notin> a_ID ` set apps" using Cons.prems(2) by simp
  with ih app have hd_app: "find_app s' (a_ID app) = Some (if budget_target s app then hibernated_row s ''budget'' app else app)"
    by simp
  have "\<forall>a \<in> set apps. find_app s' (a_ID a) = Some (if budget_target s a then hibernated_row s ''budget'' a else a)"
    using ih same by simp
  moreover have "\<forall>j. j \<notin> a_ID ` set (app # apps) \<longrightarrow> find_app s' j = find_app s j" using ih e by simp
  ultimately show ?case using hd_app frame_trans [OF fr] ih by simp
qed

lemma ListAllApps_reliable:
  "reliable s \<Longrightarrow> ListAllApps s = Inr (sort_key (\<lambda>a. (a_RepoSlug a, a_Name a)) (filter (\<lambda>a. a_DeletionPending a = 0) (t_apps s)))"
  by (simp add: ListAllApps_def ListAllApps_q_def)

lemma wf_app_ids: "wf_db s \<Longrightarrow> app_id_tab.uniq (t_apps s)"
  by (simp add: wf_db_def wf_apps_def)

lemma listed_apps:
  assumes "wf_db s" "apps = sort_key f (filter P (t_apps s))"
  shows "distinct (map a_ID apps)" "\<forall>a \<in> set apps. find_app s (a_ID a) = Some a" "set apps = {a \<in> set (t_apps s). P a}"
proof -
  have u: "distinct (map a_ID (t_apps s))" using wf_app_ids [OF assms(1)] by (simp add: app_id_tab.uniq_def)
  have "distinct (map a_ID (filter P (t_apps s)))" using u by (simp add: distinct_map_filter)
  then have "distinct (filter P (t_apps s))" "inj_on a_ID (set (filter P (t_apps s)))" by (auto simp: distinct_map)
  then show "distinct (map a_ID apps)" by (simp add: assms(2) distinct_map distinct_sort)
  show "set apps = {a \<in> set (t_apps s). P a}" by (simp add: assms(2))
  then show "\<forall>a \<in> set apps. find_app s (a_ID a) = Some a"
    using wf_app_ids [OF assms(1)] by (simp add: find_app_def app_id_tab.by_key_Some)
qed

lemma forceHibernateAll_frame:
  assumes "reliable s" "forceHibernateAll h dep (s, k) = (s', k')"
  shows "enforcement_frame s s'"
proof -
  have "force_hibernate_apps h dep apps (s, k) = (s', k') \<Longrightarrow> reliable s \<Longrightarrow> enforcement_frame s s'" for apps s k
  proof (induction apps arbitrary: s k)
    case (Cons app apps)
    obtain s1 k1 where s1: "force_hibernate_app h dep app (s, k) = (s1, k1)" by fastforce
    with force_hibernate_app_effect [OF Cons.prems(2) s1] Cons show ?case
      using frame_trans by (simp add: enforcement_frame_def)
  qed (simp add: enforcement_frame_def)
  with assms show ?thesis by (simp add: forceHibernateAll_def ListAllApps_reliable)
qed

text \<open>
  C23. The hard limit hibernates exactly the apps it may: on a reliable database and with a cluster whose
  calls succeed, every live app that has a namespace, is not hibernated and is not exempt is
  hibernated with reason budget, and every other app keeps its row.
\<close>

theorem force_hibernation_spares_exempt:
  assumes "wf_db s" "reliable s" "cluster_works h dep" "forceHibernateAll h dep (s, k) = (s', k')" "find_app s i = Some a"
  shows "find_app s' i = Some (if a_DeletionPending a = 0 \<and> a_Hibernated a = 0 \<and> a_Namespace a \<noteq> None \<and>
      \<not> exempt_at s (a_RepoSlug a) (a_Name a)
    then a\<lparr>a_Hibernated := 1, a_HibernatedAt := Some (sql_now s), a_HibernationReason := Some ''budget'',
      a_Status := ''hibernated'', a_UpdatedAt := sql_now s\<rparr>
    else a)"
proof -
  let ?apps = "sort_key (\<lambda>a. (a_RepoSlug a, a_Name a)) (filter (\<lambda>a. a_DeletionPending a = 0) (t_apps s))"
  note l = listed_apps [OF assms(1) refl, of "\<lambda>a. (a_RepoSlug a, a_Name a)" "\<lambda>a. a_DeletionPending a = 0"]
  have eff: "(\<forall>j. j \<notin> a_ID ` set ?apps \<longrightarrow> find_app s' j = find_app s j) \<and>
      (\<forall>a \<in> set ?apps. find_app s' (a_ID a) = Some (if budget_target s a then hibernated_row s ''budget'' a else a))"
    using force_hibernate_apps_effect [OF assms(2) l(1,2) assms(3), of k s' k'] assms(2,4)
    by (simp add: forceHibernateAll_def ListAllApps_reliable)
  have a: "a \<in> set (t_apps s)" "a_ID a = i"
    using assms(5) wf_app_ids [OF assms(1)] by (simp_all add: find_app_def app_id_tab.by_key_Some)
  show ?thesis
  proof (cases "a_DeletionPending a = 0")
    case True
    with a l(3) have "a \<in> set ?apps" by simp
    with eff a True show ?thesis by (auto simp: budget_target_def hibernated_row_def null_string_def)
  next
    case False
    have "i \<notin> a_ID ` set ?apps"
    proof
      assume "i \<in> a_ID ` set ?apps"
      then obtain b where "b \<in> set ?apps" "a_ID b = i" by auto
      with l(3) have "b \<in> set (t_apps s)" "a_DeletionPending b = 0" by auto
      with app_id_tab.uniq_in [OF wf_app_ids [OF assms(1)] a(1)] a(2) \<open>a_ID b = i\<close> False show False by simp
    qed
    with eff False assms(5) show ?thesis by simp
  qed
qed

lemma demo_cluster: "cluster_works demo_env ok_deployer"
  by (simp add: cluster_works_def scale_down_def and_then_def ok_deployer_def)

lemma demo_wf: "wf_db demo_db"
  by (simp add: demo_db_def demo_app_def demo_op_def initial_db_def seed_tier_def wf_db_def wf_apps_def wf_rest_def uniq_defs)

lemma force_hibernation_spares_exempt_witness:
  "\<exists>s'. fst (forceHibernateAll demo_env ok_deployer (demo_db, ())) = s' \<and>
     map_option (\<lambda>a. (a_Hibernated a, a_HibernationReason a)) (find_app s' 1) = Some (1, Some ''budget'')"
proof -
  obtain s' where r: "forceHibernateAll demo_env ok_deployer (demo_db, ()) = (s', ())"
    by (cases "forceHibernateAll demo_env ok_deployer (demo_db, ())") auto
  from force_hibernation_spares_exempt [OF demo_wf demo_reliable demo_cluster r demo_lookups(2)] r
  show ?thesis by (auto simp: demo_app_def exempt_at_def demo_db_def initial_db_def)
qed

lemma totalCost_cong:
  assumes "reliable s" "reliable s'" "t_repos s' = t_repos s" "t_tiers s' = t_tiers s" "t_apps s' = t_apps s"
    and "t_scale_events s' = t_scale_events s" "t_price_snapshots s' = t_price_snapshots s"
  shows "totalCost s' now = totalCost s now"
proof -
  have q: "GetLatestPriceSnapshot s' = GetLatestPriceSnapshot s" "ListRepos s' = ListRepos s" "GetTier s' t = GetTier s t"
    "ListApps s' slug = ListApps s slug" "ListScaleEventsSince s' ns app since = ListScaleEventsSince s ns app since" for t slug ns app since
    using assms
    by (simp_all add: GetLatestPriceSnapshot_def GetLatestPriceSnapshot_q_def ListRepos_def ListRepos_q_def GetTier_def GetTier_q_def
        ListApps_def ListAppsByRepo_q_def ListScaleEventsSince_def ListScaleEventsSince_q_def)
  have "app_cost s' = app_cost s" by (intro ext) (simp add: app_cost_def q split: option.splits)
  then have "repoCost s' = repoCost s" by (intro ext) (simp add: repoCost_def q split: sum.splits)
  then show ?thesis by (simp add: totalCost_def q split: sum.splits)
qed

definition period_flags :: "PlatformConfig \<Rightarrow> time \<Rightarrow> PlatformConfig" where
  "period_flags cfg now =
     (let cfg1 = (if c_BillingPeriod cfg \<noteq> [] \<and> c_BillingPeriod cfg \<noteq> BillingPeriodKey now
                  then cfg\<lparr>c_BudgetSoftLimitActive := 0, c_BudgetHardLimitActive := 0\<rparr> else cfg)
      in cfg1\<lparr>c_BillingPeriod := BillingPeriodKey now\<rparr>)"

lemma roll_period_reliable:
  assumes "reliable s" "t_platform_config s = Some cfg"
  shows "\<exists>s1. roll_period s cfg now = (Some (period_flags cfg now), s1) \<and> reliable s1 \<and>
    t_platform_config s1 = Some (period_flags cfg now) \<and> t_repos s1 = t_repos s \<and> t_tiers s1 = t_tiers s \<and> t_apps s1 = t_apps s \<and>
    t_scale_events s1 = t_scale_events s \<and> t_price_snapshots s1 = t_price_snapshots s"
  using assms
  by (auto simp: roll_period_def period_flags_def Let_def ExpirePeriodExemptions_def ExpirePeriodExemptions_q_def
      UpdatePlatformConfig_def UpdatePlatformConfig_q_def reliable_def)



section \<open>The hibernation watcher\<close>

definition defaultIdleAfter :: duration where "defaultIdleAfter = 24 * Hour"

text \<open>The idle time of an app, None when its text does not parse.\<close>

definition idle_after_of :: "App \<Rightarrow> duration option" where
  "idle_after_of app =
     (case a_IdleAfter app of
        None \<Rightarrow> Some defaultIdleAfter
      | Some v \<Rightarrow> if v = [] then Some defaultIdleAfter else ParseDuration v)"

definition hibernateHTTP :: "henv \<Rightarrow> 'k AppDeployer \<Rightarrow> int \<Rightarrow> string \<Rightarrow> string \<Rightarrow> string \<Rightarrow> db \<times> 'k \<Rightarrow> db \<times> 'k" where
  "hibernateHTTP h dep appID name repoSlug namespace = (\<lambda>(s, k).
     let host = AppHostname name (RepoName repoSlug) (h_BaseDomain h) in
     case scale_down dep (h_Namespace h) ''http'' namespace host k of
       (Some _, k1) \<Rightarrow> (s, k1)
     | (None, k1) \<Rightarrow> (record_hibernated s namespace name appID ''idle'', k1))"

definition checkHTTP ::
  "henv \<Rightarrow> 'k AppDeployer \<Rightarrow> int \<Rightarrow> string \<Rightarrow> string \<Rightarrow> string \<Rightarrow> string \<Rightarrow> time \<Rightarrow> duration \<Rightarrow> db \<times> 'k \<Rightarrow> db \<times> 'k" where
  "checkHTTP h dep appID name repoSlug appType namespace now idleAfter = (\<lambda>(s, k).
     if fst (dp_AppReplicaCounts dep k namespace appType) = 0 then (s, k)
     else case GetAppByNamespace s namespace of
       Inl _ \<Rightarrow> (s, k)
     | Inr app \<Rightarrow>
         (case a_LastActiveAt app of
            None \<Rightarrow> (s, k)
          | Some lastActive \<Rightarrow>
              if time_Sub now lastActive < idleAfter then (s, k)
              else hibernateHTTP h dep appID name repoSlug namespace (s, k)))"

text \<open>\<open>plat.Queues\<close> of the local platform: the queues of the app's namespace under the data directory.\<close>

definition Queues :: "string \<Rightarrow> string \<Rightarrow> string \<Rightarrow> LocalQueue" where
  "Queues dataDir repoSlug appName =
     \<lparr> lq_baseDir = filepath_Join [dataDir, ''queues''], lq_namespace = AppNamespace repoSlug appName \<rparr>"

definition checkWorker ::
  "henv \<Rightarrow> 'k AppDeployer \<Rightarrow> string \<Rightarrow> int \<Rightarrow> string \<Rightarrow> string \<Rightarrow> string \<Rightarrow> time \<Rightarrow> duration \<Rightarrow>
    db \<times> 'k \<times> qstate \<Rightarrow> db \<times> 'k \<times> qstate" where
  "checkWorker h dep dataDir appID name repoSlug namespace now idleAfter = (\<lambda>(s, k, q).
     case IdleStatus (Queues dataDir repoSlug name) idleAfter q of
       (Inl _, q') \<Rightarrow> (s, k, q')
     | (Inr infos, q') \<Rightarrow>
         if \<exists>info \<in> set infos. \<not> in_Idle info then (log_err s (UpdateLastActiveAt s appID), k, q')
         else (case GetAppByNamespace s namespace of
                 Inl _ \<Rightarrow> (s, k, q')
               | Inr app \<Rightarrow>
                   if (case a_LastActiveAt app of None \<Rightarrow> False | Some t \<Rightarrow> time_Sub now t < idleAfter) then (s, k, q')
                   else (case dp_ScaleDeployment dep k namespace 0 of
                           (Some _, k1) \<Rightarrow> (s, k1, q')
                         | (None, k1) \<Rightarrow> (record_hibernated s namespace name appID ''idle'', k1, q'))))"

definition check_app ::
  "henv \<Rightarrow> 'k AppDeployer \<Rightarrow> string \<Rightarrow> time \<Rightarrow> App \<Rightarrow> db \<times> 'k \<times> qstate \<Rightarrow> db \<times> 'k \<times> qstate" where
  "check_app h dep dataDir now app = (\<lambda>(s, k, q).
     if a_Hibernated app \<noteq> 0 then (s, k, q)
     else case idle_after_of app of
       None \<Rightarrow> (s, k, q)
     | Some idleAfter \<Rightarrow>
         let ns = (case a_Namespace app of None \<Rightarrow> [] | Some ns \<Rightarrow> ns) in
         if a_Type app = ''http'' then
           (case checkHTTP h dep (a_ID app) (a_Name app) (a_RepoSlug app) (a_Type app) ns now idleAfter (s, k) of (s', k') \<Rightarrow> (s', k', q))
         else if a_Type app = ''worker'' then
           checkWorker h dep dataDir (a_ID app) (a_Name app) (a_RepoSlug app) ns now idleAfter (s, k, q)
         else (s, k, q))"

fun check_apps ::
  "henv \<Rightarrow> 'k AppDeployer \<Rightarrow> string \<Rightarrow> time \<Rightarrow> App list \<Rightarrow> db \<times> 'k \<times> qstate \<Rightarrow> db \<times> 'k \<times> qstate" where
  "check_apps h dep dataDir now [] w = w"
| "check_apps h dep dataDir now (app # apps) w = check_apps h dep dataDir now apps (check_app h dep dataDir now app w)"

definition checkAll :: "henv \<Rightarrow> 'k AppDeployer \<Rightarrow> string \<Rightarrow> db \<times> 'k \<times> qstate \<Rightarrow> db \<times> 'k \<times> qstate" where
  "checkAll h dep dataDir = (\<lambda>(s, k, q).
     case ListAllApps s of
       Inl _ \<Rightarrow> (s, k, q)
     | Inr apps \<Rightarrow> check_apps h dep dataDir (db_now s) apps (s, k, q))"

lemmas check_defs = check_app_def checkHTTP_def hibernateHTTP_def checkWorker_def Let_def

lemma check_app_steps: "store_steps c s \<Longrightarrow> check_app h dep dataDir now app (s, k, q) = (s', k', q') \<Longrightarrow> store_steps c s'"
proof -
  assume c: "store_steps c s" and run: "check_app h dep dataDir now app (s, k, q) = (s', k', q')"
  have "s' = s \<or> (\<exists>ns name reason. s' = record_hibernated s ns name (a_ID app) reason) \<or> s' = log_err s (UpdateLastActiveAt s (a_ID app))"
    using run by (auto simp: check_defs split: if_splits option.splits sum.splits prod.splits)
  moreover have "store_steps c (log_err s (UpdateLastActiveAt s (a_ID app)))"
    by (rule log_err_steps_trans [OF c]) (auto intro: store_step.intros)
  ultimately show ?thesis using c record_hibernated_steps by metis
qed

lemma check_apps_steps: "store_steps c s \<Longrightarrow> check_apps h dep dataDir now apps (s, k, q) = (s', k', q') \<Longrightarrow> store_steps c s'"
proof (induction apps arbitrary: s k q)
  case (Cons app apps)
  obtain s1 k1 q1 where s1: "check_app h dep dataDir now app (s, k, q) = (s1, k1, q1)" by (metis prod_cases3)
  from Cons.IH [OF check_app_steps [OF Cons.prems(1) s1]] Cons.prems(2) s1 show ?case by simp
qed simp

lemma checkAll_steps: "checkAll h dep dataDir (s, k, q) = (s', k', q') \<Longrightarrow> store_steps s s'"
  by (auto simp: checkAll_def split: sum.splits intro: check_apps_steps [of s])

section \<open>Idle apps\<close>

text \<open>A change of at most one row of the apps, which keeps what the lookups use.\<close>

definition row_step :: "int \<Rightarrow> db \<Rightarrow> db \<Rightarrow> bool" where
  "row_step i s s' \<longleftrightarrow> reliable s' = reliable s \<and> sql_now s' = sql_now s \<and>
     (\<exists>f. (\<forall>x. a_ID (f x) = a_ID x \<and> a_Namespace (f x) = a_Namespace x \<and> a_DeletionPending (f x) = a_DeletionPending x) \<and>
        t_apps s' = upd (\<lambda>x. a_ID x = i) f (t_apps s))"

lemma row_step_refl: "row_step i s s"
proof -
  have "t_apps s = upd (\<lambda>x. a_ID x = i) (\<lambda>x. x) (t_apps s)" by (simp add: upd_def)
  then show ?thesis unfolding row_step_def by (intro conjI refl exI [of _ "\<lambda>x. x"]) auto
qed

lemma row_step_update:
  assumes "\<And>x. a_ID (f x) = a_ID x \<and> a_Namespace (f x) = a_Namespace x \<and> a_DeletionPending (f x) = a_DeletionPending x"
  shows "row_step i s (update_app s i f)"
  unfolding row_step_def
  by (intro conjI exI [of _ "\<lambda>x. (f x)\<lparr>a_UpdatedAt := sql_now s\<rparr>"]) (simp_all add: assms, simp add: update_app_def)

lemma row_step_trans: "row_step i s s' \<Longrightarrow> row_step i s' s'' \<Longrightarrow> row_step i s s''"
proof -
  assume "row_step i s s'" "row_step i s' s''"
  then obtain f g where fg: "\<forall>x. a_ID (f x) = a_ID x \<and> a_Namespace (f x) = a_Namespace x \<and> a_DeletionPending (f x) = a_DeletionPending x"
    "\<forall>x. a_ID (g x) = a_ID x \<and> a_Namespace (g x) = a_Namespace x \<and> a_DeletionPending (g x) = a_DeletionPending x"
    "t_apps s' = upd (\<lambda>x. a_ID x = i) f (t_apps s)" "t_apps s'' = upd (\<lambda>x. a_ID x = i) g (t_apps s')"
    and r: "reliable s'' = reliable s" "sql_now s'' = sql_now s"
    by (auto simp: row_step_def)
  have "t_apps s'' = upd (\<lambda>x. a_ID x = i) (\<lambda>x. g (f x)) (t_apps s)" using fg by (simp add: upd_def)
  with fg r show ?thesis unfolding row_step_def by (intro conjI exI [of _ "\<lambda>x. g (f x)"]) auto
qed

lemma row_step_event: "row_step i s (add_event s ns app event)"
  using row_step_refl [of i s] by (auto simp: row_step_def add_event_def reliable_def sql_now_def)

lemma row_step_logged:
  "reliable s \<Longrightarrow> row_step i s (log_err s (RecordScaleEvent s ns name event))"
  "reliable s \<Longrightarrow> row_step i s (log_err s (SetAppHibernated s i reason))"
  "reliable s \<Longrightarrow> row_step i s (log_err s (UpdateAppStatus s i status))"
  by (simp_all add: row_step_event row_step_update)

lemma row_step_reliable: "row_step i s s' \<Longrightarrow> reliable s \<Longrightarrow> reliable s'"
  by (simp add: row_step_def)

lemma row_step_hibernated:
  assumes "reliable s"
  shows "row_step i s (record_hibernated s ns name i reason)"
proof -
  let ?s1 = "log_err s (RecordScaleEvent s ns name ''scale_to_0'')"
  let ?s2 = "log_err ?s1 (SetAppHibernated ?s1 i reason)"
  note r1 = row_step_logged(1) [OF assms, of i ns name "''scale_to_0''"]
  note r2 = row_step_logged(2) [OF row_step_reliable [OF r1 assms], of i reason]
  note s2 = row_step_trans [OF r1 r2]
  note r3 = row_step_logged(3) [OF row_step_reliable [OF s2 assms], of i "''hibernated''"]
  show ?thesis unfolding record_hibernated_def Let_def by (rule row_step_trans [OF s2 r3])
qed

lemma row_step_find: "row_step i s s' \<Longrightarrow> j \<noteq> i \<Longrightarrow> find_app s' j = find_app s j"
  by (auto simp: row_step_def find_app_def app_id_tab.by_key_upd)

lemma row_step_namespace:
  assumes "row_step i s s'" "reliable s" "GetAppByNamespace s ns = Inr b" "a_ID b \<noteq> i"
  shows "GetAppByNamespace s' ns = Inr b"
proof -
  from assms(1,2) obtain f where f: "\<And>x. a_Namespace (f x) = a_Namespace x \<and> a_DeletionPending (f x) = a_DeletionPending x"
    "t_apps s' = upd (\<lambda>x. a_ID x = i) f (t_apps s)" "reliable s'" by (auto simp: row_step_def)
  have "sel (\<lambda>a. a_Namespace a = Some ns \<and> a_DeletionPending a = 0) (t_apps s) = Some b"
    using assms(2,3) by (simp add: GetAppByNamespace_def GetAppByNamespace_q_def one_def split: option.splits)
  with f assms(4) show ?thesis
    by (simp add: GetAppByNamespace_def GetAppByNamespace_q_def one_def sel_upd)
qed

lemma check_app_row_step:
  assumes "reliable s" "check_app h dep dataDir now app (s, k, q) = (s', k', q')"
  shows "row_step (a_ID app) s s'"
proof -
  have "s' = s \<or> (\<exists>ns name reason. s' = record_hibernated s ns name (a_ID app) reason) \<or> s' = log_err s (UpdateLastActiveAt s (a_ID app))"
    using assms(2) by (auto simp: check_defs split: if_splits option.splits sum.splits prod.splits)
  moreover have "row_step (a_ID app) s (log_err s (UpdateLastActiveAt s (a_ID app)))"
    using assms(1) by (simp add: row_step_update)
  ultimately show ?thesis using row_step_refl row_step_hibernated [OF assms(1)] by metis
qed

definition idle_http :: "time \<Rightarrow> App \<Rightarrow> bool" where
  "idle_http now a = (a_Hibernated a = 0 \<and>
     (case (idle_after_of a, a_LastActiveAt a) of (Some d, Some t) \<Rightarrow> d \<le> time_Sub now t | _ \<Rightarrow> False))"

definition replicas_wanted :: "'k AppDeployer \<Rightarrow> bool" where
  "replicas_wanted dep \<longleftrightarrow> (\<forall>k ns typ. fst (dp_AppReplicaCounts dep k ns typ) \<noteq> 0)"

lemma check_app_http:
  assumes "reliable s" "a_Type app = ''http''" "a_Namespace app = Some ns" "GetAppByNamespace s ns = Inr app"
    and "find_app s (a_ID app) = Some app" "cluster_works h dep" "replicas_wanted dep"
    and "check_app h dep dataDir now app (s, k, q) = (s', k', q')"
  shows "find_app s' (a_ID app) = Some (if idle_http now app then hibernated_row s ''idle'' app else app)"
proof -
  obtain e k1 where sd: "scale_down dep (h_Namespace h) ''http'' ns
      (AppHostname (a_Name app) (RepoName (a_RepoSlug app)) (h_BaseDomain h)) k = (e, k1)" by fastforce
  have "e = None" using assms(6) sd unfolding cluster_works_def by (metis fst_conv)
  then have "s' = (if idle_http now app then record_hibernated s ns (a_Name app) (a_ID app) ''idle'' else s)"
    using assms(2-4,7,8) sd
    by (auto simp: check_defs idle_http_def replicas_wanted_def split: option.splits if_splits)
  then show ?thesis using record_hibernated_reliable(2) [OF assms(1)] assms(5) by simp
qed

lemma check_apps_http:
  assumes "reliable s" "distinct (map a_ID apps)" "\<forall>a \<in> set apps. find_app s (a_ID a) = Some a"
    and "\<forall>a \<in> set apps. \<exists>ns. a_Namespace a = Some ns \<and> GetAppByNamespace s ns = Inr a"
    and "cluster_works h dep" "replicas_wanted dep" "check_apps h dep dataDir now apps (s, k, q) = (s', k', q')"
  shows "(\<forall>j. j \<notin> a_ID ` set apps \<longrightarrow> find_app s' j = find_app s j) \<and>
    (\<forall>a \<in> set apps. a_Type a = ''http'' \<longrightarrow>
       find_app s' (a_ID a) = Some (if idle_http now a then hibernated_row s ''idle'' a else a))"
  using assms
proof (induction apps arbitrary: s k q)
  case (Cons app apps)
  obtain s1 k1 q1 where s1: "check_app h dep dataDir now app (s, k, q) = (s1, k1, q1)" by (metis prod_cases3)
  note st = check_app_row_step [OF Cons.prems(1) s1]
  have rel: "reliable s1" and now: "sql_now s1 = sql_now s" using st Cons.prems(1) by (auto simp: row_step_def)
  have fresh: "a_ID app \<notin> a_ID ` set apps" using Cons.prems(2) by simp
  then have ne: "\<forall>a \<in> set apps. a_ID a \<noteq> a_ID app" by (metis imageI)
  have look: "\<forall>a \<in> set apps. find_app s1 (a_ID a) = Some a" using row_step_find [OF st] ne Cons.prems(3) by auto
  have nsp: "\<forall>a \<in> set apps. \<exists>ns. a_Namespace a = Some ns \<and> GetAppByNamespace s1 ns = Inr a"
    using row_step_namespace [OF st Cons.prems(1)] ne Cons.prems(4) by (meson list.set_intros(2))
  have ih: "(\<forall>j. j \<notin> a_ID ` set apps \<longrightarrow> find_app s' j = find_app s1 j) \<and>
    (\<forall>a \<in> set apps. a_Type a = ''http'' \<longrightarrow>
       find_app s' (a_ID a) = Some (if idle_http now a then hibernated_row s1 ''idle'' a else a))"
    using Cons.IH [OF rel _ look nsp Cons.prems(5,6)] Cons.prems(2,7) s1 by simp
  have row: "hibernated_row s1 r a = hibernated_row s r a" for r a using now by (simp add: hibernated_row_def)
  obtain ns where "a_Namespace app = Some ns" "GetAppByNamespace s ns = Inr app" using Cons.prems(4) by auto
  then have "a_Type app = ''http'' \<Longrightarrow> find_app s1 (a_ID app) = Some (if idle_http now app then hibernated_row s ''idle'' app else app)"
    using check_app_http [OF Cons.prems(1) _ _ _ _ Cons.prems(5,6) s1] Cons.prems(3) by auto
  with ih fresh have hd_app: "a_Type app = ''http'' \<longrightarrow>
      find_app s' (a_ID app) = Some (if idle_http now app then hibernated_row s ''idle'' app else app)" by simp
  have "\<forall>j. j \<notin> a_ID ` set (app # apps) \<longrightarrow> find_app s' j = find_app s j" using ih row_step_find [OF st] by simp
  with hd_app ih row show ?case by simp
qed simp

text \<open>
  The hibernation watcher hibernates exactly the idle HTTP apps. When the live apps have namespaces
  of their own, the database is reliable, the cluster's calls succeed and it reports wanted replicas,
  a check leaves every live HTTP app as it was, except those that were last active at least their
  idle time ago (24 hours by default): these are hibernated with reason idle. An app that was
  never active or whose idle time does not parse stays up.
\<close>

theorem idle_http_apps_hibernated:
  assumes "wf_db s" "reliable s" "cluster_works h dep" "replicas_wanted dep"
    and "\<forall>a \<in> set (t_apps s). a_DeletionPending a = 0 \<longrightarrow> a_Namespace a \<noteq> None"
    and "\<forall>a \<in> set (t_apps s). \<forall>b \<in> set (t_apps s). a_DeletionPending a = 0 \<and> a_DeletionPending b = 0 \<and> a_Namespace a = a_Namespace b \<longrightarrow> a = b"
    and "checkAll h dep dataDir (s, k, q) = (s', k', q')"
    and "find_app s i = Some a" "a_DeletionPending a = 0" "a_Type a = ''http''"
  shows "find_app s' i = Some (case (idle_after_of a, a_LastActiveAt a) of
      (Some d, Some t) \<Rightarrow> if a_Hibernated a = 0 \<and> d \<le> time_Sub (db_now s) t then hibernated_row s ''idle'' a else a
    | _ \<Rightarrow> a)"
proof -
  let ?apps = "sort_key (\<lambda>a. (a_RepoSlug a, a_Name a)) (filter (\<lambda>a. a_DeletionPending a = 0) (t_apps s))"
  note l = listed_apps [OF assms(1) refl, of "\<lambda>a. (a_RepoSlug a, a_Name a)" "\<lambda>a. a_DeletionPending a = 0"]
  have nsp: "\<forall>a \<in> set ?apps. \<exists>ns. a_Namespace a = Some ns \<and> GetAppByNamespace s ns = Inr a"
  proof
    fix b assume "b \<in> set ?apps"
    with l(3) have b: "b \<in> set (t_apps s)" "a_DeletionPending b = 0" by auto
    with assms(5) obtain ns where ns: "a_Namespace b = Some ns" by auto
    then obtain c where c: "sel (\<lambda>a. a_Namespace a = Some ns \<and> a_DeletionPending a = 0) (t_apps s) = Some c"
      using b by (cases "sel (\<lambda>a. a_Namespace a = Some ns \<and> a_DeletionPending a = 0) (t_apps s)") (auto simp: sel_None)
    with sel_Some [OF c] b ns assms(6) have "c = b" by auto
    with c assms(2) ns show "\<exists>ns. a_Namespace b = Some ns \<and> GetAppByNamespace s ns = Inr b"
      by (auto simp: GetAppByNamespace_def GetAppByNamespace_q_def one_def)
  qed
  have a: "a \<in> set ?apps" "a_ID a = i"
    using assms(8,9) wf_app_ids [OF assms(1)] l(3) by (simp_all add: find_app_def app_id_tab.by_key_Some)
  have "find_app s' (a_ID a) = Some (if idle_http (db_now s) a then hibernated_row s ''idle'' a else a)"
    using check_apps_http [OF assms(2) l(1,2) nsp assms(3,4)] assms(2,7,10) a(1)
    by (simp add: checkAll_def ListAllApps_reliable)
  then show ?thesis by (simp add: a(2) idle_http_def split: option.splits)
qed

text \<open>An app that was last active 25 hours ago, and a worker that never was.\<close>

definition idle_db :: db where
  "idle_db = demo_db\<lparr>t_apps := [demo_app\<lparr>a_LastActiveAt := Some 0\<rparr>], db_now := 25 * Hour\<rparr>"

lemma idle_http_apps_hibernated_witness:
  "\<exists>s'. fst (checkAll demo_env ok_deployer ''/data'' (idle_db, (), demo_q)) = s' \<and>
     map_option (\<lambda>a. (a_Hibernated a, a_HibernationReason a)) (find_app s' 1) = Some (1, Some ''idle'')"
proof -
  obtain s' q' where r: "checkAll demo_env ok_deployer ''/data'' (idle_db, (), demo_q) = (s', (), q')"
    by (cases "checkAll demo_env ok_deployer ''/data'' (idle_db, (), demo_q)") auto
  have wf: "wf_db idle_db" using demo_wf
    by (simp add: idle_db_def demo_db_def demo_app_def demo_op_def wf_db_def wf_apps_def wf_rest_def uniq_defs)
  have rel: "reliable idle_db" using demo_reliable by (simp add: idle_db_def reliable_def)
  have wanted: "replicas_wanted ok_deployer" by (simp add: replicas_wanted_def ok_deployer_def)
  have app: "find_app idle_db 1 = Some (demo_app\<lparr>a_LastActiveAt := Some 0\<rparr>)"
    by (simp add: find_app_def app_id_tab.by_key_def idle_db_def demo_app_def)
  from idle_http_apps_hibernated [OF wf rel demo_cluster wanted _ _ r app] r show ?thesis
    by (auto simp: idle_db_def demo_app_def idle_after_of_def defaultIdleAfter_def Hour_def Minute_def Second_def time_Sub_def
        hibernated_row_def null_string_def int64_max_def int64_min_def)
qed

text \<open>
  A worker that was never active is hibernated by the first check after its deployment, however short
  that is and whatever its idle time: when no queue of the app reports activity, the check takes a
  missing time of the last activity for idleness, where the check of an HTTP app does the opposite.
\<close>

theorem new_worker_hibernated_at_once:
  assumes "reliable s" "a_Hibernated app = 0" "a_Type app = ''worker''" "idle_after_of app = Some d" "a_Namespace app = Some ns"
    and "GetAppByNamespace s ns = Inr app" "find_app s (a_ID app) = Some app" "a_LastActiveAt app = None"
    and "IdleStatus (Queues dataDir (a_RepoSlug app) (a_Name app)) d q = (Inr infos, q')" "\<forall>info \<in> set infos. in_Idle info"
    and "dp_ScaleDeployment dep k ns 0 = (None, k1)"
  shows "\<exists>s'. check_app h dep dataDir now app (s, k, q) = (s', k1, q') \<and>
    find_app s' (a_ID app) = Some (hibernated_row s ''idle'' app)"
  using assms record_hibernated_reliable(2) [OF assms(1), of ns "a_Name app" "a_ID app" "''idle''" "a_ID app"]
  by (auto simp: check_defs)

lemma new_worker_hibernated_at_once_witness:
  "\<exists>s' k' q'. check_app demo_env ok_deployer ''/data'' 1 (demo_app\<lparr>a_Type := ''worker''\<rparr>)
       (demo_db\<lparr>t_apps := [demo_app\<lparr>a_Type := ''worker''\<rparr>]\<rparr>, (), demo_q) = (s', k', q') \<and>
     map_option a_Hibernated (find_app s' 1) = Some 1"
proof -
  let ?a = "demo_app\<lparr>a_Type := ''worker''\<rparr>"
  let ?s = "demo_db\<lparr>t_apps := [?a]\<rparr>"
  have rel: "reliable ?s" using demo_reliable by (simp add: reliable_def)
  have app: "GetAppByNamespace ?s ''o-r--web'' = Inr ?a" "find_app ?s (a_ID ?a) = Some ?a"
    using rel by (simp_all add: GetAppByNamespace_def GetAppByNamespace_q_def one_def sel_def find_app_def app_id_tab.by_key_def demo_app_def)
  have idle: "IdleStatus (Queues ''/data'' (a_RepoSlug ?a) (a_Name ?a)) defaultIdleAfter demo_q = (Inr [], demo_q)"
    by (simp add: IdleStatus_def listQueues_def ReadDir_def demo_q_def Let_def q_defs)
  from new_worker_hibernated_at_once [OF rel _ _ _ _ app(1,2) _ idle, where dep = ok_deployer and k = "()" and ?k1.0 = "()" and h = demo_env and now = 1]
  show ?thesis by (auto simp: demo_app_def idle_after_of_def ok_deployer_def hibernated_row_def)
qed

end
