(* ===== verification/Wake.thy ===== *)
theory Wake
  imports Net Watchers
begin

text \<open>
  Waking on request: the endpoint \<open>/internal/wake\<close> of \<open>api/mux.go\<close> and the wake proxy of
  \<open>svc_wake_proxy.go\<close>. The route of a hibernated app leads to the proxy; the proxy calls the endpoint,
  which starts the wake in a goroutine and answers at once.

  The state of the endpoint is the database, the cluster, the set \<open>wakingNow\<close> and the goroutines that
  run. A goroutine is one step, taken when it ends.
\<close>

section \<open>The endpoint\<close>

record waketask =
  tk_ns :: string
  tk_appID :: int
  tk_appType :: string

record 'k wstate =
  ws_db :: db
  ws_k :: 'k
  wakingNow :: "string set"
  ws_tasks :: "waketask list"

datatype wake_response =
    WakeError int string string string "time option"
  | WakeAck string

definition writeJSONError :: "int \<Rightarrow> string \<Rightarrow> string \<Rightarrow> string \<Rightarrow> wake_response" where
  "writeJSONError status code message remedy = WakeError status code message remedy None"

text \<open>The start of the next billing period when the wake is blocked.\<close>

definition isBudgetBlocked :: "db \<Rightarrow> string \<Rightarrow> string \<Rightarrow> time option" where
  "isBudgetBlocked s repoSlug appName =
     (case GetPlatformConfig s of
        Inl _ \<Rightarrow> None
      | Inr cfg \<Rightarrow>
          if c_BudgetSoftLimitActive cfg = 0 \<and> c_BudgetHardLimitActive cfg = 0 then None
          else let exempt = (case IsAppExempt s repoSlug appName of Inl _ \<Rightarrow> False | Inr b \<Rightarrow> b)
            in if exempt then None else Some (NextBillingPeriodStart (db_now s)))"

definition app_at_host :: "string \<Rightarrow> string \<Rightarrow> App \<Rightarrow> bool" where
  "app_at_host baseDomain host app \<longleftrightarrow>
     a_Namespace app \<noteq> None \<and> AppHostname (a_Name app) (RepoName (a_RepoSlug app)) baseDomain = host"

definition bare_host :: "string \<Rightarrow> string" where
  "bare_host host = (case SplitHostPort host of None \<Rightarrow> host | Some bareHost \<Rightarrow> bareHost)"

definition start_wake :: "waketask \<Rightarrow> 'k wstate \<Rightarrow> 'k wstate" where
  "start_wake t w =
     (if tk_ns t \<in> wakingNow w then w
      else w\<lparr>wakingNow := insert (tk_ns t) (wakingNow w), ws_tasks := ws_tasks w @ [t]\<rparr>)"

text \<open>What the endpoint does once the app is found.\<close>

definition wake_found :: "App \<Rightarrow> 'k wstate \<Rightarrow> wake_response \<times> 'k wstate" where
  "wake_found app w =
     (let s = ws_db w; s1 = log_err s (UpdateLastActiveAt s (a_ID app)); w1 = w\<lparr>ws_db := s1\<rparr> in
      case isBudgetBlocked s1 (a_RepoSlug app) (a_Name app) of
        Some retryAfter \<Rightarrow>
          (WakeError 503 ''budget_soft_limit'' ''platform is over budget for this period''
             ''wait for the next billing period'' (Some retryAfter), w1)
      | None \<Rightarrow>
          (WakeAck (a_Name app),
           start_wake \<lparr> tk_ns = opt_Or (a_Namespace app) [], tk_appID = a_ID app, tk_appType = a_Type app \<rparr> w1))"

definition internalWakeHandler ::
  "henv \<Rightarrow> 'k AppDeployer \<Rightarrow> string \<Rightarrow> string \<Rightarrow> string \<Rightarrow> 'k wstate \<Rightarrow> wake_response \<times> 'k wstate" where
  "internalWakeHandler h dep httpMethod auth host0 w =
     (let token = bearer auth in
      if httpMethod \<noteq> ''POST'' then (writeJSONError 405 ''method_not_allowed'' ''POST required'' ''use POST'', w)
      else if token = [] then (writeJSONError 401 ''unauthorized'' ''missing wake token'' [], w)
      else if dp_VerifyWakeToken dep (ws_k w) token \<noteq> None then
        (writeJSONError 401 ''unauthorized'' ''invalid wake token'' [], w)
      else if host0 = [] then
        (writeJSONError 400 ''invalid_request'' ''host query param required'' ''use ?host={hostname}'', w)
      else let host = bare_host host0 in
        (case ListAllApps (ws_db w) of
           Inl _ \<Rightarrow> (writeJSONError 500 ''internal_error'' ''list apps failed'' [], w)
         | Inr apps \<Rightarrow>
             (case sel (app_at_host (h_BaseDomain h) host) apps of
                None \<Rightarrow> (writeJSONError 404 ''not_found'' ''no app found for host'' ''check the hostname'', w)
              | Some app \<Rightarrow> wake_found app w)))"

section \<open>The goroutine\<close>

datatype wake_error = WCluster string | WDb db_error

definition set_awake :: "db \<Rightarrow> int \<Rightarrow> wake_error option \<times> db" where
  "set_awake s appID =
     (case SetAppAwake s appID of
        Inl e \<Rightarrow> (Some (WDb e), s)
      | Inr s1 \<Rightarrow>
          (case UpdateAppStatus s1 appID ''running'' of
             Inl e \<Rightarrow> (Some (WDb e), s1)
           | Inr s2 \<Rightarrow> (None, s2)))"

text \<open>The switch on the type of the app.\<close>

definition wake_cluster :: "henv \<Rightarrow> 'k AppDeployer \<Rightarrow> db \<Rightarrow> string \<Rightarrow> string \<Rightarrow> 'k \<Rightarrow> wake_error option \<times> 'k" where
  "wake_cluster h dep s appType ns k =
     (if appType = ''http'' then
        (case and_then (dp_ScaleDeployment dep k ns 1) (\<lambda>k. dp_WatchDeploymentReady dep k ns (5 * Minute)) of
           (Some e, k1) \<Rightarrow> (Some (WCluster e), k1)
         | (None, k1) \<Rightarrow>
             (case GetAppByNamespace s ns of
                Inl e \<Rightarrow> (Some (WDb e), k1)
              | Inr app \<Rightarrow>
                  let host = AppHostname (a_Name app) (RepoName (a_RepoSlug app)) (h_BaseDomain h) in
                  apfst (map_option WCluster) (dp_RestoreHTTPRoute dep k1 ns host (h_Namespace h) GatewayExternal)))
      else if appType = ''worker'' then apfst (map_option WCluster) (dp_ScaleDeployment dep k ns 1)
      else if appType = ''cron'' then apfst (map_option WCluster) (dp_UnsuspendCronJob dep k ns)
      else (None, k))"

definition mux_wakeApp ::
  "henv \<Rightarrow> 'k AppDeployer \<Rightarrow> int \<Rightarrow> string \<Rightarrow> string \<Rightarrow> db \<times> 'k \<Rightarrow> wake_error option \<times> db \<times> 'k" where
  "mux_wakeApp h dep appID appType ns = (\<lambda>(s, k).
     case wake_cluster h dep s appType ns k of
       (Some e, k1) \<Rightarrow> (Some e, s, k1)
     | (None, k1) \<Rightarrow> (case set_awake s appID of (e, s1) \<Rightarrow> (e, s1, k1)))"

definition finish_wake :: "henv \<Rightarrow> 'k AppDeployer \<Rightarrow> waketask \<Rightarrow> 'k wstate \<Rightarrow> 'k wstate" where
  "finish_wake h dep t w =
     (case mux_wakeApp h dep (tk_appID t) (tk_appType t) (tk_ns t) (ws_db w, ws_k w) of
        (_, s, k) \<Rightarrow> w\<lparr>ws_db := s, ws_k := k, wakingNow := wakingNow w - {tk_ns t}, ws_tasks := remove1 t (ws_tasks w)\<rparr>)"

section \<open>The proxy\<close>

record http_response =
  hr_StatusCode :: int
  hr_RetryAfter :: string
  hr_Body :: string

text \<open>The client: a request that cannot be built, the exchange of a request, and the decoder of the answer.\<close>

record 'w wake_client =
  hc_NewRequest :: "string \<Rightarrow> string option"
  hc_Do :: "string \<Rightarrow> string \<Rightarrow> 'w \<Rightarrow> (string + http_response) \<times> 'w"
  hc_DecodeAck :: "string \<Rightarrow> string + string"

definition readToken :: "string \<Rightarrow> string + string \<Rightarrow> string + string" where
  "readToken path contents =
     (case contents of
        Inl e \<Rightarrow> Inl (''read token file '' @ path @ '': '' @ e)
      | Inr b \<Rightarrow> Inr (strings_TrimSpace b))"

text \<open>The name of the app, the value of Retry-After, and the error.\<close>

definition wakeProxyWakeApp ::
  "'w wake_client \<Rightarrow> string \<Rightarrow> string \<Rightarrow> string \<Rightarrow> 'w \<Rightarrow> (string \<times> string \<times> string option) \<times> 'w" where
  "wakeProxyWakeApp c ctrlPlane host token w =
     (let wakeURL = ctrlPlane @ ''/internal/wake?host='' @ QueryEscape host in
      case hc_NewRequest c wakeURL of
        Some e \<Rightarrow> (([], [], Some (''build wake request: '' @ e)), w)
      | None \<Rightarrow>
          (case hc_Do c wakeURL (''Bearer '' @ token) w of
             (Inl e, w1) \<Rightarrow> (([], [], Some (''POST wake: '' @ e)), w1)
           | (Inr resp, w1) \<Rightarrow>
               if hr_StatusCode resp \<noteq> 202 then
                 (([], hr_RetryAfter resp,
                   Some (''wake returned '' @ strconv_Itoa (hr_StatusCode resp) @ '': '' @ strings_TrimSpace (hr_Body resp))), w1)
               else (case hc_DecodeAck c (hr_Body resp) of
                       Inl e \<Rightarrow> (([], [], Some (''decode wake response: '' @ e)), w1)
                     | Inr app \<Rightarrow> ((app, [], None), w1))))"

datatype proxy_response = ProxyError int string string | WaitPage string

definition wake_proxy ::
  "'w wake_client \<Rightarrow> string \<Rightarrow> string + string \<Rightarrow> string \<Rightarrow> 'w \<Rightarrow> proxy_response \<times> 'w" where
  "wake_proxy c ctrlPlane token host w =
     (if host = [] then (ProxyError 400 [] ''missing Host header'', w)
      else case token of
        Inl _ \<Rightarrow> (ProxyError 500 [] ''token unavailable'', w)
      | Inr tok \<Rightarrow>
          (case wakeProxyWakeApp c ctrlPlane host tok w of
             ((_, retryAfter, Some e), w1) \<Rightarrow>
               if retryAfter \<noteq> [] then (ProxyError 503 retryAfter ''platform is over budget for this period'', w1)
               else (ProxyError 503 [] (''wake failed: '' @ e), w1)
           | ((appName, _, None), w1) \<Rightarrow>
               (WaitPage (if appName = [] then fst (strings_Cut host (CHR ''.'')) else appName), w1)))"

section \<open>Steps of the endpoint\<close>

text \<open>
  A request, the end of a goroutine, and anything that the rest of the control plane does to the database and
  anyone to the cluster.
\<close>

inductive wake_step :: "henv \<Rightarrow> 'k AppDeployer \<Rightarrow> 'k wstate \<Rightarrow> 'k wstate \<Rightarrow> bool" for h dep where
  wake_request: "internalWakeHandler h dep httpMethod auth host w = (r, w') \<Longrightarrow> wake_step h dep w w'"
| wake_done: "t \<in> set (ws_tasks w) \<Longrightarrow> wake_step h dep w (finish_wake h dep t w)"
| wake_other: "store_steps (ws_db w) s \<Longrightarrow> wake_step h dep w (w\<lparr>ws_db := s, ws_k := k\<rparr>)"

inductive_cases wake_stepE: "wake_step h dep w w'"

definition wake_start :: "'k wstate \<Rightarrow> bool" where
  "wake_start w \<longleftrightarrow> wakingNow w = {} \<and> ws_tasks w = []"

definition wake_inv :: "'k wstate \<Rightarrow> bool" where
  "wake_inv w \<longleftrightarrow> distinct (map tk_ns (ws_tasks w)) \<and> wakingNow w = tk_ns ` set (ws_tasks w)"

lemma internalWakeHandler_cases:
  assumes "internalWakeHandler h dep httpMethod auth host w = (r, w')"
  obtains (refused) "w' = w" "\<forall>a. r \<noteq> WakeAck a"
  | (found) apps app where "ListAllApps (ws_db w) = Inr apps"
      "sel (app_at_host (h_BaseDomain h) (bare_host host)) apps = Some app" "wake_found app w = (r, w')"
  using assms
  by (auto simp: internalWakeHandler_def writeJSONError_def Let_def split: if_splits sum.splits option.splits)

lemma wake_found_steps: "wake_found app w = (r, w') \<Longrightarrow> store_steps (ws_db w) (ws_db w')"
proof -
  assume "wake_found app w = (r, w')"
  moreover have "store_steps (ws_db w) (log_err (ws_db w) (UpdateLastActiveAt (ws_db w) (a_ID app)))"
    by (intro log_err_steps) (auto intro: store_step.intros)
  ultimately show ?thesis by (auto simp: wake_found_def start_wake_def Let_def split: option.splits if_splits)
qed

lemma wake_inv_start: "wake_inv w \<Longrightarrow> wake_inv (start_wake t w)"
  by (auto simp: wake_inv_def start_wake_def)

lemma wake_inv_finish:
  assumes "wake_inv w" "t \<in> set (ws_tasks w)"
  shows "wake_inv (finish_wake h dep t w)"
proof -
  from assms have d: "distinct (map tk_ns (ws_tasks w))" by (simp add: wake_inv_def)
  then have "distinct (ws_tasks w)" "inj_on tk_ns (set (ws_tasks w))" by (simp_all add: distinct_map)
  then have "tk_ns ` set (remove1 t (ws_tasks w)) = tk_ns ` set (ws_tasks w) - {tk_ns t}"
    using assms(2) by (auto simp: inj_on_def)
  moreover have "distinct (map tk_ns (remove1 t (ws_tasks w)))"
    using \<open>distinct (ws_tasks w)\<close> \<open>inj_on tk_ns (set (ws_tasks w))\<close> by (simp add: distinct_map inj_on_def)
  ultimately show ?thesis
    using assms(1) by (simp add: wake_inv_def finish_wake_def split: prod.splits)
qed

lemma wake_inv_db [simp]: "wake_inv (w\<lparr>ws_db := s\<rparr>) = wake_inv w" "wake_inv (w\<lparr>ws_db := s, ws_k := k\<rparr>) = wake_inv w"
  by (simp_all add: wake_inv_def)

lemma wake_inv_found: "wake_found app w = (r, w') \<Longrightarrow> wake_inv w \<Longrightarrow> wake_inv w'"
  by (auto simp: wake_found_def Let_def wake_inv_start split: option.splits)

lemma wake_inv_step: "wake_step h dep w w' \<Longrightarrow> wake_inv w \<Longrightarrow> wake_inv w'"
  by (erule wake_stepE) (auto elim!: internalWakeHandler_cases intro: wake_inv_finish wake_inv_found)

lemma wake_inv_reach: "(wake_step h dep)\<^sup>*\<^sup>* w0 w \<Longrightarrow> wake_start w0 \<Longrightarrow> wake_inv w"
proof (induction rule: rtranclp_induct)
  case base
  then show ?case by (simp add: wake_start_def wake_inv_def)
qed (blast intro: wake_inv_step)

definition limit_blocks :: "db \<Rightarrow> App \<Rightarrow> bool" where
  "limit_blocks s app \<longleftrightarrow> (\<exists>cfg. t_platform_config s = Some cfg \<and> limit_active cfg) \<and> \<not> exempt_at s (a_RepoSlug app) (a_Name app)"

lemma isBudgetBlocked_reliable:
  "reliable s \<Longrightarrow> isBudgetBlocked s (a_RepoSlug app) (a_Name app) =
     (if limit_blocks s app then Some (NextBillingPeriodStart (db_now s)) else None)"
  by (auto simp: isBudgetBlocked_def limit_blocks_def limit_active_def GetPlatformConfig_def GetPlatformConfig_q_def one_def
      split: option.splits)

text \<open>
  C10. Wakes are deduplicated: in every state that the endpoint reaches, at most one goroutine wakes a namespace,
  and wakingNow holds exactly the namespaces that have one. A request that is acknowledged leaves a
  goroutine running for the namespace of the app it names, and has started at most one. The end of
  a goroutine releases its namespace, whether the wake succeeded or not.
\<close>

theorem wake_once_per_namespace:
  assumes "(wake_step h dep)\<^sup>*\<^sup>* w0 w" "wake_start w0"
  shows "distinct (map tk_ns (ws_tasks w)) \<and> wakingNow w = tk_ns ` set (ws_tasks w) \<and>
    (\<forall>httpMethod auth host name w'. internalWakeHandler h dep httpMethod auth host w = (WakeAck name, w') \<longrightarrow>
       (\<exists>app t. app_at_host (h_BaseDomain h) (bare_host host) app \<and> a_Name app = name \<and> t \<in> set (ws_tasks w') \<and>
          a_Namespace app = Some (tk_ns t) \<and> (ws_tasks w' = ws_tasks w \<or> ws_tasks w' = ws_tasks w @ [t]))) \<and>
    (\<forall>t \<in> set (ws_tasks w). tk_ns t \<notin> wakingNow (finish_wake h dep t w))"
proof -
  have inv: "distinct (map tk_ns (ws_tasks w))" "wakingNow w = tk_ns ` set (ws_tasks w)"
    using wake_inv_reach [OF assms] by (simp_all add: wake_inv_def)
  have "\<exists>app t. app_at_host (h_BaseDomain h) (bare_host host) app \<and> a_Name app = name \<and> t \<in> set (ws_tasks w') \<and>
      a_Namespace app = Some (tk_ns t) \<and> (ws_tasks w' = ws_tasks w \<or> ws_tasks w' = ws_tasks w @ [t])"
    if "internalWakeHandler h dep m auth host w = (WakeAck name, w')" for m auth host name w'
    using that
  proof (cases rule: internalWakeHandler_cases)
    case (found apps app)
    from sel_Some [OF found(2)] have app: "app_at_host (h_BaseDomain h) (bare_host host) app" by simp
    then obtain ns where ns: "a_Namespace app = Some ns" by (auto simp: app_at_host_def)
    let ?t = "\<lparr> tk_ns = ns, tk_appID = a_ID app, tk_appType = a_Type app \<rparr>"
    from found(3) ns have w': "a_Name app = name"
      "w' = start_wake ?t (w\<lparr>ws_db := log_err (ws_db w) (UpdateLastActiveAt (ws_db w) (a_ID app))\<rparr>)"
      by (auto simp: wake_found_def Let_def split: option.splits)
    obtain t where "t \<in> set (ws_tasks w')" "tk_ns t = ns" "ws_tasks w' = ws_tasks w \<or> ws_tasks w' = ws_tasks w @ [t]"
    proof (cases "ns \<in> wakingNow w")
      case True
      with inv(2) obtain t where "t \<in> set (ws_tasks w)" "tk_ns t = ns" by auto
      with True w'(2) that show ?thesis by (simp add: start_wake_def)
    next
      case False
      with w'(2) that [of ?t] show ?thesis by (simp add: start_wake_def)
    qed
    with app w'(1) ns show ?thesis by blast
  qed simp
  moreover have "tk_ns t \<notin> wakingNow (finish_wake h dep t w)" for t
    by (simp add: finish_wake_def split: prod.splits)
  ultimately show ?thesis using inv by blast
qed

definition demo_w :: "unit wstate" where
  "demo_w = \<lparr> ws_db = demo_db, ws_k = (), wakingNow = {}, ws_tasks = [] \<rparr>"

lemma demo_list: "ListAllApps demo_db = Inr [demo_app]"
  by (simp add: ListAllApps_reliable) (simp add: demo_db_def demo_app_def)

lemma demo_host: "app_at_host (h_BaseDomain demo_env) (bare_host ''web.r.app.example.com:8443'') demo_app"
  by (simp add: app_at_host_def bare_host_def SplitHostPort_def demo_env_def demo_app_def AppHostname_def RepoName_def strings_Cut_def)

lemma demo_wake: "internalWakeHandler demo_env ok_deployer ''POST'' ''Bearer t'' ''web.r.app.example.com:8443'' demo_w =
    (WakeAck ''web'', snd (wake_found demo_app demo_w))"
proof -
  have "internalWakeHandler demo_env ok_deployer ''POST'' ''Bearer t'' ''web.r.app.example.com:8443'' demo_w = wake_found demo_app demo_w"
    using demo_host by (simp add: internalWakeHandler_def bearer_def strings_TrimPrefix_def strings_HasPrefix_def demo_w_def
        ok_deployer_def demo_list)
  moreover have "\<not> limit_blocks (update_app demo_db i f) demo_app" for i f
    by (simp add: limit_blocks_def limit_active_def update_app_def demo_db_def initial_db_def)
  then have "fst (wake_found demo_app demo_w) = WakeAck (a_Name demo_app)"
    by (simp add: wake_found_def demo_w_def Let_def isBudgetBlocked_reliable)
  then have "fst (wake_found demo_app demo_w) = WakeAck ''web''" by (simp add: demo_app_def)
  ultimately show ?thesis by (metis prod.collapse)
qed

lemma wake_once_per_namespace_witness:
  "wake_start demo_w \<and> (\<exists>t. t \<in> set (ws_tasks (snd (wake_found demo_app demo_w))) \<and>
     ws_tasks (snd (wake_found demo_app demo_w)) \<in> {[], [t]})"
proof -
  have "wake_start demo_w" by (simp add: wake_start_def demo_w_def)
  with wake_once_per_namespace [OF rtranclp.rtrancl_refl [of "wake_step demo_env ok_deployer" demo_w]] demo_wake
  show ?thesis by (fastforce simp: demo_w_def)
qed

section \<open>The budget and the visitor\<close>

text \<open>The endpoint as the proxy reaches it: the query of the URL, and the answer as a response.\<close>

definition serve_wake ::
  "henv \<Rightarrow> 'k AppDeployer \<Rightarrow> (time \<Rightarrow> string) \<Rightarrow> (wake_response \<Rightarrow> string) \<Rightarrow> string \<Rightarrow> string \<Rightarrow> 'k wstate \<Rightarrow>
   (string + http_response) \<times> 'k wstate" where
  "serve_wake h dep httpDate json url auth w =
     (case internalWakeHandler h dep ''POST'' auth (query_Get (url_RawQuery url) ''host'') w of
        (WakeAck app, w1) \<Rightarrow> (Inr \<lparr> hr_StatusCode = 202, hr_RetryAfter = [], hr_Body = json (WakeAck app) \<rparr>, w1)
      | (WakeError status code message remedy retry, w1) \<Rightarrow>
          (Inr \<lparr> hr_StatusCode = status, hr_RetryAfter = (case retry of None \<Rightarrow> [] | Some t \<Rightarrow> httpDate t),
                hr_Body = json (WakeError status code message remedy retry) \<rparr>, w1))"

text \<open>
  C25. What a visitor of a hibernated app sees, from the proxy through the endpoint: on a reliable database,
  when the host (with or without a port) is that of an app, the visitor gets the wait page with the
  name of the app and its wake is under way, unless a budget limit is active and the app not
  exempt; then the visitor is told to come back in the next billing period and nothing is started.
  Either way the app counts as active now.
\<close>

theorem proxied_visit:
  assumes "host \<noteq> []" "CHR ''?'' \<notin> set ctrlPlane" "tok \<noteq> []" "dp_VerifyWakeToken dep (ws_k w) tok = None"
    and "\<And>url. hc_NewRequest c url = None" "hc_Do c = serve_wake h dep httpDate json"
    and "\<And>a. hc_DecodeAck c (json (WakeAck a)) = Inr a" "\<And>t. httpDate t \<noteq> []"
    and "reliable (ws_db w)" "ListAllApps (ws_db w) = Inr apps"
    and "sel (app_at_host (h_BaseDomain h) (bare_host host)) apps = Some app" "a_Name app \<noteq> []" "a_Namespace app = Some ns"
    and "s1 = update_app (ws_db w) (a_ID app) (\<lambda>a. a\<lparr>a_LastActiveAt := Some (sql_now (ws_db w))\<rparr>)"
  shows "wake_proxy c ctrlPlane (Inr tok) host w =
    (if limit_blocks s1 app
     then (ProxyError 503 (httpDate (NextBillingPeriodStart (db_now (ws_db w)))) ''platform is over budget for this period'',
           w\<lparr>ws_db := s1\<rparr>)
     else (WaitPage (a_Name app), start_wake \<lparr> tk_ns = ns, tk_appID = a_ID app, tk_appType = a_Type app \<rparr> (w\<lparr>ws_db := s1\<rparr>)))"
proof -
  let ?url = "ctrlPlane @ ''/internal/wake?host='' @ QueryEscape host"
  have q: "query_Get (url_RawQuery ?url) ''host'' = host"
    using query_Get_escaped [of "ctrlPlane @ ''/internal/wake''" host] assms(2) by simp
  have b: "bearer (''Bearer '' @ tok) = tok" unfolding bearer_def by (rule strings_TrimPrefix_append)
  have s1: "log_err (ws_db w) (UpdateLastActiveAt (ws_db w) (a_ID app)) = s1" "reliable s1" "db_now s1 = db_now (ws_db w)"
    using assms(9,14) by (simp, simp, simp add: update_app_def)
  have found: "wake_found app w =
      (if limit_blocks s1 app
       then (WakeError 503 ''budget_soft_limit'' ''platform is over budget for this period'' ''wait for the next billing period''
               (Some (NextBillingPeriodStart (db_now (ws_db w)))), w\<lparr>ws_db := s1\<rparr>)
       else (WakeAck (a_Name app), start_wake \<lparr> tk_ns = ns, tk_appID = a_ID app, tk_appType = a_Type app \<rparr> (w\<lparr>ws_db := s1\<rparr>)))"
    by (simp add: wake_found_def Let_def s1 isBudgetBlocked_reliable assms(13))
  have "internalWakeHandler h dep ''POST'' (''Bearer '' @ tok) host w = wake_found app w"
    unfolding internalWakeHandler_def b using assms(1,3,4,10,11) by (simp add: Let_def)
  with found have "serve_wake h dep httpDate json ?url (''Bearer '' @ tok) w =
      (if limit_blocks s1 app
       then (Inr \<lparr> hr_StatusCode = 503, hr_RetryAfter = httpDate (NextBillingPeriodStart (db_now (ws_db w))),
               hr_Body = json (WakeError 503 ''budget_soft_limit'' ''platform is over budget for this period''
                 ''wait for the next billing period'' (Some (NextBillingPeriodStart (db_now (ws_db w))))) \<rparr>, w\<lparr>ws_db := s1\<rparr>)
       else (Inr \<lparr> hr_StatusCode = 202, hr_RetryAfter = [], hr_Body = json (WakeAck (a_Name app)) \<rparr>,
             start_wake \<lparr> tk_ns = ns, tk_appID = a_ID app, tk_appType = a_Type app \<rparr> (w\<lparr>ws_db := s1\<rparr>)))"
    unfolding serve_wake_def q by simp
  then show ?thesis
    unfolding wake_proxy_def wakeProxyWakeApp_def Let_def assms(6) using assms(1,5,7,8,12) by simp
qed

definition demo_json :: "wake_response \<Rightarrow> string" where
  "demo_json r = (case r of WakeAck a \<Rightarrow> a | WakeError _ code _ _ _ \<Rightarrow> code)"

definition demo_client :: "unit wstate wake_client" where
  "demo_client = \<lparr> hc_NewRequest = (\<lambda>_. None), hc_Do = serve_wake demo_env ok_deployer (\<lambda>_. ''date'') demo_json, hc_DecodeAck = Inr \<rparr>"

lemma proxied_visit_witness:
  "fst (wake_proxy demo_client ''http://api'' (Inr ''t'') ''web.r.app.example.com:8443'' demo_w) = WaitPage ''web''"
proof -
  let ?s1 = "update_app (ws_db demo_w) (a_ID demo_app) (\<lambda>a. a\<lparr>a_LastActiveAt := Some (sql_now (ws_db demo_w))\<rparr>)"
  have sel: "sel (app_at_host (h_BaseDomain demo_env) (bare_host ''web.r.app.example.com:8443'')) [demo_app] = Some demo_app"
    using demo_host by simp
  have "\<not> limit_blocks ?s1 demo_app"
    by (simp add: limit_blocks_def limit_active_def update_app_def demo_w_def demo_db_def initial_db_def)
  moreover have "wake_proxy demo_client ''http://api'' (Inr ''t'') ''web.r.app.example.com:8443'' demo_w =
      (if limit_blocks ?s1 demo_app
       then (ProxyError 503 ''date'' ''platform is over budget for this period'', demo_w\<lparr>ws_db := ?s1\<rparr>)
       else (WaitPage (a_Name demo_app),
         start_wake \<lparr> tk_ns = ''o-r--web'', tk_appID = a_ID demo_app, tk_appType = a_Type demo_app \<rparr> (demo_w\<lparr>ws_db := ?s1\<rparr>)))"
    by (rule proxied_visit [where dep = ok_deployer and h = demo_env and httpDate = "\<lambda>_. ''date''" and json = demo_json and
          apps = "[demo_app]"])
      (use sel in \<open>simp_all add: demo_client_def demo_json_def demo_list demo_w_def ok_deployer_def\<close>, simp_all add: demo_app_def)
  ultimately show ?thesis by (simp add: demo_app_def)
qed

section \<open>The bill\<close>

lemma run_event_down: "se_Event e = ''scale_to_0'' \<Longrightarrow> snd (run_event (tot, s) e) = 0"
  by (simp add: run_event_def time_IsZero_def)

text \<open>After a last event scale_to_0 the running hours do not grow.\<close>

lemma RunningHours_stopped:
  assumes "se_Event (last events) = ''scale_to_0''" "events \<noteq> []"
  shows "RunningHours events periodStart now hibernated = RunningHours events periodStart now' hibernated'"
proof -
  obtain es e where ev: "events = es @ [e]" using assms(2) by (metis append_butlast_last_id)
  have "snd (foldl run_event x events) = 0" for x
    using assms(1) run_event_down [of e] by (cases "foldl run_event x es") (simp add: ev)
  then obtain total where "foldl run_event (0, if (case events of [] \<Rightarrow> False | e # _ \<Rightarrow> se_Event e = ''scale_to_0'')
      then periodStart else 0) events = (total, 0)" by (metis prod.collapse)
  then have "run_total events periodStart t b = total" for t b
    using assms(2) by (simp add: run_total_def Let_def time_IsZero_def)
  then show ?thesis by (simp add: RunningHours_def)
qed


definition slept_db :: db where
  "slept_db = demo_db\<lparr>t_scale_events := [\<lparr> se_ID = 1, se_Namespace = ''o-r--web'', se_App = ''web'', se_Event = ''scale_to_0'',
     se_OccurredAt = 5 \<rparr>]\<rparr>"


end
