(* ===== verification/Kube.thy ===== *)
theory Kube
  imports Lifecycle Secrets
begin

text \<open>
  The Kubernetes client: the operations of \<open>internal/kube\<close> on the resources of an app
  (\<open>manifest.go\<close>, \<open>gateway.go\<close>, \<open>scale.go\<close>, \<open>rollout.go\<close>, \<open>status.go\<close>, \<open>VerifyWakeToken\<close> of \<open>wake_proxy.go\<close>).

  The API server is not part of the repository: it is an argument, the record \<open>kube_client\<close> of its calls on
  a state \<open>'k\<close> of the cluster. An object has the fields that the code sets or reads. An error that is
  passed on keeps its text.
\<close>

section \<open>Objects\<close>

type_synonym labels = "(string \<times> string) list"

record ObjectMeta =
  om_Name :: string
  om_Namespace :: string
  om_Labels :: labels
  om_Generation :: int

definition object_meta :: "string \<Rightarrow> string \<Rightarrow> labels \<Rightarrow> ObjectMeta" where
  "object_meta name ns labels = \<lparr> om_Name = name, om_Namespace = ns, om_Labels = labels, om_Generation = 0 \<rparr>"

record Probe =
  pr_Path :: string
  pr_Port :: int
  pr_InitialDelaySeconds :: int
  pr_PeriodSeconds :: int
  pr_FailureThreshold :: int

record Container =
  ct_Name :: string
  ct_Image :: string
  ct_ImagePullPolicy :: string
  ct_Args :: "string list"
  ct_Env :: "(string \<times> string) list"
  ct_Ports :: "(int \<times> string) list"
  ct_ReadinessProbe :: "Probe option"
  ct_VolumeMounts :: "(string \<times> string \<times> bool) list"

datatype VolumeSource = PersistentVolumeClaimSource string | ServiceAccountTokenSource string int string

record PodSpec =
  pod_ServiceAccountName :: string
  pod_RestartPolicy :: string
  pod_SecurityContext :: "(int \<times> int \<times> int) option"
  pod_Containers :: "Container list"
  pod_Volumes :: "(string \<times> VolumeSource) list"

record PodTemplateSpec =
  pt_Labels :: labels
  pt_Spec :: PodSpec

record DeploymentSpec =
  ds_Replicas :: "int option"
  ds_Selector :: labels
  ds_Template :: PodTemplateSpec

record DeploymentStatus =
  dst_ObservedGeneration :: int
  dst_UpdatedReplicas :: int
  dst_ReadyReplicas :: int
  dst_UnavailableReplicas :: int

record Deployment =
  d_Meta :: ObjectMeta
  d_Spec :: DeploymentSpec
  d_Status :: DeploymentStatus

record CronJob =
  cj_Meta :: ObjectMeta
  cj_Schedule :: string
  cj_Suspend :: "bool option"
  cj_Template :: PodTemplateSpec
  cj_Active :: nat
  cj_LastSuccessfulTime :: "time option"

record ServicePort =
  svp_Name :: string
  svp_Port :: int
  svp_TargetPort :: "int option"
  svp_NodePort :: int

record Service =
  sv_Meta :: ObjectMeta
  sv_Type :: string
  sv_Selector :: labels
  sv_Ports :: "ServicePort list"

record BackendRef =
  br_Name :: string
  br_Namespace :: "string option"
  br_Port :: int

record HTTPRouteSpec =
  hs_ParentRefs :: "(string \<times> string) list"
  hs_Hostnames :: "string list"
  hs_Rules :: "BackendRef list list"

record HTTPRoute =
  hr_Meta :: ObjectMeta
  hr_Spec :: HTTPRouteSpec

record ReferenceGrant =
  rg_Meta :: ObjectMeta
  rg_From :: "(string \<times> string \<times> string) list"
  rg_To :: "(string \<times> string) list"

record ResourceQuota =
  rq_Meta :: ObjectMeta
  rq_Hard :: "(string \<times> string) list"

record LimitRangeItem =
  li_Type :: string
  li_Default :: "(string \<times> string) list"
  li_DefaultRequest :: "(string \<times> string) list"
  li_Max :: "(string \<times> string) list"

record LimitRange =
  lr_Meta :: ObjectMeta
  lr_Limits :: "LimitRangeItem list"

datatype NetworkPolicyPeer = PodPeer labels | NamespacePeer labels

record IngressRule =
  ig_From :: "NetworkPolicyPeer list"
  ig_Ports :: "(string \<times> int) list"

record NetworkPolicy =
  np_Meta :: ObjectMeta
  np_PodSelector :: labels
  np_PolicyTypes :: "string list"
  np_Ingress :: "IngressRule list"

record Secret =
  sc_Meta :: ObjectMeta
  sc_Type :: string
  sc_Data :: "(string \<times> string) list"

record Pod =
  pd_Phase :: string
  pd_Waiting :: "(string \<times> string) option list"

datatype kobj =
    ONamespace ObjectMeta
  | OServiceAccount ObjectMeta
  | OResourceQuota ResourceQuota
  | OLimitRange LimitRange
  | ONetworkPolicy NetworkPolicy
  | ODeployment Deployment
  | OCronJob CronJob
  | OService Service
  | OHTTPRoute HTTPRoute
  | OReferenceGrant ReferenceGrant
  | OSecret Secret

datatype kind =
    KNamespace | KServiceAccount | KResourceQuota | KLimitRange | KNetworkPolicy | KDeployment
  | KCronJob | KService | KHTTPRoute | KReferenceGrant | KSecret

fun kind_of :: "kobj \<Rightarrow> kind" where
  "kind_of (ONamespace _) = KNamespace"
| "kind_of (OServiceAccount _) = KServiceAccount"
| "kind_of (OResourceQuota _) = KResourceQuota"
| "kind_of (OLimitRange _) = KLimitRange"
| "kind_of (ONetworkPolicy _) = KNetworkPolicy"
| "kind_of (ODeployment _) = KDeployment"
| "kind_of (OCronJob _) = KCronJob"
| "kind_of (OService _) = KService"
| "kind_of (OHTTPRoute _) = KHTTPRoute"
| "kind_of (OReferenceGrant _) = KReferenceGrant"
| "kind_of (OSecret _) = KSecret"

fun meta_of :: "kobj \<Rightarrow> ObjectMeta" where
  "meta_of (ONamespace m) = m"
| "meta_of (OServiceAccount m) = m"
| "meta_of (OResourceQuota x) = rq_Meta x"
| "meta_of (OLimitRange x) = lr_Meta x"
| "meta_of (ONetworkPolicy x) = np_Meta x"
| "meta_of (ODeployment x) = d_Meta x"
| "meta_of (OCronJob x) = cj_Meta x"
| "meta_of (OService x) = sv_Meta x"
| "meta_of (OHTTPRoute x) = hr_Meta x"
| "meta_of (OReferenceGrant x) = rg_Meta x"
| "meta_of (OSecret x) = sc_Meta x"

definition name_of :: "kobj \<Rightarrow> string" where
  "name_of x = om_Name (meta_of x)"

section \<open>The API\<close>

text \<open>
  \<open>kc_Wait\<close> is a wait of one poll interval that began at an instant: the error of a cancelled context, or what
  the cluster has become and by how many nanoseconds the wait was too long.
\<close>

record 'k kube_client =
  kc_Get :: "'k \<Rightarrow> kind \<Rightarrow> string \<Rightarrow> string \<Rightarrow> k8s_error + kobj"
  kc_Create :: "'k \<Rightarrow> string \<Rightarrow> kobj \<Rightarrow> k8s_error option \<times> 'k"
  kc_Update :: "'k \<Rightarrow> string \<Rightarrow> kobj \<Rightarrow> k8s_error option \<times> 'k"
  kc_Delete :: "'k \<Rightarrow> kind \<Rightarrow> string \<Rightarrow> string \<Rightarrow> k8s_error option \<times> 'k"
  kc_ListPods :: "'k \<Rightarrow> string \<Rightarrow> k8s_error + Pod list"
  kc_TokenReview :: "'k \<Rightarrow> string \<Rightarrow> string list \<Rightarrow> string + bool \<times> string"
  kc_NotAfter :: "string \<Rightarrow> string + time"
  kc_Wait :: "'k \<Rightarrow> time \<Rightarrow> string option \<times> 'k \<times> nat"

definition k8s_text :: "k8s_error \<Rightarrow> string" where
  "k8s_text e = (case e of K8sErr m \<Rightarrow> m | IsNotFound \<Rightarrow> ''not found'' | AlreadyExists \<Rightarrow> ''already exists'')"

definition raw_err :: "k8s_error option \<times> 'k \<Rightarrow> 'k effect" where
  "raw_err r = (map_option k8s_text (fst r), snd r)"

definition wrap_err :: "string \<Rightarrow> 'k effect \<Rightarrow> 'k effect" where
  "wrap_err prefix r = (map_option (\<lambda>e. prefix @ '': '' @ e) (fst r), snd r)"

text \<open>A typed read: the answer is decoded into the type that was asked for.\<close>

definition get_as :: "'k kube_client \<Rightarrow> kind \<Rightarrow> (kobj \<Rightarrow> 'o option) \<Rightarrow> 'k \<Rightarrow> string \<Rightarrow> string \<Rightarrow> k8s_error + 'o" where
  "get_as c kd as k ns name =
     (case kc_Get c k kd ns name of
        Inl e \<Rightarrow> Inl e
      | Inr x \<Rightarrow> (case as x of None \<Rightarrow> Inl (K8sErr ''unable to decode'') | Some y \<Rightarrow> Inr y))"

definition as_Deployment :: "kobj \<Rightarrow> Deployment option" where
  "as_Deployment x = (case x of ODeployment d \<Rightarrow> Some d | _ \<Rightarrow> None)"

definition as_CronJob :: "kobj \<Rightarrow> CronJob option" where
  "as_CronJob x = (case x of OCronJob d \<Rightarrow> Some d | _ \<Rightarrow> None)"

definition as_Service :: "kobj \<Rightarrow> Service option" where
  "as_Service x = (case x of OService d \<Rightarrow> Some d | _ \<Rightarrow> None)"

definition as_HTTPRoute :: "kobj \<Rightarrow> HTTPRoute option" where
  "as_HTTPRoute x = (case x of OHTTPRoute d \<Rightarrow> Some d | _ \<Rightarrow> None)"

definition as_ReferenceGrant :: "kobj \<Rightarrow> ReferenceGrant option" where
  "as_ReferenceGrant x = (case x of OReferenceGrant d \<Rightarrow> Some d | _ \<Rightarrow> None)"

definition as_ResourceQuota :: "kobj \<Rightarrow> ResourceQuota option" where
  "as_ResourceQuota x = (case x of OResourceQuota d \<Rightarrow> Some d | _ \<Rightarrow> None)"

definition as_LimitRange :: "kobj \<Rightarrow> LimitRange option" where
  "as_LimitRange x = (case x of OLimitRange d \<Rightarrow> Some d | _ \<Rightarrow> None)"

definition as_NetworkPolicy :: "kobj \<Rightarrow> NetworkPolicy option" where
  "as_NetworkPolicy x = (case x of ONetworkPolicy d \<Rightarrow> Some d | _ \<Rightarrow> None)"

definition as_Secret :: "kobj \<Rightarrow> Secret option" where
  "as_Secret x = (case x of OSecret d \<Rightarrow> Some d | _ \<Rightarrow> None)"

text \<open>
  The two shapes in which the client writes an object: create it when it is missing and leave it otherwise,
  or create it when it is missing and update what was read otherwise.
\<close>

definition create_if_missing :: "'k kube_client \<Rightarrow> string \<Rightarrow> kobj \<Rightarrow> 'k \<Rightarrow> 'k effect" where
  "create_if_missing c ns desired k =
     (case kc_Get c k (kind_of desired) ns (name_of desired) of
        Inl IsNotFound \<Rightarrow> raw_err (kc_Create c k ns desired)
      | Inl e \<Rightarrow> (Some (k8s_text e), k)
      | Inr _ \<Rightarrow> (None, k))"

definition create_or_update ::
  "'k kube_client \<Rightarrow> (kobj \<Rightarrow> 'o option) \<Rightarrow> ('o \<Rightarrow> kobj) \<Rightarrow> string \<Rightarrow> 'o \<Rightarrow> ('o \<Rightarrow> 'o) \<Rightarrow> 'k \<Rightarrow> 'k effect" where
  "create_or_update c as mk ns desired merge k =
     (case get_as c (kind_of (mk desired)) as k ns (name_of (mk desired)) of
        Inl IsNotFound \<Rightarrow> raw_err (kc_Create c k ns (mk desired))
      | Inl e \<Rightarrow> (Some (k8s_text e), k)
      | Inr existing \<Rightarrow> raw_err (kc_Update c k ns (mk (merge existing))))"

text \<open>Deleting, where a missing object is no error.\<close>

definition delete_object :: "'k kube_client \<Rightarrow> kind \<Rightarrow> string \<Rightarrow> string \<Rightarrow> 'k \<Rightarrow> 'k effect" where
  "delete_object c kd ns name k =
     (case kc_Delete c k kd ns name of
        (Some IsNotFound, k1) \<Rightarrow> (None, k1)
      | r \<Rightarrow> raw_err r)"

section \<open>Names and limits\<close>

definition morselNamespace :: string where "morselNamespace = ''morsel''"
definition envoyGatewayNamespace :: string where "envoyGatewayNamespace = ''envoy-gateway-system''"
definition containerName :: string where "containerName = ''app''"
definition serviceAccountName :: string where "serviceAccountName = ''morsel-app''"
definition deploymentName :: string where "deploymentName = ''app''"
definition cronJobName :: string where "cronJobName = ''app''"
definition quotaName :: string where "quotaName = ''morsel-quota''"
definition limitRangeName :: string where "limitRangeName = ''morsel-limits''"
definition networkPolicyName :: string where "networkPolicyName = ''morsel-netpol''"
definition appServiceName :: string where "appServiceName = ''app''"
definition appServicePort :: int where "appServicePort = 8080"
definition httprouteName :: string where "httprouteName = ''app''"
definition GatewayInternal :: string where "GatewayInternal = ''morsel-internal''"
definition wakeProxyService :: string where "wakeProxyService = ''wake-proxy''"
definition wakeProxyNamespace :: string where "wakeProxyNamespace = ''morsel-services''"
definition wakeProxyPort :: int where "wakeProxyPort = 8080"
definition wakeProxyReferenceGrantName :: string where "wakeProxyReferenceGrantName = ''wake-proxy-access''"
definition wakeProxyServiceAccountName :: string where "wakeProxyServiceAccountName = ''morsel-wake-proxy''"
definition wakeProxyTokenAudience :: string where "wakeProxyTokenAudience = ''morsel-internal-wake''"

definition smallBaseline :: TierLimits where
  "smallBaseline = \<lparr> tl_CPUMilli = 500, tl_MemoryMB = 512 \<rparr>"

definition resolved :: "TierLimits \<Rightarrow> TierLimits" where
  "resolved t =
     \<lparr> tl_CPUMilli = (if tl_CPUMilli t = 0 then tl_CPUMilli smallBaseline else tl_CPUMilli t),
       tl_MemoryMB = (if tl_MemoryMB t = 0 then tl_MemoryMB smallBaseline else tl_MemoryMB t) \<rparr>"

definition resolvePort :: "AppManifest \<Rightarrow> int" where
  "resolvePort m = (if m_Port m > 0 then m_Port m else appServicePort)"

definition appHostname :: "string \<Rightarrow> string \<Rightarrow> string \<Rightarrow> string" where
  "appHostname appName repoName baseDomain = appName @ ''.'' @ repoName @ ''.app.'' @ baseDomain"

definition managed :: labels where
  "managed = [(''morsel.io/managed'', ''true'')]"

text \<open>Division of a Go int by 4, towards zero.\<close>

definition quarter :: "int \<Rightarrow> int" where
  "quarter i = (if i < 0 then - ((- i) div 4) else i div 4)"

definition milli :: "int \<Rightarrow> string" where "milli i = strconv_Itoa i @ ''m''"
definition mebi :: "int \<Rightarrow> string" where "mebi i = strconv_Itoa i @ ''Mi''"

section \<open>Applying an app\<close>

definition ensureNamespace :: "'k kube_client \<Rightarrow> string \<Rightarrow> 'k \<Rightarrow> 'k effect" where
  "ensureNamespace c name =
     create_if_missing c []
       (ONamespace (object_meta name [] [(''morsel.io/managed'', ''true''), (''morsel.io/app-ns'', ''true'')]))"

definition quota_hard :: "TierLimits \<Rightarrow> (string \<times> string) list" where
  "quota_hard limits =
     (let lim = resolved limits in
      [(''pods'', ''10''),
       (''requests.cpu'', milli (quarter (tl_CPUMilli lim))),
       (''requests.memory'', mebi (quarter (tl_MemoryMB lim))),
       (''limits.cpu'', milli (tl_CPUMilli lim)),
       (''limits.memory'', mebi (tl_MemoryMB lim))])"

definition applyResourceQuota :: "'k kube_client \<Rightarrow> string \<Rightarrow> TierLimits \<Rightarrow> 'k \<Rightarrow> 'k effect" where
  "applyResourceQuota c namespace limits =
     create_or_update c as_ResourceQuota OResourceQuota namespace
       \<lparr> rq_Meta = object_meta quotaName namespace [], rq_Hard = quota_hard limits \<rparr>
       (\<lambda>existing. existing\<lparr>rq_Hard := quota_hard limits\<rparr>)"

definition limit_items :: "TierLimits \<Rightarrow> LimitRangeItem list" where
  "limit_items limits =
     (let lim = resolved limits;
          full = [(''cpu'', milli (tl_CPUMilli lim)), (''memory'', mebi (tl_MemoryMB lim))]
      in [\<lparr> li_Type = ''Container'', li_Default = full,
            li_DefaultRequest = [(''cpu'', ''50m''), (''memory'', ''64Mi'')], li_Max = full \<rparr>])"

definition applyLimitRange :: "'k kube_client \<Rightarrow> string \<Rightarrow> TierLimits \<Rightarrow> 'k \<Rightarrow> 'k effect" where
  "applyLimitRange c namespace limits =
     create_or_update c as_LimitRange OLimitRange namespace
       \<lparr> lr_Meta = object_meta limitRangeName namespace [], lr_Limits = limit_items limits \<rparr>
       (\<lambda>existing. existing\<lparr>lr_Limits := limit_items limits\<rparr>)"

definition app_ingress :: "int \<Rightarrow> IngressRule list" where
  "app_ingress port =
     [\<lparr> ig_From = [PodPeer []], ig_Ports = [] \<rparr>,
      \<lparr> ig_From = [NamespacePeer [(''kubernetes.io/metadata.name'', morselNamespace)],
                    NamespacePeer [(''kubernetes.io/metadata.name'', envoyGatewayNamespace)]],
        ig_Ports = [(''TCP'', port)] \<rparr>]"

definition applyNetworkPolicy :: "'k kube_client \<Rightarrow> string \<Rightarrow> int \<Rightarrow> 'k \<Rightarrow> 'k effect" where
  "applyNetworkPolicy c namespace port =
     create_or_update c as_NetworkPolicy ONetworkPolicy namespace
       \<lparr> np_Meta = object_meta networkPolicyName namespace [], np_PodSelector = [], np_PolicyTypes = [''Ingress''],
         np_Ingress = app_ingress port \<rparr>
       (\<lambda>existing. existing\<lparr>np_PodSelector := [], np_PolicyTypes := [''Ingress''], np_Ingress := app_ingress port\<rparr>)"

definition applyServiceAccount :: "'k kube_client \<Rightarrow> string \<Rightarrow> 'k \<Rightarrow> 'k effect" where
  "applyServiceAccount c namespace =
     create_if_missing c namespace (OServiceAccount (object_meta serviceAccountName namespace managed))"

text \<open>The variables of the environment, a map of Go, in the order in which it is iterated.\<close>

definition envVars :: "(string \<times> string) list \<Rightarrow> int \<Rightarrow> (string \<times> string) list" where
  "envVars env port = (if port > 0 then [(''PORT'', strconv_Itoa port)] else []) @ env"

definition plain_container :: "string \<Rightarrow> string \<Rightarrow> (string \<times> string) list \<Rightarrow> Container" where
  "plain_container name img env =
     \<lparr> ct_Name = name, ct_Image = img, ct_ImagePullPolicy = [], ct_Args = [], ct_Env = env, ct_Ports = [],
       ct_ReadinessProbe = None, ct_VolumeMounts = [] \<rparr>"

definition pod_of :: "string \<Rightarrow> string \<Rightarrow> Container list \<Rightarrow> PodSpec" where
  "pod_of sa restart cs =
     \<lparr> pod_ServiceAccountName = sa, pod_RestartPolicy = restart, pod_SecurityContext = None, pod_Containers = cs,
       pod_Volumes = [] \<rparr>"

definition app_labels :: "string \<Rightarrow> labels" where
  "app_labels appName = [(''morsel.io/app'', appName)]"

definition new_status :: DeploymentStatus where
  "new_status = \<lparr> dst_ObservedGeneration = 0, dst_UpdatedReplicas = 0, dst_ReadyReplicas = 0, dst_UnavailableReplicas = 0 \<rparr>"

definition app_deployment_spec :: "AppManifest \<Rightarrow> DeploymentSpec" where
  "app_deployment_spec m =
     \<lparr> ds_Replicas = Some 1, ds_Selector = app_labels (m_AppName m),
       ds_Template = \<lparr> pt_Labels = app_labels (m_AppName m),
         pt_Spec = pod_of serviceAccountName [] [plain_container containerName (m_Image m) (envVars (m_Env m) (resolvePort m))] \<rparr> \<rparr>"

definition applyDeployment :: "'k kube_client \<Rightarrow> AppManifest \<Rightarrow> 'k \<Rightarrow> 'k effect" where
  "applyDeployment c m =
     create_or_update c as_Deployment ODeployment (m_Namespace m)
       \<lparr> d_Meta = object_meta deploymentName (m_Namespace m) (app_labels (m_AppName m)),
         d_Spec = app_deployment_spec m, d_Status = new_status \<rparr>
       (\<lambda>existing. existing\<lparr>d_Spec := app_deployment_spec m\<rparr>)"

definition applyCronJob :: "'k kube_client \<Rightarrow> AppManifest \<Rightarrow> 'k \<Rightarrow> 'k effect" where
  "applyCronJob c m =
     (let schedule = (if m_Schedule m = [] then ''0 * * * *'' else m_Schedule m);
          template = \<lparr> pt_Labels = app_labels (m_AppName m),
            pt_Spec = pod_of serviceAccountName ''OnFailure'' [plain_container containerName (m_Image m) (envVars (m_Env m) 0)] \<rparr>
      in create_or_update c as_CronJob OCronJob (m_Namespace m)
           \<lparr> cj_Meta = object_meta cronJobName (m_Namespace m) (app_labels (m_AppName m)), cj_Schedule = schedule,
             cj_Suspend = None, cj_Template = template, cj_Active = 0, cj_LastSuccessfulTime = None \<rparr>
           (\<lambda>existing. existing\<lparr>cj_Schedule := schedule, cj_Suspend := None, cj_Template := template\<rparr>))"

definition ApplyAppService :: "'k kube_client \<Rightarrow> string \<Rightarrow> string \<Rightarrow> int \<Rightarrow> 'k \<Rightarrow> 'k effect" where
  "ApplyAppService c namespace appName port =
     (let ports = [\<lparr> svp_Name = ''http'', svp_Port = port, svp_TargetPort = None, svp_NodePort = 0 \<rparr>]
      in create_or_update c as_Service OService namespace
           \<lparr> sv_Meta = object_meta appServiceName namespace (managed @ app_labels appName), sv_Type = [],
             sv_Selector = app_labels appName, sv_Ports = ports \<rparr>
           (\<lambda>existing. existing\<lparr>sv_Ports := ports, sv_Selector := app_labels appName\<rparr>))"

definition route_spec :: "string \<Rightarrow> string \<Rightarrow> string list \<Rightarrow> BackendRef \<Rightarrow> HTTPRouteSpec" where
  "route_spec gatewayNS gatewayName hosts backend =
     \<lparr> hs_ParentRefs = [(gatewayName, gatewayNS)], hs_Hostnames = hosts, hs_Rules = [[backend]] \<rparr>"

definition apply_route :: "'k kube_client \<Rightarrow> string \<Rightarrow> string \<Rightarrow> HTTPRouteSpec \<Rightarrow> 'k \<Rightarrow> 'k effect" where
  "apply_route c namespace name spec =
     create_or_update c as_HTTPRoute OHTTPRoute namespace
       \<lparr> hr_Meta = object_meta name namespace managed, hr_Spec = spec \<rparr>
       (\<lambda>existing. existing\<lparr>hr_Spec := spec\<rparr>)"

definition app_route :: "string \<Rightarrow> string \<Rightarrow> string \<Rightarrow> string \<Rightarrow> int \<Rightarrow> HTTPRouteSpec" where
  "app_route namespace host gatewayNS gatewayName port =
     route_spec gatewayNS gatewayName [host] \<lparr> br_Name = appServiceName, br_Namespace = Some namespace, br_Port = port \<rparr>"

definition ApplyHTTPRoute :: "'k kube_client \<Rightarrow> string \<Rightarrow> string \<Rightarrow> string \<Rightarrow> string \<Rightarrow> int \<Rightarrow> 'k \<Rightarrow> 'k effect" where
  "ApplyHTTPRoute c namespace host gatewayNS gatewayName port =
     apply_route c namespace httprouteName (app_route namespace host gatewayNS gatewayName port)"

definition applyWorkload :: "'k kube_client \<Rightarrow> AppManifest \<Rightarrow> 'k \<Rightarrow> 'k effect" where
  "applyWorkload c m k =
     (if m_Type m = ''cron'' then wrap_err ''cronjob'' (applyCronJob c m k)
      else wrap_err ''deployment'' (applyDeployment c m k))"

definition applyRouting :: "'k kube_client \<Rightarrow> AppManifest \<Rightarrow> 'k \<Rightarrow> 'k effect" where
  "applyRouting c m k =
     (if m_Type m = ''http'' \<and> m_BaseDomain m \<noteq> [] then
        let port = resolvePort m;
            host = appHostname (m_AppName m) (m_RepoName m) (m_BaseDomain m);
            gatewayNS = (if m_GatewayNS m = [] then morselNamespace else m_GatewayNS m);
            gatewayName = (if m_Private m then GatewayInternal else GatewayExternal)
        in and_then (wrap_err ''app service'' (ApplyAppService c (m_Namespace m) (m_AppName m) port k))
             (\<lambda>k. wrap_err ''httproute'' (ApplyHTTPRoute c (m_Namespace m) host gatewayNS gatewayName port k))
      else (None, k))"

definition ApplyNamespaceTier :: "'k kube_client \<Rightarrow> string \<Rightarrow> TierLimits \<Rightarrow> 'k \<Rightarrow> 'k effect" where
  "ApplyNamespaceTier c namespace limits k =
     and_then (wrap_err ''resource quota'' (applyResourceQuota c namespace limits k))
       (\<lambda>k. wrap_err ''limit range'' (applyLimitRange c namespace limits k))"

definition Apply :: "'k kube_client \<Rightarrow> AppManifest \<Rightarrow> 'k \<Rightarrow> 'k effect" where
  "Apply c m k =
     and_then (wrap_err ''namespace'' (ensureNamespace c (m_Namespace m) k)) (\<lambda>k.
     and_then (wrap_err ''resource quota'' (applyResourceQuota c (m_Namespace m) (m_Limits m) k)) (\<lambda>k.
     and_then (wrap_err ''limit range'' (applyLimitRange c (m_Namespace m) (m_Limits m) k)) (\<lambda>k.
     and_then (wrap_err ''network policy'' (applyNetworkPolicy c (m_Namespace m) (resolvePort m) k)) (\<lambda>k.
     and_then (wrap_err ''service account'' (applyServiceAccount c (m_Namespace m) k)) (\<lambda>k.
     and_then (applyWorkload c m k) (applyRouting c m))))))"

section \<open>Deleting an app\<close>

definition DeleteHTTPRoute :: "'k kube_client \<Rightarrow> string \<Rightarrow> 'k \<Rightarrow> 'k effect" where
  "DeleteHTTPRoute c namespace = delete_object c KHTTPRoute namespace httprouteName"

definition DeleteAppService :: "'k kube_client \<Rightarrow> string \<Rightarrow> 'k \<Rightarrow> 'k effect" where
  "DeleteAppService c namespace = delete_object c KService namespace appServiceName"

definition DeleteAppNamespace :: "'k kube_client \<Rightarrow> string \<Rightarrow> 'k \<Rightarrow> 'k effect" where
  "DeleteAppNamespace c namespace = delete_object c KNamespace [] namespace"

definition Delete :: "'k kube_client \<Rightarrow> string \<Rightarrow> 'k \<Rightarrow> 'k effect" where
  "Delete c namespace k =
     and_then (wrap_err ''delete httproute'' (DeleteHTTPRoute c namespace k)) (\<lambda>k.
     and_then (wrap_err ''delete app service'' (DeleteAppService c namespace k)) (\<lambda>k.
     wrap_err ''delete namespace'' (DeleteAppNamespace c namespace k)))"

section \<open>Scaling\<close>

text \<open>Reading an object and writing it back changed; a missing object is no error here.\<close>

definition update_existing ::
  "'k kube_client \<Rightarrow> kind \<Rightarrow> (kobj \<Rightarrow> 'o option) \<Rightarrow> ('o \<Rightarrow> kobj) \<Rightarrow> string \<Rightarrow> string \<Rightarrow> string \<Rightarrow> ('o \<Rightarrow> 'o) \<Rightarrow> 'k \<Rightarrow> 'k effect" where
  "update_existing c kd as mk ns name what f k =
     (case get_as c kd as k ns name of
        Inl IsNotFound \<Rightarrow> (None, k)
      | Inl e \<Rightarrow> (Some (what @ '': '' @ k8s_text e), k)
      | Inr x \<Rightarrow> raw_err (kc_Update c k ns (mk (f x))))"

definition set_replicas :: "int \<Rightarrow> Deployment \<Rightarrow> Deployment" where
  "set_replicas n d = d\<lparr>d_Spec := (d_Spec d)\<lparr>ds_Replicas := Some n\<rparr>\<rparr>"

definition ScaleDeployment :: "'k kube_client \<Rightarrow> string \<Rightarrow> int \<Rightarrow> 'k \<Rightarrow> 'k effect" where
  "ScaleDeployment c namespace replicas =
     update_existing c KDeployment as_Deployment ODeployment namespace deploymentName ''get deployment'' (set_replicas replicas)"

definition SuspendCronJob :: "'k kube_client \<Rightarrow> string \<Rightarrow> 'k \<Rightarrow> 'k effect" where
  "SuspendCronJob c namespace =
     update_existing c KCronJob as_CronJob OCronJob namespace cronJobName ''get cronjob'' (\<lambda>cj. cj\<lparr>cj_Suspend := Some True\<rparr>)"

definition UnsuspendCronJob :: "'k kube_client \<Rightarrow> string \<Rightarrow> 'k \<Rightarrow> 'k effect" where
  "UnsuspendCronJob c namespace =
     update_existing c KCronJob as_CronJob OCronJob namespace cronJobName ''get cronjob'' (\<lambda>cj. cj\<lparr>cj_Suspend := Some False\<rparr>)"

definition grant_from :: "string \<Rightarrow> string \<times> string \<times> string" where
  "grant_from namespace = (''gateway.networking.k8s.io'', ''HTTPRoute'', namespace)"

definition ensureWakeProxyReferenceGrant :: "'k kube_client \<Rightarrow> string \<Rightarrow> 'k \<Rightarrow> 'k effect" where
  "ensureWakeProxyReferenceGrant c namespace k =
     (case get_as c KReferenceGrant as_ReferenceGrant k wakeProxyNamespace wakeProxyReferenceGrantName of
        Inl IsNotFound \<Rightarrow>
          raw_err (kc_Create c k wakeProxyNamespace (OReferenceGrant
            \<lparr> rg_Meta = object_meta wakeProxyReferenceGrantName wakeProxyNamespace managed,
              rg_From = [grant_from namespace], rg_To = [(''Service'', wakeProxyService)] \<rparr>))
      | Inl e \<Rightarrow> (Some (k8s_text e), k)
      | Inr existing \<Rightarrow>
          if grant_from namespace \<in> set (rg_From existing) then (None, k)
          else raw_err (kc_Update c k wakeProxyNamespace
                 (OReferenceGrant (existing\<lparr>rg_From := rg_From existing @ [grant_from namespace]\<rparr>))))"

definition proxy_route :: "string \<Rightarrow> string \<Rightarrow> string \<Rightarrow> HTTPRouteSpec" where
  "proxy_route host gatewayNS gatewayName =
     route_spec gatewayNS gatewayName [host]
       \<lparr> br_Name = wakeProxyService, br_Namespace = Some wakeProxyNamespace, br_Port = wakeProxyPort \<rparr>"

definition RouteToWakeProxy :: "'k kube_client \<Rightarrow> string \<Rightarrow> string \<Rightarrow> string \<Rightarrow> string \<Rightarrow> 'k \<Rightarrow> 'k effect" where
  "RouteToWakeProxy c namespace host gatewayNS gatewayName k =
     and_then (wrap_err ''reference grant'' (ensureWakeProxyReferenceGrant c namespace k))
       (apply_route c namespace httprouteName (proxy_route host gatewayNS gatewayName))"

definition RestoreHTTPRoute :: "'k kube_client \<Rightarrow> string \<Rightarrow> string \<Rightarrow> string \<Rightarrow> string \<Rightarrow> 'k \<Rightarrow> 'k effect" where
  "RestoreHTTPRoute c namespace host gatewayNS gatewayName k =
     (case get_as c KService as_Service k namespace appServiceName of
        Inl e \<Rightarrow> (Some (''get app service: '' @ k8s_text e), k)
      | Inr svc \<Rightarrow>
          (case sv_Ports svc of
             [] \<Rightarrow> (Some (''app service '' @ namespace @ ''/'' @ appServiceName @ '' has no ports''), k)
           | p # _ \<Rightarrow> ApplyHTTPRoute c namespace host gatewayNS gatewayName (svp_Port p) k))"

definition AppReplicaCounts :: "'k kube_client \<Rightarrow> 'k \<Rightarrow> string \<Rightarrow> string \<Rightarrow> int \<times> int" where
  "AppReplicaCounts c k namespace appType =
     (if appType = ''cron'' then (0, 0)
      else case get_as c KDeployment as_Deployment k namespace deploymentName of
        Inl _ \<Rightarrow> (0, 0)
      | Inr d \<Rightarrow> (opt_Or (ds_Replicas (d_Spec d)) 0, dst_ReadyReplicas (d_Status d)))"

section \<open>Watching\<close>

text \<open>\<open>time.Duration.String\<close>.\<close>

definition frac_digits :: "nat \<Rightarrow> nat \<Rightarrow> string" where
  "frac_digits w n =
     (if n = 0 then [] else CHR ''.'' # rev (dropWhile (\<lambda>c. c = CHR ''0'') (rev (pad0 w (show_nat n)))))"

definition seconds_text :: "nat \<Rightarrow> string" where
  "seconds_text u =
     (let secs = u div 1000000000; s = show_nat (secs mod 60) @ frac_digits 9 (u mod 1000000000) @ ''s'';
          m = secs div 60; hours = m div 60
      in if m = 0 then s
         else if hours = 0 then show_nat m @ ''m'' @ s
         else show_nat hours @ ''h'' @ show_nat (m mod 60) @ ''m'' @ s)"

definition Duration_String :: "duration \<Rightarrow> string" where
  "Duration_String d =
     (let u = nat \<bar>d\<bar>;
          body = (if u = 0 then ''0s''
                  else if u < 1000 then show_nat u @ ''ns''
                  else if u < 1000000 then show_nat (u div 1000) @ frac_digits 3 (u mod 1000) @ [char_of (194 :: nat), char_of (181 :: nat), CHR ''s'']
                  else if u < 1000000000 then show_nat (u div 1000000) @ frac_digits 6 (u mod 1000000) @ ''ms''
                  else seconds_text u)
      in if d < 0 then CHR ''-'' # body else body)"

definition rolloutPollInterval :: duration where "rolloutPollInterval = 5 * Second"
definition rolloutTimeout :: duration where "rolloutTimeout = 5 * Minute"

text \<open>
  A poll loop on the cluster and the clock: the probe ends it with success (\<open>Some None\<close>) or an error; after the
  deadline it ends with a timeout; a cancelled context ends it with the error of the context.
\<close>

function poll ::
  "'k kube_client \<Rightarrow> ('k \<Rightarrow> string option option) \<Rightarrow> ('k \<Rightarrow> string) \<Rightarrow> time \<Rightarrow> 'k \<times> time \<Rightarrow> ('k \<times> time) effect" where
  "poll c probe timed_out deadline (k, now) =
     (case probe k of
        Some r \<Rightarrow> (r, (k, now))
      | None \<Rightarrow>
          if now > deadline then (Some (timed_out k), (k, now))
          else (case kc_Wait c k now of
                  (Some e, k1, late) \<Rightarrow> (Some e, (k1, now))
                | (None, k1, late) \<Rightarrow> poll c probe timed_out deadline (k1, now + rolloutPollInterval + int late)))"
  by pat_completeness auto
termination
  by (relation "measure (\<lambda>(c, probe, timed_out, deadline, k, now). nat (deadline - now + 1))")
    (auto simp: rolloutPollInterval_def Second_def)

declare poll.simps [simp del]

definition terminalPodReasons :: "string list" where
  "terminalPodReasons = [''ImagePullBackOff'', ''ErrImagePull'', ''InvalidImageName'', ''CrashLoopBackOff'',
     ''CreateContainerConfigError'', ''RunContainerError'']"

definition waiting_reasons :: "Pod \<Rightarrow> string list" where
  "waiting_reasons p =
     (if pd_Phase p = ''Succeeded'' then []
      else List.map_filter (\<lambda>w. case w of
        None \<Rightarrow> None
      | Some (reason, message) \<Rightarrow>
          if reason \<in> set terminalPodReasons then Some (if message \<noteq> [] then reason @ '': '' @ message else reason) else None)
        (pd_Waiting p))"

definition checkPodFailures :: "'k kube_client \<Rightarrow> 'k \<Rightarrow> string \<Rightarrow> string option" where
  "checkPodFailures c k namespace =
     (case kc_ListPods c k namespace of
        Inl _ \<Rightarrow> None
      | Inr pods \<Rightarrow>
          let reasons = concat (map waiting_reasons pods) in
          if reasons \<noteq> [] then Some (''pod failed: '' @ strings_Join reasons ''; '') else None)"

definition rollout_probe :: "'k kube_client \<Rightarrow> string \<Rightarrow> 'k \<Rightarrow> string option option" where
  "rollout_probe c namespace k =
     (case get_as c KDeployment as_Deployment k namespace deploymentName of
        Inl e \<Rightarrow> Some (Some (''get deployment: '' @ k8s_text e))
      | Inr d \<Rightarrow>
          let desired = opt_Or (ds_Replicas (d_Spec d)) 1 in
          if dst_ReadyReplicas (d_Status d) \<ge> desired then Some None
          else case checkPodFailures c k namespace of Some e \<Rightarrow> Some (Some e) | None \<Rightarrow> None)"

definition rollout_timed_out :: "'k kube_client \<Rightarrow> string \<Rightarrow> 'k \<Rightarrow> string" where
  "rollout_timed_out c namespace k =
     (case get_as c KDeployment as_Deployment k namespace deploymentName of
        Inl _ \<Rightarrow> []
      | Inr d \<Rightarrow> ''deployment not ready after '' @ Duration_String rolloutTimeout @ '' ('' @
          strconv_Itoa (dst_ReadyReplicas (d_Status d)) @ ''/'' @ strconv_Itoa (opt_Or (ds_Replicas (d_Spec d)) 1) @ '' replicas ready)'')"

definition WatchDeploymentRollout :: "'k kube_client \<Rightarrow> string \<Rightarrow> 'k \<times> time \<Rightarrow> ('k \<times> time) effect" where
  "WatchDeploymentRollout c namespace w =
     poll c (rollout_probe c namespace) (rollout_timed_out c namespace) (snd w + rolloutTimeout) w"

definition ready_probe :: "'k kube_client \<Rightarrow> string \<Rightarrow> 'k \<Rightarrow> string option option" where
  "ready_probe c namespace k =
     (case get_as c KDeployment as_Deployment k namespace deploymentName of
        Inl _ \<Rightarrow> None
      | Inr d \<Rightarrow> if dst_ReadyReplicas (d_Status d) \<ge> 1 then Some None else None)"

definition WatchDeploymentReady :: "'k kube_client \<Rightarrow> string \<Rightarrow> duration \<Rightarrow> 'k \<times> time \<Rightarrow> ('k \<times> time) effect" where
  "WatchDeploymentReady c namespace timeout w =
     poll c (ready_probe c namespace) (\<lambda>_. ''deployment not ready after '' @ Duration_String timeout) (snd w + timeout) w"

definition RollbackDeployment :: "'k kube_client \<Rightarrow> string \<Rightarrow> string \<Rightarrow> 'k \<Rightarrow> 'k effect" where
  "RollbackDeployment c namespace lastHealthyImage k =
     (case get_as c KDeployment as_Deployment k namespace deploymentName of
        Inl e \<Rightarrow> (Some (''get deployment for rollback: '' @ k8s_text e), k)
      | Inr d \<Rightarrow>
          let spec = d_Spec d; tmpl = ds_Template spec; pod = pt_Spec tmpl;
              cs = map (\<lambda>ct. if ct_Name ct = containerName then ct\<lparr>ct_Image := lastHealthyImage\<rparr> else ct) (pod_Containers pod)
          in raw_err (kc_Update c k namespace (ODeployment
               (d\<lparr>d_Spec := spec\<lparr>ds_Template := tmpl\<lparr>pt_Spec := pod\<lparr>pod_Containers := cs\<rparr>\<rparr>\<rparr>\<rparr>))))"

section \<open>Status\<close>

definition deploymentStatus :: "'k kube_client \<Rightarrow> 'k \<Rightarrow> string \<Rightarrow> string" where
  "deploymentStatus c k namespace =
     (case get_as c KDeployment as_Deployment k namespace deploymentName of
        Inl _ \<Rightarrow> ''unknown''
      | Inr d \<Rightarrow>
          let desired = opt_Or (ds_Replicas (d_Spec d)) 1; ready = dst_ReadyReplicas (d_Status d) in
          if ready \<ge> desired then ''running''
          else if ready = 0 then ''pending''
          else ''degraded ('' @ strconv_Itoa ready @ ''/'' @ strconv_Itoa desired @ '' ready)'')"

definition cronJobStatus :: "'k kube_client \<Rightarrow> 'k \<Rightarrow> string \<Rightarrow> string" where
  "cronJobStatus c k namespace =
     (case get_as c KCronJob as_CronJob k namespace cronJobName of
        Inl _ \<Rightarrow> ''unknown''
      | Inr cj \<Rightarrow>
          if cj_Suspend cj = Some True then ''suspended''
          else if cj_Active cj > 0 then ''running''
          else if cj_LastSuccessfulTime cj \<noteq> None then ''scheduled''
          else ''pending'')"

definition kube_AppStatus :: "'k kube_client \<Rightarrow> 'k \<Rightarrow> string \<Rightarrow> string \<Rightarrow> string" where
  "kube_AppStatus c k namespace appType =
     (if appType = ''cron'' then cronJobStatus c k namespace else deploymentStatus c k namespace)"

definition kube_GetTLSCertExpiry :: "'k kube_client \<Rightarrow> 'k \<Rightarrow> string \<Rightarrow> string \<Rightarrow> string + time option" where
  "kube_GetTLSCertExpiry c k namespace name =
     (case get_as c KSecret as_Secret k namespace name of
        Inl IsNotFound \<Rightarrow> Inr None
      | Inl e \<Rightarrow> Inl (''get tls secret: '' @ k8s_text e)
      | Inr secret \<Rightarrow>
          (case map_of (sc_Data secret) ''tls.crt'' of
             None \<Rightarrow> Inr None
           | Some certPEM \<Rightarrow>
               if certPEM = [] then Inr None
               else case kc_NotAfter c certPEM of Inl e \<Rightarrow> Inl e | Inr t \<Rightarrow> Inr (Some t)))"

definition kube_VerifyWakeToken :: "'k kube_client \<Rightarrow> 'k \<Rightarrow> string \<Rightarrow> string option" where
  "kube_VerifyWakeToken c k token =
     (case kc_TokenReview c k token [wakeProxyTokenAudience] of
        Inl e \<Rightarrow> Some (''token review: '' @ e)
      | Inr (authenticated, username) \<Rightarrow>
          if \<not> authenticated then Some ''token not authenticated''
          else if username \<noteq> ''system:serviceaccount:'' @ wakeProxyNamespace @ '':'' @ wakeProxyServiceAccountName
          then Some (''unexpected service account: '' @ username)
          else None)"

section \<open>The client as the deployer of the API\<close>

definition timed :: "('k \<Rightarrow> 'k effect) \<Rightarrow> 'k \<times> time \<Rightarrow> ('k \<times> time) effect" where
  "timed f = (\<lambda>(k, now). case f k of (e, k1) \<Rightarrow> (e, (k1, now)))"

definition kube_deployer :: "'k kube_client \<Rightarrow> ('k \<times> time) AppDeployer" where
  "kube_deployer c =
     \<lparr> dp_Apply = (\<lambda>w m. timed (Apply c m) w),
       dp_Delete = (\<lambda>w ns. timed (Delete c ns) w),
       dp_WatchDeploymentRollout = (\<lambda>w ns. WatchDeploymentRollout c ns w),
       dp_RollbackDeployment = (\<lambda>w ns img. timed (RollbackDeployment c ns img) w),
       dp_AppStatus = (\<lambda>w ns typ. kube_AppStatus c (fst w) ns typ),
       dp_GetTLSCertExpiry = (\<lambda>w ns n. kube_GetTLSCertExpiry c (fst w) ns n),
       dp_ScaleDeployment = (\<lambda>w ns n. timed (ScaleDeployment c ns n) w),
       dp_SuspendCronJob = (\<lambda>w ns. timed (SuspendCronJob c ns) w),
       dp_UnsuspendCronJob = (\<lambda>w ns. timed (UnsuspendCronJob c ns) w),
       dp_RouteToWakeProxy = (\<lambda>w ns host gns gn. timed (RouteToWakeProxy c ns host gns gn) w),
       dp_RestoreHTTPRoute = (\<lambda>w ns host gns gn. timed (RestoreHTTPRoute c ns host gns gn) w),
       dp_WatchDeploymentReady = (\<lambda>w ns t. WatchDeploymentReady c ns t w),
       dp_AppReplicaCounts = (\<lambda>w ns typ. AppReplicaCounts c (fst w) ns typ),
       dp_ApplyNamespaceTier = (\<lambda>w ns l. timed (ApplyNamespaceTier c ns l) w),
       dp_VerifyWakeToken = (\<lambda>w t. kube_VerifyWakeToken c (fst w) t) \<rparr>"

end
