(* ===== verification/Kube_Laws.thy ===== *)
theory Kube_Laws
  imports Kube
begin

text \<open>
  What the client relies on of the API server, and what its operations establish. The locale \<open>kube_laws\<close>
  states the documented behaviour of the reads and writes of objects while nobody else writes them;
  \<open>kube_quiet\<close> adds that this holds during the waits too (controllers change the status of
  objects only).
\<close>

section \<open>What is read of an object\<close>

datatype key_spec =
    SDeployment "int option" "(string \<times> string) list"
  | SCronJob string "bool option"
  | SService "int list"
  | SRoute HTTPRouteSpec
  | SGrant "(string \<times> string \<times> string) list" "(string \<times> string) list"
  | SOther

definition images_of :: "DeploymentSpec \<Rightarrow> (string \<times> string) list" where
  "images_of d = map (\<lambda>ct. (ct_Name ct, ct_Image ct)) (pod_Containers (pt_Spec (ds_Template d)))"

text \<open>The part of a specification that the client reads back; the server fills in other fields.\<close>

definition key_spec :: "kobj \<Rightarrow> key_spec" where
  "key_spec x =
     (case x of
        ODeployment d \<Rightarrow> SDeployment (ds_Replicas (d_Spec d)) (images_of (d_Spec d))
      | OCronJob cj \<Rightarrow> SCronJob (cj_Schedule cj) (cj_Suspend cj)
      | OService s \<Rightarrow> SService (map svp_Port (sv_Ports s))
      | OHTTPRoute r \<Rightarrow> SRoute (hr_Spec r)
      | OReferenceGrant g \<Rightarrow> SGrant (rg_From g) (rg_To g)
      | _ \<Rightarrow> SOther)"

definition status_of :: "kobj \<Rightarrow> DeploymentStatus option" where
  "status_of x = (case x of ODeployment d \<Rightarrow> Some (d_Status d) | _ \<Rightarrow> None)"

definition spec_at :: "'k kube_client \<Rightarrow> 'k \<Rightarrow> kind \<Rightarrow> string \<Rightarrow> string \<Rightarrow> key_spec option" where
  "spec_at c k kd ns n = (case kc_Get c k kd ns n of Inl _ \<Rightarrow> None | Inr x \<Rightarrow> Some (key_spec x))"

definition status_at :: "'k kube_client \<Rightarrow> 'k \<Rightarrow> kind \<Rightarrow> string \<Rightarrow> string \<Rightarrow> DeploymentStatus option" where
  "status_at c k kd ns n = (case kc_Get c k kd ns n of Inl _ \<Rightarrow> None | Inr x \<Rightarrow> status_of x)"

locale kube_laws =
  fixes c :: "'k kube_client"
  assumes get_object: "kc_Get c k kd ns n = Inr x \<Longrightarrow> kind_of x = kd \<and> name_of x = n"
    and create_get: "kc_Create c k ns x = (None, k') \<Longrightarrow>
      \<exists>y. kc_Get c k' (kind_of x) ns (name_of x) = Inr y \<and> key_spec y = key_spec x"
    and update_get: "kc_Update c k ns x = (None, k') \<Longrightarrow> kc_Get c k (kind_of x) ns (name_of x) = Inr x0 \<Longrightarrow>
      \<exists>y. kc_Get c k' (kind_of x) ns (name_of x) = Inr y \<and> key_spec y = key_spec x \<and> status_of y = status_of x0"
    and create_other: "kc_Create c k ns x = (e, k') \<Longrightarrow> (kd, ns', n) \<noteq> (kind_of x, ns, name_of x) \<Longrightarrow>
      kc_Get c k' kd ns' n = kc_Get c k kd ns' n"
    and update_other: "kc_Update c k ns x = (e, k') \<Longrightarrow> (kd, ns', n) \<noteq> (kind_of x, ns, name_of x) \<Longrightarrow>
      kc_Get c k' kd ns' n = kc_Get c k kd ns' n"

text \<open>A constructor of objects and its typed read.\<close>

definition typed :: "(kobj \<Rightarrow> 'o option) \<Rightarrow> ('o \<Rightarrow> kobj) \<Rightarrow> bool" where
  "typed as mk \<longleftrightarrow> (\<forall>x y. as y = Some x \<longleftrightarrow> y = mk x)"

lemma typed_objects:
  "typed as_Deployment ODeployment" "typed as_CronJob OCronJob" "typed as_Service OService"
  "typed as_HTTPRoute OHTTPRoute" "typed as_ReferenceGrant OReferenceGrant" "typed as_ResourceQuota OResourceQuota"
  "typed as_LimitRange OLimitRange" "typed as_NetworkPolicy ONetworkPolicy" "typed as_Secret OSecret"
  by (auto simp: typed_def as_Deployment_def as_CronJob_def as_Service_def as_HTTPRoute_def as_ReferenceGrant_def
      as_ResourceQuota_def as_LimitRange_def as_NetworkPolicy_def as_Secret_def split: kobj.splits)

lemma typed_mk: "typed as mk \<Longrightarrow> as (mk x) = Some x" "typed as mk \<Longrightarrow> as y = Some x \<Longrightarrow> y = mk x"
  by (simp_all add: typed_def)

lemma typed_inj: "typed as mk \<Longrightarrow> mk a = mk b \<Longrightarrow> a = b"
  by (metis option.inject typed_mk(1))

lemma get_as_Inr: "typed as mk \<Longrightarrow> get_as c kd as k ns n = Inr x \<longleftrightarrow> kc_Get c k kd ns n = Inr (mk x)"
  by (auto simp: get_as_def typed_mk split: sum.splits option.splits)

lemma get_as_NotFound: "get_as c kd as k ns n = Inl IsNotFound \<longleftrightarrow> kc_Get c k kd ns n = Inl IsNotFound"
  by (auto simp: get_as_def split: sum.splits option.splits)

lemma raw_err_None: "raw_err r = (None, k') \<longleftrightarrow> r = (None, k')"
  by (cases r) (auto simp: raw_err_def)

lemma wrap_err_None: "wrap_err p r = (None, k') \<longleftrightarrow> r = (None, k')"
  by (cases r) (auto simp: wrap_err_def)

lemma and_then_None: "and_then r f = (None, k') \<longleftrightarrow> (\<exists>k1. r = (None, k1) \<and> f k1 = (None, k'))"
  by (auto simp: and_then_def split: prod.splits option.splits)

lemma timed_None: "timed f w = (None, w') \<longleftrightarrow> f (fst w) = (None, fst w') \<and> snd w' = snd w"
  by (cases w; cases w'; cases "f (fst w)") (auto simp: timed_def)

lemmas effect_None = raw_err_None wrap_err_None and_then_None timed_None

text \<open>A write of one object: what it leaves there, and that it leaves everything else.\<close>

definition writes_only :: "'k kube_client \<Rightarrow> kind \<Rightarrow> string \<Rightarrow> string \<Rightarrow> 'k \<Rightarrow> 'k \<Rightarrow> bool" where
  "writes_only c kd ns n k k' \<longleftrightarrow>
     (\<forall>kd' ns' n'. (kd', ns', n') \<noteq> (kd, ns, n) \<longrightarrow> kc_Get c k' kd' ns' n' = kc_Get c k kd' ns' n')"

lemma writes_only_spec:
  "writes_only c kd ns n k k' \<Longrightarrow> (kd', ns', n') \<noteq> (kd, ns, n) \<Longrightarrow>
     spec_at c k' kd' ns' n' = spec_at c k kd' ns' n' \<and> status_at c k' kd' ns' n' = status_at c k kd' ns' n'"
  by (simp add: writes_only_def spec_at_def status_at_def)

context kube_laws
begin

lemma create_if_missing_writes:
  assumes "create_if_missing c ns x k = (None, k')"
  shows "writes_only c (kind_of x) ns (name_of x) k k'"
  using assms create_other [of k ns x None k']
  by (auto simp: create_if_missing_def writes_only_def effect_None split: sum.splits k8s_error.splits)

lemma create_or_update_writes:
  assumes "typed as mk" "create_or_update c as mk ns desired merge k = (None, k')"
    and "\<And>x. kind_of (mk (merge x)) = kind_of (mk x) \<and> name_of (mk (merge x)) = name_of (mk x) \<and>
      key_spec (mk (merge x)) = key_spec (mk desired)"
  defines "kd \<equiv> kind_of (mk desired)" and "n \<equiv> name_of (mk desired)"
  shows "writes_only c kd ns n k k'" "spec_at c k' kd ns n = Some (key_spec (mk desired))"
    and "status_at c k kd ns n \<noteq> None \<Longrightarrow> status_at c k' kd ns n = status_at c k kd ns n"
proof -
  consider (new) "kc_Get c k kd ns n = Inl IsNotFound" "kc_Create c k ns (mk desired) = (None, k')"
    | (old) x where "kc_Get c k kd ns n = Inr (mk x)" "kc_Update c k ns (mk (merge x)) = (None, k')"
    using assms(2)
    by (auto simp: create_or_update_def kd_def n_def effect_None get_as_Inr [OF assms(1)] get_as_NotFound
        split: sum.splits k8s_error.splits)
  then have "writes_only c kd ns n k k' \<and> spec_at c k' kd ns n = Some (key_spec (mk desired)) \<and>
      (status_at c k kd ns n \<noteq> None \<longrightarrow> status_at c k' kd ns n = status_at c k kd ns n)"
  proof cases
    case new
    from create_get [OF new(2)] create_other [OF new(2)] new(1) show ?thesis
      by (auto simp: writes_only_def spec_at_def status_at_def kd_def n_def)
  next
    case old
    note o = get_object [OF old(1)]
    have m: "kind_of (mk (merge x)) = kd" "name_of (mk (merge x)) = n" "key_spec (mk (merge x)) = key_spec (mk desired)"
      using assms(3) [of x] o by auto
    from update_get [OF old(2), unfolded m, OF old(1)] update_other [OF old(2), unfolded m] old(1) show ?thesis
      by (auto simp: writes_only_def spec_at_def status_at_def)
  qed
  then show "writes_only c kd ns n k k'" "spec_at c k' kd ns n = Some (key_spec (mk desired))"
    "status_at c k kd ns n \<noteq> None \<Longrightarrow> status_at c k' kd ns n = status_at c k kd ns n" by auto
qed

lemma update_existing_writes:
  assumes "typed as mk" "update_existing c kd as mk ns n what f k = (None, k')"
    and "\<And>x. kind_of (mk (f x)) = kind_of (mk x) \<and> name_of (mk (f x)) = name_of (mk x)"
  shows "writes_only c kd ns n k k'"
    and "kc_Get c k kd ns n = Inr (mk x) \<Longrightarrow> spec_at c k' kd ns n = Some (key_spec (mk (f x))) \<and>
      status_at c k' kd ns n = status_at c k kd ns n"
proof -
  consider (none) "k' = k" "kc_Get c k kd ns n = Inl IsNotFound"
    | (old) x where "kc_Get c k kd ns n = Inr (mk x)" "kc_Update c k ns (mk (f x)) = (None, k')"
    using assms(2)
    by (auto simp: update_existing_def effect_None get_as_Inr [OF assms(1)] get_as_NotFound
        split: sum.splits k8s_error.splits)
  then have "writes_only c kd ns n k k' \<and> (\<forall>x. kc_Get c k kd ns n = Inr (mk x) \<longrightarrow>
      spec_at c k' kd ns n = Some (key_spec (mk (f x))) \<and> status_at c k' kd ns n = status_at c k kd ns n)"
  proof cases
    case none
    then show ?thesis by (simp add: writes_only_def)
  next
    case (old x)
    have m: "kind_of (mk (f x)) = kd" "name_of (mk (f x)) = n" using assms(3) [of x] get_object [OF old(1)] by auto
    from update_get [OF old(2), unfolded m, OF old(1)] update_other [OF old(2), unfolded m] old(1) show ?thesis
      by (auto simp: writes_only_def spec_at_def status_at_def dest!: typed_inj [OF assms(1)])
  qed
  then show "writes_only c kd ns n k k'"
    "kc_Get c k kd ns n = Inr (mk x) \<Longrightarrow> spec_at c k' kd ns n = Some (key_spec (mk (f x))) \<and>
      status_at c k' kd ns n = status_at c k kd ns n" by auto
qed

lemmas object_simps = name_of_def object_meta_def key_spec_def images_of_def

lemma applyDeployment_writes:
  assumes "applyDeployment c m k = (None, k')"
  shows "writes_only c KDeployment (m_Namespace m) deploymentName k k'"
    and "spec_at c k' KDeployment (m_Namespace m) deploymentName = Some (SDeployment (Some 1) [(containerName, m_Image m)])"
    and "status_at c k KDeployment (m_Namespace m) deploymentName \<noteq> None \<Longrightarrow>
      status_at c k' KDeployment (m_Namespace m) deploymentName = status_at c k KDeployment (m_Namespace m) deploymentName"
  using create_or_update_writes [OF typed_objects(1) assms [unfolded applyDeployment_def]]
  by (simp_all add: object_simps app_deployment_spec_def pod_of_def plain_container_def)

lemma ApplyAppService_writes:
  assumes "ApplyAppService c ns app port k = (None, k')"
  shows "writes_only c KService ns appServiceName k k'" "spec_at c k' KService ns appServiceName = Some (SService [port])"
  using create_or_update_writes [OF typed_objects(3) assms [unfolded ApplyAppService_def Let_def]] by (simp_all add: object_simps)

lemma apply_route_writes:
  assumes "apply_route c ns name spec k = (None, k')"
  shows "writes_only c KHTTPRoute ns name k k'" "spec_at c k' KHTTPRoute ns name = Some (SRoute spec)"
  using create_or_update_writes [OF typed_objects(4) assms [unfolded apply_route_def]] by (simp_all add: object_simps)

lemma base_writes:
  "ensureNamespace c ns k = (None, k') \<Longrightarrow> writes_only c KNamespace [] ns k k'"
  "applyResourceQuota c ns l k = (None, k') \<Longrightarrow> writes_only c KResourceQuota ns quotaName k k'"
  "applyLimitRange c ns l k = (None, k') \<Longrightarrow> writes_only c KLimitRange ns limitRangeName k k'"
  "applyNetworkPolicy c ns port k = (None, k') \<Longrightarrow> writes_only c KNetworkPolicy ns networkPolicyName k k'"
  "applyServiceAccount c ns k = (None, k') \<Longrightarrow> writes_only c KServiceAccount ns serviceAccountName k k'"
  using create_if_missing_writes [of "[]" _ k k'] create_if_missing_writes [of ns _ k k']
    create_or_update_writes(1) [OF typed_objects(6), of ns _ _ k k'] create_or_update_writes(1) [OF typed_objects(7), of ns _ _ k k']
    create_or_update_writes(1) [OF typed_objects(8), of ns _ _ k k']
  by (fastforce simp: ensureNamespace_def applyResourceQuota_def applyLimitRange_def applyNetworkPolicy_def
      applyServiceAccount_def object_simps)+

lemma Apply_deployment:
  assumes "Apply c m k = (None, k')" "m_Type m \<noteq> ''cron''"
  shows "spec_at c k' KDeployment (m_Namespace m) deploymentName = Some (SDeployment (Some 1) [(containerName, m_Image m)])"
    and "status_at c k KDeployment (m_Namespace m) deploymentName \<noteq> None \<Longrightarrow>
      status_at c k' KDeployment (m_Namespace m) deploymentName = status_at c k KDeployment (m_Namespace m) deploymentName"
proof -
  let ?ns = "m_Namespace m"
  obtain k1 k2 k3 k4 k5 k6 where ks: "ensureNamespace c ?ns k = (None, k1)" "applyResourceQuota c ?ns (m_Limits m) k1 = (None, k2)"
    "applyLimitRange c ?ns (m_Limits m) k2 = (None, k3)" "applyNetworkPolicy c ?ns (resolvePort m) k3 = (None, k4)"
    "applyServiceAccount c ?ns k4 = (None, k5)" "applyDeployment c m k5 = (None, k6)" "applyRouting c m k6 = (None, k')"
    using assms by (auto simp: Apply_def effect_None applyWorkload_def)
  have pre: "status_at c k5 KDeployment ?ns deploymentName = status_at c k KDeployment ?ns deploymentName"
    using base_writes(1) [OF ks(1)] base_writes(2) [OF ks(2)] base_writes(3) [OF ks(3)] base_writes(4) [OF ks(4)] base_writes(5) [OF ks(5)]
    by (simp add: writes_only_def status_at_def)
  have post: "kc_Get c k' KDeployment ?ns deploymentName = kc_Get c k6 KDeployment ?ns deploymentName"
    using ks(7) ApplyAppService_writes(1) apply_route_writes(1)
    by (fastforce simp: applyRouting_def Let_def effect_None ApplyHTTPRoute_def writes_only_def split: if_splits)
  note d = applyDeployment_writes [OF ks(6)]
  from d(2) post show "spec_at c k' KDeployment ?ns deploymentName = Some (SDeployment (Some 1) [(containerName, m_Image m)])"
    by (simp add: spec_at_def)
  from d(3) pre post show "status_at c k KDeployment ?ns deploymentName \<noteq> None \<Longrightarrow>
      status_at c k' KDeployment ?ns deploymentName = status_at c k KDeployment ?ns deploymentName"
    by (simp add: status_at_def)
qed

lemma Apply_routing:
  assumes "Apply c m k = (None, k')" "m_Type m = ''http''" "m_BaseDomain m \<noteq> []"
  shows "spec_at c k' KService (m_Namespace m) appServiceName = Some (SService [resolvePort m])"
    and "spec_at c k' KHTTPRoute (m_Namespace m) httprouteName =
      Some (SRoute (app_route (m_Namespace m) (appHostname (m_AppName m) (m_RepoName m) (m_BaseDomain m))
        (if m_GatewayNS m = [] then morselNamespace else m_GatewayNS m)
        (if m_Private m then GatewayInternal else GatewayExternal) (resolvePort m)))"
proof -
  obtain k1 where "applyRouting c m k1 = (None, k')" using assms(1) by (auto simp: Apply_def effect_None)
  then obtain k2 where k2: "ApplyAppService c (m_Namespace m) (m_AppName m) (resolvePort m) k1 = (None, k2)"
    "ApplyHTTPRoute c (m_Namespace m) (appHostname (m_AppName m) (m_RepoName m) (m_BaseDomain m))
      (if m_GatewayNS m = [] then morselNamespace else m_GatewayNS m)
      (if m_Private m then GatewayInternal else GatewayExternal) (resolvePort m) k2 = (None, k')"
    using assms(2,3) by (auto simp: applyRouting_def Let_def effect_None)
  note r = apply_route_writes [OF k2(2) [unfolded ApplyHTTPRoute_def]]
  from r(2) show "spec_at c k' KHTTPRoute (m_Namespace m) httprouteName =
      Some (SRoute (app_route (m_Namespace m) (appHostname (m_AppName m) (m_RepoName m) (m_BaseDomain m))
        (if m_GatewayNS m = [] then morselNamespace else m_GatewayNS m)
        (if m_Private m then GatewayInternal else GatewayExternal) (resolvePort m)))" .
  from ApplyAppService_writes(2) [OF k2(1)] writes_only_spec [OF r(1)]
  show "spec_at c k' KService (m_Namespace m) appServiceName = Some (SService [resolvePort m])" by simp
qed

lemma deployment_at:
  assumes "spec_at c k KDeployment ns n = Some (SDeployment r imgs)"
  obtains d where "kc_Get c k KDeployment ns n = Inr (ODeployment d)" "ds_Replicas (d_Spec d) = r" "images_of (d_Spec d) = imgs"
  using assms by (auto simp: spec_at_def key_spec_def split: sum.splits kobj.splits)

lemma ScaleDeployment_writes:
  assumes "ScaleDeployment c ns r k = (None, k')"
  shows "writes_only c KDeployment ns deploymentName k k'"
    and "spec_at c k KDeployment ns deploymentName = Some (SDeployment r0 imgs) \<Longrightarrow>
      spec_at c k' KDeployment ns deploymentName = Some (SDeployment (Some r) imgs)"
proof -
  have "\<And>d. kind_of (ODeployment (set_replicas r d)) = kind_of (ODeployment d) \<and>
      name_of (ODeployment (set_replicas r d)) = name_of (ODeployment d)"
    by (simp add: object_simps set_replicas_def)
  note u = update_existing_writes [OF typed_objects(1) assms [unfolded ScaleDeployment_def] this]
  show "writes_only c KDeployment ns deploymentName k k'" by (rule u(1))
  assume "spec_at c k KDeployment ns deploymentName = Some (SDeployment r0 imgs)"
  then show "spec_at c k' KDeployment ns deploymentName = Some (SDeployment (Some r) imgs)"
    by (rule deployment_at) (use u(2) in \<open>simp add: key_spec_def set_replicas_def images_of_def\<close>)
qed

lemma ensureWakeProxyReferenceGrant_writes:
  assumes "ensureWakeProxyReferenceGrant c ns k = (None, k')"
  shows "writes_only c KReferenceGrant wakeProxyNamespace wakeProxyReferenceGrantName k k'"
    and "\<exists>fs ts. spec_at c k' KReferenceGrant wakeProxyNamespace wakeProxyReferenceGrantName = Some (SGrant fs ts) \<and> grant_from ns \<in> set fs"
proof -
  let ?ns = wakeProxyNamespace and ?n = wakeProxyReferenceGrantName
  let ?new = "OReferenceGrant \<lparr> rg_Meta = object_meta ?n ?ns managed, rg_From = [grant_from ns], rg_To = [(''Service'', wakeProxyService)] \<rparr>"
  consider (new) "kc_Create c k ?ns ?new = (None, k')"
    | (same) g where "kc_Get c k KReferenceGrant ?ns ?n = Inr (OReferenceGrant g)" "grant_from ns \<in> set (rg_From g)" "k' = k"
    | (add) g where "kc_Get c k KReferenceGrant ?ns ?n = Inr (OReferenceGrant g)"
        "kc_Update c k ?ns (OReferenceGrant (g\<lparr>rg_From := rg_From g @ [grant_from ns]\<rparr>)) = (None, k')"
    using assms
    by (auto simp: ensureWakeProxyReferenceGrant_def effect_None get_as_Inr [OF typed_objects(5)]
        split: sum.splits k8s_error.splits if_splits)
  then have "writes_only c KReferenceGrant ?ns ?n k k' \<and>
      (\<exists>fs ts. spec_at c k' KReferenceGrant ?ns ?n = Some (SGrant fs ts) \<and> grant_from ns \<in> set fs)"
  proof cases
    case new
    from create_get [OF new] create_other [OF new] show ?thesis
      by (auto simp: writes_only_def spec_at_def object_simps)
  next
    case same
    then show ?thesis by (simp add: writes_only_def spec_at_def key_spec_def)
  next
    case (add g)
    have "om_Name (rg_Meta g) = ?n" using get_object [OF add(1)] by (simp add: name_of_def)
    with update_get [OF add(2), of "OReferenceGrant g"] update_other [OF add(2)] add(1) show ?thesis
      by (auto simp: writes_only_def spec_at_def name_of_def key_spec_def)
  qed
  then show "writes_only c KReferenceGrant ?ns ?n k k'"
    "\<exists>fs ts. spec_at c k' KReferenceGrant ?ns ?n = Some (SGrant fs ts) \<and> grant_from ns \<in> set fs" by auto
qed

lemma RouteToWakeProxy_writes:
  assumes "RouteToWakeProxy c ns host gns gn k = (None, k')"
  shows "spec_at c k' KHTTPRoute ns httprouteName = Some (SRoute (proxy_route host gns gn))"
    and "\<exists>fs ts. spec_at c k' KReferenceGrant wakeProxyNamespace wakeProxyReferenceGrantName = Some (SGrant fs ts) \<and> grant_from ns \<in> set fs"
    and "kd \<notin> {KHTTPRoute, KReferenceGrant} \<Longrightarrow> spec_at c k' kd ns' n = spec_at c k kd ns' n"
proof -
  obtain k1 where k1: "ensureWakeProxyReferenceGrant c ns k = (None, k1)"
    "apply_route c ns httprouteName (proxy_route host gns gn) k1 = (None, k')"
    using assms by (auto simp: RouteToWakeProxy_def effect_None)
  note g = ensureWakeProxyReferenceGrant_writes [OF k1(1)] and r = apply_route_writes [OF k1(2)]
  show "spec_at c k' KHTTPRoute ns httprouteName = Some (SRoute (proxy_route host gns gn))" by (rule r(2))
  show "\<exists>fs ts. spec_at c k' KReferenceGrant wakeProxyNamespace wakeProxyReferenceGrantName = Some (SGrant fs ts) \<and> grant_from ns \<in> set fs"
    using g(2) writes_only_spec [OF r(1)] by simp
  show "spec_at c k' kd ns' n = spec_at c k kd ns' n" if "kd \<notin> {KHTTPRoute, KReferenceGrant}"
    using that writes_only_spec [OF g(1)] writes_only_spec [OF r(1)] by auto
qed

lemma status_kept:
  "RouteToWakeProxy c ns host gns gn k = (None, k') \<Longrightarrow> status_at c k' KDeployment ns' n = status_at c k KDeployment ns' n"
  "ScaleDeployment c ns r k = (None, k') \<Longrightarrow> status_at c k KDeployment ns deploymentName = Some st \<Longrightarrow>
     status_at c k' KDeployment ns deploymentName = Some st"
proof -
  assume "RouteToWakeProxy c ns host gns gn k = (None, k')"
  then obtain k1 where k1: "ensureWakeProxyReferenceGrant c ns k = (None, k1)"
    "apply_route c ns httprouteName (proxy_route host gns gn) k1 = (None, k')" by (auto simp: RouteToWakeProxy_def effect_None)
  from writes_only_spec [OF ensureWakeProxyReferenceGrant_writes(1) [OF k1(1)]] writes_only_spec [OF apply_route_writes(1) [OF k1(2)]]
  show "status_at c k' KDeployment ns' n = status_at c k KDeployment ns' n" by simp
next
  assume s: "ScaleDeployment c ns r k = (None, k')" and st: "status_at c k KDeployment ns deploymentName = Some st"
  then obtain d where d: "kc_Get c k KDeployment ns deploymentName = Inr (ODeployment d)"
    by (auto simp: status_at_def status_of_def split: sum.splits kobj.splits)
  have "\<And>d. kind_of (ODeployment (set_replicas r d)) = kind_of (ODeployment d) \<and>
      name_of (ODeployment (set_replicas r d)) = name_of (ODeployment d)" by (simp add: object_simps set_replicas_def)
  from update_existing_writes(2) [OF typed_objects(1) s [unfolded ScaleDeployment_def] this d] st
  show "status_at c k' KDeployment ns deploymentName = Some st" by simp
qed

lemma RestoreHTTPRoute_writes:
  assumes "RestoreHTTPRoute c ns host gns gn k = (None, k')" "spec_at c k KService ns appServiceName = Some (SService [port])"
  shows "spec_at c k' KHTTPRoute ns httprouteName = Some (SRoute (app_route ns host gns gn port))"
    and "kd \<noteq> KHTTPRoute \<Longrightarrow> spec_at c k' kd ns' n = spec_at c k kd ns' n"
proof -
  obtain svc where svc: "kc_Get c k KService ns appServiceName = Inr (OService svc)" "map svp_Port (sv_Ports svc) = [port]"
    using assms(2) by (auto simp: spec_at_def key_spec_def split: sum.splits kobj.splits)
  then have "get_as c KService as_Service k ns appServiceName = Inr svc" by (simp add: get_as_Inr [OF typed_objects(3)])
  with assms(1) svc(2) have "apply_route c ns httprouteName (app_route ns host gns gn port) k = (None, k')"
    by (auto simp: RestoreHTTPRoute_def ApplyHTTPRoute_def split: list.splits)
  note r = apply_route_writes [OF this]
  show "spec_at c k' KHTTPRoute ns httprouteName = Some (SRoute (app_route ns host gns gn port))" by (rule r(2))
  show "spec_at c k' kd ns' n = spec_at c k kd ns' n" if "kd \<noteq> KHTTPRoute" using that writes_only_spec [OF r(1)] by auto
qed

lemma rollout_probe_ready:
  assumes "spec_at c k KDeployment ns deploymentName = Some (SDeployment (Some r) imgs)"
    and "status_at c k KDeployment ns deploymentName = Some st" "r \<le> dst_ReadyReplicas st"
  shows "rollout_probe c ns k = Some None"
proof -
  obtain d where d: "kc_Get c k KDeployment ns deploymentName = Inr (ODeployment d)" "ds_Replicas (d_Spec d) = Some r"
    using assms(1) by (rule deployment_at)
  then have "get_as c KDeployment as_Deployment k ns deploymentName = Inr d" by (simp add: get_as_Inr [OF typed_objects(1)])
  with d assms(2,3) show ?thesis by (simp add: rollout_probe_def status_at_def status_of_def)
qed

end

section \<open>Waiting\<close>

lemma poll_invariant:
  assumes "poll c probe msg deadline (k, now) = (r, (k', now'))" "P k now"
    and "\<And>k now k1 late. P k now \<Longrightarrow> probe k = None \<Longrightarrow> now \<le> deadline \<Longrightarrow> kc_Wait c k now = (None, k1, late) \<Longrightarrow>
      P k1 (now + rolloutPollInterval + int late)"
    and "\<And>k now e k1 late. P k now \<Longrightarrow> now \<le> deadline \<Longrightarrow> kc_Wait c k now = (Some e, k1, late) \<Longrightarrow> P k1 now"
  shows "P k' now' \<and> (r = None \<longrightarrow> probe k' = Some None)"
  using assms(1,2)
proof (induction "nat (deadline - now + 1)" arbitrary: k now rule: less_induct)
  case less
  show ?case
  proof (cases "probe k = None \<and> now \<le> deadline")
    case False
    with less.prems show ?thesis by (subst (asm) poll.simps) (auto split: option.splits if_splits)
  next
    case True
    obtain e k1 late where w: "kc_Wait c k now = (e, k1, late)" by (metis prod_cases3)
    show ?thesis
    proof (cases e)
      case None
      with less.prems True w have "poll c probe msg deadline (k1, now + rolloutPollInterval + int late) = (r, (k', now'))"
        by (subst (asm) poll.simps) simp
      with less.hyps [OF _ this] True assms(3) [OF less.prems(2)] w None show ?thesis
        by (simp add: rolloutPollInterval_def Second_def)
    next
      case (Some x)
      with less.prems True w have "k' = k1 \<and> now' = now \<and> r = Some x" by (subst (asm) poll.simps) simp
      with assms(4) [OF less.prems(2)] True w Some show ?thesis by auto
    qed
  qed
qed

locale kube_quiet = kube_laws +
  assumes wait_spec: "kc_Wait c k now = (e, k1, late) \<Longrightarrow> spec_at c k1 = spec_at c k"
begin

lemma poll_spec: "poll c probe msg deadline (k, now) = (r, (k', now')) \<Longrightarrow> spec_at c k' = spec_at c k"
proof -
  assume p: "poll c probe msg deadline (k, now) = (r, (k', now'))"
  have w: "spec_at c x = spec_at c k \<Longrightarrow> kc_Wait c x t = (e, k1, late) \<Longrightarrow> spec_at c k1 = spec_at c k" for x t e k1 late
    using wait_spec [of x t e k1 late] by simp
  show ?thesis
    by (rule poll_invariant [OF p, where P = "\<lambda>x _. spec_at c x = spec_at c k", THEN conjunct1]) (simp, (erule (1) w)+)
qed

lemma hibernated_cluster:
  assumes "scale_down (kube_deployer c) platNS ''http'' ns host (k, t) = (None, (k', t'))"
    and "spec_at c k KDeployment ns deploymentName = Some (SDeployment r imgs)"
  shows "spec_at c k' KHTTPRoute ns httprouteName = Some (SRoute (proxy_route host platNS GatewayExternal))"
    and "spec_at c k' KDeployment ns deploymentName = Some (SDeployment (Some 0) imgs)"
    and "spec_at c k' KService ns' n = spec_at c k KService ns' n"
    and "\<exists>fs ts. spec_at c k' KReferenceGrant wakeProxyNamespace wakeProxyReferenceGrantName = Some (SGrant fs ts) \<and> grant_from ns \<in> set fs"
proof -
  obtain k1 where k1: "RouteToWakeProxy c ns host platNS GatewayExternal k = (None, k1)" "ScaleDeployment c ns 0 k1 = (None, k')"
    using assms(1) by (auto simp: scale_down_def kube_deployer_def effect_None)
  note r = RouteToWakeProxy_writes [OF k1(1)] and s = ScaleDeployment_writes [OF k1(2)]
  note other = writes_only_spec [OF s(1)]
  show "spec_at c k' KHTTPRoute ns httprouteName = Some (SRoute (proxy_route host platNS GatewayExternal))" using r(1) other by simp
  show "spec_at c k' KDeployment ns deploymentName = Some (SDeployment (Some 0) imgs)" using s(2) r(3) assms(2) by simp
  show "spec_at c k' KService ns' n = spec_at c k KService ns' n" using r(3) other by simp
  show "\<exists>fs ts. spec_at c k' KReferenceGrant wakeProxyNamespace wakeProxyReferenceGrantName = Some (SGrant fs ts) \<and> grant_from ns \<in> set fs"
    using r(2) other by simp
qed

lemma woken_cluster:
  assumes "scale_up (kube_deployer c) platNS ''http'' ns host (k, t) = (None, (k', t'))"
    and "spec_at c k KDeployment ns deploymentName = Some (SDeployment r imgs)"
    and "spec_at c k KService ns appServiceName = Some (SService [port])"
  shows "spec_at c k' KHTTPRoute ns httprouteName = Some (SRoute (app_route ns host platNS GatewayExternal port))"
    and "spec_at c k' KDeployment ns deploymentName = Some (SDeployment (Some 1) imgs)"
proof -
  obtain k1 k2 t2 where k1: "ScaleDeployment c ns 1 k = (None, k1)" "WatchDeploymentReady c ns (5 * Minute) (k1, t) = (None, (k2, t2))"
    "RestoreHTTPRoute c ns host platNS GatewayExternal k2 = (None, k')"
    using assms(1) by (auto simp: scale_up_def kube_deployer_def effect_None)
  have w: "spec_at c k2 = spec_at c k1" using k1(2) unfolding WatchDeploymentReady_def by (rule poll_spec)
  note s = ScaleDeployment_writes [OF k1(1)]
  have svc: "spec_at c k2 KService ns appServiceName = Some (SService [port])"
    using w writes_only_spec [OF s(1)] assms(3) by simp
  note r = RestoreHTTPRoute_writes [OF k1(3) svc]
  show "spec_at c k' KHTTPRoute ns httprouteName = Some (SRoute (app_route ns host platNS GatewayExternal port))" by (rule r(1))
  show "spec_at c k' KDeployment ns deploymentName = Some (SDeployment (Some 1) imgs)"
    using r(2) w s(2) [OF assms(2)] by simp
qed

end

section \<open>A cluster that obeys the laws\<close>

type_synonym map_cluster = "kind \<times> string \<times> string \<Rightarrow> kobj option"

definition keep_status :: "kobj \<Rightarrow> kobj \<Rightarrow> kobj" where
  "keep_status old x =
     (case (old, x) of (ODeployment d0, ODeployment d) \<Rightarrow> ODeployment (d\<lparr>d_Status := d_Status d0\<rparr>) | _ \<Rightarrow> x)"

definition map_get :: "map_cluster \<Rightarrow> kind \<Rightarrow> string \<Rightarrow> string \<Rightarrow> k8s_error + kobj" where
  "map_get k kd ns n =
     (case k (kd, ns, n) of
        None \<Rightarrow> Inl IsNotFound
      | Some x \<Rightarrow> if kind_of x = kd \<and> name_of x = n then Inr x else Inl IsNotFound)"

definition map_client :: "map_cluster kube_client" where
  "map_client =
     \<lparr> kc_Get = map_get,
       kc_Create = (\<lambda>k ns x. case map_get k (kind_of x) ns (name_of x) of
          Inr _ \<Rightarrow> (Some AlreadyExists, k) | Inl _ \<Rightarrow> (None, k((kind_of x, ns, name_of x) := Some x))),
       kc_Update = (\<lambda>k ns x. case map_get k (kind_of x) ns (name_of x) of
          Inl e \<Rightarrow> (Some e, k) | Inr x0 \<Rightarrow> (None, k((kind_of x, ns, name_of x) := Some (keep_status x0 x)))),
       kc_Delete = (\<lambda>k kd ns n. case map_get k kd ns n of Inl e \<Rightarrow> (Some e, k) | Inr _ \<Rightarrow> (None, k((kd, ns, n) := None))),
       kc_ListPods = (\<lambda>k ns. Inr []), kc_TokenReview = (\<lambda>k t as. Inr (False, [])), kc_NotAfter = (\<lambda>s. Inl ''decode tls cert pem''),
       kc_Wait = (\<lambda>k now. (None, k, 0)) \<rparr>"

lemma keep_status_simps [simp]:
  "kind_of (keep_status y x) = kind_of x" "name_of (keep_status y x) = name_of x" "key_spec (keep_status y x) = key_spec x"
  "kind_of y = kind_of x \<Longrightarrow> status_of (keep_status y x) = status_of y"
  by (cases y; cases x; simp add: keep_status_def name_of_def key_spec_def status_of_def images_of_def)+

lemma map_get_kind: "map_get k kd ns n = Inr x \<Longrightarrow> kind_of x = kd \<and> name_of x = n"
  by (simp add: map_get_def split: option.splits if_splits)

interpretation map_cluster: kube_quiet map_client
proof
  fix k kd ns n x ns' e k' and x0 :: kobj
  show "kc_Get map_client k kd ns n = Inr x \<Longrightarrow> kind_of x = kd \<and> name_of x = n"
    by (simp add: map_client_def map_get_kind)
  show "kc_Create map_client k ns x = (None, k') \<Longrightarrow>
      \<exists>y. kc_Get map_client k' (kind_of x) ns (name_of x) = Inr y \<and> key_spec y = key_spec x"
    by (auto simp: map_client_def split: sum.splits) (simp add: map_get_def)
  show "kc_Update map_client k ns x = (None, k') \<Longrightarrow> kc_Get map_client k (kind_of x) ns (name_of x) = Inr x0 \<Longrightarrow>
      \<exists>y. kc_Get map_client k' (kind_of x) ns (name_of x) = Inr y \<and> key_spec y = key_spec x \<and> status_of y = status_of x0"
    using map_get_kind [of k "kind_of x" ns "name_of x" x0]
    by (auto simp: map_client_def split: sum.splits) (simp add: map_get_def)
  show "kc_Create map_client k ns x = (e, k') \<Longrightarrow> (kd, ns', n) \<noteq> (kind_of x, ns, name_of x) \<Longrightarrow>
      kc_Get map_client k' kd ns' n = kc_Get map_client k kd ns' n"
    by (auto simp: map_client_def map_get_def split: sum.splits)
  show "kc_Update map_client k ns x = (e, k') \<Longrightarrow> (kd, ns', n) \<noteq> (kind_of x, ns, name_of x) \<Longrightarrow>
      kc_Get map_client k' kd ns' n = kc_Get map_client k kd ns' n"
    by (auto simp: map_client_def map_get_def split: sum.splits)
qed (simp add: map_client_def)

end
