(* ===== verification/Kube_Apps.thy ===== *)
theory Kube_Apps
  imports Kube_Laws Apps
begin

text \<open>
  Apps on the cluster: what a deploy, a hibernation and a wake make of the objects of an app when the API
  works through the Kubernetes client.
\<close>

section \<open>Routes\<close>

text \<open>
  C14. The way of an HTTP app through a hibernation, on the cluster: the deploy routes its host to its service
  over the gateway for its kind (internal for a private app); the hibernation routes the host to
  the wake proxy, with a grant that allows the reference, and scales to zero; the wake scales to one and
  routes the host back to the service, with the port of the deploy and the same image. Both lead the route
  over the external gateway: for a public app the wake restores the route of the deploy, and a
  private app is reachable from outside from its first hibernation on.
\<close>

theorem hibernation_moves_route:
  assumes "kube_quiet c" "Apply c m k0 = (None, k1)" "m_Type m = ''http''" "m_BaseDomain m \<noteq> []" "m_GatewayNS m = platNS" "platNS \<noteq> []"
    and "ns = m_Namespace m" "host = AppHostname (m_AppName m) (m_RepoName m) (m_BaseDomain m)"
    and "scale_down (kube_deployer c) platNS ''http'' ns host (k1, t1) = (None, (k2, t2))"
    and "scale_up (kube_deployer c) platNS ''http'' ns host (k2, t2) = (None, (k3, t3))"
  shows "spec_at c k1 KHTTPRoute ns httprouteName =
      Some (SRoute (app_route ns host platNS (if m_Private m then GatewayInternal else GatewayExternal) (resolvePort m))) \<and>
    spec_at c k2 KHTTPRoute ns httprouteName = Some (SRoute (proxy_route host platNS GatewayExternal)) \<and>
    (\<exists>fs ts. spec_at c k2 KReferenceGrant wakeProxyNamespace wakeProxyReferenceGrantName = Some (SGrant fs ts) \<and> grant_from ns \<in> set fs) \<and>
    spec_at c k2 KDeployment ns deploymentName = Some (SDeployment (Some 0) [(containerName, m_Image m)]) \<and>
    spec_at c k3 KHTTPRoute ns httprouteName = Some (SRoute (app_route ns host platNS GatewayExternal (resolvePort m))) \<and>
    spec_at c k3 KDeployment ns deploymentName = Some (SDeployment (Some 1) [(containerName, m_Image m)])"
proof -
  note laws = kube_quiet.axioms(1) [OF assms(1)]
  have cron: "m_Type m \<noteq> ''cron''" using assms(3) by simp
  note d = kube_laws.Apply_deployment(1) [OF laws assms(2) cron] and r = kube_laws.Apply_routing [OF laws assms(2-4)]
  note h = kube_quiet.hibernated_cluster [OF assms(1,9) d [folded assms(7)]]
  have svc: "spec_at c k2 KService ns appServiceName = Some (SService [resolvePort m])" using h(3) r(1) assms(7) by simp
  note w = kube_quiet.woken_cluster [OF assms(1,10) h(2) svc]
  have "appHostname (m_AppName m) (m_RepoName m) (m_BaseDomain m) = host"
    by (simp add: assms(8) appHostname_def AppHostname_def)
  with r(2) assms(5-7) h w show ?thesis by simp
qed

text \<open>A private app, deployed on an empty cluster whose deployments come up at once.\<close>

definition up_status :: DeploymentStatus where
  "up_status = new_status\<lparr>dst_ReadyReplicas := 1\<rparr>"

definition demo_up :: "map_cluster" where
  "demo_up = (\<lambda>_. None)((KDeployment, ''o-r--web'', ''app'') := Some (ODeployment
     \<lparr> d_Meta = object_meta ''app'' ''o-r--web'' [], d_Spec = app_deployment_spec demo_manifest, d_Status = up_status \<rparr>))"

definition private_manifest :: AppManifest where
  "private_manifest = demo_manifest\<lparr>m_Private := True\<rparr>"

text \<open>On that cluster no write fails.\<close>

lemma fst_effects [simp]:
  "fst (wrap_err p r) = None \<longleftrightarrow> fst r = None" "fst (raw_err q) = None \<longleftrightarrow> fst q = None"
  "fst (and_then r f) = None \<longleftrightarrow> fst r = None \<and> fst (f (snd r)) = None"
  by (cases r; auto simp: wrap_err_def raw_err_def and_then_def split: option.splits)+

lemma map_get_cases: "map_get k kd ns n = Inl IsNotFound \<or> (\<exists>x. map_get k kd ns n = Inr x \<and> kind_of x = kd \<and> name_of x = n)"
  by (auto simp: map_get_def split: option.splits)

lemma kind_cases:
  "kind_of x = KDeployment \<Longrightarrow> \<exists>d. x = ODeployment d" "kind_of x = KService \<Longrightarrow> \<exists>d. x = OService d"
  "kind_of x = KHTTPRoute \<Longrightarrow> \<exists>d. x = OHTTPRoute d" "kind_of x = KReferenceGrant \<Longrightarrow> \<exists>d. x = OReferenceGrant d"
  "kind_of x = KResourceQuota \<Longrightarrow> \<exists>d. x = OResourceQuota d" "kind_of x = KLimitRange \<Longrightarrow> \<exists>d. x = OLimitRange d"
  "kind_of x = KNetworkPolicy \<Longrightarrow> \<exists>d. x = ONetworkPolicy d"
  by (cases x; simp)+

lemma map_create_or_update:
  assumes "typed as mk" "\<And>x. kind_of x = kind_of (mk desired) \<Longrightarrow> \<exists>y. x = mk y"
    and "\<And>y. kind_of (mk (merge y)) = kind_of (mk y) \<and> name_of (mk (merge y)) = name_of (mk y)"
  shows "fst (create_or_update map_client as mk ns desired merge k) = None"
  using map_get_cases [of k "kind_of (mk desired)" ns "name_of (mk desired)"]
proof (elim disjE exE conjE)
  assume "map_get k (kind_of (mk desired)) ns (name_of (mk desired)) = Inl IsNotFound"
  then show ?thesis by (simp add: create_or_update_def get_as_def map_client_def)
next
  fix x assume x: "map_get k (kind_of (mk desired)) ns (name_of (mk desired)) = Inr x" "kind_of x = kind_of (mk desired)"
    "name_of x = name_of (mk desired)"
  obtain y where "x = mk y" using assms(2) x(2) by blast
  with x assms(3) [of y] show ?thesis
    by (simp add: create_or_update_def get_as_def map_client_def typed_mk(1) [OF assms(1)])
qed

lemma map_update_existing:
  assumes "typed as mk" "\<And>x. kind_of x = kd \<Longrightarrow> \<exists>y. x = mk y"
    and "\<And>y. kind_of (mk (f y)) = kind_of (mk y) \<and> name_of (mk (f y)) = name_of (mk y)"
  shows "fst (update_existing map_client kd as mk ns n what f k) = None"
  using map_get_cases [of k kd ns n]
proof (elim disjE exE conjE)
  fix x assume x: "map_get k kd ns n = Inr x" "kind_of x = kd" "name_of x = n"
  obtain y where "x = mk y" using assms(2) x(2) by blast
  with x assms(3) [of y] show ?thesis
    by (simp add: update_existing_def get_as_def map_client_def typed_mk(1) [OF assms(1)])
qed (simp add: update_existing_def get_as_def map_client_def)

lemma map_create_if_missing: "fst (create_if_missing map_client ns x k) = None"
  using map_get_cases [of k "kind_of x" ns "name_of x"] by (auto simp: create_if_missing_def map_client_def)

lemma map_writes:
  "fst (applyDeployment map_client m k) = None" "fst (ApplyAppService map_client ns app port k) = None"
  "fst (apply_route map_client ns n spec k) = None" "fst (applyResourceQuota map_client ns l k) = None"
  "fst (applyLimitRange map_client ns l k) = None" "fst (applyNetworkPolicy map_client ns port k) = None"
  "fst (applyServiceAccount map_client ns k) = None" "fst (ensureNamespace map_client ns k) = None"
  "fst (ScaleDeployment map_client ns r k) = None"
  unfolding applyDeployment_def ApplyAppService_def apply_route_def applyResourceQuota_def applyLimitRange_def applyNetworkPolicy_def
    applyServiceAccount_def ensureNamespace_def ScaleDeployment_def Let_def
  by (rule map_create_or_update map_create_if_missing map_update_existing, rule typed_objects,
      simp_all add: kind_cases name_of_def set_replicas_def map_create_if_missing)+

lemma map_grant: "fst (ensureWakeProxyReferenceGrant map_client ns k) = None"
  using map_get_cases [of k KReferenceGrant wakeProxyNamespace wakeProxyReferenceGrantName]
proof (elim disjE exE conjE)
  fix x assume x: "map_get k KReferenceGrant wakeProxyNamespace wakeProxyReferenceGrantName = Inr x" "kind_of x = KReferenceGrant"
    "name_of x = wakeProxyReferenceGrantName"
  obtain g where "x = OReferenceGrant g" using kind_cases(4) [OF x(2)] by blast
  with x show ?thesis
    by (simp add: ensureWakeProxyReferenceGrant_def get_as_def map_client_def typed_mk(1) [OF typed_objects(5)] name_of_def)
qed (simp add: ensureWakeProxyReferenceGrant_def get_as_def map_client_def name_of_def object_meta_def)

lemma map_Apply: "m_Type m \<noteq> ''cron'' \<Longrightarrow> fst (Apply map_client m k) = None"
  by (simp add: Apply_def applyWorkload_def applyRouting_def ApplyHTTPRoute_def map_writes Let_def)

lemma fst_timed: "fst (timed f (k, t)) = fst (f k)" "snd (timed f (k, t)) = (snd (f k), t)"
  by (cases "f k"; simp add: timed_def)+

lemma map_scale_down: "fst (scale_down (kube_deployer map_client) platNS ''http'' ns host (k, t)) = None"
  by (simp add: scale_down_def kube_deployer_def fst_timed RouteToWakeProxy_def map_grant map_writes)

lemma watch_ready_at_once:
  assumes "kc_Get c k KDeployment ns deploymentName = Inr (ODeployment d)" "1 \<le> dst_ReadyReplicas (d_Status d)"
  shows "WatchDeploymentReady c ns timeout (k, t) = (None, (k, t))"
proof -
  have "ready_probe c ns k = Some None"
    using assms by (simp add: ready_probe_def get_as_def typed_mk(1) [OF typed_objects(1)])
  then show ?thesis by (simp add: WatchDeploymentReady_def poll.simps)
qed

lemma map_scale_up:
  assumes "status_at map_client k KDeployment ns deploymentName = Some st" "1 \<le> dst_ReadyReplicas st"
    and "spec_at map_client k KService ns appServiceName = Some (SService [port])"
  shows "fst (scale_up (kube_deployer map_client) platNS ''http'' ns host (k, t)) = None"
proof -
  let ?k1 = "snd (ScaleDeployment map_client ns 1 k)"
  have s: "ScaleDeployment map_client ns 1 k = (None, ?k1)" using map_writes(9) [of ns 1 k] by (metis prod.collapse)
  obtain d where d: "kc_Get map_client ?k1 KDeployment ns deploymentName = Inr (ODeployment d)" "d_Status d = st"
    using map_cluster.status_kept(2) [OF s assms(1)]
    by (auto simp: status_at_def status_of_def split: sum.splits kobj.splits)
  have svc: "spec_at map_client ?k1 KService ns appServiceName = Some (SService [port])"
    using writes_only_spec [OF map_cluster.ScaleDeployment_writes(1) [OF s]] assms(3) by simp
  then obtain sv p where "kc_Get map_client ?k1 KService ns appServiceName = Inr (OService sv)" "sv_Ports sv = [p]"
    by (auto simp: spec_at_def key_spec_def split: sum.splits kobj.splits)
  then have "fst (RestoreHTTPRoute map_client ns host platNS GatewayExternal ?k1) = None"
    by (simp add: RestoreHTTPRoute_def get_as_def typed_mk(1) [OF typed_objects(3)] ApplyHTTPRoute_def map_writes)
  then show ?thesis
    using watch_ready_at_once [OF d(1), of "5 * Minute" t] d(2) assms(2)
    by (simp add: scale_up_def kube_deployer_def fst_timed map_writes)
qed

lemma hibernation_moves_route_witness:
  "\<exists>k1 k2 k3. Apply map_client private_manifest demo_up = (None, k1) \<and>
     spec_at map_client k1 KHTTPRoute ''o-r--web'' ''app'' = Some (SRoute (app_route ''o-r--web'' ''web.r.app.d'' ''morsel'' GatewayInternal 8080)) \<and>
     scale_down (kube_deployer map_client) ''morsel'' ''http'' ''o-r--web'' ''web.r.app.d'' (k1, 0) = (None, (k2, 0)) \<and>
     scale_up (kube_deployer map_client) ''morsel'' ''http'' ''o-r--web'' ''web.r.app.d'' (k2, 0) = (None, k3) \<and>
     spec_at map_client (fst k3) KHTTPRoute ''o-r--web'' ''app'' = Some (SRoute (app_route ''o-r--web'' ''web.r.app.d'' ''morsel'' GatewayExternal 8080))"
proof -
  let ?m = private_manifest and ?c = map_client and ?ns = "''o-r--web''" and ?host = "''web.r.app.d''"
  have m: "m_Type ?m = ''http''" "m_Type ?m \<noteq> ''cron''" "m_BaseDomain ?m \<noteq> []" "m_GatewayNS ?m = ''morsel''" "?ns = m_Namespace ?m"
    "?host = AppHostname (m_AppName ?m) (m_RepoName ?m) (m_BaseDomain ?m)" "m_Private ?m" "resolvePort ?m = 8080" "''morsel'' \<noteq> []"
    by (simp_all add: private_manifest_def demo_manifest_def AppHostname_def resolvePort_def appServicePort_def)
  obtain k1 where k1: "Apply ?c ?m demo_up = (None, k1)" using map_Apply [OF m(2), of demo_up] by (metis prod.collapse)
  obtain k2 t2 where k2: "scale_down (kube_deployer ?c) ''morsel'' ''http'' ?ns ?host (k1, 0) = (None, (k2, t2))"
    using map_scale_down [of "''morsel''" ?ns ?host k1 0] by (metis prod.collapse)
  obtain x where x: "RouteToWakeProxy ?c ?ns ?host ''morsel'' GatewayExternal k1 = (None, x)" "ScaleDeployment ?c ?ns 0 x = (None, k2)"
    and t2: "t2 = 0"
    using k2 by (auto simp: scale_down_def kube_deployer_def effect_None)
  have up: "status_at ?c demo_up KDeployment ?ns deploymentName = Some up_status"
    by (simp add: status_at_def map_client_def map_get_def demo_up_def name_of_def object_meta_def deploymentName_def status_of_def)
  have st1: "status_at ?c k1 KDeployment ?ns deploymentName = Some up_status"
    using map_cluster.Apply_deployment(2) [OF k1 m(2)] up m(5) by simp
  have st: "status_at ?c k2 KDeployment ?ns deploymentName = Some up_status"
    by (rule map_cluster.status_kept(2) [OF x(2)]) (use map_cluster.status_kept(1) [OF x(1)] st1 in simp)
  have svc1: "spec_at ?c k1 KService ?ns appServiceName = Some (SService [8080])"
    using map_cluster.Apply_routing(1) [OF k1 m(1,3)] m(5,8) by simp
  then have svc: "spec_at ?c k2 KService ?ns appServiceName = Some (SService [8080])"
    using map_cluster.RouteToWakeProxy_writes(3) [OF x(1)] writes_only_spec [OF map_cluster.ScaleDeployment_writes(1) [OF x(2)]] by simp
  have "fst (scale_up (kube_deployer ?c) ''morsel'' ''http'' ?ns ?host (k2, t2)) = None"
    by (rule map_scale_up [OF st _ svc]) (simp add: up_status_def)
  then obtain k3 t3 where k3: "scale_up (kube_deployer ?c) ''morsel'' ''http'' ?ns ?host (k2, t2) = (None, (k3, t3))" by (metis prod.collapse)
  from hibernation_moves_route [OF map_cluster.kube_quiet_axioms k1 m(1,3,4,9,5,6) k2 k3] k1 k2 k3 t2 m(7,8)
  show ?thesis by (auto simp: httprouteName_def)
qed

section \<open>Rollouts\<close>

text \<open>
  C27. The watch of a rollout ends in time and tells the truth about what it read. It returns at most one poll
  interval (and what the last wait was late) after its timeout of five minutes, unless it is cancelled, and
  a rollout that it reports as successful had, at the last read, a deployment with at least as many
  ready replicas as it asks for.
\<close>

theorem rollout_watch_ends:
  assumes "WatchDeploymentRollout c ns (k, now) = (r, (k', now'))"
    and "\<And>k t. int (snd (snd (kc_Wait c k t))) \<le> late"
  shows "now' \<le> now + rolloutTimeout + rolloutPollInterval + late \<and>
    (r = None \<longrightarrow> (\<exists>d. kc_Get c k' KDeployment ns deploymentName = Inr (ODeployment d) \<and>
       opt_Or (ds_Replicas (d_Spec d)) 1 \<le> dst_ReadyReplicas (d_Status d)))"
proof -
  let ?P = "\<lambda>_ t. t \<le> now + rolloutTimeout + rolloutPollInterval + late"
  have l: "int l \<le> late" if "kc_Wait c x t = (e, x1, l)" for x t e x1 l using assms(2) [of x t] that by simp
  have "0 \<le> late" using assms(2) [of k now] by linarith
  then have start: "?P k now" by (simp add: rolloutTimeout_def rolloutPollInterval_def Minute_def Second_def)
  have run: "poll c (rollout_probe c ns) (rollout_timed_out c ns) (now + rolloutTimeout) (k, now) = (r, (k', now'))"
    using assms(1) by (simp add: WatchDeploymentRollout_def)
  have "?P k' now' \<and> (r = None \<longrightarrow> rollout_probe c ns k' = Some None)"
    by (rule poll_invariant [OF run, where P = ?P, OF start]) (auto dest!: l)
  moreover have "\<exists>d. kc_Get c k' KDeployment ns deploymentName = Inr (ODeployment d) \<and>
      opt_Or (ds_Replicas (d_Spec d)) 1 \<le> dst_ReadyReplicas (d_Status d)" if "rollout_probe c ns k' = Some None"
    using that by (auto simp: rollout_probe_def Let_def get_as_Inr [OF typed_objects(1)] split: sum.splits if_splits option.splits)
  ultimately show ?thesis by blast
qed

lemma rollout_watch_ends_witness:
  "snd (snd (WatchDeploymentRollout map_client ''o-r--web'' (demo_up, 0))) \<le> rolloutTimeout + rolloutPollInterval"
proof -
  obtain r k' now' where w: "WatchDeploymentRollout map_client ''o-r--web'' (demo_up, 0) = (r, (k', now'))" by (metis prod_cases3)
  have "int (snd (snd (kc_Wait map_client k t))) \<le> 0" for k t by (simp add: map_client_def)
  from rollout_watch_ends [OF w this] w show ?thesis by simp
qed

text \<open>
  C28. A redeploy of a running app is reported as successful before it has begun. The watch compares ready with wanted
  replicas without regard to the generation of the deployment (as WaitForAPIReady does), and an update keeps the
  status until the controller reacts: with a ready replica of the old image, the deploy succeeds on the
  first read, and the new image is recorded as the last healthy one, whatever it is.
\<close>

theorem redeploy_reported_at_once:
  assumes "kube_laws c" "status_at c k KDeployment (m_Namespace m) deploymentName = Some st" "1 \<le> dst_ReadyReplicas st"
    and "Apply c m k = (None, k1)" "m_Type m \<noteq> ''cron''"
    and "reliable s" "find_op s opID = Some x" "find_app s appID = Some a"
  shows "\<exists>s'. runDeploy (kube_deployer c) opID appID m lastHealthy (s, (k, t)) = (s', (k1, t)) \<and>
    (\<exists>x'. find_op s' opID = Some x' \<and> o_Status x' = ''succeeded'') \<and>
    (\<exists>a'. find_app s' appID = Some a' \<and> a_Status a' = ''running'' \<and> a_ImageLastHealthy a' = null_string (m_Image m))"
proof -
  note d = kube_laws.Apply_deployment [OF assms(1,4,5)]
  have "rollout_probe c (m_Namespace m) k1 = Some None"
    by (rule kube_laws.rollout_probe_ready [OF assms(1) d(1)]) (use d(2) assms(2,3) in simp_all)
  then have w: "WatchDeploymentRollout c (m_Namespace m) (k1, t) = (None, (k1, t))"
    by (simp add: WatchDeploymentRollout_def poll.simps)
  have ap: "timed (Apply c m) (k, t) = (None, (k1, t))" using assms(4) by (simp add: timed_def)
  show ?thesis
    using assms(5-8) ap w by (simp add: runDeploy_def kube_deployer_def Let_def)
qed

lemma redeploy_reported_at_once_witness:
  "\<exists>s' k1. runDeploy (kube_deployer map_client) ''op_1'' 1 (demo_manifest\<lparr>m_Image := ''broken''\<rparr>) ''img1'' (demo_db, (demo_up, 0)) = (s', (k1, 0)) \<and>
     (\<exists>a'. find_app s' 1 = Some a' \<and> a_Status a' = ''running'' \<and> a_ImageLastHealthy a' = Some ''broken'')"
proof -
  let ?m = "demo_manifest\<lparr>m_Image := ''broken''\<rparr>"
  have m: "m_Type ?m \<noteq> ''cron''" by (simp add: demo_manifest_def)
  obtain k1 where k1: "Apply map_client ?m demo_up = (None, k1)" using map_Apply [OF m, of demo_up] by (metis prod.collapse)
  have up: "status_at map_client demo_up KDeployment (m_Namespace ?m) deploymentName = Some up_status"
    by (simp add: status_at_def map_client_def map_get_def demo_up_def name_of_def object_meta_def deploymentName_def status_of_def
        demo_manifest_def)
  from redeploy_reported_at_once [OF map_cluster.kube_laws_axioms up _ k1 m demo_reliable demo_lookups, of "''img1''" 0]
  show ?thesis by (auto simp: up_status_def null_string_def)
qed

end
