(* ===== verification/Session.thy ===== *)
theory Session
  imports Auth Net
begin

text \<open>
  Sessions of the admin UI: \<open>adminui/handler/auth.go\<close> (the session cookie, the session middleware with
  its silent refresh, the GitHub login) and the session of \<open>handler.go\<close>.

  HMAC, the JSON codec of the session, the unverified reading of a token and the HTTP client with what it talks to
  are arguments, the fields of the record \<open>ui\<close>; a request body is its content. A handler returns the cookies
  that it sets and its answer.
\<close>

section \<open>State and answers\<close>

record session =
  s_AccessToken :: string
  s_RefreshToken :: string

datatype ui_body =
    RefreshReq string
  | CodeReq string string string string
  | AuthReq string

text \<open>
  \<open>ui_ParseUnverified\<close> yields the expiry and the role of a token, or the zero values when it does not
  parse. \<open>ui_Do\<close> is one exchange: the error of the transport, or status and body.
\<close>

record 'w ui =
  ui_apiURL :: string
  ui_sessionKey :: string
  ui_githubClientID :: string
  ui_githubClientSecret :: string
  ui_hmac :: "string \<Rightarrow> string \<Rightarrow> string"
  ui_Marshal :: "session \<Rightarrow> string + string"
  ui_Unmarshal :: "string \<Rightarrow> string + session"
  ui_ParseUnverified :: "string \<Rightarrow> time option \<times> string"
  ui_NewRequest :: "string \<Rightarrow> string option"
  ui_Do :: "string \<Rightarrow> ui_body \<Rightarrow> 'w \<Rightarrow> (string + int \<times> string) \<times> 'w"
  ui_DecodePair :: "string \<Rightarrow> string + string \<times> string"
  ui_DecodeGitHub :: "string \<Rightarrow> string + string \<times> string"
  ui_rand :: "string + string"

record Cookie =
  ck_Name :: string
  ck_Value :: string
  ck_MaxAge :: int

datatype ui_answer =
    Redirect string int
  | HttpError string int
  | LoginPage string
  | NextHandler session

section \<open>The session cookie\<close>

definition sessionCookie :: string where "sessionCookie = ''morsel_admin''"
definition oauthStateCookie :: string where "oauthStateCookie = ''morsel_oauth_state''"

definition session_tag :: "'w ui \<Rightarrow> string \<Rightarrow> string" where
  "session_tag h b64 = b64_Encode (ui_hmac h (ui_sessionKey h) b64)"

definition encodeSession :: "'w ui \<Rightarrow> session \<Rightarrow> string + string" where
  "encodeSession h s =
     (case ui_Marshal h s of
        Inl e \<Rightarrow> Inl e
      | Inr payload \<Rightarrow> let b64 = b64_Encode payload in Inr (b64 @ ''.'' @ session_tag h b64))"

text \<open>What is before and after the last occurrence of a character, \<open>strings.LastIndex\<close>.\<close>

definition cut_last :: "char \<Rightarrow> string \<Rightarrow> (string \<times> string) option" where
  "cut_last c s =
     (if c \<in> set s
      then Some (rev (tl (dropWhile (\<lambda>x. x \<noteq> c) (rev s))), rev (takeWhile (\<lambda>x. x \<noteq> c) (rev s)))
      else None)"

definition decodeSession :: "'w ui \<Rightarrow> string \<Rightarrow> string + session" where
  "decodeSession h cookieVal =
     (case cut_last (CHR ''.'') cookieVal of
        None \<Rightarrow> Inl ''malformed session cookie''
      | Some (b64, sig) \<Rightarrow>
          if sig \<noteq> session_tag h b64 then Inl ''session cookie signature mismatch''
          else (case b64_Decode b64 of
                  None \<Rightarrow> Inl ''illegal base64 data''
                | Some payload \<Rightarrow> ui_Unmarshal h payload))"

definition setSessionCookie :: "'w ui \<Rightarrow> session \<Rightarrow> string + Cookie" where
  "setSessionCookie h s =
     (case encodeSession h s of
        Inl e \<Rightarrow> Inl e
      | Inr val \<Rightarrow> Inr \<lparr> ck_Name = sessionCookie, ck_Value = val, ck_MaxAge = (8 * Hour) div Second \<rparr>)"

definition clearSessionCookie :: Cookie where
  "clearSessionCookie = \<lparr> ck_Name = sessionCookie, ck_Value = [], ck_MaxAge = -1 \<rparr>"

section \<open>Reading tokens\<close>

definition accessTokenExpiry :: "'w ui \<Rightarrow> string \<Rightarrow> time" where
  "accessTokenExpiry h accessToken = (case fst (ui_ParseUnverified h accessToken) of Some t \<Rightarrow> t | None \<Rightarrow> 0)"

definition sessionIsAdmin :: "'w ui \<Rightarrow> session option \<Rightarrow> bool" where
  "sessionIsAdmin h s = (case s of None \<Rightarrow> False | Some s \<Rightarrow> snd (ui_ParseUnverified h (s_AccessToken s)) = RoleAdmin)"

section \<open>The middleware\<close>

definition refreshSession :: "'w ui \<Rightarrow> string \<Rightarrow> 'w \<Rightarrow> (string + session) \<times> 'w" where
  "refreshSession h refreshToken w =
     (let url = ui_apiURL h @ ''/api/token/refresh'' in
      case ui_NewRequest h url of
        Some e \<Rightarrow> (Inl (''build refresh request: '' @ e), w)
      | None \<Rightarrow>
          (case ui_Do h url (RefreshReq refreshToken) w of
             (Inl e, w1) \<Rightarrow> (Inl (''refresh token: '' @ e), w1)
           | (Inr (status, body), w1) \<Rightarrow>
               if status \<noteq> 200 then (Inl (''refresh returned '' @ strconv_Itoa status), w1)
               else (case ui_DecodePair h body of
                       Inl e \<Rightarrow> (Inl (''decode refresh response: '' @ e), w1)
                     | Inr (accessToken, newToken) \<Rightarrow>
                         (Inr \<lparr> s_AccessToken = accessToken, s_RefreshToken = newToken \<rparr>, w1))))"

definition expiring :: "'w ui \<Rightarrow> time \<Rightarrow> session \<Rightarrow> bool" where
  "expiring h now s \<longleftrightarrow>
     (let exp = accessTokenExpiry h (s_AccessToken s) in \<not> time_IsZero exp \<and> time_Sub exp now < 30 * Second)"

definition RequireSession :: "'w ui \<Rightarrow> time \<Rightarrow> string option \<Rightarrow> 'w \<Rightarrow> (Cookie list \<times> ui_answer) \<times> 'w" where
  "RequireSession h now cookie w =
     (case cookie of
        None \<Rightarrow> (([], Redirect ''/login'' 303), w)
      | Some v \<Rightarrow>
          (case decodeSession h v of
             Inl _ \<Rightarrow> (([clearSessionCookie], Redirect ''/login'' 303), w)
           | Inr s \<Rightarrow>
               if expiring h now s then
                 (case refreshSession h (s_RefreshToken s) w of
                    (Inl _, w1) \<Rightarrow> (([clearSessionCookie], Redirect ''/login'' 303), w1)
                  | (Inr s1, w1) \<Rightarrow>
                      ((case setSessionCookie h s1 of Inl _ \<Rightarrow> [] | Inr c \<Rightarrow> [c], NextHandler s1), w1))
               else (([], NextHandler s), w)))"

section \<open>GitHub login\<close>

record ui_request =
  rq_TLS :: bool
  rq_ForwardedProto :: string
  rq_Host :: string
  rq_RawQuery :: string
  rq_StateCookie :: "string option"

definition callbackURL :: "ui_request \<Rightarrow> string" where
  "callbackURL r =
     (let scheme = (if \<not> rq_TLS r \<and> rq_ForwardedProto r \<noteq> ''https'' then ''http'' else ''https'')
      in scheme @ ''://'' @ rq_Host r @ ''/oidc/callback'')"

text \<open>\<open>url.Values.Encode\<close> writes the pairs in the order of their keys.\<close>

definition ServeLogin :: "'w ui \<Rightarrow> ui_request \<Rightarrow> Cookie list \<times> ui_answer" where
  "ServeLogin h r =
     (if ui_githubClientID h = [] then ([], LoginPage ''GitHub OAuth is not configured for this deployment.'')
      else case ui_rand h of
        Inl _ \<Rightarrow> ([], HttpError ''internal error'' 500)
      | Inr stateBytes \<Rightarrow>
          let state = hex_Encode stateBytes;
              authURL = ''https://github.com/login/oauth/authorize?'' @
                ''client_id='' @ QueryEscape (ui_githubClientID h) @
                ''&redirect_uri='' @ QueryEscape (callbackURL r) @
                ''&scope='' @ QueryEscape ''read:user'' @
                ''&state='' @ QueryEscape state
          in ([\<lparr> ck_Name = oauthStateCookie, ck_Value = state, ck_MaxAge = 600 \<rparr>], Redirect authURL 302))"

definition exchangeGitHubCode :: "'w ui \<Rightarrow> string \<Rightarrow> string \<Rightarrow> 'w \<Rightarrow> (string + string) \<times> 'w" where
  "exchangeGitHubCode h code redirectURI w =
     (let url = ''https://github.com/login/oauth/access_token'' in
      case ui_NewRequest h url of
        Some e \<Rightarrow> (Inl (''build github token request: '' @ e), w)
      | None \<Rightarrow>
          (case ui_Do h url (CodeReq (ui_githubClientID h) (ui_githubClientSecret h) code redirectURI) w of
             (Inl e, w1) \<Rightarrow> (Inl (''exchange github code: '' @ e), w1)
           | (Inr (_, body), w1) \<Rightarrow>
               (case ui_DecodeGitHub h body of
                  Inl e \<Rightarrow> (Inl (''decode github token response: '' @ e), w1)
                | Inr (accessToken, err) \<Rightarrow>
                    if err \<noteq> [] then (Inl (''github token error: '' @ err), w1)
                    else if accessToken = [] then (Inl ''github returned empty access token'', w1)
                    else (Inr accessToken, w1))))"

definition githubTokenToSession :: "'w ui \<Rightarrow> string \<Rightarrow> 'w \<Rightarrow> (string + session) \<times> 'w" where
  "githubTokenToSession h githubToken w =
     (let url = ui_apiURL h @ ''/token/oidc'' in
      case ui_NewRequest h url of
        Some e \<Rightarrow> (Inl (''build morsel auth request: '' @ e), w)
      | None \<Rightarrow>
          (case ui_Do h url (AuthReq githubToken) w of
             (Inl e, w1) \<Rightarrow> (Inl (''morsel github auth: '' @ e), w1)
           | (Inr (status, body), w1) \<Rightarrow>
               if status = 403 then (Inl ''principal has viewer access only'', w1)
               else if status \<noteq> 200 then (Inl (''morsel github auth returned '' @ strconv_Itoa status), w1)
               else (case ui_DecodePair h body of
                       Inl e \<Rightarrow> (Inl (''decode morsel token response: '' @ e), w1)
                     | Inr (accessToken, newToken) \<Rightarrow>
                         (Inr \<lparr> s_AccessToken = accessToken, s_RefreshToken = newToken \<rparr>, w1))))"

definition clear_state_cookie :: Cookie where
  "clear_state_cookie = \<lparr> ck_Name = oauthStateCookie, ck_Value = [], ck_MaxAge = -1 \<rparr>"

definition HandleGitHubCallback :: "'w ui \<Rightarrow> ui_request \<Rightarrow> 'w \<Rightarrow> (Cookie list \<times> ui_answer) \<times> 'w" where
  "HandleGitHubCallback h r w =
     (if rq_StateCookie r \<noteq> Some (query_Get (rq_RawQuery r) ''state'') then (([], Redirect ''/login'' 303), w)
      else let code = query_Get (rq_RawQuery r) ''code'' in
        if code = [] then (([clear_state_cookie], Redirect ''/login'' 303), w)
        else case exchangeGitHubCode h code (callbackURL r) w of
          (Inl _, w1) \<Rightarrow> (([clear_state_cookie], Redirect ''/login'' 303), w1)
        | (Inr ghToken, w1) \<Rightarrow>
            (case githubTokenToSession h ghToken w1 of
               (Inl _, w2) \<Rightarrow>
                 (([clear_state_cookie], LoginPage ''Your GitHub account does not have access to this platform.''), w2)
             | (Inr s, w2) \<Rightarrow>
                 (case setSessionCookie h s of
                    Inl _ \<Rightarrow> (([clear_state_cookie], HttpError ''internal error'' 500), w2)
                  | Inr c \<Rightarrow> (([clear_state_cookie, c], Redirect ''/apps'' 303), w2))))"

definition HandleLogout :: "Cookie list \<times> ui_answer" where
  "HandleLogout = ([clearSessionCookie], Redirect ''/login'' 303)"

section \<open>Properties\<close>

lemma cut_last_append: "c \<notin> set t \<Longrightarrow> cut_last c (s @ c # t) = Some (s, t)"
  by (auto simp: cut_last_def takeWhile_append dropWhile_append)

lemma cut_last_Some:
  assumes "cut_last c v = Some (a, b)"
  shows "v = a @ c # b" "c \<notin> set b"
proof -
  from assms have "c \<in> set v" by (auto simp: cut_last_def split: if_splits)
  then obtain s t where v: "v = s @ c # t" and t: "c \<notin> set t" by (meson split_list_last)
  with assms cut_last_append [OF t, of s] show "v = a @ c # b" "c \<notin> set b" by simp_all
qed

lemma session_tag_plain: "CHR ''.'' \<notin> set (session_tag h b64)"
  by (simp add: session_tag_def b64_Encode_chars)

lemma decodeSession_signed:
  "decodeSession h (b64 @ ''.'' @ session_tag h' b64) =
     (if session_tag h' b64 = session_tag h b64
      then (case b64_Decode b64 of None \<Rightarrow> Inl ''illegal base64 data'' | Some payload \<Rightarrow> ui_Unmarshal h payload)
      else Inl ''session cookie signature mismatch'')"
  using cut_last_append [OF session_tag_plain [of h' b64], of b64] by (simp add: decodeSession_def)

lemma decodeSession_Inr:
  assumes "decodeSession h v = Inr s"
  obtains b64 payload where "v = b64 @ ''.'' @ session_tag h b64" "b64_Decode b64 = Some payload" "ui_Unmarshal h payload = Inr s"
  using assms cut_last_Some
  by (fastforce simp: decodeSession_def split: option.splits if_splits prod.splits)

lemma decode_encodeSession:
  assumes "ui_Marshal h s = Inr payload" "ui_Unmarshal h payload = Inr s" "encodeSession h s = Inr v"
  shows "decodeSession h v = Inr s"
  using assms decodeSession_signed [of h "b64_Encode payload" h]
  by (auto simp: encodeSession_def Let_def b64_Decode_Encode)

text \<open>
  C30. The session cookie is authentic. The cookie that is set for a session is read back as that session, a cookie is only
  accepted when its last part is the tag of what precedes it under the key of the service, and an
  instance with another key, whose tag of the payload differs, refuses it.
\<close>

theorem session_cookie_authentic:
  assumes "ui_Marshal h s = Inr payload" "ui_Unmarshal h payload = Inr s"
  shows "\<exists>c. setSessionCookie h s = Inr c \<and> decodeSession h (ck_Value c) = Inr s \<and>
      (\<forall>k. ui_hmac h k (b64_Encode payload) \<noteq> ui_hmac h (ui_sessionKey h) (b64_Encode payload) \<longrightarrow>
        decodeSession (h\<lparr>ui_sessionKey := k\<rparr>) (ck_Value c) = Inl ''session cookie signature mismatch'') \<and>
      (\<forall>v s'. decodeSession h v = Inr s' \<longrightarrow>
        (\<exists>b64 p. v = b64 @ ''.'' @ b64_Encode (ui_hmac h (ui_sessionKey h) b64) \<and> b64_Decode b64 = Some p \<and> ui_Unmarshal h p = Inr s'))"
proof -
  let ?b64 = "b64_Encode payload"
  let ?v = "?b64 @ ''.'' @ session_tag h ?b64"
  have enc: "encodeSession h s = Inr ?v" using assms by (simp add: encodeSession_def Let_def)
  have other: "decodeSession (h\<lparr>ui_sessionKey := k\<rparr>) ?v = Inl ''session cookie signature mismatch''"
    if "ui_hmac h k ?b64 \<noteq> ui_hmac h (ui_sessionKey h) ?b64" for k
  proof -
    have "session_tag h ?b64 \<noteq> session_tag (h\<lparr>ui_sessionKey := k\<rparr>) ?b64"
      using that b64_Decode_Encode by (auto simp: session_tag_def) (metis option.inject)
    then show ?thesis by (simp only: decodeSession_signed if_False)
  qed
  have only: "\<exists>b64 p. v = b64 @ ''.'' @ b64_Encode (ui_hmac h (ui_sessionKey h) b64) \<and> b64_Decode b64 = Some p \<and> ui_Unmarshal h p = Inr s'"
    if "decodeSession h v = Inr s'" for v s'
    using decodeSession_Inr [OF that] unfolding session_tag_def by blast
  show ?thesis
    using decode_encodeSession [OF assms enc] other only by (simp add: setSessionCookie_def enc)
qed

subsection \<open>Refreshing over the API\<close>

text \<open>
  The refresh endpoint of the API as the other side of the client: \<open>TokenRefresh\<close> on the database, its
  answer with the encoded pair.
\<close>

definition serve_refresh ::
  "henv \<Rightarrow> (TokenPairResponse \<Rightarrow> string) \<Rightarrow> string \<Rightarrow> db \<Rightarrow> (string + int \<times> string) \<times> db" where
  "serve_refresh e enc tok d =
     (case TokenRefresh e d tok of
        (Inl _, d') \<Rightarrow> (Inr (500, []), d')
      | (Inr (Typed st _), d') \<Rightarrow> (Inr (st, []), d')
      | (Inr (Ok resp), d') \<Rightarrow> (Inr (200, enc resp), d'))"

definition talks_to_api :: "db ui \<Rightarrow> henv \<Rightarrow> (TokenPairResponse \<Rightarrow> string) \<Rightarrow> bool" where
  "talks_to_api h e enc \<longleftrightarrow>
     ui_NewRequest h (ui_apiURL h @ ''/api/token/refresh'') = None \<and>
     (\<forall>tok d. ui_Do h (ui_apiURL h @ ''/api/token/refresh'') (RefreshReq tok) d = serve_refresh e enc tok d) \<and>
     (\<forall>r. ui_DecodePair h (enc r) = Inr (tp_AccessToken r, tp_RefreshToken r))"

lemma refreshSession_ok:
  assumes "talks_to_api h e enc" "TokenRefresh e d tok = (Inr (Ok resp), d')"
  shows "refreshSession h tok d = (Inr \<lparr> s_AccessToken = tp_AccessToken resp, s_RefreshToken = tp_RefreshToken resp \<rparr>, d')"
  using assms by (simp add: refreshSession_def talks_to_api_def serve_refresh_def)

lemma refreshSession_refused:
  assumes "talks_to_api h e enc" "TokenRefresh e d tok = (Inr (Typed 401 det), d')"
  shows "\<exists>err. refreshSession h tok d = (Inl err, d')"
  using assms by (simp add: refreshSession_def talks_to_api_def serve_refresh_def)

lemma expiring_later: "expiring h now s \<Longrightarrow> now \<le> t \<Longrightarrow> expiring h t s"
proof -
  assume e: "expiring h now s" and t: "now \<le> t"
  let ?x = "accessTokenExpiry h (s_AccessToken s)"
  have "time_Sub ?x t \<le> time_Sub ?x now" using t by (simp add: time_Sub_def)
  with e show ?thesis by (simp add: expiring_def Let_def)
qed

text \<open>
  C31. The silent refresh, end to end. A request whose access token is about to expire goes on with a new session, whose
  cookie is set and reads back as that session. Any later request that still carries the old cookie, as a second
  tab's does that was sent before the first answer arrived, is refused its refresh: it is redirected to the login and its answer deletes the session
  cookie of the browser, the new one.
\<close>

theorem silent_refresh_once:
  assumes "wf_db d" "talks_to_api h e enc" "decodeSession h v = Inr s" "expiring h (db_now d) s"
    and "TokenRefresh e d (s_RefreshToken s) = (Inr (Ok resp), d')"
    and "b64_Decode (s_RefreshToken s) = Some raw" "rand32 e = Inr newRaw" "HashRefreshToken e newRaw \<noteq> HashRefreshToken e raw"
    and "s1 = \<lparr> s_AccessToken = tp_AccessToken resp, s_RefreshToken = tp_RefreshToken resp \<rparr>"
    and "ui_Marshal h s1 = Inr payload" "ui_Unmarshal h payload = Inr s1"
    and "db_now d \<le> t" "d1 = d'\<lparr>db_now := t, db_fault := \<lambda>_. None\<rparr>"
  shows "(\<exists>c. RequireSession h (db_now d) (Some v) d = (([c], NextHandler s1), d') \<and>
       ck_Name c = sessionCookie \<and> decodeSession h (ck_Value c) = Inr s1) \<and>
    RequireSession h t (Some v) d1 = (([clearSessionCookie], Redirect ''/login'' 303), d1)"
proof -
  obtain val where val: "encodeSession h s1 = Inr val" "decodeSession h val = Inr s1"
    using decode_encodeSession [OF assms(10,11)] assms(10) by (auto simp: encodeSession_def Let_def)
  have first: "refreshSession h (s_RefreshToken s) d = (Inr s1, d')"
    using refreshSession_ok [OF assms(2,5)] by (simp add: assms(9))
  note refused = TokenRefresh_reuse_refused [OF assms(1,5,6,7,8), of t, folded assms(13)]
  obtain err where second: "refreshSession h (s_RefreshToken s) d1 = (Inl err, d1)"
    using refreshSession_refused [OF assms(2) refused] by auto
  show ?thesis
    using val assms(3,4) expiring_later [OF assms(4,12)]
    by (simp add: RequireSession_def first second setSessionCookie_def)
qed

subsection \<open>Sample\<close>

text \<open>
  A UI over the installation of the samples: the tag is the key followed by the text, the fields of a session and of a pair
  are separated by a comma.
\<close>

definition sample_enc :: "TokenPairResponse \<Rightarrow> string" where
  "sample_enc r = b64_Encode (tp_AccessToken r) @ '','' @ tp_RefreshToken r"

definition sample_ui :: "db ui" where
  "sample_ui = \<lparr> ui_apiURL = ''http://api'', ui_sessionKey = ''k'', ui_githubClientID = [], ui_githubClientSecret = [],
     ui_hmac = (\<lambda>k m. k @ m), ui_Marshal = (\<lambda>s. Inr (s_AccessToken s @ '','' @ s_RefreshToken s)),
     ui_Unmarshal = (\<lambda>p. case strings_Cut p (CHR '','') of (a, b, found) \<Rightarrow>
       if found then Inr \<lparr> s_AccessToken = a, s_RefreshToken = b \<rparr> else Inl ''bad session''),
     ui_ParseUnverified = (\<lambda>_. (Some 60, ''operator'')), ui_NewRequest = (\<lambda>_. None),
     ui_Do = (\<lambda>url body d. case body of
        RefreshReq tok \<Rightarrow> serve_refresh sample_env sample_enc tok d
      | _ \<Rightarrow> (Inl ''unreachable'', d)),
     ui_DecodePair = (\<lambda>b. case strings_Cut b (CHR '','') of (a, r, _) \<Rightarrow>
       (case b64_Decode a of None \<Rightarrow> Inl ''bad pair'' | Some x \<Rightarrow> Inr (x, r))),
     ui_DecodeGitHub = (\<lambda>_. Inl ''not json''), ui_rand = Inr ''r'' \<rparr>"

definition sample_session :: session where
  "sample_session = \<lparr> s_AccessToken = ''jwt'', s_RefreshToken = ''YQ'' \<rparr>"

definition next_session :: session where
  "next_session = \<lparr> s_AccessToken = ''jwt'', s_RefreshToken = ''Yg'' \<rparr>"

lemma sample_codec:
  "ui_Marshal sample_ui sample_session = Inr ''jwt,YQ''" "ui_Unmarshal sample_ui ''jwt,YQ'' = Inr sample_session"
  "ui_Marshal sample_ui next_session = Inr ''jwt,Yg''" "ui_Unmarshal sample_ui ''jwt,Yg'' = Inr next_session"
  by (simp_all add: sample_ui_def sample_session_def next_session_def strings_Cut_def)

lemma sample_talks: "talks_to_api sample_ui sample_env sample_enc"
proof -
  have "CHR '','' \<notin> set (b64_Encode x)" for x
    using b64_Encode_alphabet [of "CHR '',''" x] by (auto simp: b64_val_def Let_def)
  then show ?thesis by (simp add: talks_to_api_def sample_ui_def sample_enc_def b64_Decode_Encode)
qed

lemma session_cookie_authentic_witness:
  "\<exists>c. setSessionCookie sample_ui sample_session = Inr c \<and> decodeSession sample_ui (ck_Value c) = Inr sample_session \<and>
     decodeSession (sample_ui\<lparr>ui_sessionKey := ''other''\<rparr>) (ck_Value c) = Inl ''session cookie signature mismatch''"
proof -
  have "ui_hmac sample_ui ''other'' x \<noteq> ui_hmac sample_ui (ui_sessionKey sample_ui) x" for x
    by (simp add: sample_ui_def)
  with session_cookie_authentic [OF sample_codec(1,2)] show ?thesis by metis
qed

lemma silent_refresh_once_witness:
  "\<exists>v c d'. encodeSession sample_ui sample_session = Inr v \<and>
     RequireSession sample_ui 50 (Some v) sample_db = (([c], NextHandler next_session), d') \<and>
     fst (RequireSession sample_ui 55 (Some v) (d'\<lparr>db_now := 55, db_fault := \<lambda>_. None\<rparr>)) =
       ([clearSessionCookie], Redirect ''/login'' 303)"
proof -
  obtain v where v: "encodeSession sample_ui sample_session = Inr v"
    by (simp add: encodeSession_def sample_codec Let_def)
  have dec: "decodeSession sample_ui v = Inr sample_session"
    by (rule decode_encodeSession [OF sample_codec(1,2) v])
  obtain resp d' where r: "TokenRefresh sample_env sample_db ''YQ'' = (Inr (Ok resp), d')"
    and resp: "tp_AccessToken resp = ''jwt''" "tp_RefreshToken resp = ''Yg''"
    using sample_refresh by (cases "TokenRefresh sample_env sample_db ''YQ''") auto
  have ex: "expiring sample_ui (db_now sample_db) sample_session"
    by (simp add: expiring_def accessTokenExpiry_def sample_ui_def time_IsZero_def time_Sub_def Second_def
        int64_max_def int64_min_def sample_db_def initial_db_def)
  have rt: "s_RefreshToken sample_session = ''YQ''" by (simp add: sample_session_def)
  have rnd: "rand32 sample_env = Inr ''b''" "HashRefreshToken sample_env ''b'' \<noteq> HashRefreshToken sample_env ''a''"
    by (simp_all add: sample_env_def HashRefreshToken_def hex_ab)
  have upd: "next_session = \<lparr> s_AccessToken = tp_AccessToken resp, s_RefreshToken = tp_RefreshToken resp \<rparr>"
    by (simp add: next_session_def resp)
  have now: "db_now sample_db = 50" by (simp add: sample_db_def initial_db_def)
  have "db_now sample_db \<le> 55" by (simp add: now)
  from silent_refresh_once [OF sample_wf sample_talks dec ex r [folded rt] sample_raw [folded rt] rnd upd sample_codec(3,4) this refl]
  show ?thesis using v unfolding now by auto
qed

end
