(* ===== verification/System.thy ===== *)
theory System
  imports Repos Wake Kube_Apps Session
begin

text \<open>
  The control plane as a whole: every request of the API that writes, the goroutines that the requests start, the watchers, the wake
  endpoint and its goroutines, as one step relation on the database, the cluster, the secrets, the queues and the goroutines
  that run. A request, a goroutine and a check of a watcher are one step each; they interleave in any order.
\<close>

section \<open>Writes that leave operations alone\<close>

definition quiet :: "db \<Rightarrow> db \<Rightarrow> bool" where
  "quiet d d' \<longleftrightarrow> t_operations d' = t_operations d \<and> db_fault d' = db_fault d"

text \<open>A change of the database by steps of the store that leave the operations and the infrastructure alone.\<close>

definition calm :: "db \<Rightarrow> db \<Rightarrow> bool" where
  "calm d d' \<longleftrightarrow> store_steps d d' \<and> quiet d d'"

lemma quiet_refl [simp, intro]: "quiet d d"
  by (simp add: quiet_def)

lemma quiet_trans: "quiet a b \<Longrightarrow> quiet b c \<Longrightarrow> quiet a c"
  by (simp add: quiet_def)

lemma calm_refl [simp, intro]: "calm d d"
  by (simp add: calm_def)

lemma calm_trans: "calm a b \<Longrightarrow> calm b c \<Longrightarrow> calm a c"
  unfolding calm_def by (blast intro: quiet_trans rtranclp_trans)

lemma quiet_log_err: "quiet c d \<Longrightarrow> (\<And>d'. r = Inr d' \<Longrightarrow> quiet d d') \<Longrightarrow> quiet c (log_err d r)"
  by (cases r) (auto intro: quiet_trans)

lemmas frame_simps = quiet_def guarded_Inr Let_def

lemma quiet_principals:
  "UpsertPrincipal d i login = Inr (p, d') \<Longrightarrow> quiet d d'"
  "DeletePrincipal d i = Inr d' \<Longrightarrow> quiet d d'"
  "SetOperator d i b = Inr d' \<Longrightarrow> quiet d d'"
  "SetAdmin d i b = Inr d' \<Longrightarrow> quiet d d'"
  "InsertRefreshToken d tid hash subj role exp' = Inr d' \<Longrightarrow> quiet d d'"
  "RotateRefreshToken d tid hash exp' = Inr d' \<Longrightarrow> quiet d d'"
  by (auto simp: frame_simps UpsertPrincipal_def UpsertPrincipal_q_def DeletePrincipal_def DeletePrincipal_q_def
      SetOperator_def SetPrincipalIsOperator_q_def SetAdmin_def SetPrincipalIsAdmin_q_def
      InsertRefreshToken_def InsertRefreshToken_q_def RotateRefreshToken_def RotateRefreshToken_q_def
      split: if_splits option.splits sum.splits)

lemma quiet_tiers:
  "InsertTier d name ma cpu mem blob dbg qg hib = Inr (t, d') \<Longrightarrow> quiet d d'"
  "PatchTier d name ma cpu mem blob dbg qg hib = Inr (t, d') \<Longrightarrow> quiet d d'"
  "DeleteTier d name = Inr d' \<Longrightarrow> quiet d d'"
  "SetDefaultTier d name = Inr d' \<Longrightarrow> quiet d d'"
  "SetRepoTier d slug name = Inr (r, d') \<Longrightarrow> quiet d d'"
  "GetOrCreateRepo d slug name = Inr (r, d') \<Longrightarrow> quiet d d'"
  by (auto simp: frame_simps InsertTier_def InsertTier_q_def PatchTier_def UpdateTier_q_def DeleteTier_def DeleteTier_q_def
      SetDefaultTier_def SetDefaultTier_q_def SetRepoTier_def UpdateRepoTier_q_def GetOrCreateRepo_def UpsertRepo_q_def
      split: if_splits option.splits sum.splits)

lemma quiet_apps:
  "UpsertApp d slug name typ ns img idle = Inr (a, d') \<Longrightarrow> quiet d d'"
  "SetAppHibernated d i reason = Inr d' \<Longrightarrow> quiet d d'"
  "SetAppAwake d i = Inr d' \<Longrightarrow> quiet d d'"
  "UpdateLastActiveAt d i = Inr d' \<Longrightarrow> quiet d d'"
  "MarkAppDeletionPending d i = Inr d' \<Longrightarrow> quiet d d'"
  "UpdateAppStatus d i status = Inr d' \<Longrightarrow> quiet d d'"
  "UpdateAppImages d i cur lh = Inr d' \<Longrightarrow> quiet d d'"
  "RecordScaleEvent d ns app evt = Inr d' \<Longrightarrow> quiet d d'"
  by (auto simp: frame_simps UpsertApp_def UpsertApp_q_def SetAppHibernated_def SetAppHibernated_q_def SetAppAwake_def SetAppAwake_q_def
      UpdateLastActiveAt_def UpdateLastActiveAt_q_def MarkAppDeletionPending_def MarkAppDeletionPending_q_def
      UpdateAppStatus_def UpdateAppStatus_q_def UpdateAppImages_def UpdateAppImages_q_def RecordScaleEvent_def
      InsertScaleEvent_q_def update_app_def add_app_def split: if_splits option.splits sum.splits)

lemma quiet_platform:
  "PatchPlatformConfig d ceil soft hard idle = Inr (c, d') \<Longrightarrow> quiet d d'"
  "UpdatePlatformConfig d cfg = Inr (c, d') \<Longrightarrow> quiet d d'"
  "AddAppExemption d slug app = Inr d' \<Longrightarrow> quiet d d'"
  "RemoveAppExemption d slug app = Inr d' \<Longrightarrow> quiet d d'"
  "AddRepoExemption d slug = Inr d' \<Longrightarrow> quiet d d'"
  "RemoveRepoExemption d slug = Inr d' \<Longrightarrow> quiet d d'"
  "AddPeriodExemption d slug app pend = Inr d' \<Longrightarrow> quiet d d'"
  "ExpirePeriodExemptions d now = Inr d' \<Longrightarrow> quiet d d'"
  "SuppressStaleApp d slug app until' = Inr d' \<Longrightarrow> quiet d d'"
  by (auto simp: frame_simps PatchPlatformConfig_def UpdatePlatformConfig_def UpdatePlatformConfig_q_def
      AddAppExemption_def RemoveAppExemption_def AddRepoExemption_def RemoveRepoExemption_def AddPeriodExemption_def
      UpsertExemption_q_def DeleteAppExemption_q_def DeleteRepoExemption_q_def ExpirePeriodExemptions_def
      ExpirePeriodExemptions_q_def SuppressStaleApp_def UpsertStaleSuppressed_q_def
      split: if_splits option.splits sum.splits)

lemmas quiet_writes = quiet_principals quiet_tiers quiet_apps quiet_platform

lemma calmI: "store_step d d' \<Longrightarrow> quiet d d' \<Longrightarrow> calm d d'"
  by (auto simp: calm_def)

lemmas calm_intros = calmI store_step.intros quiet_writes

lemma calm_log_err: "calm c d \<Longrightarrow> (\<And>d'. r = Inr d' \<Longrightarrow> calm d d') \<Longrightarrow> calm c (log_err d r)"
  by (cases r) (auto intro: calm_trans)

section \<open>The handlers\<close>

lemma calm_operator:
  "calm s (snd (CreateTier claims s creq))"
  "calm s (fst (snd (UpdateTier claims s ureq name)))"
  "calm s (snd (DeleteTier_h claims s name))"
  "calm s (snd (SetDefaultTier_h claims s name))"
  "calm s (snd (UpdateOperatorConfig claims s cfg))"
  "calm s (snd (AddOperatorPrincipal claims s login))"
  "calm s (snd (RemoveOperatorPrincipal claims s login))"
  by (auto simp: CreateTier_def UpdateTier_def DeleteTier_h_def SetDefaultTier_h_def UpdateOperatorConfig_def
      AddOperatorPrincipal_def RemoveOperatorPrincipal_def Let_def
      split: option.splits sum.splits if_splits db_error.splits intro: calm_intros)

lemma calm_exemptions:
  "calm s (snd (AddAppExemption_h claims s slug app))"
  "calm s (snd (RemoveAppExemption_h claims s org repo app))"
  "calm s (snd (AddRepoExemption_h claims s slug))"
  "calm s (snd (RemoveRepoExemption_h claims s org repo))"
  by (auto simp: AddAppExemption_h_def RemoveAppExemption_h_def AddRepoExemption_h_def RemoveRepoExemption_h_def
      write_as_operator_def split: option.splits sum.splits intro: calm_intros)

lemma calm_UpdateRepoTier: "calm s (fst (snd (UpdateRepoTier dep claims (s, k) tier org repo)))"
  by (auto simp: UpdateRepoTier_def Let_def split: option.splits sum.splits db_error.splits intro: calm_intros)

lemma calm_HandlePrincipalPatch: "calm s (snd (HandlePrincipalPatch h s auth login body))"
  by (auto simp: HandlePrincipalPatch_def split: option.splits sum.splits db_error.splits
      intro: calm_intros calm_trans [OF calmI calmI])

lemma calm_HandleAdminIgnoreStale: "calm s (snd (HandleAdminIgnoreStale h s auth org repo app))"
  by (auto simp: HandleAdminIgnoreStale_def split: option.splits intro!: calm_log_err intro: calm_intros)

lemma calm_TokenRefresh: "calm d (snd (TokenRefresh h d tok))"
  by (auto simp: TokenRefresh_def rotate_and_answer_def split: option.splits sum.splits db_error.splits typed.splits
      intro: calm_intros)

lemma calm_issue_pair: "calm d (snd (issue_pair h d claims subject role fatal))"
  by (auto simp: issue_pair_def Let_def split: sum.splits intro: calm_intros)

lemma calm_HandleGitHubAuth: "calm d (snd (HandleGitHubAuth h gh store sec d meth body))"
  by (auto simp: HandleGitHubAuth_def Let_def split: option.splits sum.splits
      intro: calm_intros calm_trans [OF calmI calm_issue_pair])

text \<open>A chain of writes, each of which may fail and end the request with what was written before.\<close>

lemma calm_chain:
  "(\<And>p. r = Inr p \<Longrightarrow> calm d (snd p) \<and> calm (snd p) (snd (snd (g p)))) \<Longrightarrow>
     calm d (snd (snd (case r of Inl e \<Rightarrow> (x, y, d) | Inr p \<Rightarrow> g p)))"
  "(\<And>d'. q = Inr d' \<Longrightarrow> calm d d' \<and> calm d' (snd (snd (f d')))) \<Longrightarrow>
     calm d (snd (snd (case q of Inl e \<Rightarrow> (x, y, d) | Inr d' \<Rightarrow> f d')))"
  by (auto split: sum.splits intro: calm_trans)

lemma calm_HandleBootstrap: "calm d (snd (snd (HandleBootstrap h store sec d meth tok auth)))"
proof (cases "meth \<noteq> ''POST''")
  case False
  let ?got = "GetBootstrapToken store sec"
  let ?bad = "?got = Inl ErrSecretNotFound \<or> tok = [] \<or> tok \<noteq> (case ?got of Inl _ \<Rightarrow> [] | Inr v \<Rightarrow> v)"
  show ?thesis
  proof (cases ?bad)
    case good: False
    then show ?thesis
    proof (cases ?got)
      case (Inr v)
      show ?thesis
      proof (cases "bootstrap_identity h (db_now d) auth")
        case (Inr who)
        show ?thesis
          using good False \<open>?got = Inr v\<close> Inr
          unfolding HandleBootstrap_def Let_def split_def
          by (simp only: if_False sum.case prod.case)
            (rule calm_chain(1), rule conjI, metis prod.collapse calmI store_step.intros(1) quiet_principals(1),
             rule calm_chain(2), rule conjI, blast intro: calm_intros,
             rule calm_chain(2), rule conjI, blast intro: calm_intros, simp add: calm_issue_pair)
      qed (use good False \<open>?got = Inr v\<close> in \<open>simp add: HandleBootstrap_def Let_def\<close>)
    qed (use good False in \<open>simp add: HandleBootstrap_def Let_def\<close>)
  qed (use False in \<open>simp add: HandleBootstrap_def Let_def\<close>)
qed (simp add: HandleBootstrap_def)

section \<open>Operations and their goroutines\<close>

definition unfinished :: "db \<Rightarrow> string set" where
  "unfinished d = o_ID ` {x \<in> set (t_operations d). o_Status x \<noteq> ''succeeded'' \<and> o_Status x \<noteq> ''failed''}"

fun task_op :: "task \<Rightarrow> string set" where
  "task_op (RunDeploy opID _ _ _) = {opID}"
| "task_op (RunHibernate opID _ _ _ _ _) = {opID}"
| "task_op (RunWake opID _ _ _ _ _) = {opID}"
| "task_op (RunDelete opID _ _) = {opID}"
| "task_op (RunPropagate _ _) = {}"

definition task_ops :: "task list \<Rightarrow> string set" where
  "task_ops ts = (\<Union>t \<in> set ts. task_op t)"

lemma task_ops_simps [simp]: "task_ops [] = {}" "task_ops (t # ts) = task_op t \<union> task_ops ts"
  "task_ops (ts @ us) = task_ops ts \<union> task_ops us"
  by (auto simp: task_ops_def)

text \<open>A request leaves no operation unfinished but those whose goroutines it starts.\<close>

definition owed :: "db \<Rightarrow> db \<Rightarrow> task list \<Rightarrow> bool" where
  "owed s s' ts \<longleftrightarrow> unfinished s' \<subseteq> unfinished s \<union> task_ops ts \<and> db_fault s' = db_fault s"

lemma quiet_unfinished: "quiet s s' \<Longrightarrow> unfinished s' = unfinished s"
  by (simp add: quiet_def unfinished_def)

lemma owed_quiet: "quiet s s' \<Longrightarrow> owed s s' ts"
  by (simp add: owed_def quiet_unfinished) (simp add: quiet_def)

lemma owed_after: "quiet s s1 \<Longrightarrow> owed s1 s2 ts \<Longrightarrow> owed s s2 ts"
  by (simp add: owed_def quiet_unfinished) (simp add: quiet_def)

lemma CreateOperation_owed:
  "CreateOperation s i slug name knd = Inr (x, s') \<Longrightarrow> i \<in> task_ops ts \<Longrightarrow> owed s s' ts"
  by (auto simp: CreateOperation_def CreateOperation_q_def guarded_Inr Let_def owed_def unfinished_def split: if_splits)

lemma start_op_owed:
  "start_op h s org repo name knd mk = (r, s', ts) \<Longrightarrow> (\<And>i. task_op (mk i) = {i}) \<Longrightarrow> owed s s' ts"
  by (auto simp: start_op_def split: sum.splits prod.splits intro: owed_quiet CreateOperation_owed)

lemma on_app_owed:
  "on_app msg claims s org repo name f = (r, s', ts) \<Longrightarrow>
     (\<And>app r s' ts. f app = (r, s', ts) \<Longrightarrow> owed s s' ts) \<Longrightarrow> owed s s' ts"
  by (auto simp: on_app_def owed_quiet split: option.splits sum.splits db_error.splits)

lemma DeleteApp_owed: "DeleteApp h claims s org repo name = (r, s', ts) \<Longrightarrow> owed s s' ts"
  unfolding DeleteApp_def
  by (erule on_app_owed)
     (auto simp: owed_quiet split: sum.splits intro: owed_after [OF quiet_apps(5) start_op_owed])

lemma HibernateApp_owed: "HibernateApp h claims s org repo name = (r, s', ts) \<Longrightarrow> owed s s' ts"
  unfolding HibernateApp_def by (erule on_app_owed) (erule start_op_owed, simp)

lemma checkBudget_quiet: "checkBudgetAndMaybeExempt claims s slug app = (r, s') \<Longrightarrow> quiet s s'"
  by (auto simp: checkBudgetAndMaybeExempt_def split: sum.splits if_splits intro: quiet_writes)

lemma WakeApp_owed: "WakeApp h claims s org repo name = (r, s', ts) \<Longrightarrow> owed s s' ts"
  unfolding WakeApp_def
  by (erule on_app_owed)
     (auto split: prod.splits sum.splits bool.splits dest: checkBudget_quiet
       intro: owed_quiet owed_after [OF checkBudget_quiet start_op_owed])

lemma UpsertApp_h_owed: "UpsertApp_h h claims s spec org repo = (r, s', ts) \<Longrightarrow> owed s s' ts"
  by (auto simp: UpsertApp_h_def Let_def split: option.splits sum.splits prod.splits
      intro: owed_quiet quiet_writes quiet_trans [OF quiet_tiers(6) quiet_apps(1)]
        owed_after [OF quiet_trans [OF quiet_tiers(6) quiet_apps(1)] CreateOperation_owed])

subsection \<open>Synchronising\<close>

lemma sync_upserts_calm: "sync_upserts slug specs s = (e, s') \<Longrightarrow> calm s s'"
  by (induction slug specs s arbitrary: e s' rule: sync_upserts.induct)
     (auto simp: Let_def split: sum.splits intro: calm_trans [OF calmI] store_step.intros quiet_writes)

lemma sync_deletes_calm: "sync_deletes desired apps s = (e, s') \<Longrightarrow> calm s s'"
  by (induction desired apps s arbitrary: e s' rule: sync_deletes.induct)
     (auto split: sum.splits if_splits intro: calm_trans [OF calmI] store_step.intros quiet_writes)

text \<open>The operation of a synchronisation is created and ended within the request.\<close>

lemma created_and_succeeded:
  assumes "CreateOperation s i slug name knd = Inr (x, s1)" "SucceedOperation s1 i = Inr s2"
  shows "store_steps s s2" "owed s s2 []"
proof -
  have "store_step s s1" "store_step s1 s2" using assms by (blast intro: store_step.intros)+
  then show "store_steps s s2" by (blast intro: converse_rtranclp_into_rtranclp)
  show "owed s s2 []"
    using assms
    by (auto simp: CreateOperation_def CreateOperation_q_def SucceedOperation_def UpdateOperationStatus_q_def guarded_Inr
        Let_def owed_def unfinished_def set_upd is_op_def split: if_splits)
qed

lemma SyncRepo_writes:
  assumes "SyncRepo h claims s apps org repo = (r, s')"
  obtains (apps) "calm s s'"
  | (op) s1 i slug x s2 where "calm s s1" "CreateOperation s1 i slug [] ''sync'' = Inr (x, s2)"
      "SucceedOperation s2 i = Inr s' \<or> s' = s2 \<and> (\<exists>e. SucceedOperation s2 i = Inl e)"
proof (cases "\<exists>s1 i slug x s2. calm s s1 \<and> CreateOperation s1 i slug [] ''sync'' = Inr (x, s2) \<and>
    (SucceedOperation s2 i = Inr s' \<or> s' = s2 \<and> (\<exists>e. SucceedOperation s2 i = Inl e))")
  case True
  then show thesis using op by blast
next
  case False
  have step: "calm s s3" if "GetOrCreateRepo s slug t = Inr (rp, s1)" "sync_upserts slug apps s1 = (e, s2)" "s3 = s2 \<or> sync_deletes des ex s2 = (e', s3)"
    for slug t rp s1 e s2 s3 des ex e'
  proof -
    have "calm s s1" using that(1) by (blast intro: calm_intros)
    then show ?thesis using that(2,3) sync_upserts_calm sync_deletes_calm by (blast intro: calm_trans)
  qed
  have "calm s s'"
    using assms False
    by (auto simp: SyncRepo_def Let_def split: option.splits sum.splits prod.splits dest: step)
  then show thesis by (rule apps)
qed

lemma SyncRepo_steps:
  assumes "SyncRepo h claims s apps org repo = (r, s')"
  shows "store_steps s s'"
  using assms
proof (cases rule: SyncRepo_writes)
  case (op s1 i slug x s2)
  then have "store_steps s s1" "store_step s1 s2" by (auto simp: calm_def intro: store_step.intros)
  with op(3) show ?thesis by (auto intro: rtranclp.rtrancl_into_rtrancl store_step.intros)
qed (simp add: calm_def)

lemma SyncRepo_owed:
  assumes "SyncRepo h claims s apps org repo = (r, s')" "reliable s"
  shows "owed s s' []"
  using assms(1)
proof (cases rule: SyncRepo_writes)
  case apps
  then show ?thesis by (simp add: calm_def owed_quiet)
next
  case (op s1 i slug x s2)
  then have q: "quiet s s1" by (simp add: calm_def)
  then have "reliable s1" using assms(2) by (simp add: quiet_def reliable_def)
  then have "reliable s2"
    using op(2) by (auto simp: CreateOperation_def CreateOperation_q_def Let_def reliable_def split: if_splits)
  with op(3) have "SucceedOperation s2 i = Inr s'" by simp
  with op(2) show ?thesis by (rule owed_after [OF q created_and_succeeded(2)])
qed

subsection \<open>Goroutines and watchers\<close>

lemma unfinished_frame [simp]:
  "unfinished (update_app d a f) = unfinished d" "unfinished (add_event d ns app evt) = unfinished d"
  by (simp_all add: unfinished_def update_app_def add_event_def)

lemma unfinished_put_op:
  assumes "j \<in> unfinished (put_op d i st e)"
  shows "j = i \<and> st \<noteq> ''succeeded'' \<and> st \<noteq> ''failed'' \<or> j \<noteq> i \<and> j \<in> unfinished d"
proof -
  from assms obtain y where y: "y \<in> set (t_operations (put_op d i st e))" "j = o_ID y"
    "o_Status y \<noteq> ''succeeded''" "o_Status y \<noteq> ''failed''" unfolding unfinished_def by blast
  from y(1) obtain x where x: "x \<in> set (t_operations d)"
    "y = (if is_op i x then x\<lparr>o_Status := st, o_Error := e, o_UpdatedAt := sql_now d\<rparr> else x)"
    by (auto simp: put_op_def set_upd simp del: is_op_def)
  show ?thesis
  proof (cases "is_op i x")
    case True
    with x y show ?thesis by (simp add: is_op_def)
  next
    case False
    with x y have "j \<noteq> i" "j \<in> unfinished d" by (auto simp: is_op_def unfinished_def)
    then show ?thesis by simp
  qed
qed

text \<open>
  On the way of a goroutine: no operation but its own has been touched. At its end: its own has ended.
\<close>

definition underway :: "string \<Rightarrow> db \<Rightarrow> db \<Rightarrow> bool" where
  "underway i s x \<longleftrightarrow> reliable x \<and> unfinished x - {i} \<subseteq> unfinished s - {i}"

definition settled :: "string \<Rightarrow> db \<Rightarrow> db \<Rightarrow> bool" where
  "settled i s x \<longleftrightarrow> reliable x \<and> unfinished x \<subseteq> unfinished s - {i}"

lemma underway_intros:
  "reliable s \<Longrightarrow> underway i s s"
  "underway i s x \<Longrightarrow> underway i s (put_op x i st e)"
  "underway i s x \<Longrightarrow> underway i s (update_app x a f)"
  "underway i s x \<Longrightarrow> underway i s (add_event x ns app evt)"
proof -
  show "underway i s (put_op x i st e)" if "underway i s x"
    using that unfinished_put_op [of _ x i st e] by (fastforce simp: underway_def)
qed (simp_all add: underway_def)

lemma settled_intros:
  "underway i s x \<Longrightarrow> settled i s (put_op x i ''succeeded'' e)"
  "underway i s x \<Longrightarrow> settled i s (put_op x i ''failed'' e)"
  "settled i s x \<Longrightarrow> settled i s (update_app x a f)"
  using unfinished_put_op [of _ x i _ e] by (fastforce simp: underway_def settled_def)+

lemmas task_defs = fail_deploy_def record_hibernated_def Let_def

lemma tasks_settle:
  assumes "reliable s"
  shows "settled i s (fst (runDeploy dep i appID m lh (s, k)))"
    "settled i s (fst (hibernateApp dep platNS i appID typ name ns host (s, k)))"
    "settled i s (fst (wakeApp dep platNS i appID typ name ns host (s, k)))"
    "settled i s (fst (deleteApp dep i appID ns (s, k)))"
  using assms
  by (simp_all add: runDeploy_def hibernateApp_def wakeApp_def deleteApp_def task_defs settled_intros underway_intros
      split: prod.split option.split)

lemma run_task_settles:
  assumes "reliable s" "fst (run_task h dep t (s, k)) = s'"
  shows "unfinished s' \<subseteq> unfinished s - task_op t" "reliable s'"
  using assms(1)
  by (cases t; simp add: assms(2) [symmetric] tasks_settle [OF assms(1), unfolded settled_def]
      propagateTierToNamespaces_def split: sum.split)+

subsection \<open>Watchers and wakes\<close>

lemma quiet_record_hibernated: "quiet c s \<Longrightarrow> quiet c (record_hibernated s ns app i reason)"
  unfolding record_hibernated_def Let_def by (intro quiet_log_err) (auto intro: quiet_writes)

lemma quiet_force_hibernate_app: "quiet c s \<Longrightarrow> quiet c (fst (force_hibernate_app h dep app (s, k)))"
  by (auto simp: force_hibernate_app_def Let_def quiet_record_hibernated split: option.splits sum.splits prod.splits)

lemma quiet_force_hibernate_apps: "quiet c s \<Longrightarrow> quiet c (fst (force_hibernate_apps h dep apps (s, k)))"
proof (induction apps arbitrary: s k)
  case (Cons app apps)
  obtain s1 k1 where "force_hibernate_app h dep app (s, k) = (s1, k1)" by fastforce
  with Cons.IH [of s1 k1] quiet_force_hibernate_app [OF Cons.prems, of h dep app k] show ?case by simp
qed simp

lemma quiet_forceHibernateAll: "quiet c s \<Longrightarrow> forceHibernateAll h dep (s, k) = (s', k') \<Longrightarrow> quiet c s'"
  using quiet_force_hibernate_apps [of c s h dep _ k] by (auto simp: forceHibernateAll_def split: sum.splits) (metis fst_conv)

lemma quiet_UpdatePlatformConfig: "UpdatePlatformConfig d c = Inr (c', d') \<Longrightarrow> quiet s d \<Longrightarrow> quiet s d'"
  by (blast intro: quiet_trans quiet_writes)

lemma quiet_roll_period: "roll_period s cfg now = (r, s') \<Longrightarrow> quiet s s'"
proof -
  assume "roll_period s cfg now = (r, s')"
  moreover have "quiet s (log_err s (ExpirePeriodExemptions s now))" by (intro quiet_log_err) (auto intro: quiet_writes)
  ultimately show ?thesis
    by (auto simp: roll_period_def Let_def split: if_splits sum.splits intro: quiet_UpdatePlatformConfig)
qed

lemma quiet_tick: "quiet s (fst (tick h dep (s, k)))"
  by (auto simp: tick_def Let_def split: sum.splits prod.splits option.splits if_splits
      intro: quiet_UpdatePlatformConfig quiet_forceHibernateAll dest: quiet_roll_period)

lemma quiet_check_app: "quiet c s \<Longrightarrow> check_app h dep dataDir now app (s, k, q) = (s', k', q') \<Longrightarrow> quiet c s'"
proof -
  assume c: "quiet c s" and run: "check_app h dep dataDir now app (s, k, q) = (s', k', q')"
  have "s' = s \<or> (\<exists>ns name reason. s' = record_hibernated s ns name (a_ID app) reason) \<or> s' = log_err s (UpdateLastActiveAt s (a_ID app))"
    using run by (auto simp: check_defs split: if_splits option.splits sum.splits prod.splits)
  moreover have "quiet c (log_err s (UpdateLastActiveAt s (a_ID app)))"
    by (rule quiet_log_err [OF c]) (auto intro: quiet_writes)
  ultimately show ?thesis using c quiet_record_hibernated by metis
qed

lemma quiet_check_apps: "quiet c s \<Longrightarrow> check_apps h dep dataDir now apps (s, k, q) = (s', k', q') \<Longrightarrow> quiet c s'"
proof (induction apps arbitrary: s k q)
  case (Cons app apps)
  obtain s1 k1 q1 where s1: "check_app h dep dataDir now app (s, k, q) = (s1, k1, q1)" by (metis prod_cases3)
  from Cons.IH [OF quiet_check_app [OF Cons.prems(1) s1]] Cons.prems(2) s1 show ?case by simp
qed simp

lemma quiet_checkAll: "checkAll h dep dataDir (s, k, q) = (s', k', q') \<Longrightarrow> quiet s s'"
  by (auto simp: checkAll_def split: sum.splits intro: quiet_check_apps [of s])

lemma quiet_internalWakeHandler:
  "internalWakeHandler h dep httpMethod auth host w = (r, w') \<Longrightarrow> quiet (ws_db w) (ws_db w')"
proof (erule internalWakeHandler_cases)
  fix apps app
  assume "wake_found app w = (r, w')"
  moreover have "quiet (ws_db w) (log_err (ws_db w) (UpdateLastActiveAt (ws_db w) (a_ID app)))"
    by (intro quiet_log_err) (auto intro: quiet_writes)
  ultimately show ?thesis by (auto simp: wake_found_def start_wake_def Let_def split: option.splits if_splits)
qed simp

lemma set_awake_calm: "calm s (snd (set_awake s i))"
  by (auto simp: set_awake_def split: sum.splits intro: calm_intros calm_trans [OF calmI calmI])

lemma finish_wake_calm: "calm (ws_db w) (ws_db (finish_wake h dep t w))"
  using set_awake_calm [of "ws_db w" "tk_appID t"]
  by (auto simp: finish_wake_def mux_wakeApp_def split: prod.splits option.splits)

section \<open>The step relation\<close>

text \<open>
  The requests of the API that write: from the database, the cluster and the secrets to the same after the request, and the
  goroutines that it starts. Requests come with any claims and any environment (the random source differs from request to request).
\<close>

inductive api_call :: "'s SecretStore \<Rightarrow> 'k AppDeployer \<Rightarrow> db \<times> 'k \<times> 's \<Rightarrow> db \<times> 'k \<times> 's \<times> task list \<Rightarrow> bool"
  for store dep where
  upsert_app: "UpsertApp_h h claims s spec org repo = (r, s', ts) \<Longrightarrow> api_call store dep (s, k, x) (s', k, x, ts)"
| delete_app: "DeleteApp h claims s org repo name = (r, s', ts) \<Longrightarrow> api_call store dep (s, k, x) (s', k, x, ts)"
| hibernate_app: "HibernateApp h claims s org repo name = (r, s', ts) \<Longrightarrow> api_call store dep (s, k, x) (s', k, x, ts)"
| wake_app: "WakeApp h claims s org repo name = (r, s', ts) \<Longrightarrow> api_call store dep (s, k, x) (s', k, x, ts)"
| sync_repo: "SyncRepo h claims s specs org repo = (r, s') \<Longrightarrow> api_call store dep (s, k, x) (s', k, x, [])"
| create_tier: "CreateTier claims s creq = (r, s') \<Longrightarrow> api_call store dep (s, k, x) (s', k, x, [])"
| update_tier: "UpdateTier claims s ureq name = (r, s', ts) \<Longrightarrow> api_call store dep (s, k, x) (s', k, x, ts)"
| delete_tier: "DeleteTier_h claims s name = (r, s') \<Longrightarrow> api_call store dep (s, k, x) (s', k, x, [])"
| default_tier: "SetDefaultTier_h claims s name = (r, s') \<Longrightarrow> api_call store dep (s, k, x) (s', k, x, [])"
| repo_tier: "UpdateRepoTier dep claims (s, k) tier org repo = (r, s', k') \<Longrightarrow> api_call store dep (s, k, x) (s', k', x, [])"
| config: "UpdateOperatorConfig claims s cfg = (r, s') \<Longrightarrow> api_call store dep (s, k, x) (s', k, x, [])"
| add_principal: "AddOperatorPrincipal claims s login = (r, s') \<Longrightarrow> api_call store dep (s, k, x) (s', k, x, [])"
| remove_principal: "RemoveOperatorPrincipal claims s login = (r, s') \<Longrightarrow> api_call store dep (s, k, x) (s', k, x, [])"
| patch_principal: "HandlePrincipalPatch h s auth login body = (r, s') \<Longrightarrow> api_call store dep (s, k, x) (s', k, x, [])"
| exempt_app: "AddAppExemption_h claims s slug name = (r, s') \<Longrightarrow> api_call store dep (s, k, x) (s', k, x, [])"
| unexempt_app: "RemoveAppExemption_h claims s org repo name = (r, s') \<Longrightarrow> api_call store dep (s, k, x) (s', k, x, [])"
| exempt_repo: "AddRepoExemption_h claims s slug = (r, s') \<Longrightarrow> api_call store dep (s, k, x) (s', k, x, [])"
| unexempt_repo: "RemoveRepoExemption_h claims s org repo = (r, s') \<Longrightarrow> api_call store dep (s, k, x) (s', k, x, [])"
| ignore_stale: "HandleAdminIgnoreStale h s auth org repo name = (r, s') \<Longrightarrow> api_call store dep (s, k, x) (s', k, x, [])"
| refresh: "TokenRefresh h s tok = (r, s') \<Longrightarrow> api_call store dep (s, k, x) (s', k, x, [])"
| github_auth: "HandleGitHubAuth h gh store x s meth tokbody = (r, s') \<Longrightarrow> api_call store dep (s, k, x) (s', k, x, [])"
| bootstrap: "HandleBootstrap h store x s meth tok auth = (r, x', s') \<Longrightarrow> api_call store dep (s, k, x) (s', k, x', [])"

lemma calm_of_result:
  "calm s (snd p) \<Longrightarrow> p = (r, s') \<Longrightarrow> calm s s'"
  "calm s (fst (snd p3)) \<Longrightarrow> p3 = (r, s', z) \<Longrightarrow> calm s s'"
  "calm s (snd (snd p4)) \<Longrightarrow> p4 = (r, z, s') \<Longrightarrow> calm s s'"
  by simp_all

lemmas calm_calls = calm_operator(1,3-7) [THEN calm_of_result(1)] calm_operator(2) [THEN calm_of_result(2)]
  calm_exemptions [THEN calm_of_result(1)] calm_UpdateRepoTier [THEN calm_of_result(2)]
  calm_HandlePrincipalPatch [THEN calm_of_result(1)] calm_HandleAdminIgnoreStale [THEN calm_of_result(1)]
  calm_TokenRefresh [THEN calm_of_result(1)] calm_HandleGitHubAuth [THEN calm_of_result(1)]
  calm_HandleBootstrap [THEN calm_of_result(3)]

text \<open>A request concerns operations or leaves them alone.\<close>

lemma api_call_kinds:
  assumes "api_call store dep (s, k, x) (s', k', x', ts)"
  shows "calm s s' \<or> store_steps s s' \<and> (reliable s \<longrightarrow> owed s s' ts)"
  using assms
proof (cases rule: api_call.cases)
  case upsert_app
  then show ?thesis using UpsertApp_h_steps UpsertApp_h_owed by blast
next
  case delete_app
  then show ?thesis using DeleteApp_steps DeleteApp_owed by blast
next
  case hibernate_app
  then show ?thesis using HibernateApp_steps HibernateApp_owed by blast
next
  case wake_app
  then show ?thesis using WakeApp_steps WakeApp_owed by blast
next
  case sync_repo
  then show ?thesis using SyncRepo_steps SyncRepo_owed by blast
qed (blast intro: calm_calls)+

lemma api_call_steps: "api_call store dep (s, k, x) (s', k', x', ts) \<Longrightarrow> store_steps s s'"
  using api_call_kinds [of store dep s k x s' k' x' ts] by (auto simp: calm_def)

lemma api_call_owed: "api_call store dep (s, k, x) (s', k', x', ts) \<Longrightarrow> reliable s \<Longrightarrow> owed s s' ts"
  using api_call_kinds [of store dep s k x s' k' x' ts] by (auto simp: calm_def owed_quiet)

text \<open>
  The whole: the database, the cluster and the wakes in flight, the goroutines of the API, the secrets and the queues. Time passes, the cluster,
  the queues and the secrets change by other hands; where faults are allowed, queries may begin or
  stop to fail, and the process may be restarted, which loses its goroutines.
\<close>

record ('k, 's) system =
  sy_w :: "'k wstate"
  sy_tasks :: "task list"
  sy_secrets :: 's
  sy_queues :: qstate

abbreviation sy_db :: "('k, 's) system \<Rightarrow> db" where "sy_db y \<equiv> ws_db (sy_w y)"
abbreviation sy_k :: "('k, 's) system \<Rightarrow> 'k" where "sy_k y \<equiv> ws_k (sy_w y)"

definition sy_put :: "db \<Rightarrow> 'k \<Rightarrow> ('k, 's) system \<Rightarrow> ('k, 's) system" where
  "sy_put s k y = y\<lparr>sy_w := (sy_w y)\<lparr>ws_db := s, ws_k := k\<rparr>\<rparr>"

lemma sy_put_simps [simp]:
  "sy_w (sy_put s k y) = (sy_w y)\<lparr>ws_db := s, ws_k := k\<rparr>" "sy_tasks (sy_put s k y) = sy_tasks y"
  by (simp_all add: sy_put_def)

inductive sys_step :: "bool \<Rightarrow> 's SecretStore \<Rightarrow> 'k AppDeployer \<Rightarrow> string \<Rightarrow> ('k, 's) system \<Rightarrow> ('k, 's) system \<Rightarrow> bool"
  for faults store dep dataDir where
  request: "api_call store dep (sy_db y, sy_k y, sy_secrets y) (s, k, x, ts) \<Longrightarrow>
    sys_step faults store dep dataDir y ((sy_put s k y)\<lparr>sy_tasks := sy_tasks y @ ts, sy_secrets := x\<rparr>)"
| goroutine: "t \<in> set (sy_tasks y) \<Longrightarrow> run_task h dep t (sy_db y, sy_k y) = (s, k) \<Longrightarrow>
    sys_step faults store dep dataDir y ((sy_put s k y)\<lparr>sy_tasks := remove1 t (sy_tasks y)\<rparr>)"
| budget: "tick h dep (sy_db y, sy_k y) = (s, k) \<Longrightarrow> sys_step faults store dep dataDir y (sy_put s k y)"
| idle: "checkAll h dep dataDir (sy_db y, sy_k y, sy_queues y) = (s, k, q) \<Longrightarrow>
    sys_step faults store dep dataDir y ((sy_put s k y)\<lparr>sy_queues := q\<rparr>)"
| visit: "internalWakeHandler h dep httpMethod auth host (sy_w y) = (r, w) \<Longrightarrow>
    sys_step faults store dep dataDir y (y\<lparr>sy_w := w\<rparr>)"
| woken: "t \<in> set (ws_tasks (sy_w y)) \<Longrightarrow>
    sys_step faults store dep dataDir y (y\<lparr>sy_w := finish_wake h dep t (sy_w y)\<rparr>)"
| world: "f = (\<lambda>_. None) \<or> faults \<Longrightarrow>
    sys_step faults store dep dataDir y ((sy_put ((sy_db y)\<lparr>db_now := now, db_fault := f\<rparr>) k y)\<lparr>sy_queues := q, sy_secrets := x\<rparr>)"
| restart: "faults \<Longrightarrow>
    sys_step faults store dep dataDir y (y\<lparr>sy_w := (sy_w y)\<lparr>wakingNow := {}, ws_tasks := []\<rparr>, sy_tasks := []\<rparr>)"

inductive_cases sys_stepE: "sys_step faults store dep dataDir y y'"

definition sys_start :: "time \<Rightarrow> ('k, 's) system \<Rightarrow> bool" where
  "sys_start now y \<longleftrightarrow> sy_db y = initial_db now \<and> wake_start (sy_w y) \<and> sy_tasks y = []"

lemma sys_step_db: "sys_step faults store dep dataDir y y' \<Longrightarrow> store_steps (sy_db y) (sy_db y')"
proof (erule sys_stepE)
  fix t h s k assume "run_task h dep t (sy_db y, sy_k y) = (s, k)" "y' = (sy_put s k y)\<lparr>sy_tasks := remove1 t (sy_tasks y)\<rparr>"
  then show ?thesis using run_task_steps [of "sy_db y" h dep t "sy_k y"] by simp
next
  fix h s k assume "tick h dep (sy_db y, sy_k y) = (s, k)" "y' = sy_put s k y"
  then show ?thesis using tick_steps [of "sy_db y" h dep "sy_k y"] by simp
next
  fix h m a host r w assume "internalWakeHandler h dep m a host (sy_w y) = (r, w)" "y' = y\<lparr>sy_w := w\<rparr>"
  then show ?thesis by (auto elim!: internalWakeHandler_cases dest: wake_found_steps)
next
  fix t h assume "y' = y\<lparr>sy_w := finish_wake h dep t (sy_w y)\<rparr>"
  then show ?thesis using finish_wake_calm [of "sy_w y" h dep t] by (simp add: calm_def)
next
  fix f now k q x assume "y' = (sy_put ((sy_db y)\<lparr>db_now := now, db_fault := f\<rparr>) k y)\<lparr>sy_queues := q, sy_secrets := x\<rparr>"
  then show ?thesis by (auto intro: store_step.intros(35))
qed (auto dest: api_call_steps checkAll_steps)

lemma sys_step_wakes: "sys_step faults store dep dataDir y y' \<Longrightarrow> wake_inv (sy_w y) \<Longrightarrow> wake_inv (sy_w y')"
proof (erule sys_stepE)
  fix h m a host r w assume "internalWakeHandler h dep m a host (sy_w y) = (r, w)" "wake_inv (sy_w y)" "y' = y\<lparr>sy_w := w\<rparr>"
  then show ?thesis by (auto elim!: internalWakeHandler_cases intro: wake_inv_found)
next
  assume "y' = y\<lparr>sy_w := (sy_w y)\<lparr>wakingNow := {}, ws_tasks := []\<rparr>, sy_tasks := []\<rparr>"
  then show ?thesis by (simp add: wake_inv_def)
qed (simp_all add: wake_inv_finish)

section \<open>Invariants of the control plane\<close>

lemma sys_reach_inv:
  assumes "(sys_step faults store dep dataDir)\<^sup>*\<^sup>* y0 y" "sys_start now y0"
  shows "wf_db (sy_db y) \<and> wake_inv (sy_w y)"
  using assms(1)
proof (induction rule: rtranclp_induct)
  case base
  then show ?case using assms(2) by (simp add: sys_start_def wf_initial_db wake_start_def wake_inv_def)
next
  case (step y y')
  then show ?case using sys_step_db store_steps_wf sys_step_wakes by metis
qed


text \<open>What is unfinished on a database without faults is owed by a goroutine.\<close>

definition all_owed :: "('k, 's) system \<Rightarrow> bool" where
  "all_owed y \<longleftrightarrow> reliable (sy_db y) \<and> unfinished (sy_db y) \<subseteq> task_ops (sy_tasks y)"

lemma all_owed_status:
  "all_owed y \<Longrightarrow> \<forall>x \<in> set (t_operations (sy_db y)). o_Status x = ''succeeded'' \<or> o_Status x = ''failed'' \<or>
     (\<exists>t \<in> set (sy_tasks y). o_ID x \<in> task_op t)"
  unfolding all_owed_def unfinished_def task_ops_def by blast

lemma all_owed_quiet:
  "all_owed y \<Longrightarrow> quiet (sy_db y) (sy_db y') \<Longrightarrow> sy_tasks y' = sy_tasks y \<Longrightarrow> all_owed y'"
  by (simp add: all_owed_def quiet_unfinished) (simp add: quiet_def reliable_def)

lemma task_ops_remove1: "task_ops ts - task_op t \<subseteq> task_ops (remove1 t ts)"
  by (induction ts) auto

lemma all_owed_task:
  assumes "all_owed y" "run_task h dep t (sy_db y, sy_k y) = (s, k)"
  shows "all_owed ((sy_put s k y)\<lparr>sy_tasks := remove1 t (sy_tasks y)\<rparr>)"
proof -
  have "unfinished s \<subseteq> unfinished (sy_db y) - task_op t" "reliable s"
    using run_task_settles [of "sy_db y" h dep t "sy_k y" s] assms by (simp_all add: all_owed_def)
  with assms(1) task_ops_remove1 [of "sy_tasks y" t] show ?thesis by (auto simp: all_owed_def)
qed

lemma all_owed_step: "sys_step False store dep dataDir y y' \<Longrightarrow> all_owed y \<Longrightarrow> all_owed y'"
proof (erule sys_stepE)
  fix s k x ts
  assume "api_call store dep (sy_db y, sy_k y, sy_secrets y) (s, k, x, ts)" "all_owed y"
    and "y' = (sy_put s k y)\<lparr>sy_tasks := sy_tasks y @ ts, sy_secrets := x\<rparr>"
  then show ?thesis using api_call_owed by (fastforce simp: all_owed_def owed_def reliable_def)
next
  fix t h s k
  assume "all_owed y" "run_task h dep t (sy_db y, sy_k y) = (s, k)" "y' = (sy_put s k y)\<lparr>sy_tasks := remove1 t (sy_tasks y)\<rparr>"
  then show ?thesis by (simp add: all_owed_task)
next
  fix h s k assume "all_owed y" "tick h dep (sy_db y, sy_k y) = (s, k)" "y' = sy_put s k y"
  then show ?thesis using quiet_tick [of "sy_db y" h dep "sy_k y"] by (auto intro: all_owed_quiet)
next
  fix h s k q assume "all_owed y" "checkAll h dep dataDir (sy_db y, sy_k y, sy_queues y) = (s, k, q)"
    "y' = (sy_put s k y)\<lparr>sy_queues := q\<rparr>"
  moreover from this have "quiet (sy_db y) s" by (blast intro: quiet_checkAll)
  ultimately show ?thesis by (auto intro: all_owed_quiet)
next
  fix h m a host r w assume "all_owed y" "internalWakeHandler h dep m a host (sy_w y) = (r, w)" "y' = y\<lparr>sy_w := w\<rparr>"
  moreover from this have "quiet (sy_db y) (ws_db w)" by (blast intro: quiet_internalWakeHandler)
  ultimately show ?thesis by (auto intro: all_owed_quiet)
next
  fix t h assume "all_owed y" "y' = y\<lparr>sy_w := finish_wake h dep t (sy_w y)\<rparr>"
  then show ?thesis using finish_wake_calm [of "sy_w y" h dep t] by (auto simp: calm_def intro: all_owed_quiet)
next
  fix f now k q x
  assume "all_owed y" "f = (\<lambda>_. None) \<or> False"
    "y' = (sy_put ((sy_db y)\<lparr>db_now := now, db_fault := f\<rparr>) k y)\<lparr>sy_queues := q, sy_secrets := x\<rparr>"
  then show ?thesis by (simp add: all_owed_def unfinished_def reliable_def)
qed simp

lemma all_owed_reach:
  assumes "(sys_step False store dep dataDir)\<^sup>*\<^sup>* y0 y" "sys_start now y0"
  shows "all_owed y"
  using assms(1)
proof (induction rule: rtranclp_induct)
  case base
  then show ?case using assms(2) by (simp add: sys_start_def all_owed_def reliable_def unfinished_def initial_db_def)
qed (rule all_owed_step)

text \<open>Running the goroutines that are left empties their list.\<close>

lemma goroutines_run_out:
  "\<exists>y'. (sys_step faults store dep dataDir)\<^sup>*\<^sup>* y y' \<and> sy_tasks y' = [] \<and> (all_owed y \<longrightarrow> all_owed y')"
proof (induction "length (sy_tasks y)" arbitrary: y)
  case (Suc n)
  then obtain t ts where ts: "sy_tasks y = t # ts" by (metis length_Suc_conv)
  obtain s k where run: "run_task undefined dep t (sy_db y, sy_k y) = (s, k)" by fastforce
  let ?y1 = "(sy_put s k y)\<lparr>sy_tasks := remove1 t (sy_tasks y)\<rparr>"
  have step: "sys_step faults store dep dataDir y ?y1" by (rule goroutine [OF _ run]) (simp add: ts)
  have "n = length (sy_tasks ?y1)" using Suc(2) ts by simp
  from Suc(1) [OF this] obtain y' where "(sys_step faults store dep dataDir)\<^sup>*\<^sup>* ?y1 y'" "sy_tasks y' = []" "all_owed ?y1 \<longrightarrow> all_owed y'" by blast
  with step all_owed_task [OF _ run] show ?case by (blast intro: converse_rtranclp_into_rtranclp)
qed auto

text \<open>
  C1. No operation is forgotten. As long as no query fails and the process is not restarted, every operation of a reachable state has succeeded or failed
  or a goroutine that is still running will end it; and running the goroutines that are left leads to a state in which every operation has ended.
\<close>

theorem operations_settle:
  assumes "(sys_step False store dep dataDir)\<^sup>*\<^sup>* y0 y" "sys_start now y0"
  shows "(\<forall>x \<in> set (t_operations (sy_db y)). o_Status x = ''succeeded'' \<or> o_Status x = ''failed'' \<or>
      (\<exists>t \<in> set (sy_tasks y). o_ID x \<in> task_op t)) \<and>
    (\<exists>y'. (sys_step False store dep dataDir)\<^sup>*\<^sup>* y y' \<and> sy_tasks y' = [] \<and>
      (\<forall>x \<in> set (t_operations (sy_db y')). o_Status x = ''succeeded'' \<or> o_Status x = ''failed''))"
proof
  show "\<forall>x \<in> set (t_operations (sy_db y)). o_Status x = ''succeeded'' \<or> o_Status x = ''failed'' \<or>
      (\<exists>t \<in> set (sy_tasks y). o_ID x \<in> task_op t)"
    by (rule all_owed_status [OF all_owed_reach [OF assms]])
  obtain y' where y': "(sys_step False store dep dataDir)\<^sup>*\<^sup>* y y'" "sy_tasks y' = []" "all_owed y'"
    using goroutines_run_out all_owed_reach [OF assms] by blast
  from all_owed_status [OF y'(3)] y'(2) have "\<forall>x \<in> set (t_operations (sy_db y')). o_Status x = ''succeeded'' \<or> o_Status x = ''failed''"
    by simp
  with y' show "\<exists>y'. (sys_step False store dep dataDir)\<^sup>*\<^sup>* y y' \<and> sy_tasks y' = [] \<and>
      (\<forall>x \<in> set (t_operations (sy_db y')). o_Status x = ''succeeded'' \<or> o_Status x = ''failed'')" by blast
qed

subsection \<open>Sample\<close>

text \<open>A fresh installation, and the deploy of a first app.\<close>

definition fresh_system :: "qstate \<Rightarrow> (unit, string \<times> string \<Rightarrow> secret_value option) system" where
  "fresh_system q = \<lparr> sy_w = \<lparr> ws_db = initial_db 0, ws_k = (), wakingNow = {}, ws_tasks = [] \<rparr>, sy_tasks = [],
     sy_secrets = fresh_secrets, sy_queues = q \<rparr>"

abbreviation fresh_step :: "bool \<Rightarrow> (unit, string \<times> string \<Rightarrow> secret_value option) system \<Rightarrow> (unit, string \<times> string \<Rightarrow> secret_value option) system \<Rightarrow> bool" where
  "fresh_step faults \<equiv> sys_step faults (local_store map_api ''morsel'') ok_deployer ''/data''"

lemma fresh_start: "sys_start 0 (fresh_system q)"
  by (simp add: sys_start_def fresh_system_def wake_start_def)

lemma fresh_deploy:
  obtains r s ts y where "UpsertApp_h demo_env (Some demo_claims) (initial_db 0) demo_spec ''o'' ''r'' = (Inr (Ok r), s, ts)"
    "sy_db y = s" "sy_tasks y = ts" "(fresh_step faults)\<^sup>*\<^sup>* (fresh_system q) y"
proof -
  obtain r s ts where u: "UpsertApp_h demo_env (Some demo_claims) (initial_db 0) demo_spec ''o'' ''r'' = (Inr (Ok r), s, ts)"
    using demo_first_deploy by blast
  let ?i = "fresh_system q"
  let ?y = "(sy_put s (sy_k ?i) ?i)\<lparr>sy_tasks := sy_tasks ?i @ ts, sy_secrets := sy_secrets ?i\<rparr>"
  have "sy_db ?i = initial_db 0" by (simp add: fresh_system_def)
  then have "fresh_step faults ?i ?y" using u by (intro request upsert_app) simp
  then show thesis by (intro that [OF u, of ?y]) (auto simp: fresh_system_def)
qed


lemma operations_settle_witness:
  "\<exists>y y' r ts. UpsertApp_h demo_env (Some demo_claims) (initial_db 0) demo_spec ''o'' ''r'' = (Inr (Ok r), sy_db y, ts) \<and>
     (fresh_step False)\<^sup>*\<^sup>* (fresh_system demo_q) y \<and> (fresh_step False)\<^sup>*\<^sup>* y y' \<and> sy_tasks y' = [] \<and>
     (\<forall>x \<in> set (t_operations (sy_db y')). o_Status x = ''succeeded'' \<or> o_Status x = ''failed'')"
proof -
  obtain r s ts y where u: "UpsertApp_h demo_env (Some demo_claims) (initial_db 0) demo_spec ''o'' ''r'' = (Inr (Ok r), s, ts)"
    and y: "sy_db y = s" "(fresh_step False)\<^sup>*\<^sup>* (fresh_system demo_q) y" by (rule fresh_deploy)
  from operations_settle [OF y(2) fresh_start, THEN conjunct2] obtain y' where
    y': "(fresh_step False)\<^sup>*\<^sup>* y y' \<and> sy_tasks y' = [] \<and>
      (\<forall>x \<in> set (t_operations (sy_db y')). o_Status x = ''succeeded'' \<or> o_Status x = ''failed'')"
    by (elim exE)
  show ?thesis
    by (intro exI [of _ y] exI [of _ y'] exI [of _ r] exI [of _ ts] conjI)
      (simp add: u y(1), rule y(2), use y' in blast, use y' in blast, use y' in blast)
qed

end
