(* ===== verification/Health.thy ===== *)
theory Health
  imports Prelude "HOL-Library.AList"
begin

text \<open>
  Health reports: the package \<open>internal/health\<close>, \<open>internal/version\<close>, and the health endpoint of the API
  (\<open>GetHealthz\<close> of \<open>api/handler/handler.go\<close>).

  Components report over a buffered channel to one receiver. The state is the buffer of the channel and the
  receiver's map from component names to their last status (an association list with distinct keys). A send and one
  round of the receiver's loop are the steps; every interleaving of them is a list of events. JSON encoding
  is not modelled, the content of the answers is.
\<close>

section \<open>Version\<close>

record Info =
  vi_Version :: string
  vi_Commit :: string
  vi_BuildTime :: string
  vi_Dirty :: bool

text \<open>The version that the linker injects and the build settings, if the binary has them, are arguments.\<close>

definition version_setting :: "string \<times> string \<Rightarrow> Info \<Rightarrow> Info" where
  "version_setting s info =
     (if fst s = ''vcs.revision'' then info\<lparr>vi_Commit := (if length (snd s) > 8 then take 8 (snd s) else snd s)\<rparr>
      else if fst s = ''vcs.time'' then info\<lparr>vi_BuildTime := snd s\<rparr>
      else if fst s = ''vcs.modified'' then info\<lparr>vi_Dirty := (snd s = ''true'')\<rparr>
      else info)"

definition version_Get :: "string \<Rightarrow> (string \<times> string) list option \<Rightarrow> Info" where
  "version_Get version settings =
     (let info = \<lparr> vi_Version = version, vi_Commit = [], vi_BuildTime = [], vi_Dirty = False \<rparr> in
      case settings of None \<Rightarrow> info | Some ss \<Rightarrow> fold version_setting ss info)"

definition Info_String :: "Info \<Rightarrow> string" where
  "Info_String i =
     (if vi_Commit i = [] then vi_Version i
      else vi_Version i @ ''-'' @ vi_Commit i @ (if vi_Dirty i then ''-dirty'' else []) @ '' ('' @ vi_BuildTime i @ '')'')"

section \<open>Reporter and receiver\<close>

record statusUpdate =
  su_Component :: string
  su_Critical :: bool
  su_Healthy :: bool
  su_Reason :: string
  su_UpdatedAt :: time

text \<open>\<open>cp_ch\<close> tells whether the component has a channel: those of the no-op reporter have none.\<close>

record Component =
  cp_ch :: bool
  cp_name :: string
  cp_critical :: bool

record Receiver =
  rc_ch :: "statusUpdate list"
  rc_state :: "(string \<times> statusUpdate) list"

definition channel_capacity :: nat where "channel_capacity = 32"

definition NewReporter :: Receiver where
  "NewReporter = \<lparr> rc_ch = [], rc_state = [] \<rparr>"

definition update_of :: "Component \<Rightarrow> bool \<Rightarrow> string \<Rightarrow> statusUpdate" where
  "update_of c healthy reason =
     \<lparr> su_Component = cp_name c, su_Critical = cp_critical c, su_Healthy = healthy, su_Reason = reason, su_UpdatedAt = 0 \<rparr>"

text \<open>A send that finds the buffer full takes the default branch of the select.\<close>

definition Report :: "Component \<Rightarrow> bool \<Rightarrow> string \<Rightarrow> Receiver \<Rightarrow> Receiver" where
  "Report c healthy reason r =
     (if \<not> cp_ch c then r
      else if length (rc_ch r) < channel_capacity then r\<lparr>rc_ch := rc_ch r @ [update_of c healthy reason]\<rparr>
      else r)"

definition NewComponent :: "bool \<Rightarrow> string \<Rightarrow> bool \<Rightarrow> Receiver \<Rightarrow> Component \<times> Receiver" where
  "NewComponent reporter name critical r =
     (let c = \<lparr> cp_ch = reporter, cp_name = name, cp_critical = critical \<rparr> in (c, Report c False ''initializing'' r))"

definition store_update :: "statusUpdate \<Rightarrow> (string \<times> statusUpdate) list \<Rightarrow> (string \<times> statusUpdate) list" where
  "store_update u st = AList.update (su_Component u) u st"

text \<open>One round of \<open>Run\<close>, at an instant; it waits when the buffer is empty.\<close>

definition Run_round :: "time \<Rightarrow> Receiver \<Rightarrow> Receiver" where
  "Run_round now r =
     (case rc_ch r of
        [] \<Rightarrow> r
      | u # us \<Rightarrow> r\<lparr>rc_ch := us, rc_state := store_update (u\<lparr>su_UpdatedAt := now\<rparr>) (rc_state r)\<rparr>)"

definition DrainForTest :: "Receiver \<Rightarrow> Receiver" where
  "DrainForTest r = r\<lparr>rc_ch := [], rc_state := fold store_update (rc_ch r) (rc_state r)\<rparr>"

definition Read :: "Receiver \<Rightarrow> bool \<times> statusUpdate list" where
  "Read r =
     (if rc_state r = [] then (False, [])
      else let us = map snd (rc_state r) in
        (list_all (\<lambda>u. \<not> (su_Critical u \<and> \<not> su_Healthy u)) us, sort_key su_Component us))"

section \<open>Endpoints\<close>

definition LivezHandler :: "Receiver \<Rightarrow> int" where
  "LivezHandler r = 200"

definition ReadyzHandler :: "Receiver \<Rightarrow> int" where
  "ReadyzHandler r = (if fst (Read r) then 200 else 503)"

record compEntry =
  ce_Name :: string
  ce_Critical :: bool
  ce_Healthy :: bool
  ce_Reason :: string
  ce_UpdatedAt :: time

record healthzBody =
  hb_Status :: string
  hb_Version :: string
  hb_Components :: "compEntry list"

definition comp_entry :: "statusUpdate \<Rightarrow> compEntry" where
  "comp_entry s = \<lparr> ce_Name = su_Component s, ce_Critical = su_Critical s, ce_Healthy = su_Healthy s,
     ce_Reason = su_Reason s, ce_UpdatedAt = su_UpdatedAt s \<rparr>"

definition HealthzHandler :: "string \<Rightarrow> Receiver \<Rightarrow> int \<times> healthzBody" where
  "HealthzHandler version r =
     (case Read r of (ready, snaps) \<Rightarrow>
        (if ready then 200 else 503,
         \<lparr> hb_Status = (if \<not> ready then ''degraded'' else ''ok''), hb_Version = version, hb_Components = map comp_entry snaps \<rparr>))"

datatype GetHealthzRes = GetHealthzOK healthzBody | GetHealthzServiceUnavailable healthzBody

definition GetHealthz :: "string \<Rightarrow> Receiver \<Rightarrow> GetHealthzRes" where
  "GetHealthz version r =
     (case Read r of (ready, snaps) \<Rightarrow>
        let hs = \<lparr> hb_Status = (if \<not> ready then ''degraded'' else ''ok''), hb_Version = version,
                   hb_Components = map comp_entry snaps \<rparr>
        in if \<not> ready then GetHealthzServiceUnavailable hs else GetHealthzOK hs)"

section \<open>A board of last reports\<close>

text \<open>
  What a reporter promises, without channel and receiver: a board that holds the last report of each
  component. A send that is accepted puts the report on the board, and the receiver changes nothing there.
\<close>

locale report_board =
  fixes send :: "'u \<Rightarrow> 's \<Rightarrow> 's"
    and recv :: "'t \<Rightarrow> 's \<Rightarrow> 's"
    and accepts :: "'u \<Rightarrow> 's \<Rightarrow> bool"
    and board :: "'s \<Rightarrow> 'k \<Rightarrow> 'v option"
    and key :: "'u \<Rightarrow> 'k"
    and val :: "'u \<Rightarrow> 'v"
  assumes send_board: "accepts u s \<Longrightarrow> board (send u s) = (board s)(key u \<mapsto> val u)"
    and recv_board: "board (recv t s) = board s"
begin

fun all_accepted :: "('u + 't) list \<Rightarrow> 's \<Rightarrow> bool" where
  "all_accepted [] s = True"
| "all_accepted (Inl u # es) s = (accepts u s \<and> all_accepted es (send u s))"
| "all_accepted (Inr t # es) s = all_accepted es (recv t s)"

lemma board_fold:
  "all_accepted es s \<Longrightarrow>
     board (fold (case_sum send recv) es s) = fold (\<lambda>u b. b(key u \<mapsto> val u)) (List.map_filter (case_sum Some (\<lambda>_. None)) es) (board s)"
  by (induction es s rule: all_accepted.induct) (simp_all add: send_board recv_board List.map_filter_simps)

end

text \<open>The events of a service: a report of a component with its arguments, or a round of the receiver at an instant.\<close>

type_synonym report = "Component \<times> bool \<times> string"

definition health_event :: "report + time \<Rightarrow> Receiver \<Rightarrow> Receiver" where
  "health_event = case_sum (\<lambda>(c, healthy, reason). Report c healthy reason) Run_round"

definition reports_of :: "(report + time) list \<Rightarrow> report list" where
  "reports_of es = List.map_filter (case_sum Some (\<lambda>_. None)) es"

definition accepted :: "report \<Rightarrow> Receiver \<Rightarrow> bool" where
  "accepted u r \<longleftrightarrow> cp_ch (fst u) \<and> length (rc_ch r) < channel_capacity"

text \<open>No report of a run is dropped.\<close>

fun undropped :: "(report + time) list \<Rightarrow> Receiver \<Rightarrow> bool" where
  "undropped [] r = True"
| "undropped (Inl u # es) r = (accepted u r \<and> undropped es (health_event (Inl u) r))"
| "undropped (Inr t # es) r = undropped es (health_event (Inr t) r)"

text \<open>The specification: the last report of each component, in the order of the reports.\<close>

definition post :: "report \<Rightarrow> (string \<Rightarrow> (bool \<times> bool \<times> string) option) \<Rightarrow> string \<Rightarrow> (bool \<times> bool \<times> string) option" where
  "post u b = b(cp_name (fst u) \<mapsto> (cp_critical (fst u), snd u))"

definition last_reports :: "report list \<Rightarrow> string \<Rightarrow> (bool \<times> bool \<times> string) option" where
  "last_reports us = fold post us (\<lambda>_. None)"

text \<open>The abstraction: what the receiver holds, overridden by what waits in the buffer.\<close>

definition facts_of :: "statusUpdate \<Rightarrow> bool \<times> bool \<times> string" where
  "facts_of u = (su_Critical u, su_Healthy u, su_Reason u)"

definition health_board :: "Receiver \<Rightarrow> string \<Rightarrow> (bool \<times> bool \<times> string) option" where
  "health_board r =
     fold (\<lambda>u b. b(su_Component u \<mapsto> facts_of u)) (rc_ch r) (\<lambda>n. map_option facts_of (map_of (rc_state r) n))"

lemma map_of_store_update:
  "map_of (store_update u st) n = (if n = su_Component u then Some u else map_of st n)"
  by (simp add: store_update_def update_conv')

lemma health_board_Report:
  "accepted u r \<Longrightarrow> health_board (case u of (c, healthy, reason) \<Rightarrow> Report c healthy reason r) =
     (health_board r)(cp_name (fst u) \<mapsto> (cp_critical (fst u), snd u))"
  by (cases u) (simp add: accepted_def Report_def health_board_def update_of_def facts_of_def)

lemma health_board_Run_round: "health_board (Run_round t r) = health_board r"
proof (cases "rc_ch r")
  case (Cons u us)
  have "(\<lambda>n. map_option facts_of (map_of (store_update (u\<lparr>su_UpdatedAt := t\<rparr>) (rc_state r)) n)) =
      (\<lambda>n. map_option facts_of (map_of (rc_state r) n))(su_Component u \<mapsto> facts_of u)"
    by (rule ext) (simp add: map_of_store_update facts_of_def)
  with Cons show ?thesis by (simp add: Run_round_def health_board_def)
qed (simp add: Run_round_def)

interpretation hb: report_board "\<lambda>(c, healthy, reason). Report c healthy reason" Run_round accepted health_board
    "\<lambda>u. cp_name (fst u)" "\<lambda>u. (cp_critical (fst u), snd u)"
  by unfold_locales (auto simp: health_board_Report [unfolded split_def] health_board_Run_round split_def)

lemma undropped_accepted: "undropped es r = hb.all_accepted es r"
  by (induction es r rule: undropped.induct) (simp_all add: health_event_def)

lemma health_board_run:
  assumes "undropped es NewReporter"
  shows "health_board (fold health_event es NewReporter) = last_reports (reports_of es)"
proof -
  have "health_board NewReporter = (\<lambda>_. None)" by (simp add: NewReporter_def health_board_def)
  moreover have "post = (\<lambda>u b. b(cp_name (fst u) \<mapsto> (cp_critical (fst u), snd u)))"
    by (intro ext) (simp add: post_def)
  ultimately show ?thesis
    using hb.board_fold [of es NewReporter] assms
    by (simp add: undropped_accepted health_event_def reports_of_def last_reports_def)
qed

section \<open>The receiver's map\<close>

definition wf_receiver :: "Receiver \<Rightarrow> bool" where
  "wf_receiver r \<longleftrightarrow> distinct (map fst (rc_state r)) \<and> (\<forall>(n, u) \<in> set (rc_state r). su_Component u = n)"

lemma wf_store_update:
  assumes "distinct (map fst st)" "\<forall>(n, u) \<in> set st. su_Component u = n"
  shows "distinct (map fst (store_update u st)) \<and> (\<forall>(n, u) \<in> set (store_update u st). su_Component u = n)"
proof
  show d: "distinct (map fst (store_update u st))"
    using assms(1) by (simp add: store_update_def distinct_update)
  have "su_Component v = n" if "map_of (store_update u st) n = Some v" for n v
    using that assms by (auto simp: map_of_store_update split: if_splits dest: map_of_SomeD)
  with d show "\<forall>(n, u) \<in> set (store_update u st). su_Component u = n" by auto
qed

lemma wf_health_event: "wf_receiver r \<Longrightarrow> wf_receiver (health_event e r)"
proof (cases e)
  case (Inr t)
  assume "wf_receiver r"
  then show ?thesis
    using Inr wf_store_update [of "rc_state r"]
    by (cases "rc_ch r") (auto simp: health_event_def wf_receiver_def Run_round_def)
qed (auto simp: health_event_def wf_receiver_def Report_def split: prod.splits)

lemma wf_run: "wf_receiver r \<Longrightarrow> wf_receiver (fold health_event es r)"
  by (induction es arbitrary: r) (simp_all add: wf_health_event)

lemma wf_NewReporter: "wf_receiver NewReporter"
  by (simp add: wf_receiver_def NewReporter_def)

text \<open>What the endpoints read, when the buffer is empty, is the board.\<close>

lemma set_snd_state:
  assumes "wf_receiver r"
  shows "u \<in> snd ` set (rc_state r) \<longleftrightarrow> map_of (rc_state r) (su_Component u) = Some u"
proof -
  have "map_of (rc_state r) n = Some v \<longleftrightarrow> (n, v) \<in> set (rc_state r)" for n v
    using assms by (simp add: wf_receiver_def)
  with assms show ?thesis by (force simp: wf_receiver_def)
qed

lemma health_board_idle: "rc_ch r = [] \<Longrightarrow> health_board r n = map_option facts_of (map_of (rc_state r) n)"
  by (simp add: health_board_def)

lemma Read_ready:
  assumes "wf_receiver r" "rc_ch r = []"
  shows "fst (Read r) \<longleftrightarrow>
    (\<exists>n. health_board r n \<noteq> None) \<and> (\<forall>n healthy reason. health_board r n = Some (True, healthy, reason) \<longrightarrow> healthy)"
proof -
  have nonempty: "rc_state r \<noteq> [] \<longleftrightarrow> (\<exists>n. health_board r n \<noteq> None)"
    using assms(2) by (auto simp: health_board_idle map_of_eq_None_iff)
  have "(\<forall>u \<in> snd ` set (rc_state r). su_Critical u \<longrightarrow> su_Healthy u) \<longleftrightarrow>
      (\<forall>n healthy reason. health_board r n = Some (True, healthy, reason) \<longrightarrow> healthy)"
  proof
    assume all: "\<forall>u \<in> snd ` set (rc_state r). su_Critical u \<longrightarrow> su_Healthy u"
    show "\<forall>n healthy reason. health_board r n = Some (True, healthy, reason) \<longrightarrow> healthy"
      using all assms by (force simp: health_board_idle facts_of_def dest: map_of_SomeD)
  next
    assume all: "\<forall>n healthy reason. health_board r n = Some (True, healthy, reason) \<longrightarrow> healthy"
    show "\<forall>u \<in> snd ` set (rc_state r). su_Critical u \<longrightarrow> su_Healthy u"
    proof (intro ballI impI)
      fix u assume "u \<in> snd ` set (rc_state r)" "su_Critical u"
      with assms have "health_board r (su_Component u) = Some (True, su_Healthy u, su_Reason u)"
        by (simp add: health_board_idle set_snd_state facts_of_def)
      with all show "su_Healthy u" by blast
    qed
  qed
  with nonempty show ?thesis by (auto simp: Read_def Let_def list_all_iff)
qed

lemma distinct_map_sort_key: "distinct (map f us) \<Longrightarrow> distinct (map f (sort_key f us))"
  by (simp add: distinct_map)

lemma Read_snapshot:
  assumes "wf_receiver r" "rc_ch r = []"
  shows "sorted (map su_Component (snd (Read r))) \<and> distinct (map su_Component (snd (Read r))) \<and>
    (\<forall>n v. health_board r n = Some v \<longleftrightarrow> (\<exists>u \<in> set (snd (Read r)). su_Component u = n \<and> facts_of u = v))"
proof -
  have set: "set (snd (Read r)) = snd ` set (rc_state r)" by (auto simp: Read_def Let_def)
  have "map su_Component (map snd (rc_state r)) = map fst (rc_state r)"
    using assms(1) by (auto simp: wf_receiver_def)
  with assms(1) have "distinct (map su_Component (map snd (rc_state r)))"
    unfolding wf_receiver_def by metis
  then have "distinct (map su_Component (snd (Read r)))"
    by (simp add: Read_def Let_def distinct_map_sort_key del: map_map)
  moreover have "\<forall>n v. health_board r n = Some v \<longleftrightarrow> (\<exists>u \<in> set (snd (Read r)). su_Component u = n \<and> facts_of u = v)"
    unfolding set using assms by (force simp: health_board_idle set_snd_state dest: map_of_SomeD simp: wf_receiver_def)
  ultimately show ?thesis by (simp add: Read_def Let_def)
qed

section \<open>What the endpoints tell\<close>

text \<open>
  C15. Health refines a board of last reports. Whatever the order of reports and of the receiver's rounds, as long as no report met a
  full buffer and the receiver has caught up: the service is ready exactly when some component has reported and the last report of
  every critical one was healthy, and the endpoints list each component that has reported once, by name, with its last report.
\<close>

theorem health_refines_last_reports:
  assumes "undropped es NewReporter" "r = fold health_event es NewReporter" "rc_ch r = []"
    and "b = last_reports (reports_of es)"
  shows "(ReadyzHandler r = 200 \<longleftrightarrow>
      (\<exists>n. b n \<noteq> None) \<and> (\<forall>n healthy reason. b n = Some (True, healthy, reason) \<longrightarrow> healthy)) \<and>
    fst (HealthzHandler version r) = ReadyzHandler r \<and>
    (\<exists>body. GetHealthz version r = (if ReadyzHandler r = 200 then GetHealthzOK body else GetHealthzServiceUnavailable body) \<and>
       snd (HealthzHandler version r) = body \<and>
       sorted (map ce_Name (hb_Components body)) \<and> distinct (map ce_Name (hb_Components body)) \<and>
       (\<forall>n v. b n = Some v \<longleftrightarrow>
          (\<exists>e \<in> set (hb_Components body). ce_Name e = n \<and> (ce_Critical e, ce_Healthy e, ce_Reason e) = v)))"
proof -
  have wf: "wf_receiver r" by (simp add: assms(2) wf_run wf_NewReporter)
  have board: "health_board r = b" using assms(1,2,4) by (simp add: health_board_run)
  have [simp]: "ce_Name \<circ> comp_entry = su_Component"
    "(ce_Critical (comp_entry u), ce_Healthy (comp_entry u), ce_Reason (comp_entry u)) = facts_of u" for u
    by (auto simp: comp_entry_def facts_of_def)
  have names: "ce_Name (comp_entry u) = su_Component u" for u by (simp add: comp_entry_def)
  define body where "body = snd (HealthzHandler version r)"
  have comps: "hb_Components body = map comp_entry (snd (Read r))"
    by (simp add: body_def HealthzHandler_def split: prod.splits)
  have status: "ReadyzHandler r = 200 \<longleftrightarrow> fst (Read r)" by (simp add: ReadyzHandler_def)
  have "GetHealthz version r = (if ReadyzHandler r = 200 then GetHealthzOK body else GetHealthzServiceUnavailable body)"
    unfolding status by (auto simp: GetHealthz_def body_def HealthzHandler_def Let_def split: prod.splits)
  moreover have "fst (HealthzHandler version r) = ReadyzHandler r"
    by (simp add: HealthzHandler_def ReadyzHandler_def split: prod.splits)
  moreover have "ReadyzHandler r = 200 \<longleftrightarrow>
      (\<exists>n. b n \<noteq> None) \<and> (\<forall>n healthy reason. b n = Some (True, healthy, reason) \<longrightarrow> healthy)"
    unfolding status Read_ready [OF wf assms(3)] board ..
  moreover have "sorted (map ce_Name (hb_Components body)) \<and> distinct (map ce_Name (hb_Components body)) \<and>
      (\<forall>n v. b n = Some v \<longleftrightarrow>
        (\<exists>e \<in> set (hb_Components body). ce_Name e = n \<and> (ce_Critical e, ce_Healthy e, ce_Reason e) = v))"
    using Read_snapshot [OF wf assms(3)] unfolding comps board set_map map_map bex_simps(7) names by simp
  ultimately show ?thesis unfolding body_def by blast
qed

definition demo_api :: Component where
  "demo_api = \<lparr> cp_ch = True, cp_name = ''api'', cp_critical = True \<rparr>"

definition demo_cache :: Component where
  "demo_cache = \<lparr> cp_ch = True, cp_name = ''cache'', cp_critical = False \<rparr>"

definition demo_events :: "(report + time) list" where
  "demo_events = [Inl (demo_cache, False, ''cold''), Inl (demo_api, False, ''initializing''), Inr 1, Inl (demo_api, True, ''ready''), Inr 2, Inr 3]"

lemma health_refines_last_reports_witness:
  "undropped demo_events NewReporter \<and> ReadyzHandler (fold health_event demo_events NewReporter) = 200"
proof -
  have u: "undropped demo_events NewReporter" by code_simp
  have idle: "rc_ch (fold health_event demo_events NewReporter) = []" by code_simp
  have b: "last_reports (reports_of demo_events) = [''cache'' \<mapsto> (False, False, ''cold''), ''api'' \<mapsto> (True, True, ''ready'')]"
    by (rule ext) (simp add: last_reports_def reports_of_def demo_events_def post_def demo_api_def demo_cache_def List.map_filter_simps)
  have "last_reports (reports_of demo_events) ''api'' \<noteq> None" by (simp add: b)
  moreover have "\<forall>n healthy reason. last_reports (reports_of demo_events) n = Some (True, healthy, reason) \<longrightarrow> healthy"
    by (simp add: b)
  ultimately show ?thesis
    using u conjunct1 [OF health_refines_last_reports [OF u refl idle refl, of "[]"]] by blast
qed

end
