(* ===== verification/Json.thy ===== *)
theory Json
  imports Clock
begin

text \<open>
  The part of Go's \<open>encoding/json\<close> that the command line client uses: the text of a JSON value, read by
  \<open>Decoder.Decode\<close> and \<open>Unmarshal\<close> and written by \<open>MarshalIndent\<close> with an indentation of two spaces, and
  the decoding of a value into the fields of a structure. Strings are lists of bytes; the decoder
  replaces what is not UTF-8, and the encoder escapes what HTML does not like, as the library does.

  The parser recurses on a counter; \<open>parse_value_enough\<close> shows that the length of the text is always
  enough. The library's limit of 10000 nested values is not modelled. The theory shows that parsing
  undoes printing.
\<close>

datatype json =
    JNull
  | JBool bool
  | JNumber string
  | JString string
  | JArray "json list"
  | JObject "(string \<times> json) list"

abbreviation byte :: "char \<Rightarrow> nat" where "byte c \<equiv> of_char c"

section \<open>UTF-8\<close>

definition cont_byte :: "nat \<Rightarrow> nat \<Rightarrow> char \<Rightarrow> bool" where
  "cont_byte lo hi c \<longleftrightarrow> lo \<le> byte c \<and> byte c \<le> hi"

text \<open>The bounds of the second byte after a lead byte of three or four bytes.\<close>

definition second_bounds :: "nat \<Rightarrow> nat \<times> nat" where
  "second_bounds b =
     (if b = 0xE0 then (0xA0, 0xBF) else if b = 0xED then (0x80, 0x9F)
      else if b = 0xF0 then (0x90, 0xBF) else if b = 0xF4 then (0x80, 0x8F) else (0x80, 0xBF))"

text \<open>The number of bytes of the well-formed sequence that a string starts with: \<open>utf8.DecodeRune\<close>.\<close>

definition rune_len :: "string \<Rightarrow> nat option" where
  "rune_len s =
     (case s of
        [] \<Rightarrow> None
      | c # cs \<Rightarrow>
          let b = byte c; (lo, hi) = second_bounds b in
          if b < 0x80 then Some 1
          else if 0xC2 \<le> b \<and> b \<le> 0xDF then
            (if 1 \<le> length cs \<and> cont_byte 0x80 0xBF (cs ! 0) then Some 2 else None)
          else if 0xE0 \<le> b \<and> b \<le> 0xEF then
            (if 2 \<le> length cs \<and> cont_byte lo hi (cs ! 0) \<and> cont_byte 0x80 0xBF (cs ! 1) then Some 3 else None)
          else if 0xF0 \<le> b \<and> b \<le> 0xF4 then
            (if 3 \<le> length cs \<and> cont_byte lo hi (cs ! 0) \<and> cont_byte 0x80 0xBF (cs ! 1) \<and> cont_byte 0x80 0xBF (cs ! 2)
             then Some 4 else None)
          else None)"

lemma rune_len_bounds: "rune_len s = Some n \<Longrightarrow> 1 \<le> n \<and> n \<le> length s"
  by (auto simp: rune_len_def Let_def split: list.splits prod.splits if_splits)

function valid_utf8 :: "string \<Rightarrow> bool" where
  "valid_utf8 [] = True"
| "valid_utf8 (c # cs) = (case rune_len (c # cs) of None \<Rightarrow> False | Some n \<Rightarrow> valid_utf8 (drop n (c # cs)))"
  by pat_completeness auto
termination
  by (relation "measure length") (auto dest!: rune_len_bounds)

text \<open>The encoding of a code point, \<open>utf8.AppendRune\<close>, and of U+FFFD.\<close>

definition rune_bytes :: "nat \<Rightarrow> string" where
  "rune_bytes u =
     map char_of
       (if u < 0x80 then [u]
        else if u < 0x800 then [0xC0 + u div 64, 0x80 + u mod 64]
        else if u < 0x10000 then [0xE0 + u div 4096, 0x80 + u div 64 mod 64, 0x80 + u mod 64]
        else [0xF0 + u div 262144, 0x80 + u div 4096 mod 64, 0x80 + u div 64 mod 64, 0x80 + u mod 64])"

definition replacement :: string where "replacement = rune_bytes 0xFFFD"

section \<open>Strings\<close>

definition dquote :: char where "dquote = CHR 0x22"
definition backslash :: char where "backslash = CHR 0x5C"

definition hex_digit :: "nat \<Rightarrow> char" where
  "hex_digit n = (if n < 10 then char_of (48 + n) else char_of (87 + n))"

definition hex_value :: "char \<Rightarrow> nat option" where
  "hex_value c =
     (let b = byte c in
      if 48 \<le> b \<and> b \<le> 57 then Some (b - 48)
      else if 97 \<le> b \<and> b \<le> 102 then Some (b - 87)
      else if 65 \<le> b \<and> b \<le> 70 then Some (b - 55) else None)"

definition hex4 :: "string \<Rightarrow> (nat \<times> string) option" where
  "hex4 s =
     (case s of
        a # b # c # d # rest \<Rightarrow>
          (case (hex_value a, hex_value b, hex_value c, hex_value d) of
             (Some w, Some x, Some y, Some z) \<Rightarrow> Some (4096 * w + 256 * x + 16 * y + z, rest)
           | _ \<Rightarrow> None)
      | _ \<Rightarrow> None)"

lemma hex4_length: "hex4 s = Some (u, r) \<Longrightarrow> length r < length s"
  by (auto simp: hex4_def split: list.splits option.splits)

text \<open>The code unit of an escape that follows, \<open>getu4\<close>.\<close>

definition next_unit :: "string \<Rightarrow> (nat \<times> string) option" where
  "next_unit s = (case s of a # b # r \<Rightarrow> if a = backslash \<and> b = CHR ''u'' then hex4 r else None | _ \<Rightarrow> None)"

lemma next_unit_length: "next_unit s = Some (u, r) \<Longrightarrow> length r < length s"
  by (auto simp: next_unit_def split: list.splits if_splits dest!: hex4_length)

text \<open>A code unit with what follows it: a surrogate pair is one code point, a lone surrogate is U+FFFD.\<close>

definition unit_bytes :: "nat \<Rightarrow> string \<Rightarrow> string \<times> string" where
  "unit_bytes u r =
     (if 0xD800 \<le> u \<and> u < 0xE000 then
        (case next_unit r of
           Some (u2, r2) \<Rightarrow>
             if u < 0xDC00 \<and> 0xDC00 \<le> u2 \<and> u2 < 0xE000
             then (rune_bytes (0x10000 + (u - 0xD800) * 1024 + (u2 - 0xDC00)), r2)
             else (replacement, r)
         | None \<Rightarrow> (replacement, r))
      else (rune_bytes u, r))"

lemma unit_bytes_length: "length (snd (unit_bytes u r)) \<le> length r"
  by (auto simp: unit_bytes_def split: option.splits dest!: next_unit_length)

definition simple_escape :: "char \<Rightarrow> char option" where
  "simple_escape e =
     (if e = dquote \<or> e = backslash \<or> e = CHR ''/'' then Some e
      else if e = CHR ''b'' then Some (CHR 0x08) else if e = CHR ''f'' then Some (CHR 0x0C)
      else if e = CHR ''n'' then Some (CHR 0x0A) else if e = CHR ''r'' then Some (CHR 0x0D)
      else if e = CHR ''t'' then Some (CHR 0x09) else None)"

definition before :: "string \<Rightarrow> (string \<times> string) option \<Rightarrow> (string \<times> string) option" where
  "before p r = map_option (\<lambda>(s, rest). (p @ s, rest)) r"

lemma before_simps [simp]: "before p None = None" "before p (Some (s, rest)) = Some (p @ s, rest)"
  by (simp_all add: before_def)

text \<open>The content of a string literal after its opening quote, and what follows the closing one.\<close>

function unquote :: "string \<Rightarrow> (string \<times> string) option" where
  "unquote [] = None"
| "unquote (c # cs) =
     (if c = dquote then Some ([], cs)
      else if c = backslash then
        (case cs of
           [] \<Rightarrow> None
         | e # ds \<Rightarrow>
             if e = CHR ''u'' then
               (case hex4 ds of
                  None \<Rightarrow> None
                | Some (u, r) \<Rightarrow> before (fst (unit_bytes u r)) (unquote (snd (unit_bytes u r))))
             else (case simple_escape e of None \<Rightarrow> None | Some x \<Rightarrow> before [x] (unquote ds)))
      else if byte c < 0x20 then None
      else (case rune_len (c # cs) of
              None \<Rightarrow> before replacement (unquote cs)
            | Some n \<Rightarrow> before (take n (c # cs)) (unquote (drop n (c # cs)))))"
  by pat_completeness auto
termination
proof (relation "measure length", goal_cases)
  case (2 c cs e ds p u r)
  then have "length r < length ds" using hex4_length by auto
  moreover have "length (snd (unit_bytes u r)) \<le> length r" by (rule unit_bytes_length)
  ultimately show ?case using 2 by simp
qed (auto dest!: rune_len_bounds)

declare unquote.simps [simp del]

text \<open>One byte below 0x80, escaped as the encoder does.\<close>

definition escape_ascii :: "char \<Rightarrow> string" where
  "escape_ascii c =
     (if c = dquote \<or> c = backslash then [backslash, c]
      else if c = CHR 0x08 then [backslash, CHR ''b''] else if c = CHR 0x0C then [backslash, CHR ''f'']
      else if c = CHR 0x0A then [backslash, CHR ''n''] else if c = CHR 0x0D then [backslash, CHR ''r'']
      else if c = CHR 0x09 then [backslash, CHR ''t'']
      else if byte c < 0x20 \<or> c \<in> {CHR ''<'', CHR ''>'', CHR ''&''}
        then [backslash, CHR ''u'', CHR ''0'', CHR ''0'', hex_digit (byte c div 16), hex_digit (byte c mod 16)]
      else [c])"

definition line_separator :: "string \<Rightarrow> bool" where
  "line_separator r \<longleftrightarrow> r = map char_of [0xE2, 0x80, 0xA8 :: nat] \<or> r = map char_of [0xE2, 0x80, 0xA9 :: nat]"

function escape :: "string \<Rightarrow> string" where
  "escape [] = []"
| "escape (c # cs) =
     (if byte c < 0x80 then escape_ascii c @ escape cs
      else (case rune_len (c # cs) of
              None \<Rightarrow> backslash # ''ufffd'' @ escape cs
            | Some n \<Rightarrow>
                let r = take n (c # cs) in
                (if line_separator r then backslash # ''u202'' @ [hex_digit (byte (r ! 2) - 0xA0)] else r)
                @ escape (drop n (c # cs))))"
  by pat_completeness auto
termination
  by (relation "measure length") (auto dest!: rune_len_bounds)

declare escape.simps [simp del]

definition quoted :: "string \<Rightarrow> string" where
  "quoted s = dquote # escape s @ [dquote]"


section \<open>Reading back a string\<close>

lemma byte_char_of [simp]: "n < 256 \<Longrightarrow> byte (char_of n) = n"
  by simp

lemma hex_value_digit: "n < 16 \<Longrightarrow> hex_value (hex_digit n) = Some n"
  by (auto simp: hex_value_def hex_digit_def Let_def)

lemma hex4_byte:
  assumes "b < 256"
  shows "hex4 (CHR ''0'' # CHR ''0'' # hex_digit (b div 16) # hex_digit (b mod 16) # r) = Some (b, r)"
proof -
  have "hex_value (CHR ''0'') = Some 0" by (simp add: hex_value_def)
  moreover have "hex_value (hex_digit (b div 16)) = Some (b div 16)" "hex_value (hex_digit (b mod 16)) = Some (b mod 16)"
    by (rule hex_value_digit, use assms in simp)+
  ultimately show ?thesis by (simp add: hex4_def)
qed

lemma rune_bytes_ascii: "byte c < 0x80 \<Longrightarrow> rune_bytes (byte c) = [c]"
  by (simp add: rune_bytes_def)

lemma unquote_ascii_escape:
  assumes "byte c < 0x80"
  shows "unquote (backslash # CHR ''u'' # CHR ''0'' # CHR ''0'' # hex_digit (byte c div 16) # hex_digit (byte c mod 16) # r)
           = before [c] (unquote r)"
proof -
  have "hex4 (CHR ''0'' # CHR ''0'' # hex_digit (byte c div 16) # hex_digit (byte c mod 16) # r) = Some (byte c, r)"
    by (rule hex4_byte) (use assms in simp)
  then show ?thesis
    using assms by (simp add: unquote.simps dquote_def backslash_def unit_bytes_def rune_bytes_ascii)
qed

lemma rune_len_ascii [simp]: "byte c < 0x80 \<Longrightarrow> rune_len (c # cs) = Some 1"
  by (simp add: rune_len_def Let_def split: prod.splits)

lemma unquote_plain:
  "0x20 \<le> byte c \<Longrightarrow> byte c < 0x80 \<Longrightarrow> c \<noteq> dquote \<Longrightarrow> c \<noteq> backslash \<Longrightarrow> unquote (c # r) = before [c] (unquote r)"
  by (simp add: unquote.simps(2) [of c])

lemma unquote_simple:
  "e \<noteq> CHR ''u'' \<Longrightarrow> simple_escape e = Some x \<Longrightarrow> unquote (backslash # e # r) = before [x] (unquote r)"
  by (subst unquote.simps(2)) (simp add: dquote_def backslash_def)

lemma unquote_escape_ascii:
  assumes "byte c < 0x80"
  shows "unquote (escape_ascii c @ r) = before [c] (unquote r)"
proof -
  have plain: "escape_ascii c = [c] \<Longrightarrow> 0x20 \<le> byte c \<Longrightarrow> c \<noteq> dquote \<Longrightarrow> c \<noteq> backslash \<Longrightarrow> ?thesis"
    by (simp add: unquote_plain assms)
  have long: "escape_ascii c = [backslash, CHR ''u'', CHR ''0'', CHR ''0'', hex_digit (byte c div 16), hex_digit (byte c mod 16)]
      \<Longrightarrow> ?thesis"
    by (simp add: unquote_ascii_escape [OF assms])
  show ?thesis
  proof (cases "c \<in> {dquote, backslash, CHR 0x08, CHR 0x0C, CHR 0x0A, CHR 0x0D, CHR 0x09}")
    case True
    then show ?thesis
      by (elim insertE emptyE)
        (simp_all add: escape_ascii_def unquote_simple [unfolded backslash_def] simple_escape_def dquote_def backslash_def)
  next
    case False
    then show ?thesis
      by (cases "byte c < 0x20 \<or> c \<in> {CHR ''<'', CHR ''>'', CHR ''&''}")
        (rule long plain, simp add: escape_ascii_def, simp_all)+
  qed
qed

lemma rune_len_prefix: "rune_len s = Some n \<Longrightarrow> rune_len (take n s @ t) = Some n"
  by (auto simp: rune_len_def Let_def nth_append take_Cons' split: list.splits prod.splits if_splits)

lemma unquote_rune:
  assumes "rune_len (c # cs) = Some n" "0x80 \<le> byte c"
  shows "unquote (take n (c # cs) @ r) = before (take n (c # cs)) (unquote r)"
proof -
  have n: "1 \<le> n" "n \<le> length (c # cs)" using rune_len_bounds [OF assms(1)] by simp_all
  then obtain ds where ds: "take n (c # cs) = c # ds" by (cases n) auto
  have l: "length (take n (c # cs)) = n" using n by simp
  have "rune_len (c # ds @ r) = Some n" using rune_len_prefix [OF assms(1), of r] ds by simp
  moreover have "take n (c # ds @ r) = c # ds" "drop n (c # ds @ r) = r"
    using l ds by (metis append_Cons append_eq_conv_conj)+
  ultimately show ?thesis
    using assms(2) by (simp add: ds unquote.simps(2) [of c] dquote_def backslash_def) auto
qed

lemma unquote_line_separator:
  assumes "line_separator s"
  shows "unquote (backslash # ''u202'' @ hex_digit (byte (s ! 2) - 0xA0) # r) = before s (unquote r)"
  using assms unfolding line_separator_def
  by (elim disjE)
    (subst unquote.simps(2), simp add: dquote_def backslash_def hex4_def hex_value_def hex_digit_def
      unit_bytes_def rune_bytes_def)+

text \<open>Unquoting undoes quoting, for strings that are UTF-8.\<close>

lemma unquote_escape:
  "valid_utf8 s \<Longrightarrow> unquote (escape s @ dquote # r) = Some (s, r)"
proof (induction s rule: escape.induct)
  case 1
  show ?case by (simp add: escape.simps unquote.simps)
next
  case (2 c cs)
  show ?case
  proof (cases "byte c < 0x80")
    case True
    then have "valid_utf8 cs" using 2(4) True by simp
    then show ?thesis using True 2(1) by (simp add: escape.simps unquote_escape_ascii)
  next
    case False
    then obtain n where n: "rune_len (c # cs) = Some n" "valid_utf8 (drop n (c # cs))"
      using 2(4) by (auto split: option.splits)
    have IH: "unquote (escape (drop n (c # cs)) @ dquote # r) = Some (drop n (c # cs), r)"
      using 2(3)[OF False n(1)] n(2) by simp
    show ?thesis
      using False n IH unquote_rune [OF n(1)] unquote_line_separator [of "take n (c # cs)"]
      by (simp add: escape.simps Let_def)
  qed
qed


section \<open>Values\<close>

definition json_space :: "char \<Rightarrow> bool" where
  "json_space c \<longleftrightarrow> c \<in> {CHR '' '', CHR 0x09, CHR 0x0A, CHR 0x0D}"

definition skip :: "string \<Rightarrow> string" where
  "skip s = dropWhile json_space s"

definition json_digit :: "char \<Rightarrow> bool" where
  "json_digit c \<longleftrightarrow> 48 \<le> byte c \<and> byte c \<le> 57"

definition some_digits :: "string \<Rightarrow> (string \<times> string) option" where
  "some_digits s = (let d = takeWhile json_digit s in if d = [] then None else Some (d, dropWhile json_digit s))"

definition scan_int :: "string \<Rightarrow> (string \<times> string) option" where
  "scan_int s = (case s of [] \<Rightarrow> None | c # cs \<Rightarrow> if c = CHR ''0'' then Some ([c], cs) else some_digits s)"

definition scan_frac :: "string \<Rightarrow> (string \<times> string) option" where
  "scan_frac s = (case s of c # cs \<Rightarrow> if c = CHR ''.'' then before [c] (some_digits cs) else Some ([], s) | [] \<Rightarrow> Some ([], s))"

definition scan_exp :: "string \<Rightarrow> (string \<times> string) option" where
  "scan_exp s =
     (case s of
        c # cs \<Rightarrow>
          if c = CHR ''e'' \<or> c = CHR ''E'' then
            before [c] (case cs of
                d # ds \<Rightarrow> if d = CHR ''+'' \<or> d = CHR ''-'' then before [d] (some_digits ds) else some_digits cs
              | [] \<Rightarrow> None)
          else Some ([], s)
      | [] \<Rightarrow> Some ([], s))"

definition scan_then ::
  "(string \<times> string) option \<Rightarrow> (string \<Rightarrow> (string \<times> string) option) \<Rightarrow> (string \<times> string) option" where
  "scan_then r f = (case r of None \<Rightarrow> None | Some (x, s) \<Rightarrow> before x (f s))"

definition scan_unsigned :: "string \<Rightarrow> (string \<times> string) option" where
  "scan_unsigned s = scan_then (scan_int s) (\<lambda>s1. scan_then (scan_frac s1) scan_exp)"

text \<open>The literal of a number, kept as its text.\<close>

definition scan_number :: "string \<Rightarrow> (string \<times> string) option" where
  "scan_number s =
     (case s of [] \<Rightarrow> None | c # cs \<Rightarrow> if c = CHR ''-'' then before [c] (scan_unsigned cs) else scan_unsigned s)"

text \<open>A value with its members or elements; the first argument bounds the recursion.\<close>

fun parse_value :: "nat \<Rightarrow> string \<Rightarrow> (json \<times> string) option"
  and parse_members :: "nat \<Rightarrow> string \<Rightarrow> ((string \<times> json) list \<times> string) option"
  and parse_elems :: "nat \<Rightarrow> string \<Rightarrow> (json list \<times> string) option" where
  "parse_value 0 s = None"
| "parse_value (Suc n) s =
     (case skip s of
        [] \<Rightarrow> None
      | c # cs \<Rightarrow>
          if c = dquote then map_option (map_prod JString (\<lambda>r. r)) (unquote cs)
          else if c = CHR ''{'' then
            (if strings_HasPrefix (skip cs) ''}'' then Some (JObject [], tl (skip cs))
             else map_option (map_prod JObject (\<lambda>r. r)) (parse_members n cs))
          else if c = CHR ''['' then
            (if strings_HasPrefix (skip cs) '']'' then Some (JArray [], tl (skip cs))
             else map_option (map_prod JArray (\<lambda>r. r)) (parse_elems n cs))
          else if strings_HasPrefix (c # cs) ''true'' then Some (JBool True, drop 4 (c # cs))
          else if strings_HasPrefix (c # cs) ''false'' then Some (JBool False, drop 5 (c # cs))
          else if strings_HasPrefix (c # cs) ''null'' then Some (JNull, drop 4 (c # cs))
          else map_option (map_prod JNumber (\<lambda>r. r)) (scan_number (c # cs)))"
| "parse_members 0 s = None"
| "parse_members (Suc n) s =
     (case skip s of
        [] \<Rightarrow> None
      | c # cs \<Rightarrow>
          if c \<noteq> dquote then None
          else (case unquote cs of
            None \<Rightarrow> None
          | Some (k, r) \<Rightarrow>
              (case skip r of
                 [] \<Rightarrow> None
               | d # ds \<Rightarrow>
                   if d \<noteq> CHR '':'' then None
                   else (case parse_value n ds of
                     None \<Rightarrow> None
                   | Some (v, r1) \<Rightarrow>
                       (case skip r1 of
                          [] \<Rightarrow> None
                        | e # es \<Rightarrow>
                            if e = CHR ''}'' then Some ([(k, v)], es)
                            else if e = CHR '','' then map_option (map_prod ((#) (k, v)) (\<lambda>r. r)) (parse_members n es)
                            else None)))))"
| "parse_elems 0 s = None"
| "parse_elems (Suc n) s =
     (case parse_value n s of
        None \<Rightarrow> None
      | Some (v, r1) \<Rightarrow>
          (case skip r1 of
             [] \<Rightarrow> None
           | e # es \<Rightarrow>
               if e = CHR '']'' then Some ([v], es)
               else if e = CHR '','' then map_option (map_prod ((#) v) (\<lambda>r. r)) (parse_elems n es)
               else None))"

declare parse_value.simps [simp del] parse_members.simps [simp del] parse_elems.simps [simp del]

text \<open>\<open>Decoder.Decode\<close>: the value that a text begins with, and the rest of the text.\<close>

definition next_value :: "string \<Rightarrow> (json \<times> string) option" where
  "next_value s = parse_value (Suc (2 * length s)) s"

text \<open>\<open>Unmarshal\<close>: nothing but white space may follow the value.\<close>

definition whole_value :: "string \<Rightarrow> json option" where
  "whole_value s = (case next_value s of None \<Rightarrow> None | Some (v, r) \<Rightarrow> if skip r = [] then Some v else None)"

text \<open>\<open>MarshalIndent(v, "", "  ")\<close>.\<close>

definition new_line :: "nat \<Rightarrow> string" where
  "new_line d = CHR 0x0A # replicate (2 * d) (CHR '' '')"

fun print_value :: "nat \<Rightarrow> json \<Rightarrow> string"
  and print_members :: "nat \<Rightarrow> (string \<times> json) list \<Rightarrow> string"
  and print_elems :: "nat \<Rightarrow> json list \<Rightarrow> string" where
  "print_value d JNull = ''null''"
| "print_value d (JBool b) = (if b then ''true'' else ''false'')"
| "print_value d (JNumber x) = x"
| "print_value d (JString s) = quoted s"
| "print_value d (JArray vs) = (if vs = [] then ''[]'' else ''['' @ print_elems (Suc d) vs @ new_line d @ '']'')"
| "print_value d (JObject ms) = (if ms = [] then ''{}'' else ''{'' @ print_members (Suc d) ms @ new_line d @ ''}'')"
| "print_members d [] = []"
| "print_members d ((k, v) # ms) =
     new_line d @ quoted k @ '': '' @ print_value d v @ (if ms = [] then [] else CHR '','' # print_members d ms)"
| "print_elems d [] = []"
| "print_elems d (v # vs) = new_line d @ print_value d v @ (if vs = [] then [] else CHR '','' # print_elems d vs)"

definition MarshalIndent :: "json \<Rightarrow> string" where
  "MarshalIndent v = print_value 0 v"

section \<open>The counter is enough\<close>

lemma before_Some: "before p r = Some (x, rest) \<longleftrightarrow> (\<exists>y. r = Some (y, rest) \<and> x = p @ y)"
  by (cases r) (auto simp: before_def)

lemma skip_length: "length (skip s) \<le> length s"
  by (simp add: skip_def length_dropWhile_le)

lemma skip_Cons_length: "skip s = c # cs \<Longrightarrow> length cs < length s"
  using skip_length [of s] by simp

lemma unquote_length: "unquote s = Some (x, r) \<Longrightarrow> length r < length s"
proof (induction s arbitrary: x r rule: unquote.induct)
  case 1
  then show ?case by (simp add: unquote.simps)
next
  case (2 c cs)
  note step = 2(5) [unfolded unquote.simps(2)]
  consider (stop) "c = dquote" | (esc) "c \<noteq> dquote" "c = backslash" | (char) "c \<noteq> dquote" "c \<noteq> backslash" by blast
  then show ?case
  proof cases
    case stop
    then show ?thesis using step by simp
  next
    case esc
    then obtain e ds where cs: "cs = e # ds" using step by (auto split: list.splits)
    show ?thesis
    proof (cases "e = CHR ''u''")
      case True
      then obtain u r0 where u: "hex4 ds = Some (u, r0)"
        using step esc cs by (auto simp: dquote_def backslash_def split: option.splits)
      then obtain y where "unquote (snd (unit_bytes u r0)) = Some (y, r)"
        using step esc cs True by (auto simp: before_Some dquote_def backslash_def)
      then have "length r < length (snd (unit_bytes u r0))"
        using 2(1) [OF esc cs True u] by simp
      then show ?thesis using cs hex4_length [OF u] unit_bytes_length [of u r0] by simp
    next
      case False
      then obtain z y where "simple_escape e = Some z" "unquote ds = Some (y, r)"
        using step esc cs by (auto simp: before_Some dquote_def backslash_def split: option.splits)
      then show ?thesis using 2(2) [OF esc cs False] cs by fastforce
    qed
  next
    case char
    then have ge: "\<not> byte c < 0x20" using step by (auto split: if_splits)
    show ?thesis
    proof (cases "rune_len (c # cs)")
      case None
      then show ?thesis using step char ge 2(3) [OF char ge None] by (fastforce simp: before_Some)
    next
      case (Some n)
      then obtain y where "unquote (drop n (c # cs)) = Some (y, r)"
        using step char ge by (auto simp: before_Some)
      then show ?thesis using 2(4) [OF char ge Some] rune_len_bounds [OF Some] by fastforce
    qed
  qed
qed


lemma some_digits_length: "some_digits s = Some (x, r) \<Longrightarrow> length r < length s"
  by (cases s) (auto simp: some_digits_def Let_def le_imp_less_Suc length_dropWhile_le split: if_splits)

lemma scan_int_length: "scan_int s = Some (x, r) \<Longrightarrow> length r < length s"
  by (auto simp: scan_int_def split: list.splits if_splits dest!: some_digits_length)

lemma scan_frac_length: "scan_frac s = Some (x, r) \<Longrightarrow> length r \<le> length s"
  by (auto simp: scan_frac_def before_Some split: list.splits if_splits dest!: some_digits_length)

lemma scan_exp_length: "scan_exp s = Some (x, r) \<Longrightarrow> length r \<le> length s"
  by (auto simp: scan_exp_def before_Some split: list.splits if_splits dest!: some_digits_length)

lemma scan_then_Some:
  "scan_then r f = Some (x, rest) \<longleftrightarrow> (\<exists>y s z. r = Some (y, s) \<and> f s = Some (z, rest) \<and> x = y @ z)"
  by (auto simp: scan_then_def before_Some split: option.splits)

lemma scan_unsigned_length: "scan_unsigned s = Some (x, r) \<Longrightarrow> length r < length s"
  unfolding scan_unsigned_def scan_then_Some
  by (elim exE conjE) (meson le_less_trans order.trans scan_exp_length scan_frac_length scan_int_length)

lemma scan_number_length: "scan_number s = Some (x, r) \<Longrightarrow> length r < length s"
  by (auto simp: scan_number_def before_Some less_Suc_eq split: list.splits if_splits dest!: scan_unsigned_length)

lemma parse_length:
  "parse_value n s = Some (v, r) \<Longrightarrow> length r < length s"
  "parse_members n s = Some (ms, r) \<Longrightarrow> length r < length s"
  "parse_elems n s = Some (vs, r) \<Longrightarrow> length r < length s"
proof (induction n arbitrary: s v ms vs r)
  case (Suc n)
  { case 1
    then obtain c cs where s: "skip s = c # cs" by (auto simp: parse_value.simps split: list.splits)
    have "length r \<le> length cs"
      using 1 s Suc.IH(2,3) [of cs] skip_length [of cs]
      by (force simp: parse_value.simps dest: unquote_length scan_number_length split: if_splits)
    then show ?case using skip_Cons_length [OF s] by simp
  next
    case 2
    then obtain c cs where s: "skip s = c # cs" by (auto simp: parse_members.simps split: list.splits)
    then obtain k r0 where k: "unquote cs = Some (k, r0)"
      using 2 by (auto simp: parse_members.simps split: if_splits option.splits)
    then obtain d ds where d: "skip r0 = d # ds"
      using 2 s by (auto simp: parse_members.simps split: if_splits list.splits)
    then obtain v r1 where v: "parse_value n ds = Some (v, r1)"
      using 2 s k by (auto simp: parse_members.simps split: if_splits option.splits)
    then obtain e es where e: "skip r1 = e # es"
      using 2 s k d by (auto simp: parse_members.simps split: if_splits list.splits)
    have "length r \<le> length es"
      using 2 s k d v e Suc.IH(2) [of es] by (force simp: parse_members.simps split: if_splits)
    then show ?case
      using skip_Cons_length [OF s] unquote_length [OF k] skip_Cons_length [OF d] Suc.IH(1) [OF v] skip_Cons_length [OF e]
      by simp
  next
    case 3
    then obtain v r1 where v: "parse_value n s = Some (v, r1)"
      by (auto simp: parse_elems.simps split: option.splits)
    then obtain e es where e: "skip r1 = e # es"
      using 3 by (auto simp: parse_elems.simps split: list.splits)
    have "length r \<le> length es"
      using 3 v e Suc.IH(3) [of es] by (force simp: parse_elems.simps split: if_splits)
    then show ?case using Suc.IH(1) [OF v] skip_Cons_length [OF e] by simp
  }
qed (simp_all add: parse_value.simps parse_members.simps parse_elems.simps)


text \<open>A larger counter changes nothing, once it exceeds twice the length of the text.\<close>

lemma parse_step_enough:
  "2 * length s < n \<Longrightarrow> parse_value (Suc n) s = parse_value n s"
  "2 * length s < n \<Longrightarrow> parse_members (Suc n) s = parse_members n s"
  "2 * length s + 1 < n \<Longrightarrow> parse_elems (Suc n) s = parse_elems n s"
proof (induction n arbitrary: s)
  case (Suc n)
  { case 1
    show ?case
    proof (cases "skip s")
      case (Cons c cs)
      then have "2 * length cs + 1 < n" using 1 skip_Cons_length [of s] by simp
      then show ?thesis using Cons Suc.IH(2,3) [of cs] by (simp add: parse_value.simps(2))
    qed (simp add: parse_value.simps(2))
  next
    case 2
    have val: "parse_value (Suc n) ds = parse_value n ds"
      if "skip s = c # cs" "unquote cs = Some (k, r)" "skip r = d # ds" for c cs k r d ds
    proof (rule Suc.IH(1))
      show "2 * length ds < n"
        using 2 skip_Cons_length [OF that(1)] unquote_length [OF that(2)] skip_Cons_length [OF that(3)] by simp
    qed
    have mem: "parse_members (Suc n) es = parse_members n es"
      if "skip s = c # cs" "unquote cs = Some (k, r)" "skip r = d # ds" "parse_value n ds = Some (v, r1)" "skip r1 = e # es"
      for c cs k r d ds v r1 e es
    proof (rule Suc.IH(2))
      show "2 * length es < n"
        using 2 skip_Cons_length [OF that(1)] unquote_length [OF that(2)] skip_Cons_length [OF that(3)]
          parse_length(1) [OF that(4)] skip_Cons_length [OF that(5)] by simp
    qed
    show ?case
      by (simp add: parse_members.simps(2) [of "Suc n" s] parse_members.simps(2) [of n s] val mem split: list.split option.split)
  next
    case 3
    have val: "parse_value (Suc n) s = parse_value n s" using 3 by (intro Suc.IH(1)) simp
    have el: "parse_elems (Suc n) es = parse_elems n es"
      if "parse_value n s = Some (v, r1)" "skip r1 = e # es" for v r1 e es
      by (rule Suc.IH(3)) (use 3 parse_length(1) [OF that(1)] skip_Cons_length [OF that(2)] in simp)
    show ?case
      by (simp add: parse_elems.simps(2) [of "Suc n" s] parse_elems.simps(2) [of n s] val el split: list.split option.split)
  }
qed simp_all

lemma parse_value_enough:
  assumes "2 * length s < n"
  shows "parse_value n s = next_value s"
proof -
  have "parse_value (Suc (2 * length s) + k) s = next_value s" for k
    by (induction k) (simp_all add: next_value_def parse_step_enough(1) del: parse_step_enough(1), simp add: parse_step_enough(1))
  from this [of "n - Suc (2 * length s)"] show ?thesis using assms by simp
qed

section \<open>Parsing undoes printing\<close>

text \<open>What may follow a value: the end, or a byte that continues no number.\<close>

definition ends :: "string \<Rightarrow> bool" where
  "ends r \<longleftrightarrow> (case r of [] \<Rightarrow> True | c # _ \<Rightarrow> \<not> json_digit c \<and> c \<notin> {CHR ''.'', CHR ''e'', CHR ''E''})"

definition number_text :: "string \<Rightarrow> bool" where
  "number_text x \<longleftrightarrow> x \<noteq> [] \<and> (json_digit (hd x) \<or> hd x = CHR ''-'') \<and> (\<forall>r. ends r \<longrightarrow> scan_number (x @ r) = Some (x, r))"

fun json_ok :: "json \<Rightarrow> bool" where
  "json_ok (JString s) = valid_utf8 s"
| "json_ok (JNumber x) = number_text x"
| "json_ok (JArray vs) = (\<forall>v\<in>set vs. json_ok v)"
| "json_ok (JObject ms) = (\<forall>m\<in>set ms. valid_utf8 (fst m) \<and> json_ok (snd m))"
| "json_ok v = True"

lemma skip_spaces: "skip (replicate n (CHR '' '') @ r) = skip r"
  by (induction n) (simp_all add: skip_def json_space_def)

lemma skip_new_line [simp]: "skip (new_line d @ r) = skip r"
proof -
  have "skip (new_line d @ r) = skip (replicate (2 * d) (CHR '' '') @ r)"
    by (simp add: new_line_def skip_def json_space_def)
  then show ?thesis by (simp only: skip_spaces)
qed


lemma parse_value_space: "parse_value n (CHR '' '' # s) = parse_value n s"
  by (cases n) (simp_all add: parse_value.simps skip_def json_space_def)

lemma parse_value_new_line: "parse_value n (new_line d @ s) = parse_value n s"
  by (cases n) (simp_all add: parse_value.simps)

lemma skip_stop: "\<not> json_space c \<Longrightarrow> skip (c # r) = c # r"
  by (simp add: skip_def)

lemma skip_quoted [simp]: "skip (dquote # r) = dquote # r"
  by (simp add: skip_stop json_space_def dquote_def)

lemma parse_string: "valid_utf8 s \<Longrightarrow> parse_value (Suc n) (quoted s @ r) = Some (JString s, r)"
  by (simp add: parse_value.simps quoted_def unquote_escape)

lemma parse_literals:
  "parse_value (Suc n) (''null'' @ r) = Some (JNull, r)"
  "parse_value (Suc n) (''true'' @ r) = Some (JBool True, r)"
  "parse_value (Suc n) (''false'' @ r) = Some (JBool False, r)"
  by (simp_all add: parse_value.simps skip_def json_space_def dquote_def strings_HasPrefix_def)

lemma parse_number:
  assumes "number_text x" "ends r"
  shows "parse_value (Suc n) (x @ r) = Some (JNumber x, r)"
proof -
  obtain c cs where x: "x = c # cs" using assms(1) by (cases x) (auto simp: number_text_def)
  have c: "json_digit c \<or> c = CHR ''-''" using assms(1) by (simp add: number_text_def x)
  then have "\<not> json_space c" "c \<noteq> dquote" "c \<notin> {CHR ''{'', CHR ''['', CHR ''t'', CHR ''f'', CHR ''n''}"
    by (auto simp: json_digit_def json_space_def dquote_def)
  moreover have "scan_number (c # cs @ r) = Some (c # cs, r)"
    using assms by (simp add: number_text_def x)
  ultimately show ?thesis by (simp add: x parse_value.simps skip_stop strings_HasPrefix_def)
qed

lemma parse_empty:
  "parse_value (Suc n) (''{}'' @ r) = Some (JObject [], r)" "parse_value (Suc n) (''[]'' @ r) = Some (JArray [], r)"
  by (simp_all add: parse_value.simps skip_def json_space_def dquote_def strings_HasPrefix_def)

lemma ends_close: "ends (new_line d @ r)" "ends (CHR '','' # r)"
  by (simp_all add: ends_def new_line_def json_digit_def)

lemma skip_close [simp]:
  "skip (CHR '','' # r) = CHR '','' # r" "skip (CHR ''}'' # r) = CHR ''}'' # r" "skip (CHR '']'' # r) = CHR '']'' # r"
  "skip (CHR '':'' # r) = CHR '':'' # r"
  by (simp_all add: skip_stop json_space_def)

text \<open>One member and one element, with what separates it from the next.\<close>

lemma parse_member:
  assumes "valid_utf8 k" "parse_value n (print_value d v @ rest) = Some (v, rest)"
  shows "parse_members (Suc n) (new_line d @ quoted k @ '': '' @ print_value d v @ rest)
           = (case skip rest of
                [] \<Rightarrow> None
              | e # es \<Rightarrow>
                  if e = CHR ''}'' then Some ([(k, v)], es)
                  else if e = CHR '','' then map_option (map_prod ((#) (k, v)) (\<lambda>r. r)) (parse_members n es) else None)"
  using assms by (simp add: parse_members.simps(2) quoted_def unquote_escape parse_value_space split: list.split)

lemma parse_elem:
  assumes "parse_value n (print_value d v @ rest) = Some (v, rest)"
  shows "parse_elems (Suc n) (new_line d @ print_value d v @ rest)
           = (case skip rest of
                [] \<Rightarrow> None
              | e # es \<Rightarrow>
                  if e = CHR '']'' then Some ([v], es)
                  else if e = CHR '','' then map_option (map_prod ((#) v) (\<lambda>r. r)) (parse_elems n es) else None)"
  using assms by (simp add: parse_elems.simps(2) parse_value_new_line split: list.split)

text \<open>How far the counter must reach for a value.\<close>

fun nesting :: "json \<Rightarrow> nat" and nesting_members :: "(string \<times> json) list \<Rightarrow> nat" and nesting_elems :: "json list \<Rightarrow> nat" where
  "nesting (JObject ms) = Suc (nesting_members ms)"
| "nesting (JArray vs) = Suc (nesting_elems vs)"
| "nesting JNull = 1"
| "nesting (JBool b) = 1"
| "nesting (JNumber x) = 1"
| "nesting (JString s) = 1"
| "nesting_members [] = 0"
| "nesting_members ((k, v) # ms) = Suc (max (nesting v) (nesting_members ms))"
| "nesting_elems [] = 0"
| "nesting_elems (v # vs) = Suc (max (nesting v) (nesting_elems vs))"

lemma print_value_head:
  "json_ok v \<Longrightarrow> \<exists>c cs. print_value d v = c # cs \<and> \<not> json_space c \<and> c \<noteq> CHR '']''"
  by (cases v) (auto simp: quoted_def dquote_def json_space_def number_text_def json_digit_def neq_Nil_conv)

lemma parse_print:
  "json_ok v \<Longrightarrow> ends r \<Longrightarrow> nesting v \<le> n \<Longrightarrow> parse_value n (print_value d v @ r) = Some (v, r)"
  "(\<forall>m\<in>set ms. valid_utf8 (fst m) \<and> json_ok (snd m)) \<Longrightarrow> ms \<noteq> [] \<Longrightarrow> nesting_members ms \<le> n
     \<Longrightarrow> parse_members n (print_members d ms @ new_line d' @ CHR ''}'' # r) = Some (ms, r)"
  "(\<forall>v\<in>set vs. json_ok v) \<Longrightarrow> vs \<noteq> [] \<Longrightarrow> nesting_elems vs \<le> n
     \<Longrightarrow> parse_elems n (print_elems d vs @ new_line d' @ CHR '']'' # r) = Some (vs, r)"
proof (induction d v and d ms and d vs arbitrary: n r and n r d' and n r d' rule: print_value_print_members_print_elems.induct)
  case (1 d)
  then show ?case by (cases n) (simp_all add: parse_literals [simplified])
next
  case (2 d b)
  then show ?case by (cases n) (simp_all add: parse_literals [simplified])
next
  case (3 d x)
  then show ?case by (cases n) (simp_all add: parse_number)
next
  case (4 d s)
  then show ?case by (cases n) (simp_all add: parse_string)
next
  case (5 d vs)
  then obtain m where m: "n = Suc m" "nesting_elems vs \<le> m" by (cases n) auto
  show ?case
  proof (cases "vs = []")
    case False
    then have "parse_elems m (print_elems (Suc d) vs @ new_line d @ CHR '']'' # r) = Some (vs, r)"
      using 5 m by simp
    moreover obtain v vs' where "vs = v # vs'" using False by (cases vs) auto
    moreover obtain c cs where "print_value (Suc d) v = c # cs" "\<not> json_space c" "c \<noteq> CHR '']''"
      using print_value_head [of v "Suc d"] 5(2) \<open>vs = v # vs'\<close> by auto
    ultimately show ?thesis
      using m by (simp add: parse_value.simps(2) [of m] skip_stop json_space_def dquote_def strings_HasPrefix_def)
  qed (simp add: m parse_empty [simplified])
next
  case (6 d ms)
  then obtain m where m: "n = Suc m" "nesting_members ms \<le> m" by (cases n) auto
  show ?case
  proof (cases ms)
    case (Cons x xs)
    obtain k w where x: "x = (k, w)" by (cases x)
    have "parse_members m (print_members (Suc d) ms @ new_line d @ CHR ''}'' # r) = Some (ms, r)"
      using 6 m Cons by simp
    then show ?thesis
      using Cons x m by (simp add: parse_value.simps(2) [of m] quoted_def skip_stop json_space_def dquote_def strings_HasPrefix_def)
  qed (simp add: m parse_empty [simplified])
next
  case (8 d k v ms)
  then obtain m where m: "n = Suc m" "nesting v \<le> m" "nesting_members ms \<le> m" by (cases n) auto
  let ?rest = "(if ms = [] then [] else CHR '','' # print_members d ms) @ new_line d' @ CHR ''}'' # r"
  have "parse_value m (print_value d v @ ?rest) = Some (v, ?rest)"
    using 8 m by (intro 8(1)) (simp_all add: ends_close)
  then show ?case
    using 8 m parse_member [of k m d v ?rest] by simp
next
  case (10 d v vs)
  then obtain m where m: "n = Suc m" "nesting v \<le> m" "nesting_elems vs \<le> m" by (cases n) auto
  let ?rest = "(if vs = [] then [] else CHR '','' # print_elems d vs) @ new_line d' @ CHR '']'' # r"
  have "parse_value m (print_value d v @ ?rest) = Some (v, ?rest)"
    using 10 m by (intro 10(1)) (simp_all add: ends_close)
  then show ?case
    using 10 m parse_elem [of m d v ?rest] by simp
qed simp_all


lemma next_value_MarshalIndent:
  assumes "json_ok v" "ends r"
  shows "next_value (MarshalIndent v @ r) = Some (v, r)"
proof -
  let ?s = "MarshalIndent v @ r"
  have "parse_value (max (nesting v) (Suc (2 * length ?s))) ?s = Some (v, r)"
    unfolding MarshalIndent_def by (rule parse_print(1) [OF assms]) simp
  moreover have "parse_value (max (nesting v) (Suc (2 * length ?s))) ?s = next_value ?s"
    by (rule parse_value_enough) simp
  ultimately show ?thesis by simp
qed

section \<open>What the parser reads is UTF-8\<close>

lemma valid_utf8_append: "valid_utf8 s \<Longrightarrow> valid_utf8 t \<Longrightarrow> valid_utf8 (s @ t)"
proof (induction s rule: valid_utf8.induct)
  case (2 c cs)
  then obtain n where n: "rune_len (c # cs) = Some n" "valid_utf8 (drop n (c # cs))" by (auto split: option.splits)
  have b: "n \<le> length (c # cs)" using rune_len_bounds [OF n(1)] by simp
  have "rune_len (take n (c # cs) @ drop n (c # cs) @ t) = Some n" by (rule rune_len_prefix [OF n(1)])
  then have "rune_len (c # cs @ t) = Some n" by (simp flip: append_assoc)
  moreover have "valid_utf8 (drop n (c # cs) @ t)" using 2 n by simp
  moreover have "drop n (c # cs @ t) = drop n (c # cs) @ t" using b drop_append [of n "c # cs" t] by simp
  ultimately show ?case by simp
qed simp

lemma base64_parts:
  fixes u :: nat
  shows "u = 64 * (u div 64) + u mod 64" "u div 64 = 64 * (u div 4096) + u div 64 mod 64"
    "u div 4096 = 64 * (u div 262144) + u div 4096 mod 64"
proof -
  have "u div 4096 = u div 64 div 64" "u div 262144 = u div 4096 div 64" by (simp_all add: div_mult2_eq [symmetric])
  then show "u = 64 * (u div 64) + u mod 64" "u div 64 = 64 * (u div 4096) + u div 64 mod 64"
    "u div 4096 = 64 * (u div 262144) + u div 4096 mod 64" by simp_all
qed

lemma rune_bytes_valid:
  assumes "u < 0x110000" "u < 0xD800 \<or> 0xE000 \<le> u"
  shows "valid_utf8 (rune_bytes u)"
proof -
  consider (one) "u < 0x80" | (two) "0x80 \<le> u" "u < 0x800" | (three) "0x800 \<le> u" "u < 0x10000" | (four) "0x10000 \<le> u"
    by linarith
  then show ?thesis
  proof cases
    case one
    then show ?thesis by (simp add: rune_bytes_def)
  next
    case two
    then have "u div 64 < 32" "2 \<le> u div 64" "u mod 64 < 64" by (simp_all add: less_eq_div_iff_mult_less_eq div_less_iff_less_mult)
    then show ?thesis using two by (simp add: rune_bytes_def rune_len_def cont_byte_def Let_def split: prod.splits)
  next
    case three
    then have "u div 4096 < 16" "u div 64 mod 64 < 64" "u mod 64 < 64"
      "u div 4096 = 0 \<longrightarrow> 32 \<le> u div 64 mod 64" "u div 4096 = 13 \<longrightarrow> u div 64 mod 64 \<le> 31"
      using assms base64_parts(1,2) [of u] pos_mod_bound [of 64 u] by (simp_all, linarith+)
    then show ?thesis using three
      by (auto simp: rune_bytes_def rune_len_def cont_byte_def second_bounds_def Let_def split: prod.splits)
  next
    case four
    then have "u div 262144 < 5" "u div 4096 mod 64 < 64" "u div 64 mod 64 < 64" "u mod 64 < 64"
      "u div 262144 = 0 \<longrightarrow> 16 \<le> u div 4096 mod 64" "u div 262144 = 4 \<longrightarrow> u div 4096 mod 64 \<le> 15"
      using assms base64_parts [of u] by (simp_all, linarith+)
    then show ?thesis using four
      by (auto simp: rune_bytes_def rune_len_def cont_byte_def second_bounds_def Let_def split: prod.splits)
  qed
qed


lemma replacement_valid: "valid_utf8 replacement"
  unfolding replacement_def by (rule rune_bytes_valid) simp_all

lemma rune_valid:
  assumes "rune_len s = Some n"
  shows "valid_utf8 (take n s)"
proof -
  have b: "1 \<le> n" "n \<le> length s" using rune_len_bounds [OF assms] by simp_all
  then obtain c cs where c: "take n s = c # cs" by (cases "take n s") auto
  moreover have "rune_len (take n s) = Some n" using rune_len_prefix [OF assms, of "[]"] by simp
  moreover have "drop n (c # cs) = []" using b c by (metis drop_all length_take min.absorb2 order_refl)
  ultimately show ?thesis by simp
qed

lemma hex_value_bound: "hex_value c = Some n \<Longrightarrow> n < 16"
  by (auto simp: hex_value_def Let_def split: if_splits)

lemma hex4_bound: "hex4 s = Some (u, r) \<Longrightarrow> u < 0x10000"
  by (auto simp: hex4_def split: list.splits option.splits dest!: hex_value_bound)

lemma next_unit_bound: "next_unit s = Some (u, r) \<Longrightarrow> u < 0x10000"
  by (auto simp: next_unit_def split: list.splits if_splits dest!: hex4_bound)

lemma unit_bytes_valid: "u < 0x10000 \<Longrightarrow> valid_utf8 (fst (unit_bytes u r))"
  by (auto simp: unit_bytes_def replacement_valid rune_bytes_valid split: option.splits)

lemma unquote_valid: "unquote s = Some (x, r) \<Longrightarrow> valid_utf8 x"
proof (induction s arbitrary: x r rule: unquote.induct)
  case 1
  then show ?case by (simp add: unquote.simps)
next
  case (2 c cs)
  note step = 2(5) [unfolded unquote.simps(2)]
  consider (stop) "c = dquote" | (esc) "c \<noteq> dquote" "c = backslash" | (char) "c \<noteq> dquote" "c \<noteq> backslash" by blast
  then show ?case
  proof cases
    case stop
    then show ?thesis using step by simp
  next
    case esc
    then obtain e ds where cs: "cs = e # ds" using step by (auto split: list.splits)
    show ?thesis
    proof (cases "e = CHR ''u''")
      case True
      then obtain u r0 where u: "hex4 ds = Some (u, r0)"
        using step esc cs by (auto simp: dquote_def backslash_def split: option.splits)
      then obtain y where "unquote (snd (unit_bytes u r0)) = Some (y, r)" "x = fst (unit_bytes u r0) @ y"
        using step esc cs True by (auto simp: before_Some dquote_def backslash_def)
      then show ?thesis
        using 2(1) [OF esc cs True u] unit_bytes_valid [OF hex4_bound [OF u]] by (auto intro: valid_utf8_append)
    next
      case False
      then obtain z y where z: "simple_escape e = Some z" "unquote ds = Some (y, r)" "x = [z] @ y"
        using step esc cs by (auto simp: before_Some dquote_def backslash_def split: option.splits)
      moreover have "byte z < 0x80"
        using z(1) by (auto simp: simple_escape_def dquote_def backslash_def split: if_splits)
      ultimately show ?thesis using 2(2) [OF esc cs False] by auto
    qed
  next
    case char
    then have ge: "\<not> byte c < 0x20" using step by (auto split: if_splits)
    show ?thesis
    proof (cases "rune_len (c # cs)")
      case None
      then show ?thesis
        using step char ge 2(3) [OF char ge None] by (auto simp: before_Some intro!: valid_utf8_append replacement_valid)
    next
      case (Some n)
      then obtain y where "unquote (drop n (c # cs)) = Some (y, r)" "x = take n (c # cs) @ y"
        using step char ge by (auto simp: before_Some)
      then show ?thesis using 2(4) [OF char ge Some] rune_valid [OF Some] by (auto intro: valid_utf8_append)
    qed
  qed
qed

text \<open>Every string in a value is UTF-8.\<close>

fun utf8_json :: "json \<Rightarrow> bool" where
  "utf8_json (JString s) = valid_utf8 s"
| "utf8_json (JArray vs) = (\<forall>v\<in>set vs. utf8_json v)"
| "utf8_json (JObject ms) = (\<forall>m\<in>set ms. valid_utf8 (fst m) \<and> utf8_json (snd m))"
| "utf8_json v = True"

lemma parse_utf8:
  "parse_value n s = Some (v, r) \<Longrightarrow> utf8_json v"
  "parse_members n s = Some (ms, r) \<Longrightarrow> \<forall>m\<in>set ms. valid_utf8 (fst m) \<and> utf8_json (snd m)"
  "parse_elems n s = Some (vs, r) \<Longrightarrow> \<forall>v\<in>set vs. utf8_json v"
proof (induction n arbitrary: s v ms vs r)
  case (Suc n)
  { case 1
    then obtain c cs where "skip s = c # cs" by (auto simp: parse_value.simps split: list.splits)
    then show ?case
      using 1 Suc.IH(2,3) [of cs] by (auto simp: parse_value.simps dest: unquote_valid split: if_splits)
  next
    case 2
    then show ?case
      using Suc.IH(1,2) by (fastforce simp: parse_members.simps dest: unquote_valid split: if_splits list.splits option.splits)
  next
    case 3
    then show ?case
      using Suc.IH(1,3) by (fastforce simp: parse_elems.simps split: if_splits list.splits option.splits)
  }
qed (simp_all add: parse_value.simps parse_members.simps parse_elems.simps)

lemma next_value_utf8: "next_value s = Some (v, r) \<Longrightarrow> utf8_json v"
  unfolding next_value_def by (rule parse_utf8)


section \<open>Decoding into a structure\<close>

text \<open>
  The key of a member names a field exactly, or else with another case (\<open>foldName\<close>; the two letters outside
  ASCII that fold to an ASCII letter are the long s and the Kelvin sign). A key of no field is skipped, or an error
  when unknown fields are disallowed. A value of the wrong type is an error. The library goes on after such an
  error and reports it at the end; the result is then not used, so the model stops at once.
\<close>

definition upper :: "char \<Rightarrow> char" where
  "upper c = (if 97 \<le> byte c \<and> byte c \<le> 122 then char_of (byte c - 32) else c)"

fun foldName :: "string \<Rightarrow> string" where
  "foldName [] = []"
| "foldName (c # cs) =
     (if c = CHR 0xC5 \<and> strings_HasPrefix cs [CHR 0xBF] then CHR ''S'' # foldName (drop 1 cs)
      else if c = CHR 0xE2 \<and> strings_HasPrefix cs [CHR 0x84, CHR 0xAA] then CHR ''K'' # foldName (drop 2 cs)
      else upper c # foldName cs)"

definition field_for :: "string list \<Rightarrow> string \<Rightarrow> string option" where
  "field_for names k =
     (if k \<in> set names then Some k else find (\<lambda>f. foldName f = foldName k) names)"

fun decode_fields ::
  "bool \<Rightarrow> string list \<Rightarrow> (string \<Rightarrow> json \<Rightarrow> 's \<Rightarrow> 's option) \<Rightarrow> (string \<times> json) list \<Rightarrow> 's \<Rightarrow> 's option" where
  "decode_fields strict names setter [] s = Some s"
| "decode_fields strict names setter ((k, v) # ms) s =
     (case field_for names k of
        None \<Rightarrow> if strict then None else decode_fields strict names setter ms s
      | Some f \<Rightarrow> (case setter f v s of None \<Rightarrow> None | Some s' \<Rightarrow> decode_fields strict names setter ms s'))"

text \<open>A structure from a value: null leaves it as it is, any other value but an object is an error.\<close>

definition decode_struct :: "((string \<times> json) list \<Rightarrow> 's \<Rightarrow> 's option) \<Rightarrow> json \<Rightarrow> 's \<Rightarrow> 's option" where
  "decode_struct dec v s = (case v of JNull \<Rightarrow> Some s | JObject ms \<Rightarrow> dec ms s | _ \<Rightarrow> None)"

text \<open>The kinds of fields: a string, a bool, an int, and pointers to a bool, an int and a structure.\<close>

definition into_string :: "json \<Rightarrow> string \<Rightarrow> string option" where
  "into_string v old = (case v of JNull \<Rightarrow> Some old | JString s \<Rightarrow> Some s | _ \<Rightarrow> None)"

definition into_bool :: "json \<Rightarrow> bool \<Rightarrow> bool option" where
  "into_bool v old = (case v of JNull \<Rightarrow> Some old | JBool b \<Rightarrow> Some b | _ \<Rightarrow> None)"

text \<open>\<open>strconv.ParseInt(x, 10, 64)\<close> on the literal of a number.\<close>

definition parse_int :: "string \<Rightarrow> int option" where
  "parse_int x =
     (let neg = strings_HasPrefix x ''-''; d = (if neg then tl x else x);
          i = (if neg then - int (digits_val d) else int (digits_val d))
      in if d \<noteq> [] \<and> list_all json_digit d \<and> int64_min \<le> i \<and> i \<le> int64_max then Some i else None)"

definition into_int :: "json \<Rightarrow> int \<Rightarrow> int option" where
  "into_int v old = (case v of JNull \<Rightarrow> Some old | JNumber x \<Rightarrow> parse_int x | _ \<Rightarrow> None)"

definition into_pointer :: "(json \<Rightarrow> 'a \<Rightarrow> 'a option) \<Rightarrow> 'a \<Rightarrow> json \<Rightarrow> 'a option \<Rightarrow> 'a option option" where
  "into_pointer into zero v old =
     (case v of JNull \<Rightarrow> Some None | _ \<Rightarrow> map_option Some (into v (case old of None \<Rightarrow> zero | Some o' \<Rightarrow> o')))"

text \<open>Encoding with \<open>omitempty\<close>: the members of the fields that are not empty.\<close>

definition member_string :: "string \<Rightarrow> string \<Rightarrow> (string \<times> json) list" where
  "member_string k s = (if s = [] then [] else [(k, JString s)])"

definition member_pointer :: "string \<Rightarrow> ('a \<Rightarrow> json) \<Rightarrow> 'a option \<Rightarrow> (string \<times> json) list" where
  "member_pointer k enc p = (case p of None \<Rightarrow> [] | Some x \<Rightarrow> [(k, enc x)])"

definition json_int :: "int \<Rightarrow> json" where
  "json_int i = JNumber (strconv_Itoa i)"

lemma decode_fields_append:
  "decode_fields strict names setter (ms @ ns) s
     = (case decode_fields strict names setter ms s of None \<Rightarrow> None | Some s' \<Rightarrow> decode_fields strict names setter ns s')"
  by (induction ms arbitrary: s) (auto split: option.split)

lemma field_for_name: "k \<in> set names \<Longrightarrow> field_for names k = Some k"
  by (simp add: field_for_def)

text \<open>Members of the same name as the field, from a state where the field is empty.\<close>

lemma decode_member_string:
  assumes "k \<in> set names" "s = [] \<Longrightarrow> st' = st" "s \<noteq> [] \<Longrightarrow> setter k (JString s) st = Some st'"
  shows "decode_fields strict names setter (member_string k s @ ms) st = decode_fields strict names setter ms st'"
  using assms by (simp add: member_string_def field_for_name)

lemma decode_member_pointer:
  assumes "k \<in> set names" "p = None \<Longrightarrow> st' = st" "\<And>x. p = Some x \<Longrightarrow> setter k (enc x) st = Some st'"
  shows "decode_fields strict names setter (member_pointer k enc p @ ms) st = decode_fields strict names setter ms st'"
  using assms by (simp add: member_pointer_def field_for_name split: option.split)

lemma show_nat_digits: "list_all json_digit (show_nat n) \<and> show_nat n \<noteq> []"
proof (induction n rule: show_nat.induct)
  case (1 n)
  then show ?case by (subst (1 2) show_nat.simps) (auto simp: json_digit_def [abs_def])
qed

lemma parse_int_Itoa: "int64_min \<le> i \<Longrightarrow> i \<le> int64_max \<Longrightarrow> parse_int (strconv_Itoa i) = Some i"
proof -
  assume i: "int64_min \<le> i" "i \<le> int64_max"
  have d: "list_all json_digit (show_nat n)" "show_nat n \<noteq> []" for n using show_nat_digits by simp_all
  have m: "\<not> strings_HasPrefix (show_nat n) ''-''" for n
    using d [of n] by (cases "show_nat n") (auto simp: strings_HasPrefix_def json_digit_def)
  show ?thesis using i d m by (simp add: parse_int_def strconv_Itoa_def Let_def strings_HasPrefix_def)
qed


text \<open>A printed integer is a number literal.\<close>

lemma show_nat_zero: "hd (show_nat n) = CHR ''0'' \<Longrightarrow> show_nat n = ''0''"
proof (induction n rule: show_nat.induct)
  case (1 n)
  show ?case
  proof (cases "n < 10")
    case True
    then show ?thesis using 1(2) by (subst (asm) show_nat.simps, subst show_nat.simps) simp
  next
    case False
    have "show_nat n = show_nat (n div 10) @ [char_of (48 + n mod 10)]" using False by (subst show_nat.simps) simp
    then have "hd (show_nat (n div 10)) = CHR ''0''" using 1(2) show_nat_digits [of "n div 10"] by simp
    then have "show_nat (n div 10) = ''0''" using 1(1) False by simp
    then have "digits_val (show_nat (n div 10)) = 0" by (simp add: digits_val_def)
    then show ?thesis using False by simp
  qed
qed

lemma some_digits_all:
  assumes "list_all json_digit x" "x \<noteq> []" "ends r"
  shows "some_digits (x @ r) = Some (x, r)"
proof -
  have "takeWhile json_digit r = []" "dropWhile json_digit r = r"
    using assms(3) by (simp_all add: ends_def split: list.splits)
  then have "takeWhile json_digit (x @ r) = x" "dropWhile json_digit (x @ r) = r"
    using assms(1) by (simp_all add: list_all_iff)
  then show ?thesis using assms(2) by (simp add: some_digits_def)
qed

lemma scan_tail: "ends r \<Longrightarrow> scan_then (scan_frac r) scan_exp = Some ([], r)"
  by (auto simp: ends_def scan_then_def scan_frac_def scan_exp_def split: list.splits)

lemma scan_unsigned_show_nat:
  assumes "ends r"
  shows "scan_unsigned (show_nat n @ r) = Some (show_nat n, r)"
proof -
  have d: "list_all json_digit (show_nat n)" "show_nat n \<noteq> []" using show_nat_digits by simp_all
  have "scan_int (show_nat n @ r) = Some (show_nat n, r)"
  proof (cases "hd (show_nat n) = CHR ''0''")
    case True
    then show ?thesis by (simp add: show_nat_zero scan_int_def)
  next
    case False
    then show ?thesis
      using d(2) some_digits_all [OF d assms] by (cases "show_nat n") (auto simp: scan_int_def)
  qed
  then show ?thesis using scan_tail [OF assms] by (simp add: scan_unsigned_def scan_then_def)
qed

lemma number_text_Itoa: "number_text (strconv_Itoa i)"
proof -
  have d: "list_all json_digit (show_nat n)" "show_nat n \<noteq> []" for n using show_nat_digits by simp_all
  have hd: "json_digit (hd (show_nat n))" for n using d [of n] by (cases "show_nat n") auto
  have "scan_number (show_nat n @ r) = Some (show_nat n, r)" if "ends r" for n r
    using scan_unsigned_show_nat [OF that, of n] hd [of n] d(2) [of n]
    by (cases "show_nat n") (auto simp: scan_number_def json_digit_def)
  moreover have "scan_number (CHR ''-'' # show_nat n @ r) = Some (CHR ''-'' # show_nat n, r)" if "ends r" for n r
    using scan_unsigned_show_nat [OF that, of n] by (simp add: scan_number_def)
  ultimately show ?thesis using d hd by (simp add: number_text_def strconv_Itoa_def)
qed

lemma json_ok_int [simp]: "json_ok (json_int i)"
  by (simp add: json_int_def number_text_Itoa)

lemma json_ok_members:
  "valid_utf8 s \<Longrightarrow> valid_utf8 k \<Longrightarrow> \<forall>m\<in>set (member_string k s). valid_utf8 (fst m) \<and> json_ok (snd m)"
  "(\<And>x. p = Some x \<Longrightarrow> json_ok (enc x)) \<Longrightarrow> valid_utf8 k
     \<Longrightarrow> \<forall>m\<in>set (member_pointer k enc p). valid_utf8 (fst m) \<and> json_ok (snd m)"
  by (auto simp: member_string_def member_pointer_def split: option.split)

text \<open>A predicate of the state that every setter keeps, for values whose strings are UTF-8.\<close>

lemma decode_fields_keeps:
  assumes "\<And>f v s s'. setter f v s = Some s' \<Longrightarrow> utf8_json v \<Longrightarrow> P s \<Longrightarrow> P s'"
    and "decode_fields strict names setter ms s = Some s'" "\<forall>m\<in>set ms. utf8_json (snd m)" "P s"
  shows "P s'"
  using assms(2-4)
proof (induction ms arbitrary: s)
  case (Cons m ms)
  show ?case
  proof (cases "field_for names (fst m)")
    case None
    then show ?thesis using Cons by (cases m) (auto split: if_splits)
  next
    case (Some f)
    then obtain t where t: "setter f (snd m) s = Some t" "decode_fields strict names setter ms t = Some s'"
      using Cons.prems(1) by (cases m) (auto split: option.splits)
    then have "P t" using assms(1) Cons.prems by simp
    then show ?thesis using Cons t by simp
  qed
qed simp

end
