(* ===== verification/Lint.thy ===== *)
theory Lint
  imports Json Api
begin

text \<open>
  The linter of the command line client: \<open>lint/lint.go\<close> (the diagnostics of manifests, the canonical form of
  a manifest) and the command of \<open>cli/lint.go\<close> that finds, fixes and checks the files.

  The schema validator is a library: its result on a value is a field of the record \<open>Linter\<close>, as are the
  text of a syntax error and the range of a floating point number. Files and the output of git are read through
  the record \<open>lint_os\<close>. The iteration order of a Go map is an argument.
\<close>

section \<open>Data\<close>

datatype Severity = Error | Warning

record Diagnostic =
  dg_File :: string
  dg_Message :: string
  dg_Severity :: Severity

record File =
  f_Path :: string
  f_Content :: string

record FixedFile =
  ff_Path :: string
  ff_Content :: string

record healthCheck =
  hc_Path :: string
  hc_Timeout :: string

record persistenceResource =
  pr_Permanent :: "bool option"

record persistence =
  ps_Database :: "persistenceResource option"
  ps_Storage :: "persistenceResource option"
  ps_Queues :: "persistenceResource option"

record morselFile =
  mf_Schema :: string
  mf_Name :: string
  mf_Type :: string
  mf_Dockerfile :: string
  mf_Port :: "int option"
  mf_Private :: "bool option"
  mf_Tier :: string
  mf_IdleAfter :: string
  mf_HealthCheck :: "healthCheck option"
  mf_Schedule :: string
  mf_Timeout :: string
  mf_Retries :: "int option"
  mf_Persistence :: "persistence option"

definition no_health :: healthCheck where "no_health = \<lparr> hc_Path = [], hc_Timeout = [] \<rparr>"

definition no_resource :: persistenceResource where "no_resource = \<lparr> pr_Permanent = None \<rparr>"

definition no_persistence :: persistence where
  "no_persistence = \<lparr> ps_Database = None, ps_Storage = None, ps_Queues = None \<rparr>"

definition no_file :: morselFile where
  "no_file = \<lparr> mf_Schema = [], mf_Name = [], mf_Type = [], mf_Dockerfile = [], mf_Port = None, mf_Private = None,
     mf_Tier = [], mf_IdleAfter = [], mf_HealthCheck = None, mf_Schedule = [], mf_Timeout = [], mf_Retries = None,
     mf_Persistence = None \<rparr>"

section \<open>The JSON form of a manifest\<close>

definition set_health :: "string \<Rightarrow> json \<Rightarrow> healthCheck \<Rightarrow> healthCheck option" where
  "set_health f v h =
     (if f = ''path'' then map_option (\<lambda>x. h\<lparr>hc_Path := x\<rparr>) (into_string v (hc_Path h))
      else map_option (\<lambda>x. h\<lparr>hc_Timeout := x\<rparr>) (into_string v (hc_Timeout h)))"

definition decode_health :: "bool \<Rightarrow> json \<Rightarrow> healthCheck \<Rightarrow> healthCheck option" where
  "decode_health strict = decode_struct (decode_fields strict [''path'', ''timeout''] set_health)"

definition set_resource :: "string \<Rightarrow> json \<Rightarrow> persistenceResource \<Rightarrow> persistenceResource option" where
  "set_resource f v r = map_option (\<lambda>x. r\<lparr>pr_Permanent := x\<rparr>) (into_pointer into_bool False v (pr_Permanent r))"

definition decode_resource :: "bool \<Rightarrow> json \<Rightarrow> persistenceResource \<Rightarrow> persistenceResource option" where
  "decode_resource strict = decode_struct (decode_fields strict [''permanent''] set_resource)"

definition set_persistence :: "bool \<Rightarrow> string \<Rightarrow> json \<Rightarrow> persistence \<Rightarrow> persistence option" where
  "set_persistence strict f v p =
     (let into = into_pointer (decode_resource strict) no_resource v in
      if f = ''database'' then map_option (\<lambda>x. p\<lparr>ps_Database := x\<rparr>) (into (ps_Database p))
      else if f = ''storage'' then map_option (\<lambda>x. p\<lparr>ps_Storage := x\<rparr>) (into (ps_Storage p))
      else map_option (\<lambda>x. p\<lparr>ps_Queues := x\<rparr>) (into (ps_Queues p)))"

definition decode_persistence :: "bool \<Rightarrow> json \<Rightarrow> persistence \<Rightarrow> persistence option" where
  "decode_persistence strict =
     decode_struct (decode_fields strict [''database'', ''storage'', ''queues''] (set_persistence strict))"

definition manifest_fields :: "string list" where
  "manifest_fields = [''$schema'', ''name'', ''type'', ''dockerfile'', ''port'', ''private'', ''tier'', ''idle_after'',
     ''health_check'', ''schedule'', ''timeout'', ''retries'', ''persistence'']"

definition set_field :: "bool \<Rightarrow> string \<Rightarrow> json \<Rightarrow> morselFile \<Rightarrow> morselFile option" where
  "set_field strict f v m =
     (if f = ''$schema'' then map_option (\<lambda>x. m\<lparr>mf_Schema := x\<rparr>) (into_string v (mf_Schema m))
      else if f = ''name'' then map_option (\<lambda>x. m\<lparr>mf_Name := x\<rparr>) (into_string v (mf_Name m))
      else if f = ''type'' then map_option (\<lambda>x. m\<lparr>mf_Type := x\<rparr>) (into_string v (mf_Type m))
      else if f = ''dockerfile'' then map_option (\<lambda>x. m\<lparr>mf_Dockerfile := x\<rparr>) (into_string v (mf_Dockerfile m))
      else if f = ''port'' then map_option (\<lambda>x. m\<lparr>mf_Port := x\<rparr>) (into_pointer into_int 0 v (mf_Port m))
      else if f = ''private'' then map_option (\<lambda>x. m\<lparr>mf_Private := x\<rparr>) (into_pointer into_bool False v (mf_Private m))
      else if f = ''tier'' then map_option (\<lambda>x. m\<lparr>mf_Tier := x\<rparr>) (into_string v (mf_Tier m))
      else if f = ''idle_after'' then map_option (\<lambda>x. m\<lparr>mf_IdleAfter := x\<rparr>) (into_string v (mf_IdleAfter m))
      else if f = ''health_check''
        then map_option (\<lambda>x. m\<lparr>mf_HealthCheck := x\<rparr>) (into_pointer (decode_health strict) no_health v (mf_HealthCheck m))
      else if f = ''schedule'' then map_option (\<lambda>x. m\<lparr>mf_Schedule := x\<rparr>) (into_string v (mf_Schedule m))
      else if f = ''timeout'' then map_option (\<lambda>x. m\<lparr>mf_Timeout := x\<rparr>) (into_string v (mf_Timeout m))
      else if f = ''retries'' then map_option (\<lambda>x. m\<lparr>mf_Retries := x\<rparr>) (into_pointer into_int 0 v (mf_Retries m))
      else map_option (\<lambda>x. m\<lparr>mf_Persistence := x\<rparr>)
             (into_pointer (decode_persistence strict) no_persistence v (mf_Persistence m)))"

definition decode_manifest :: "bool \<Rightarrow> json \<Rightarrow> morselFile option" where
  "decode_manifest strict v = decode_struct (decode_fields strict manifest_fields (set_field strict)) v no_file"

definition encode_health :: "healthCheck \<Rightarrow> json" where
  "encode_health h = JObject (member_string ''path'' (hc_Path h) @ member_string ''timeout'' (hc_Timeout h))"

definition encode_resource :: "persistenceResource \<Rightarrow> json" where
  "encode_resource r = JObject (member_pointer ''permanent'' JBool (pr_Permanent r))"

definition encode_persistence :: "persistence \<Rightarrow> json" where
  "encode_persistence p =
     JObject (member_pointer ''database'' encode_resource (ps_Database p) @
              member_pointer ''storage'' encode_resource (ps_Storage p) @
              member_pointer ''queues'' encode_resource (ps_Queues p))"

definition encode_manifest :: "morselFile \<Rightarrow> json" where
  "encode_manifest m =
     JObject (member_string ''$schema'' (mf_Schema m) @ member_string ''name'' (mf_Name m) @
              member_string ''type'' (mf_Type m) @ member_string ''dockerfile'' (mf_Dockerfile m) @
              member_pointer ''port'' json_int (mf_Port m) @ member_pointer ''private'' JBool (mf_Private m) @
              member_string ''tier'' (mf_Tier m) @ member_string ''idle_after'' (mf_IdleAfter m) @
              member_pointer ''health_check'' encode_health (mf_HealthCheck m) @
              member_string ''schedule'' (mf_Schedule m) @ member_string ''timeout'' (mf_Timeout m) @
              member_pointer ''retries'' json_int (mf_Retries m) @
              member_pointer ''persistence'' encode_persistence (mf_Persistence m))"

section \<open>Diagnostics\<close>

text \<open>A validation error with its causes, and the result of the validator.\<close>

datatype ValidationError = VE (ve_Error: string) (ve_Causes: "ValidationError list")

datatype validation = Valid | Invalid ValidationError | Failed string

record Linter =
  ln_Validate :: "json \<Rightarrow> validation"
  ln_Syntax :: "string \<Rightarrow> string"
  ln_Float :: "string \<Rightarrow> bool"

fun leafErrors :: "ValidationError \<Rightarrow> string list" where
  "leafErrors (VE msg causes) = (if causes = [] then [msg] else concat (map leafErrors causes))"

text \<open>Every number of a value fits a floating point number, as \<open>any\<close> holds it.\<close>

fun floats_fit :: "Linter \<Rightarrow> json \<Rightarrow> bool" where
  "floats_fit l (JNumber x) = ln_Float l x"
| "floats_fit l (JArray vs) = list_all (floats_fit l) vs"
| "floats_fit l (JObject ms) = list_all (\<lambda>m. floats_fit l (snd m)) ms"
| "floats_fit l v = True"

definition unmarshal_any :: "Linter \<Rightarrow> string \<Rightarrow> string + json" where
  "unmarshal_any l s =
     (case whole_value s of
        None \<Rightarrow> Inl (ln_Syntax l s)
      | Some v \<Rightarrow> if floats_fit l v then Inr v else Inl (ln_Syntax l s))"

definition warn :: "string \<Rightarrow> string \<Rightarrow> Diagnostic" where
  "warn path msg = \<lparr> dg_File = path, dg_Message = msg, dg_Severity = Warning \<rparr>"

definition fail_diag :: "string \<Rightarrow> string \<Rightarrow> Diagnostic" where
  "fail_diag path msg = \<lparr> dg_File = path, dg_Message = msg, dg_Severity = Error \<rparr>"

definition ignored :: "string \<Rightarrow> string \<Rightarrow> string \<Rightarrow> bool \<Rightarrow> Diagnostic list" where
  "ignored path typ field present =
     (if present then [warn path (field @ '' is not applicable to type '' @ [dquote] @ typ @ [dquote] @ '' and will be ignored'')]
      else [])"

definition em_dash :: string where "em_dash = [CHR 0xE2, CHR 0x80, CHR 0x94]"

definition permanent :: "string \<Rightarrow> string \<Rightarrow> persistenceResource option \<Rightarrow> Diagnostic list" where
  "permanent path name r =
     (case r of
        None \<Rightarrow> []
      | Some res \<Rightarrow>
          if pr_Permanent res = Some True
          then [warn path (''persistence.'' @ name @ ''.permanent is true '' @ em_dash @
                  '' removing this field will schedule deletion after a 30-day grace period'')]
          else [])"

definition health_path :: "morselFile \<Rightarrow> bool" where
  "health_path m = (case mf_HealthCheck m of None \<Rightarrow> False | Some h \<Rightarrow> hc_Path h \<noteq> [])"

definition semanticDiags :: "string \<Rightarrow> morselFile \<Rightarrow> Diagnostic list" where
  "semanticDiags path m =
     (let typ = mf_Type m; ign = ignored path typ in
      (if typ = ''worker'' then
         ign ''port'' (mf_Port m \<noteq> None) @ ign ''private'' (mf_Private m \<noteq> None) @
         ign ''health_check.path'' (health_path m) @ ign ''idle_after'' (mf_IdleAfter m \<noteq> []) @
         ign ''schedule'' (mf_Schedule m \<noteq> []) @ ign ''timeout'' (mf_Timeout m \<noteq> []) @
         ign ''retries'' (mf_Retries m \<noteq> None)
       else if typ = ''cronjob'' then
         ign ''port'' (mf_Port m \<noteq> None) @ ign ''private'' (mf_Private m \<noteq> None) @
         ign ''health_check.path'' (health_path m) @ ign ''idle_after'' (mf_IdleAfter m \<noteq> [])
       else if typ = ''http'' then
         ign ''schedule'' (mf_Schedule m \<noteq> []) @ ign ''timeout'' (mf_Timeout m \<noteq> []) @
         ign ''retries'' (mf_Retries m \<noteq> None)
       else []) @
      (case mf_Persistence m of
         None \<Rightarrow> []
       | Some p \<Rightarrow> permanent path ''database'' (ps_Database p) @ permanent path ''storage'' (ps_Storage p) @
                  permanent path ''queues'' (ps_Queues p)))"

definition schemaDiags :: "Linter \<Rightarrow> string \<Rightarrow> json \<Rightarrow> Diagnostic list" where
  "schemaDiags l path raw =
     (case ln_Validate l raw of
        Valid \<Rightarrow> []
      | Invalid ve \<Rightarrow> map (fail_diag path) (leafErrors ve)
      | Failed e \<Rightarrow> [fail_diag path e])"

definition lintFile :: "Linter \<Rightarrow> File \<Rightarrow> Diagnostic list \<times> morselFile option" where
  "lintFile l f =
     (case unmarshal_any l (f_Content f) of
        Inl e \<Rightarrow> ([fail_diag (f_Path f) (''invalid JSON: '' @ e)], None)
      | Inr raw \<Rightarrow>
          (let diags = schemaDiags l (f_Path f) raw in
           case decode_manifest False raw of
             None \<Rightarrow> (diags, None)
           | Some m \<Rightarrow> (diags @ semanticDiags (f_Path f) m, Some m)))"

text \<open>The map from names to the paths of the files that declare them, in the order of the first declaration.\<close>

fun add_name :: "string \<Rightarrow> string \<Rightarrow> (string \<times> string list) list \<Rightarrow> (string \<times> string list) list" where
  "add_name n p [] = [(n, [p])]"
| "add_name n p ((n', ps) # ns) = (if n' = n then (n', ps @ [p]) # ns else (n', ps) # add_name n p ns)"

definition note_name :: "Linter \<Rightarrow> File \<Rightarrow> (string \<times> string list) list \<Rightarrow> (string \<times> string list) list" where
  "note_name l f ns =
     (case snd (lintFile l f) of
        None \<Rightarrow> ns
      | Some m \<Rightarrow> if mf_Name m \<noteq> [] then add_name (mf_Name m) (f_Path f) ns else ns)"

definition duplicateDiags :: "string \<times> string list \<Rightarrow> Diagnostic list" where
  "duplicateDiags np =
     (case np of (name, paths) \<Rightarrow>
        if length paths > 1
        then map (\<lambda>p. fail_diag p (''name '' @ sprintf_q name @ '' is declared in multiple files: '' @ strings_Join paths '', '')) paths
        else [])"

definition Lint :: "Linter \<Rightarrow> ((string \<times> string list) list \<Rightarrow> (string \<times> string list) list) \<Rightarrow> File list \<Rightarrow> Diagnostic list" where
  "Lint l order files =
     concat (map (\<lambda>f. fst (lintFile l f)) files) @
     concat (map duplicateDiags (order (fold (note_name l) files [])))"

section \<open>The canonical form\<close>

definition schemaURL :: string where
  "schemaURL = ''https://raw.githubusercontent.com/ifeanyiecheruo/morsel/main/schemas/morsel.schema.json''"

definition canonical :: "morselFile \<Rightarrow> string" where
  "canonical m = MarshalIndent (encode_manifest m) @ [CHR 0x0A]"

definition with_schema :: "morselFile \<Rightarrow> morselFile" where
  "with_schema m = (if mf_Schema m = [] then m\<lparr>mf_Schema := schemaURL\<rparr> else m)"

text \<open>None is an error of the decoder; else the corrected text, if it differs.\<close>

definition fixFile :: "File \<Rightarrow> (string \<times> bool) option" where
  "fixFile f =
     (case next_value (f_Content f) of
        None \<Rightarrow> None
      | Some (v, _) \<Rightarrow>
          (case decode_manifest True v of
             None \<Rightarrow> None
           | Some m \<Rightarrow>
               let corrected = canonical (with_schema m) in
               if corrected = f_Content f then Some ([], False) else Some (corrected, True)))"

definition Fix :: "File list \<Rightarrow> FixedFile list" where
  "Fix files =
     List.map_filter (\<lambda>f. case fixFile f of
         Some (corrected, True) \<Rightarrow> Some \<lparr> ff_Path = f_Path f, ff_Content = corrected \<rparr>
       | _ \<Rightarrow> None) files"


section \<open>The command\<close>

datatype file_read = NotExist string | ReadError string | Contents string

text \<open>\<open>lo_ReadDir\<close> is None when the directory does not exist, else the error or the entries with their kind.\<close>

record lint_os =
  lo_ReadDir :: "(string + (string \<times> bool) list) option"
  lo_ReadFile :: "string \<Rightarrow> file_read"
  lo_GitDiff :: "string + string"
  lo_WriteFile :: "string \<Rightarrow> string option"

definition prepend_file :: "string \<Rightarrow> string \<Rightarrow> string + File list \<Rightarrow> string + File list" where
  "prepend_file path c rest = (case rest of Inl e \<Rightarrow> Inl e | Inr fs \<Rightarrow> Inr (\<lparr> f_Path = path, f_Content = c \<rparr> # fs))"

definition read_failed :: "string \<Rightarrow> string \<Rightarrow> string" where
  "read_failed path e = ''read '' @ path @ '': '' @ e"

fun read_entries :: "lint_os \<Rightarrow> (string \<times> bool) list \<Rightarrow> string + File list" where
  "read_entries os [] = Inr []"
| "read_entries os ((name, isDir) # es) =
     (if isDir \<or> \<not> strings_HasSuffix name ''.morsel.json'' then read_entries os es
      else let path = ''.morsel/'' @ name in
           case lo_ReadFile os path of
             NotExist e \<Rightarrow> Inl (read_failed path e)
           | ReadError e \<Rightarrow> Inl (read_failed path e)
           | Contents c \<Rightarrow> prepend_file path c (read_entries os es))"

definition findAllMorselFiles :: "lint_os \<Rightarrow> string + File list" where
  "findAllMorselFiles os =
     (case lo_ReadDir os of
        None \<Rightarrow> Inr []
      | Some (Inl e) \<Rightarrow> Inl (''read .morsel: '' @ e)
      | Some (Inr entries) \<Rightarrow> read_entries os entries)"

fun read_staged :: "lint_os \<Rightarrow> string list \<Rightarrow> string + File list" where
  "read_staged os [] = Inr []"
| "read_staged os (line # ls) =
     (if line = [] \<or> \<not> strings_HasPrefix line ''.morsel/'' \<or> \<not> strings_HasSuffix line ''.morsel.json'' then read_staged os ls
      else case lo_ReadFile os line of
             NotExist _ \<Rightarrow> read_staged os ls
           | ReadError e \<Rightarrow> Inl (read_failed line e)
           | Contents c \<Rightarrow> prepend_file line c (read_staged os ls))"

definition findStagedMorselFiles :: "lint_os \<Rightarrow> string + File list" where
  "findStagedMorselFiles os =
     (case lo_GitDiff os of
        Inl e \<Rightarrow> Inl (''git diff --cached: '' @ e)
      | Inr out \<Rightarrow> read_staged os (strings_Split (strings_TrimSpace out) (CHR 0x0A)))"

definition findMorselFiles :: "lint_os \<Rightarrow> bool \<Rightarrow> string + File list" where
  "findMorselFiles os staged = (if staged then findStagedMorselFiles os else findAllMorselFiles os)"

text \<open>The first file of a path gets the new content.\<close>

fun set_content :: "string \<Rightarrow> string \<Rightarrow> File list \<Rightarrow> File list" where
  "set_content p c [] = []"
| "set_content p c (f # fs) = (if f_Path f = p then f\<lparr>f_Content := c\<rparr> # fs else f # set_content p c fs)"

text \<open>Writing the fixed files: an error, or nothing; the files, the file system and the output.\<close>

fun write_fixes ::
  "lint_os \<Rightarrow> FixedFile list \<Rightarrow> File list \<times> (string \<rightharpoonup> string) \<times> string list
     \<Rightarrow> string option \<times> File list \<times> (string \<rightharpoonup> string) \<times> string list" where
  "write_fixes os [] st = (None, st)"
| "write_fixes os (ff # ffs) (files, disk, out) =
     (case lo_WriteFile os (ff_Path ff) of
        Some e \<Rightarrow> (Some (''write '' @ ff_Path ff @ '': '' @ e), files, disk, out)
      | None \<Rightarrow> write_fixes os ffs (set_content (ff_Path ff) (ff_Content ff) files,
                  disk(ff_Path ff \<mapsto> ff_Content ff), out @ [''fixed: '' @ ff_Path ff]))"

definition diag_line :: "Diagnostic \<Rightarrow> string" where
  "diag_line d =
     dg_File d @ '': '' @ (case dg_Severity d of Error \<Rightarrow> ''error'' | Warning \<Rightarrow> ''warning'') @ '': '' @ dg_Message d"

definition report_diags ::
  "Linter \<Rightarrow> ((string \<times> string list) list \<Rightarrow> (string \<times> string list) list) \<Rightarrow> File list \<times> (string \<rightharpoonup> string) \<times> string list
     \<Rightarrow> string option \<times> (string \<rightharpoonup> string) \<times> string list" where
  "report_diags l order st =
     (case st of (files, disk, out) \<Rightarrow>
        let diags = Lint l order files in
        (if list_ex (\<lambda>d. dg_Severity d = Error) diags then Some ''lint failed'' else None,
         disk, out @ map diag_line diags))"

definition Lint_h ::
  "string + Linter \<Rightarrow> ((string \<times> string list) list \<Rightarrow> (string \<times> string list) list) \<Rightarrow> lint_os \<Rightarrow> bool \<Rightarrow> bool
     \<Rightarrow> (string \<rightharpoonup> string) \<Rightarrow> string option \<times> (string \<rightharpoonup> string) \<times> string list" where
  "Lint_h newLinter order os staged doFix disk =
     (case findMorselFiles os staged of
        Inl e \<Rightarrow> (Some e, disk, [])
      | Inr files \<Rightarrow>
          if files = [] then (None, disk, [])
          else case newLinter of
            Inl e \<Rightarrow> (Some (''initialise linter: '' @ e), disk, [])
          | Inr l \<Rightarrow>
              if doFix then
                (case write_fixes os (Fix files) (files, disk, []) of
                   (Some e, _, disk', out) \<Rightarrow> (Some e, disk', out)
                 | (None, st) \<Rightarrow> report_diags l order st)
              else report_diags l order (files, disk, []))"

section \<open>Decoding undoes encoding\<close>

definition in_int64 :: "int option \<Rightarrow> bool" where
  "in_int64 p = (case p of None \<Rightarrow> True | Some i \<Rightarrow> int64_min \<le> i \<and> i \<le> int64_max)"

definition health_ok :: "healthCheck \<Rightarrow> bool" where
  "health_ok h \<longleftrightarrow> valid_utf8 (hc_Path h) \<and> valid_utf8 (hc_Timeout h)"

text \<open>What a decoded manifest satisfies: its strings are UTF-8 and its integers have 64 bits.\<close>

definition manifest_ok :: "morselFile \<Rightarrow> bool" where
  "manifest_ok m \<longleftrightarrow>
     list_all valid_utf8 [mf_Schema m, mf_Name m, mf_Type m, mf_Dockerfile m, mf_Tier m, mf_IdleAfter m, mf_Schedule m, mf_Timeout m]
     \<and> in_int64 (mf_Port m) \<and> in_int64 (mf_Retries m)
     \<and> (case mf_HealthCheck m of None \<Rightarrow> True | Some h \<Rightarrow> health_ok h)"

lemma into_string_utf8: "into_string v old = Some x \<Longrightarrow> utf8_json v \<Longrightarrow> valid_utf8 old \<Longrightarrow> valid_utf8 x"
  by (cases v) (auto simp: into_string_def)

lemma into_int_range: "into_pointer into_int 0 v old = Some p \<Longrightarrow> in_int64 p"
  by (cases v) (auto simp: into_pointer_def into_int_def parse_int_def in_int64_def Let_def split: if_splits)

lemma decode_health_ok:
  assumes "decode_health strict v h = Some h'" "utf8_json v" "health_ok h"
  shows "health_ok h'"
proof (cases v)
  case (JObject ms)
  have step: "health_ok s'" if "set_health f v s = Some s'" "utf8_json v" "health_ok s" for f v s s'
    using that by (auto simp: set_health_def health_ok_def split: if_splits dest!: into_string_utf8)
  from assms JObject have d: "decode_fields strict [''path'', ''timeout''] set_health ms h = Some h'"
    "\<forall>m\<in>set ms. utf8_json (snd m)" by (simp_all add: decode_health_def decode_struct_def)
  show ?thesis by (rule decode_fields_keeps [where P = health_ok, rotated, OF d assms(3)]) (rule step)
qed (use assms in \<open>simp_all add: decode_health_def decode_struct_def\<close>)

lemma into_health_ok:
  assumes "into_pointer (decode_health strict) no_health v old = Some p" "utf8_json v"
    "case old of None \<Rightarrow> True | Some h \<Rightarrow> health_ok h"
  shows "case p of None \<Rightarrow> True | Some h \<Rightarrow> health_ok h"
proof -
  have "health_ok (case old of None \<Rightarrow> no_health | Some h \<Rightarrow> h)"
    using assms(3) by (simp add: health_ok_def no_health_def split: option.splits)
  then show ?thesis
    using assms(1,2) by (cases v) (auto simp: into_pointer_def dest: decode_health_ok)
qed

lemma set_field_ok:
  assumes "set_field strict f v m = Some m'" "utf8_json v" "manifest_ok m"
  shows "manifest_ok m'"
  using assms unfolding set_field_def
  by (auto simp: manifest_ok_def split: if_splits dest!: into_string_utf8 into_int_range into_health_ok)

lemma no_file_ok: "manifest_ok no_file"
  by (simp add: manifest_ok_def no_file_def in_int64_def)

lemma decode_manifest_ok:
  assumes "decode_manifest strict v = Some m" "utf8_json v"
  shows "manifest_ok m"
proof (cases v)
  case (JObject ms)
  from assms JObject have d: "decode_fields strict manifest_fields (set_field strict) ms no_file = Some m"
    "\<forall>m\<in>set ms. utf8_json (snd m)" by (simp_all add: decode_manifest_def decode_struct_def)
  show ?thesis by (rule decode_fields_keeps [where P = manifest_ok, rotated, OF d no_file_ok]) (rule set_field_ok)
qed (use assms no_file_ok in \<open>simp_all add: decode_manifest_def decode_struct_def\<close>)


lemma decode_encode_health: "decode_health strict (encode_health h) no_health = Some h"
  by (cases h) (simp add: decode_health_def decode_struct_def encode_health_def member_string_def field_for_def set_health_def
      into_string_def no_health_def)

lemma decode_encode_resource: "decode_resource strict (encode_resource r) no_resource = Some r"
  by (cases r) (simp add: decode_resource_def decode_struct_def encode_resource_def member_pointer_def field_for_def
      set_resource_def into_pointer_def into_bool_def no_resource_def split: option.split)

lemma into_pointer_encoded:
  "enc x \<noteq> JNull \<Longrightarrow> into (enc x) zero = Some x \<Longrightarrow> into_pointer into zero (enc x) None = Some (Some x)"
  by (cases "enc x") (simp_all add: into_pointer_def)

lemma into_resource: "into_pointer (decode_resource strict) no_resource (encode_resource r) None = Some (Some r)"
  by (rule into_pointer_encoded) (simp_all add: decode_encode_resource, simp add: encode_resource_def)

lemma decode_encode_persistence: "decode_persistence strict (encode_persistence p) no_persistence = Some p"
proof -
  obtain d s q where p: "p = \<lparr> ps_Database = d, ps_Storage = s, ps_Queues = q \<rparr>" by (cases p)
  show ?thesis unfolding p
    by (cases d; cases s; cases q)
      (simp_all add: decode_persistence_def decode_struct_def encode_persistence_def member_pointer_def field_for_def
        set_persistence_def into_resource no_persistence_def)
qed

lemma into_health: "into_pointer (decode_health strict) no_health (encode_health h) None = Some (Some h)"
  by (rule into_pointer_encoded) (simp_all add: decode_encode_health, simp add: encode_health_def)

lemma into_persistence: "into_pointer (decode_persistence strict) no_persistence (encode_persistence p) None = Some (Some p)"
  by (rule into_pointer_encoded) (simp_all add: decode_encode_persistence, simp add: encode_persistence_def)

lemma into_json_int: "in_int64 (Some i) \<Longrightarrow> into_pointer into_int 0 (json_int i) None = Some (Some i)"
  by (simp add: into_pointer_def into_int_def json_int_def parse_int_Itoa in_int64_def)

lemma into_json_bool: "into_pointer into_bool False (JBool b) None = Some (Some b)"
  by (simp add: into_pointer_def into_bool_def)

abbreviation decode_members :: "bool \<Rightarrow> (string \<times> json) list \<Rightarrow> morselFile \<Rightarrow> morselFile option" where
  "decode_members strict \<equiv> decode_fields strict manifest_fields (set_field strict)"

text \<open>One member after the other, each from a manifest in which its field is empty.\<close>

lemma decode_string_members:
  "mf_Schema m = [] \<Longrightarrow> decode_members b (member_string ''$schema'' s @ ms) m = decode_members b ms (m\<lparr>mf_Schema := s\<rparr>)"
  "mf_Name m = [] \<Longrightarrow> decode_members b (member_string ''name'' s @ ms) m = decode_members b ms (m\<lparr>mf_Name := s\<rparr>)"
  "mf_Type m = [] \<Longrightarrow> decode_members b (member_string ''type'' s @ ms) m = decode_members b ms (m\<lparr>mf_Type := s\<rparr>)"
  "mf_Dockerfile m = [] \<Longrightarrow> decode_members b (member_string ''dockerfile'' s @ ms) m = decode_members b ms (m\<lparr>mf_Dockerfile := s\<rparr>)"
  "mf_Tier m = [] \<Longrightarrow> decode_members b (member_string ''tier'' s @ ms) m = decode_members b ms (m\<lparr>mf_Tier := s\<rparr>)"
  "mf_IdleAfter m = [] \<Longrightarrow> decode_members b (member_string ''idle_after'' s @ ms) m = decode_members b ms (m\<lparr>mf_IdleAfter := s\<rparr>)"
  "mf_Schedule m = [] \<Longrightarrow> decode_members b (member_string ''schedule'' s @ ms) m = decode_members b ms (m\<lparr>mf_Schedule := s\<rparr>)"
  "mf_Timeout m = [] \<Longrightarrow> decode_members b (member_string ''timeout'' s @ ms) m = decode_members b ms (m\<lparr>mf_Timeout := s\<rparr>)"
  by (rule decode_member_string; simp add: manifest_fields_def set_field_def into_string_def; cases m; simp)+

lemma decode_pointer_members:
  "mf_Port m = None \<Longrightarrow> in_int64 p \<Longrightarrow> decode_members b (member_pointer ''port'' json_int p @ ms) m = decode_members b ms (m\<lparr>mf_Port := p\<rparr>)"
  "mf_Private m = None \<Longrightarrow> decode_members b (member_pointer ''private'' JBool q @ ms) m = decode_members b ms (m\<lparr>mf_Private := q\<rparr>)"
  "mf_HealthCheck m = None \<Longrightarrow>
     decode_members b (member_pointer ''health_check'' encode_health h @ ms) m = decode_members b ms (m\<lparr>mf_HealthCheck := h\<rparr>)"
  "mf_Retries m = None \<Longrightarrow> in_int64 p \<Longrightarrow> decode_members b (member_pointer ''retries'' json_int p @ ms) m = decode_members b ms (m\<lparr>mf_Retries := p\<rparr>)"
  "mf_Persistence m = None \<Longrightarrow>
     decode_members b (member_pointer ''persistence'' encode_persistence r @ ms) m = decode_members b ms (m\<lparr>mf_Persistence := r\<rparr>)"
  by (rule decode_member_pointer;
      simp add: manifest_fields_def set_field_def into_json_int into_json_bool into_health into_persistence; cases m; simp)+

lemma decode_encode_manifest:
  assumes "manifest_ok m"
  shows "decode_manifest strict (encode_manifest m) = Some m"
proof -
  have "in_int64 (mf_Port m)" "in_int64 (mf_Retries m)" using assms by (simp_all add: manifest_ok_def)
  then show ?thesis
    by (simp add: decode_manifest_def decode_struct_def encode_manifest_def no_file_def decode_string_members decode_pointer_members
        decode_pointer_members(5) [where ms = "[]", simplified])
qed

lemma canonical_ok:
  assumes "manifest_ok m"
  shows "json_ok (encode_manifest m)"
proof -
  have ok: "json_ok (encode_resource r)" "json_ok (encode_persistence p)" for r p
    by (auto simp: encode_resource_def encode_persistence_def member_pointer_def split: option.splits)
  have "health_ok h \<Longrightarrow> json_ok (encode_health h)" for h
    by (auto simp: encode_health_def health_ok_def member_string_def)
  then have "\<forall>h. mf_HealthCheck m = Some h \<longrightarrow> json_ok (encode_health h)"
    using assms by (auto simp: manifest_ok_def)
  with assms show ?thesis
    unfolding encode_manifest_def json_ok.simps set_append ball_Un
    by (intro conjI json_ok_members) (simp_all add: manifest_ok_def ok)
qed


section \<open>Fixing is done once\<close>

lemma schemaURL_utf8: "valid_utf8 schemaURL"
  by (simp add: schemaURL_def)

lemma with_schema_ok: "manifest_ok m \<Longrightarrow> manifest_ok (with_schema m)"
  by (simp add: manifest_ok_def with_schema_def schemaURL_utf8)

lemma with_schema_idem: "with_schema (with_schema m) = with_schema m"
  by (simp add: with_schema_def schemaURL_def)

lemma fixFile_canonical:
  assumes "manifest_ok m"
  shows "fixFile \<lparr> f_Path = p, f_Content = canonical (with_schema m) \<rparr> = Some ([], False)"
proof -
  let ?m = "with_schema m"
  have "next_value (canonical ?m) = Some (encode_manifest ?m, [CHR 0x0A])"
    unfolding canonical_def
    by (rule next_value_MarshalIndent) (simp_all add: canonical_ok with_schema_ok assms ends_def json_digit_def)
  moreover have "decode_manifest True (encode_manifest ?m) = Some ?m"
    by (rule decode_encode_manifest) (rule with_schema_ok [OF assms])
  ultimately show ?thesis by (simp add: fixFile_def with_schema_idem)
qed

lemma fixFile_twice:
  assumes "fixFile f = Some (c, True)"
  shows "fixFile (f\<lparr>f_Content := c\<rparr>) = Some ([], False)"
proof -
  obtain v r m where v: "next_value (f_Content f) = Some (v, r)" and m: "decode_manifest True v = Some m"
    and c: "c = canonical (with_schema m)"
    using assms by (auto simp: fixFile_def Let_def split: option.splits if_splits)
  have "manifest_ok m" by (rule decode_manifest_ok [OF m next_value_utf8 [OF v]])
  then show ?thesis using fixFile_canonical [of m "f_Path f"] c by (cases f) simp
qed

definition fixed :: "File \<Rightarrow> File" where
  "fixed f = (case fixFile f of Some (c, True) \<Rightarrow> f\<lparr>f_Content := c\<rparr> | _ \<Rightarrow> f)"

lemma fixed_path [simp]: "f_Path (fixed f) = f_Path f"
  by (simp add: fixed_def split: option.split bool.split)

lemma fixFile_fixed: "fixFile (fixed f) \<noteq> Some (c, True)"
  using fixFile_twice [of f] by (auto simp: fixed_def split: option.splits bool.splits)

lemma set_content_at:
  "p \<notin> f_Path ` set xs \<Longrightarrow> f_Path f = p \<Longrightarrow> set_content p c (xs @ f # ys) = xs @ f\<lparr>f_Content := c\<rparr> # ys"
  by (induction xs) auto

lemma Fix_Cons: "Fix (f # fs) = (case fixFile f of Some (c, True) \<Rightarrow> \<lparr> ff_Path = f_Path f, ff_Content = c \<rparr> # Fix fs | _ \<Rightarrow> Fix fs)"
  by (simp add: Fix_def map_filter_simps split: option.split bool.split)

lemma write_fixes_fixed:
  assumes "write_fixes os (Fix ys) (xs @ ys, disk, out) = (None, files', disk', out')" "distinct (map f_Path (xs @ ys))"
    and "\<forall>f\<in>set (xs @ ys). disk (f_Path f) = Some (f_Content f)"
  shows "files' = xs @ map fixed ys \<and> (\<forall>f\<in>set files'. disk' (f_Path f) = Some (f_Content f))"
  using assms
proof (induction ys arbitrary: xs disk out)
  case Nil
  then show ?case by (simp add: Fix_def map_filter_simps)
next
  case (Cons f fs)
  show ?case
  proof (cases "\<exists>c. fixFile f = Some (c, True)")
    case False
    then have "Fix (f # fs) = Fix fs" "fixed f = f"
      by (auto simp: Fix_Cons fixed_def split: option.split bool.split)
    then show ?thesis using Cons.IH [of "xs @ [f]" disk out] Cons.prems by simp
  next
    case True
    then obtain c where c: "fixFile f = Some (c, True)" by blast
    let ?d = "disk(f_Path f \<mapsto> c)"
    have fx: "fixed f = f\<lparr>f_Content := c\<rparr>" by (simp add: fixed_def c)
    have p: "f_Path f \<notin> f_Path ` set xs" using Cons.prems(2) by auto
    have w: "write_fixes os (Fix fs) ((xs @ [fixed f]) @ fs, ?d, out @ [''fixed: '' @ f_Path f]) = (None, files', disk', out')"
      using Cons.prems(1) by (simp add: Fix_Cons c fx set_content_at [OF p] split: option.splits)
    have e: "distinct (map f_Path ((xs @ [fixed f]) @ fs))" using Cons.prems(2) by simp
    have a: "\<forall>g\<in>set ((xs @ [fixed f]) @ fs). ?d (f_Path g) = Some (f_Content g)"
    proof
      fix g assume g: "g \<in> set ((xs @ [fixed f]) @ fs)"
      have q: "f_Path f \<notin> f_Path ` (set xs \<union> set fs)" using Cons.prems(2) by auto
      show "?d (f_Path g) = Some (f_Content g)"
      proof (cases "g = fixed f")
        case False
        then have s: "g \<in> set xs \<union> set fs" using g by simp
        then have "f_Path g \<noteq> f_Path f" using q by (metis imageI)
        then show ?thesis using Cons.prems(3) s by auto
      qed (simp add: fx)
    qed
    show ?thesis using Cons.IH [OF w e a] by simp
  qed
qed


section \<open>What passes the linter\<close>

lemma leafErrors_nonempty: "leafErrors ve \<noteq> []"
proof (induction ve)
  case (VE msg causes)
  then show ?case by (cases causes) auto
qed

definition declared_name :: "Linter \<Rightarrow> File \<Rightarrow> string option" where
  "declared_name l f =
     (case snd (lintFile l f) of None \<Rightarrow> None | Some m \<Rightarrow> if mf_Name m = [] then None else Some (mf_Name m))"

lemma note_name_declared:
  "note_name l f ns = (case declared_name l f of None \<Rightarrow> ns | Some n \<Rightarrow> add_name n (f_Path f) ns)"
  by (simp add: note_name_def declared_name_def split: option.split)

lemma map_of_add_name:
  "map_of (add_name n p ns) = (map_of ns)(n \<mapsto> (case map_of ns n of None \<Rightarrow> [p] | Some ps \<Rightarrow> ps @ [p]))"
  by (induction ns) auto

lemma add_name_keys: "fst ` set (add_name n p ns) = insert n (fst ` set ns)"
proof (induction ns)
  case (Cons x ns)
  obtain a ps where "x = (a, ps)" by (cases x)
  then show ?case using Cons by (cases "a = n") (simp_all add: insert_commute)
qed simp

lemma add_name_distinct: "distinct (map fst ns) \<Longrightarrow> distinct (map fst (add_name n p ns))"
proof (induction ns)
  case (Cons x ns)
  then show ?case using add_name_keys [of n p ns] by (cases x) auto
qed simp

text \<open>A name has as many paths as files declare it.\<close>

lemma noted_names:
  "distinct (map fst (fold (note_name l) files [])) \<and>
   (case map_of (fold (note_name l) files []) n of None \<Rightarrow> 0 | Some ps \<Rightarrow> length ps)
     = count_list (List.map_filter (declared_name l) files) n"
proof (induction files rule: rev_induct)
  case Nil
  then show ?case by (simp add: map_filter_simps)
next
  case (snoc f files)
  have "List.map_filter (declared_name l) (files @ [f])
          = List.map_filter (declared_name l) files @ (case declared_name l f of None \<Rightarrow> [] | Some n \<Rightarrow> [n])"
    by (simp add: List.map_filter_def split: option.split)
  then show ?case
    using snoc
    by (auto simp: note_name_declared [of l f] map_of_add_name add_name_distinct simp del: map_of_eq_Some_iff split: option.splits)
qed

lemma distinct_count_list: "distinct xs \<longleftrightarrow> (\<forall>n. count_list xs n \<le> 1)"
proof (induction xs)
  case (Cons x xs)
  have "x \<notin> set xs \<longleftrightarrow> count_list xs x = 0" by (simp add: count_list_0_iff)
  then show ?case using Cons by (auto simp: le_Suc_eq)
qed simp

lemma duplicate_reported:
  "(\<exists>np\<in>set (fold (note_name l) files []). duplicateDiags np \<noteq> []) \<longleftrightarrow> \<not> distinct (List.map_filter (declared_name l) files)"
proof -
  let ?ns = "fold (note_name l) files []" and ?ds = "List.map_filter (declared_name l) files"
  have d: "distinct (map fst ?ns)" using noted_names by blast
  have c: "(case map_of ?ns n of None \<Rightarrow> 0 | Some ps \<Rightarrow> length ps) = count_list ?ds n" for n using noted_names by blast
  have "(\<exists>np\<in>set ?ns. duplicateDiags np \<noteq> []) \<longleftrightarrow> (\<exists>n ps. map_of ?ns n = Some ps \<and> 1 < length ps)"
    using d by (force simp: duplicateDiags_def split: prod.splits if_splits)
  also have "\<dots> \<longleftrightarrow> (\<exists>n. 1 < count_list ?ds n)"
    unfolding c [symmetric] by (auto split: option.splits)
  also have "\<dots> \<longleftrightarrow> \<not> distinct ?ds"
    by (simp add: distinct_count_list not_le)
  finally show ?thesis .
qed


lemma semanticDiags_warn: "d \<in> set (semanticDiags path m) \<Longrightarrow> dg_Severity d = Warning"
  by (auto simp: semanticDiags_def ignored_def permanent_def warn_def Let_def split: if_splits option.splits)

text \<open>A file on its own has no error exactly when it is JSON that the schema accepts.\<close>

lemma lintFile_clean:
  "(\<forall>d\<in>set (fst (lintFile l f)). dg_Severity d \<noteq> Error)
     \<longleftrightarrow> (\<exists>raw. unmarshal_any l (f_Content f) = Inr raw \<and> ln_Validate l raw = Valid)"
proof (cases "unmarshal_any l (f_Content f)")
  case (Inr raw)
  have "(\<forall>d\<in>set (schemaDiags l p raw). dg_Severity d \<noteq> Error) \<longleftrightarrow> ln_Validate l raw = Valid" for p
    using leafErrors_nonempty by (cases "ln_Validate l raw") (auto simp: schemaDiags_def fail_diag_def neq_Nil_conv)
  then show ?thesis
    using Inr by (auto simp: lintFile_def Let_def dest!: semanticDiags_warn split: option.splits)
qed (simp add: lintFile_def fail_diag_def)

lemma duplicateDiags_error: "d \<in> set (duplicateDiags np) \<Longrightarrow> dg_Severity d = Error"
  by (auto simp: duplicateDiags_def fail_diag_def split: prod.splits if_splits)

lemma set_nonempty: "(\<forall>d\<in>set xs. P d) \<Longrightarrow> (\<And>d. d \<in> set xs \<Longrightarrow> \<not> P d) \<Longrightarrow> xs = []"
  by (cases xs) auto

text \<open>
  C33. \<^bold>\<open>What passes.\<close> Whatever the iteration order of the map of names, the linter reports no error exactly when every
  file is JSON that the schema accepts and no two files that decode declare the same name. Warnings do not
  matter.
\<close>

theorem lint_passes_iff:
  assumes "\<And>ns. set (order ns) = set ns"
  shows "(\<forall>d\<in>set (Lint l order files). dg_Severity d \<noteq> Error)
     \<longleftrightarrow> (\<forall>f\<in>set files. \<exists>raw. unmarshal_any l (f_Content f) = Inr raw \<and> ln_Validate l raw = Valid)
         \<and> distinct (List.map_filter (declared_name l) files)"
proof -
  let ?ns = "fold (note_name l) files []"
  have "(\<forall>d\<in>set (concat (map duplicateDiags (order ?ns))). dg_Severity d \<noteq> Error) \<longleftrightarrow> (\<forall>np\<in>set ?ns. duplicateDiags np = [])"
    using assms [of ?ns] by (auto dest: duplicateDiags_error intro!: set_nonempty)
  also have "\<dots> \<longleftrightarrow> distinct (List.map_filter (declared_name l) files)"
    using duplicate_reported [of l files] by blast
  finally have dup: "(\<forall>d\<in>set (concat (map duplicateDiags (order ?ns))). dg_Severity d \<noteq> Error)
      \<longleftrightarrow> distinct (List.map_filter (declared_name l) files)" .
  have one: "(\<forall>d\<in>set (concat (map (\<lambda>f. fst (lintFile l f)) files)). dg_Severity d \<noteq> Error)
      \<longleftrightarrow> (\<forall>f\<in>set files. \<exists>raw. unmarshal_any l (f_Content f) = Inr raw \<and> ln_Validate l raw = Valid)"
    using lintFile_clean [of l] by simp
  show ?thesis unfolding Lint_def set_append ball_Un dup one ..
qed

text \<open>
  C32. \<^bold>\<open>Fixing is done once.\<close> When the fixed files could all be written, a second \<open>morsel lint --fix\<close> finds nothing
  to fix, the linter sees the contents that are on disk, and a file that was not fixed is unchanged. The
  proof rests on the round trip of the JSON encoder and decoder, not on an assumption about them.
\<close>

theorem lint_fix_settles:
  assumes "write_fixes os (Fix files) (files, disk, []) = (None, files', disk', out)" "distinct (map f_Path files)"
    and "\<forall>f\<in>set files. disk (f_Path f) = Some (f_Content f)"
  shows "Fix files' = [] \<and> files' = map fixed files \<and> (\<forall>f\<in>set files'. disk' (f_Path f) = Some (f_Content f))"
proof -
  have r: "files' = map fixed files \<and> (\<forall>f\<in>set files'. disk' (f_Path f) = Some (f_Content f))"
    using write_fixes_fixed [of os files "[]"] assms by simp
  have "Fix (map fixed fs) = []" for fs
    by (induction fs) (use fixFile_fixed in \<open>force simp: Fix_Cons Fix_def map_filter_simps split: option.split bool.split\<close>)+
  then show ?thesis using r by simp
qed

text \<open>Whatever follows the first value of a file is lost when the file is fixed.\<close>

lemma fix_drops_trailing:
  assumes "next_value (f_Content f) = Some (v, r)" "next_value (f_Content g) = Some (v, r')"
    and "fixFile f = Some (c, True)" "fixFile g = Some (c', True)"
  shows "c = c'"
  using assms by (auto simp: fixFile_def Let_def split: option.splits if_splits)


section \<open>Instances\<close>

definition accepting :: Linter where
  "accepting = \<lparr> ln_Validate = \<lambda>_. Valid, ln_Syntax = \<lambda>_. ''unexpected end of JSON input'', ln_Float = \<lambda>_. True \<rparr>"

definition named_x :: string where
  "named_x = CHR ''{'' # quoted ''name'' @ '':'' @ quoted ''x'' @ ''}''"

definition file_a :: File where "file_a = \<lparr> f_Path = ''.morsel/a.morsel.json'', f_Content = named_x \<rparr>"

definition file_b :: File where "file_b = \<lparr> f_Path = ''.morsel/b.morsel.json'', f_Content = named_x \<rparr>"

lemma named_x_declared: "declared_name accepting file_a = Some ''x''" "declared_name accepting file_b = Some ''x''"
  by code_simp+

lemma lint_passes_iff_witness:
  "\<not> (\<forall>d\<in>set (Lint accepting (\<lambda>ns. ns) [file_a, file_b]). dg_Severity d \<noteq> Error)"
  using lint_passes_iff [of "\<lambda>ns. ns" accepting "[file_a, file_b]"] by (simp add: named_x_declared map_filter_simps)

definition writable :: lint_os where
  "writable = \<lparr> lo_ReadDir = None, lo_ReadFile = \<lambda>_. NotExist [], lo_GitDiff = Inr [], lo_WriteFile = \<lambda>_. None \<rparr>"

definition fixed_x :: string where
  "fixed_x = canonical (no_file\<lparr> mf_Schema := schemaURL, mf_Name := ''x'' \<rparr>)"

lemma named_x_fixed: "fixFile file_a = Some (fixed_x, True)"
  by code_simp

lemma lint_fix_settles_witness:
  "Fix [file_a\<lparr>f_Content := fixed_x\<rparr>] = [] \<and> fixed_x \<noteq> named_x"
proof -
  have "write_fixes writable (Fix [file_a]) ([file_a], [f_Path file_a \<mapsto> f_Content file_a], [])
      = (None, [file_a\<lparr>f_Content := fixed_x\<rparr>], [f_Path file_a \<mapsto> fixed_x], [''fixed: '' @ f_Path file_a])"
    by (simp add: Fix_Cons named_x_fixed writable_def) (simp add: Fix_def map_filter_simps)
  moreover have "fixed_x \<noteq> named_x" by code_simp
  ultimately show ?thesis using lint_fix_settles by fastforce
qed

end
