(* ===== verification/Cli.thy ===== *)
theory Cli
  imports Lint Apps Filepath
begin

text \<open>
  The application commands of the command line client: the git remote and the names that are derived from it
  (\<open>cli/app.go\<close>), the manifests and the deployment (\<open>cli/app_deploy.go\<close>), \<open>app sync\<close> and \<open>app delete\<close>.

  The API client is generated code: its calls are fields of the record \<open>api\<close>, on a world \<open>'w\<close> that they
  change, and its typed responses are the values of \<open>api_res\<close>. Commands that the client runs (git, the container
  runtime) and the files that it reads are fields of the record \<open>cli_os\<close>.
\<close>

section \<open>Errors and responses\<close>

text \<open>An error of the transport keeps its kind when it is wrapped.\<close>

datatype cli_error = StaleCredentials | Connection string | Plain string

fun wrap :: "string \<Rightarrow> cli_error \<Rightarrow> cli_error" where
  "wrap p (Connection e) = Connection (p @ e)"
| "wrap p (Plain e) = Plain (p @ e)"
| "wrap p StaleCredentials = StaleCredentials"

text \<open>\<open>Unexpected\<close> carries the name of the Go type of the response.\<close>

datatype 'a api_res =
    Answer 'a
  | Unauthorized
  | Forbidden
  | NotFound string
  | Unprocessable string
  | Conflict string
  | Unexpected string

record DeployConfig =
  dc_Token :: string
  dc_Registry :: string

text \<open>A client of the API: the URL of the server and the token that it sends.\<close>

record Client =
  cl_URL :: string
  cl_Token :: string

record 'w api =
  api_NewClient :: "string \<Rightarrow> string \<Rightarrow> string + Client"
  api_PrepareRepoDeploy :: "Client \<Rightarrow> string \<Rightarrow> string \<Rightarrow> 'w \<Rightarrow> (cli_error + DeployConfig api_res) \<times> 'w"
  api_UpsertApp :: "Client \<Rightarrow> AppSpec \<Rightarrow> string \<Rightarrow> string \<Rightarrow> 'w \<Rightarrow> (cli_error + AcceptedOperation api_res) \<times> 'w"
  api_GetOperation :: "Client \<Rightarrow> string \<Rightarrow> string \<Rightarrow> string \<Rightarrow> string \<Rightarrow> 'w \<Rightarrow> (cli_error + OAS_Operation api_res) \<times> 'w"
  api_DeleteApp :: "Client \<Rightarrow> string \<Rightarrow> string \<Rightarrow> string \<Rightarrow> 'w \<Rightarrow> (cli_error + AcceptedOperation api_res) \<times> 'w"
  api_GetApp :: "Client \<Rightarrow> string \<Rightarrow> string \<Rightarrow> string \<Rightarrow> 'w \<Rightarrow> (cli_error + OAS_App api_res) \<times> 'w"
  api_Wait :: "'w \<Rightarrow> cli_error option \<times> 'w"
  api_Build :: "string \<Rightarrow> string \<Rightarrow> string \<Rightarrow> 'w \<Rightarrow> cli_error option \<times> 'w"

section \<open>The repository\<close>

record cli_os =
  co_GitRemote :: "string + string"
  co_GitRoot :: "string + string"
  co_GitHead :: "string + string"
  co_ParseURL :: "string \<Rightarrow> string + string"
  co_Glob :: "string + string list"
  co_ReadFile :: "string \<Rightarrow> file_read"

definition split_path :: "string \<Rightarrow> (string \<times> string) option" where
  "split_path path = (case strings_Cut path (CHR ''/'') of (a, b, True) \<Rightarrow> Some (a, b) | _ \<Rightarrow> None)"

text \<open>\<open>co_ParseURL\<close> is the path of \<open>url.Parse\<close>.\<close>

definition parseRemoteURL :: "cli_os \<Rightarrow> string \<Rightarrow> cli_error + string \<times> string" where
  "parseRemoteURL os rawURL =
     (if CHR ''@'' \<in> set rawURL then
        (let rest = dropWhile (\<lambda>c. c \<noteq> CHR ''@'') rawURL in
         if CHR '':'' \<notin> set rest then Inl (Plain (''unrecognised SSH remote URL: '' @ rawURL))
         else let path = strings_TrimSuffix (tl (dropWhile (\<lambda>c. c \<noteq> CHR '':'') rest)) ''.git'' in
              case split_path path of
                None \<Rightarrow> Inl (Plain (''unrecognised SSH remote path in '' @ rawURL))
              | Some p \<Rightarrow> Inr p)
      else (case co_ParseURL os rawURL of
              Inl e \<Rightarrow> Inl (Plain (''parse git remote URL '' @ rawURL @ '': '' @ e))
            | Inr urlPath \<Rightarrow>
                (case split_path (strings_TrimSuffix (strings_TrimPrefix urlPath ''/'') ''.git'') of
                   None \<Rightarrow> Inl (Plain (''unrecognised HTTPS remote path in '' @ rawURL))
                 | Some p \<Rightarrow> Inr p)))"

definition gitRemoteOrgRepo :: "cli_os \<Rightarrow> cli_error + string \<times> string" where
  "gitRemoteOrgRepo os =
     (case co_GitRemote os of
        Inl e \<Rightarrow> Inl (Plain (''cannot detect repo from git remote (pass --org and --repo explicitly): '' @ e))
      | Inr out \<Rightarrow> parseRemoteURL os (strings_TrimSpace out))"

definition resolveOrgRepo :: "cli_os \<Rightarrow> string \<Rightarrow> string \<Rightarrow> cli_error + string \<times> string" where
  "resolveOrgRepo os org repo =
     (if org \<noteq> [] \<and> repo \<noteq> [] then Inr (org, repo)
      else case gitRemoteOrgRepo os of
             Inl e \<Rightarrow> Inl e
           | Inr (o', r') \<Rightarrow> Inr (if org = [] then o' else org, if repo = [] then r' else repo))"

definition gitRootDir :: "cli_os \<Rightarrow> cli_error + string" where
  "gitRootDir os =
     (case co_GitRoot os of
        Inl e \<Rightarrow> Inl (Plain (''not inside a git repository (git rev-parse failed): '' @ e))
      | Inr out \<Rightarrow> Inr (strings_TrimSpace out))"

definition gitCurrentSHA :: "cli_os \<Rightarrow> string" where
  "gitCurrentSHA os = (case co_GitHead os of Inl _ \<Rightarrow> [] | Inr out \<Rightarrow> strings_TrimSpace out)"

text \<open>\<open>filepath.Base\<close> and \<open>filepath.Dir\<close>.\<close>

definition filepath_Base :: "string \<Rightarrow> string" where
  "filepath_Base p =
     (if p = [] then ''.''
      else let q = dropWhile (\<lambda>c. c = CHR ''/'') (rev p); b = rev (takeWhile (\<lambda>c. c \<noteq> CHR ''/'') q)
           in if b = [] then ''/'' else b)"

definition filepath_Dir :: "string \<Rightarrow> string" where
  "filepath_Dir p = filepath_Clean (rev (dropWhile (\<lambda>c. c \<noteq> CHR ''/'') (rev p)))"

text \<open>
  One rune of the lowered directory name: a letter, a digit or a hyphen stays, any other becomes a hyphen. Of the
  letters outside ASCII, the Kelvin sign and the capital I with a dot have a lower case in ASCII.
\<close>

definition slug_char :: "char \<Rightarrow> char" where
  "slug_char c =
     (let b = byte c in
      if 65 \<le> b \<and> b \<le> 90 then char_of (b + 32)
      else if (97 \<le> b \<and> b \<le> 122) \<or> (48 \<le> b \<and> b \<le> 57) \<or> c = CHR ''-'' then c else CHR ''-'')"

function slug_name :: "string \<Rightarrow> string" where
  "slug_name [] = []"
| "slug_name (c # cs) =
     (case rune_len (c # cs) of
        None \<Rightarrow> CHR ''-'' # slug_name cs
      | Some n \<Rightarrow>
          let r = take n (c # cs) in
          (if n = 1 then slug_char c
           else if r = [CHR 0xE2, CHR 0x84, CHR 0xAA] then CHR ''k''
           else if r = [CHR 0xC4, CHR 0xB0] then CHR ''i'' else CHR ''-'')
          # slug_name (drop n (c # cs)))"
  by pat_completeness auto
termination
  by (relation "measure length") (auto dest!: rune_len_bounds)

definition trim_hyphens :: "string \<Rightarrow> string" where
  "trim_hyphens s = (let d = dropWhile (\<lambda>c. c = CHR ''-'') in rev (d (rev (d s))))"

definition localOrgRepo :: "cli_os \<Rightarrow> cli_error + string \<times> string" where
  "localOrgRepo os =
     (case gitRootDir os of
        Inl e \<Rightarrow> Inl e
      | Inr dir \<Rightarrow> Inr (''localhost'', trim_hyphens (slug_name (filepath_Base dir))))"

definition deployOrgRepo :: "cli_os \<Rightarrow> cli_error + string \<times> string" where
  "deployOrgRepo os = (case gitRemoteOrgRepo os of Inr p \<Rightarrow> Inr p | Inl _ \<Rightarrow> localOrgRepo os)"

section \<open>Manifests\<close>

record morselConfig =
  cfg_Name :: string
  cfg_Type :: string
  cfg_Dockerfile :: string
  cfg_Port :: int
  cfg_Schedule :: string
  cfg_Env :: "(string \<times> string) list option"
  cfg_Private :: bool

definition no_config :: morselConfig where
  "no_config = \<lparr> cfg_Name = [], cfg_Type = [], cfg_Dockerfile = [], cfg_Port = 0, cfg_Schedule = [], cfg_Env = None, cfg_Private = False \<rparr>"

fun put_env :: "string \<Rightarrow> string \<Rightarrow> (string \<times> string) list \<Rightarrow> (string \<times> string) list" where
  "put_env k v [] = [(k, v)]"
| "put_env k v ((k', v') # es) = (if k' = k then (k, v) # es else (k', v') # put_env k v es)"

text \<open>A \<open>map[string]string\<close>: null is the nil map; a null element is the empty string.\<close>

fun into_map :: "(string \<times> json) list \<Rightarrow> (string \<times> string) list \<Rightarrow> (string \<times> string) list option" where
  "into_map [] es = Some es"
| "into_map ((k, v) # ms) es = (case into_string v [] of None \<Rightarrow> None | Some s \<Rightarrow> into_map ms (put_env k s es))"

definition into_env :: "json \<Rightarrow> (string \<times> string) list option \<Rightarrow> (string \<times> string) list option option" where
  "into_env v old =
     (case v of JNull \<Rightarrow> Some None | JObject ms \<Rightarrow> map_option Some (into_map ms (opt_Or old [])) | _ \<Rightarrow> None)"

definition config_fields :: "string list" where
  "config_fields = [''name'', ''type'', ''dockerfile'', ''port'', ''schedule'', ''env'', ''private'']"

definition set_config :: "string \<Rightarrow> json \<Rightarrow> morselConfig \<Rightarrow> morselConfig option" where
  "set_config f v c =
     (if f = ''name'' then map_option (\<lambda>x. c\<lparr>cfg_Name := x\<rparr>) (into_string v (cfg_Name c))
      else if f = ''type'' then map_option (\<lambda>x. c\<lparr>cfg_Type := x\<rparr>) (into_string v (cfg_Type c))
      else if f = ''dockerfile'' then map_option (\<lambda>x. c\<lparr>cfg_Dockerfile := x\<rparr>) (into_string v (cfg_Dockerfile c))
      else if f = ''port'' then map_option (\<lambda>x. c\<lparr>cfg_Port := x\<rparr>) (into_int v (cfg_Port c))
      else if f = ''schedule'' then map_option (\<lambda>x. c\<lparr>cfg_Schedule := x\<rparr>) (into_string v (cfg_Schedule c))
      else if f = ''env'' then map_option (\<lambda>x. c\<lparr>cfg_Env := x\<rparr>) (into_env v (cfg_Env c))
      else map_option (\<lambda>x. c\<lparr>cfg_Private := x\<rparr>) (into_bool v (cfg_Private c)))"

definition decode_config :: "json \<Rightarrow> morselConfig option" where
  "decode_config v = decode_struct (decode_fields False config_fields set_config) v no_config"

text \<open>The error of the decoder is an argument: the text that \<open>json.Unmarshal\<close> reports.\<close>

definition readMorselConfigFromPath :: "cli_os \<Rightarrow> (string \<Rightarrow> string) \<Rightarrow> string \<Rightarrow> cli_error + morselConfig option" where
  "readMorselConfigFromPath os jsonErr path =
     (case co_ReadFile os path of
        NotExist _ \<Rightarrow> Inr None
      | ReadError e \<Rightarrow> Inl (Plain (''read '' @ path @ '': '' @ e))
      | Contents data \<Rightarrow>
          (case (case whole_value data of None \<Rightarrow> None | Some v \<Rightarrow> decode_config v) of
             None \<Rightarrow> Inl (Plain (''parse '' @ path @ '': '' @ jsonErr data))
           | Some cfg \<Rightarrow> Inr (Some cfg)))"

fun read_configs :: "cli_os \<Rightarrow> (string \<Rightarrow> string) \<Rightarrow> string list \<Rightarrow> cli_error + morselConfig list" where
  "read_configs os jsonErr [] = Inr []"
| "read_configs os jsonErr (p # ps) =
     (case readMorselConfigFromPath os jsonErr p of
        Inl e \<Rightarrow> Inl e
      | Inr c \<Rightarrow>
          (case read_configs os jsonErr ps of
             Inl e \<Rightarrow> Inl e
           | Inr cs \<Rightarrow> Inr (case c of None \<Rightarrow> cs | Some cfg \<Rightarrow> cfg # cs)))"

definition discoverApps :: "cli_os \<Rightarrow> (string \<Rightarrow> string) \<Rightarrow> cli_error + morselConfig list" where
  "discoverApps os jsonErr =
     (case co_Glob os of Inl e \<Rightarrow> Inl (Plain (''scan .morsel/: '' @ e)) | Inr entries \<Rightarrow> read_configs os jsonErr entries)"

section \<open>Deploying\<close>

definition appImagePath :: "string \<Rightarrow> string \<Rightarrow> string \<Rightarrow> string" where
  "appImagePath repo appName shortSHA =
     repo @ (if appName \<noteq> [] then ''/'' @ appName else []) @ (if shortSHA \<noteq> [] then '':'' @ shortSHA else [])"

definition morselTypeToAPI :: "string \<Rightarrow> cli_error + string" where
  "morselTypeToAPI t =
     (if t \<in> {''http'', ''worker'', ''cron''} then Inr t
      else if t = ''cronjob'' then Inr ''cron''
      else Inl (Plain (''unknown app type '' @ sprintf_q t @ '' (valid: http, worker, cronjob)'')))"

text \<open>The request for one app.\<close>

definition app_spec :: "morselConfig \<Rightarrow> string \<Rightarrow> string \<Rightarrow> AppSpec" where
  "app_spec cfg apiType pushRef =
     \<lparr> sp_Name = (if cfg_Name cfg \<noteq> [] then Some (cfg_Name cfg) else None), sp_Type = apiType, sp_Image = pushRef,
       sp_Port = (if cfg_Port cfg \<noteq> 0 then Some (cfg_Port cfg) else None),
       sp_Env = (if opt_Or (cfg_Env cfg) [] \<noteq> [] then cfg_Env cfg else None),
       sp_Schedule = (if cfg_Schedule cfg \<noteq> [] then Some (cfg_Schedule cfg) else None),
       sp_Private = (if cfg_Private cfg then Some True else None), sp_IdleAfter = None \<rparr>"

text \<open>One round of the poll loop: the end with an error or without one, or None to go on.\<close>

definition poll_once ::
  "'w api \<Rightarrow> Client \<Rightarrow> string \<Rightarrow> string \<Rightarrow> string \<Rightarrow> string \<Rightarrow> 'w \<Rightarrow> cli_error option option \<times> 'w" where
  "poll_once a c org repo name opID w =
     (case api_Wait a w of
        (Some e, w1) \<Rightarrow> (Some (Some e), w1)
      | (None, w1) \<Rightarrow>
          (case api_GetOperation a c org repo name opID w1 of
             (Inl e, w2) \<Rightarrow> (Some (Some (wrap ''poll operation: '' e)), w2)
           | (Inr (Answer op), w2) \<Rightarrow>
               (if oo_Status op = ''complete'' then Some None
                else if oo_Status op = ''failed'' then
                  Some (Some (Plain (case oo_Error op of Some d \<Rightarrow> ed_Message d | None \<Rightarrow> ''operation failed'')))
                else None, w2)
           | (Inr Unauthorized, w2) \<Rightarrow> (Some (Some StaleCredentials), w2)
           | (Inr Forbidden, w2) \<Rightarrow> (Some (Some StaleCredentials), w2)
           | (Inr (NotFound m), w2) \<Rightarrow> (Some (Some (Plain (''operation not found: '' @ m))), w2)
           | (Inr (Unexpected t), w2) \<Rightarrow> (Some (Some (Plain (''poll operation: unexpected response type '' @ t))), w2)
           | (Inr (Unprocessable t), w2) \<Rightarrow> (Some (Some (Plain (''poll operation: unexpected response type '' @ t))), w2)
           | (Inr (Conflict t), w2) \<Rightarrow> (Some (Some (Plain (''poll operation: unexpected response type '' @ t))), w2)))"

text \<open>The loop, for any such round, and the loop of an operation. None: it does not end.\<close>

partial_function (option) poll_until ::
  "('w \<Rightarrow> 'e option \<times> 'w) \<Rightarrow> 'w \<Rightarrow> ('e \<times> 'w) option" where
  "poll_until stepf w =
     (let (r, w1) = stepf w in case r of Some e \<Rightarrow> Some (e, w1) | None \<Rightarrow> poll_until stepf w1)"

definition pollOperation ::
  "'w api \<Rightarrow> Client \<Rightarrow> string \<Rightarrow> string \<Rightarrow> string \<Rightarrow> string \<Rightarrow> 'w \<Rightarrow> (cli_error option \<times> 'w) option" where
  "pollOperation a c org repo name opID w = poll_until (poll_once a c org repo name opID) w"

definition upsert_failed :: "AcceptedOperation api_res \<Rightarrow> cli_error + AcceptedOperation" where
  "upsert_failed r =
     (case r of
        Answer h \<Rightarrow> Inr h
      | Unauthorized \<Rightarrow> Inl StaleCredentials
      | Forbidden \<Rightarrow> Inl StaleCredentials
      | Unprocessable m \<Rightarrow> Inl (Plain (''deploy app: '' @ m))
      | Conflict m \<Rightarrow> Inl (Plain (''deploy app: '' @ m))
      | NotFound t \<Rightarrow> Inl (Plain (''deploy app: unexpected response type '' @ t))
      | Unexpected t \<Rightarrow> Inl (Plain (''deploy app: unexpected response type '' @ t)))"

text \<open>The request, and the poll of its operation.\<close>

definition send_spec ::
  "'w api \<Rightarrow> Client \<Rightarrow> string \<Rightarrow> string \<Rightarrow> morselConfig \<Rightarrow> string \<Rightarrow> AppSpec \<Rightarrow> 'w \<Rightarrow> ((cli_error + string) \<times> 'w) option" where
  "send_spec a c org repo cfg pushRef spec w =
     (case api_UpsertApp a c spec org repo w of
        (Inl e, w2) \<Rightarrow> Some (Inl (wrap ''deploy app: '' e), w2)
      | (Inr r, w2) \<Rightarrow>
          (case upsert_failed r of
             Inl e \<Rightarrow> Some (Inl e, w2)
           | Inr h \<Rightarrow>
               map_option (\<lambda>(e, w3). (case e of Some x \<Rightarrow> Inl x | None \<Rightarrow> Inr pushRef, w3))
                 (pollOperation a c org repo (cfg_Name cfg) (ac_OperationID h) w2)))"

definition buildPushDeploy ::
  "'w api \<Rightarrow> Client \<Rightarrow> string \<Rightarrow> string \<Rightarrow> morselConfig \<Rightarrow> string \<Rightarrow> string \<Rightarrow> 'w \<Rightarrow> ((cli_error + string) \<times> 'w) option" where
  "buildPushDeploy a c org repo cfg registry shortSHA w =
     (let dockerfile = (if cfg_Dockerfile cfg = [] then ''Dockerfile'' else cfg_Dockerfile cfg);
          pushRef = registry @ ''/'' @ appImagePath repo (cfg_Name cfg) shortSHA
      in case api_Build a dockerfile pushRef (filepath_Dir dockerfile) w of
           (Some e, w1) \<Rightarrow> Some (Inl e, w1)
         | (None, w1) \<Rightarrow>
             (case morselTypeToAPI (cfg_Type cfg) of
                Inl e \<Rightarrow> Some (Inl e, w1)
              | Inr apiType \<Rightarrow> send_spec a c org repo cfg pushRef (app_spec cfg apiType pushRef) w1))"

text \<open>
  The goroutines of a deployment, run one after the other in the given order of their indexes; each stores its
  result at its index.
\<close>

fun run_apps ::
  "(morselConfig \<Rightarrow> 'w \<Rightarrow> ((cli_error + string) \<times> 'w) option) \<Rightarrow> morselConfig list \<Rightarrow> nat list
     \<Rightarrow> (cli_error + string) list \<Rightarrow> 'w \<Rightarrow> ((cli_error + string) list \<times> 'w) option" where
  "run_apps deploy apps [] rs w = Some (rs, w)"
| "run_apps deploy apps (i # is) rs w =
     (case deploy (apps ! i) w of None \<Rightarrow> None | Some (r, w1) \<Rightarrow> run_apps deploy apps is (rs[i := r]) w1)"

definition failCount :: "(cli_error + string) list \<Rightarrow> nat" where
  "failCount rs = length (filter (\<lambda>r. \<exists>e. r = Inl e) rs)"

definition deploy_apps ::
  "'w api \<Rightarrow> cli_os \<Rightarrow> (string \<Rightarrow> string) \<Rightarrow> Client \<Rightarrow> string \<Rightarrow> string \<Rightarrow> string \<Rightarrow> (nat \<Rightarrow> nat list) \<Rightarrow> 'w
     \<Rightarrow> (cli_error option \<times> 'w) option" where
  "deploy_apps a os jsonErr c org repo registry order w =
     (case discoverApps os jsonErr of
        Inl e \<Rightarrow> Some (Some e, w)
      | Inr apps \<Rightarrow>
          if apps = [] then Some (Some (Plain (''no .morsel.json files found in .morsel/ '' @ em_dash @ '' create one before deploying'')), w)
          else let shortSHA = take 7 (gitCurrentSHA os) in
               map_option (\<lambda>(rs, w1). (if failCount rs > 0
                   then Some (Plain (strconv_Itoa (int (failCount rs)) @ '' app(s) failed to deploy'')) else None, w1))
                 (run_apps (\<lambda>cfg. buildPushDeploy a c org repo cfg registry shortSHA) apps (order (length apps))
                    (replicate (length apps) (Inr [])) w))"

definition AppDeploy ::
  "'w api \<Rightarrow> cli_os \<Rightarrow> (string \<Rightarrow> string) \<Rightarrow> string \<Rightarrow> string \<Rightarrow> (nat \<Rightarrow> nat list) \<Rightarrow> 'w \<Rightarrow> (cli_error option \<times> 'w) option" where
  "AppDeploy a os jsonErr apiURL accessToken order w =
     (case api_NewClient a apiURL accessToken of
        Inl e \<Rightarrow> Some (Some (Plain (''build api client: '' @ e)), w)
      | Inr authClient \<Rightarrow>
          (case deployOrgRepo os of
             Inl e \<Rightarrow> Some (Some e, w)
           | Inr (org, repo) \<Rightarrow>
               (case api_PrepareRepoDeploy a authClient org repo w of
                  (Inl e, w1) \<Rightarrow> Some (Some (wrap ''prepare deploy: '' e), w1)
                | (Inr r, w1) \<Rightarrow>
                    (case r of
                       Answer session \<Rightarrow>
                         (case api_NewClient a apiURL (dc_Token session) of
                            Inl e \<Rightarrow> Some (Some (Plain (''build deploy client: '' @ e)), w1)
                          | Inr c \<Rightarrow> deploy_apps a os jsonErr c org repo (dc_Registry session) order w1)
                     | Unauthorized \<Rightarrow> Some (Some StaleCredentials, w1)
                     | Forbidden \<Rightarrow> Some (Some StaleCredentials, w1)
                     | NotFound t \<Rightarrow> Some (Some (Plain (''prepare deploy: unexpected response type '' @ t)), w1)
                     | Unprocessable t \<Rightarrow> Some (Some (Plain (''prepare deploy: unexpected response type '' @ t)), w1)
                     | Conflict t \<Rightarrow> Some (Some (Plain (''prepare deploy: unexpected response type '' @ t)), w1)
                     | Unexpected t \<Rightarrow> Some (Some (Plain (''prepare deploy: unexpected response type '' @ t)), w1)))))"


text \<open>A loop whose rounds keep an invariant and decrease a measure ends, with the result of its last round.\<close>

lemma poll_until_ends:
  fixes m :: "'w \<Rightarrow> nat"
  assumes "\<And>s s'. I s \<Longrightarrow> stepf s = (None, s') \<Longrightarrow> I s' \<and> m s' < m s" "I s"
  shows "\<exists>r s0 s1. poll_until stepf s = Some (r, s1) \<and> I s0 \<and> stepf s0 = (Some r, s1)"
  using assms(2)
proof (induction "m s" arbitrary: s rule: less_induct)
  case less
  obtain r s1 where step: "stepf s = (r, s1)" by (cases "stepf s")
  show ?case
  proof (cases r)
    case None
    then have s1: "I s1" "m s1 < m s" using assms(1) [OF less(2)] step by simp_all
    have "poll_until stepf s = poll_until stepf s1" using step None by (simp add: poll_until.simps)
    then show ?thesis using less(1) [OF s1(2,1)] by simp
  next
    case (Some x)
    then have "poll_until stepf s = Some (x, s1)" using step by (simp add: poll_until.simps)
    then show ?thesis using less(2) step Some by blast
  qed
qed

section \<open>Sync and delete\<close>

definition apiTypeToMorsel :: "string \<Rightarrow> string" where
  "apiTypeToMorsel apiType = (if apiType = ''cron'' then ''cronjob'' else apiType)"

text \<open>The fields of a config are all written, the empty ones too; a nil map is null.\<close>

definition encode_config :: "morselConfig \<Rightarrow> json" where
  "encode_config c =
     JObject [(''name'', JString (cfg_Name c)), (''type'', JString (cfg_Type c)), (''dockerfile'', JString (cfg_Dockerfile c)),
       (''port'', json_int (cfg_Port c)), (''schedule'', JString (cfg_Schedule c)),
       (''env'', case cfg_Env c of None \<Rightarrow> JNull | Some es \<Rightarrow> JObject (map (\<lambda>(k, v). (k, JString v)) (sort_key fst es))),
       (''private'', JBool (cfg_Private c))]"

definition synced_config :: "OAS_App \<Rightarrow> morselConfig" where
  "synced_config app = no_config\<lparr> cfg_Name := opt_Or (oa_Name app) [], cfg_Type := apiTypeToMorsel (oa_Type app) \<rparr>"

definition api_type_name :: "'a api_res \<Rightarrow> string" where
  "api_type_name r = (case r of Answer _ \<Rightarrow> [] | Unauthorized \<Rightarrow> ''Unauthorized'' | Forbidden \<Rightarrow> ''Forbidden'' | NotFound t \<Rightarrow> t
     | Unprocessable t \<Rightarrow> t | Conflict t \<Rightarrow> t | Unexpected t \<Rightarrow> t)"

definition unexpected :: "'a api_res \<Rightarrow> cli_error" where
  "unexpected r = Plain (''unexpected response: '' @ api_type_name r)"

text \<open>The files are a map; \<open>mkdir\<close> and \<open>write\<close> are the errors of the file system, if any.\<close>

definition AppSync ::
  "'w api \<Rightarrow> string option \<Rightarrow> string option \<Rightarrow> string \<Rightarrow> string \<Rightarrow> string \<Rightarrow> string \<Rightarrow> string \<Rightarrow> 'w \<times> (string \<rightharpoonup> string)
     \<Rightarrow> cli_error option \<times> 'w \<times> (string \<rightharpoonup> string)" where
  "AppSync a mkdir write apiURL accessToken org repo name st =
     (case st of (w, disk) \<Rightarrow>
        case api_NewClient a apiURL accessToken of
          Inl e \<Rightarrow> (Some (Plain (''build api client: '' @ e)), w, disk)
        | Inr c \<Rightarrow>
            (case api_GetApp a c org repo name w of
               (Inl e, w1) \<Rightarrow> (Some (wrap ''get app: '' e), w1, disk)
             | (Inr (Answer app), w1) \<Rightarrow>
                 (case mkdir of
                    Some e \<Rightarrow> (Some (Plain (''create .morsel directory: '' @ e)), w1, disk)
                  | None \<Rightarrow>
                      let path = ''.morsel/'' @ name @ ''.morsel.json'' in
                      case write of
                        Some e \<Rightarrow> (Some (Plain (''write '' @ path @ '': '' @ e)), w1, disk)
                      | None \<Rightarrow> (None, w1, disk(path \<mapsto> MarshalIndent (encode_config (synced_config app)) @ [CHR 0x0A])))
             | (Inr r, w1) \<Rightarrow> (Some (unexpected r), w1, disk)))"

definition AppDelete ::
  "'w api \<Rightarrow> string \<Rightarrow> string \<Rightarrow> string \<Rightarrow> string \<Rightarrow> string \<Rightarrow> 'w \<Rightarrow> (cli_error option \<times> 'w) option" where
  "AppDelete a apiURL accessToken org repo name w =
     (case api_NewClient a apiURL accessToken of
        Inl e \<Rightarrow> Some (Some (Plain (''build api client: '' @ e)), w)
      | Inr c \<Rightarrow>
          (case api_DeleteApp a c org repo name w of
             (Inl e, w1) \<Rightarrow> Some (Some (wrap ''delete app: '' e), w1)
           | (Inr (Answer h), w1) \<Rightarrow> pollOperation a c org repo name (ac_OperationID h) w1
           | (Inr r, w1) \<Rightarrow> Some (Some (unexpected r), w1)))"

section \<open>The remote names the repository\<close>

lemma split_path_append: "CHR ''/'' \<notin> set a \<Longrightarrow> split_path (a @ CHR ''/'' # b) = Some (a, b)"
  by (simp add: split_path_def)

lemma dropWhile_to: "c \<notin> set s \<Longrightarrow> dropWhile (\<lambda>x. x \<noteq> c) (s @ c # t) = c # t"
  by (induction s) auto

text \<open>An SSH remote, with or without the suffix, gives the organisation and the repository.\<close>

lemma parse_ssh:
  assumes "CHR ''@'' \<notin> set user" "CHR '':'' \<notin> set host" "CHR ''@'' \<notin> set host" "CHR ''/'' \<notin> set org"
  shows "parseRemoteURL os (user @ ''@'' @ host @ '':'' @ org @ ''/'' @ repo @ ''.git'') = Inr (org, repo)"
proof -
  let ?path = "org @ CHR ''/'' # repo"
  have at: "dropWhile (\<lambda>c. c \<noteq> CHR ''@'') (user @ CHR ''@'' # host @ CHR '':'' # ?path @ ''.git'')
      = CHR ''@'' # host @ CHR '':'' # ?path @ ''.git''" using assms(1) by (rule dropWhile_to)
  have co: "dropWhile (\<lambda>c. c \<noteq> CHR '':'') ((CHR ''@'' # host) @ CHR '':'' # ?path @ ''.git'')
      = CHR '':'' # ?path @ ''.git''" using assms(2) by (intro dropWhile_to) simp
  have tr: "strings_TrimSuffix (?path @ ''.git'') ''.git'' = ?path" by (rule strings_TrimSuffix_append)
  show "parseRemoteURL os (user @ ''@'' @ host @ '':'' @ org @ ''/'' @ repo @ ''.git'') = Inr (org, repo)"
    using at co tr split_path_append [OF assms(4)] by (simp add: parseRemoteURL_def Let_def)
qed

text \<open>
  \<^bold>\<open>The remote names the repository.\<close> An SSH remote gives the organisation and the repository. A remote over
  HTTPS with credentials and a port, however, is read as an SSH remote: its port becomes the organisation.
\<close>

theorem remote_names_repository:
  assumes "CHR ''@'' \<notin> set user" "CHR '':'' \<notin> set host" "CHR ''@'' \<notin> set host" "CHR ''/'' \<notin> set org" "CHR ''/'' \<notin> set port"
  shows "parseRemoteURL os (user @ ''@'' @ host @ '':'' @ org @ ''/'' @ repo @ ''.git'') = Inr (org, repo)
    \<and> parseRemoteURL os (''https://'' @ user @ ''@'' @ host @ '':'' @ port @ ''/'' @ org @ ''/'' @ repo @ ''.git'')
        = Inr (port, org @ ''/'' @ repo)"
  using parse_ssh [of user host org os repo] parse_ssh [of "''https://'' @ user" host port os "org @ ''/'' @ repo"] assms
  by simp

lemma remote_names_repository_witness:
  "parseRemoteURL \<lparr> co_GitRemote = Inr [], co_GitRoot = Inr [], co_GitHead = Inr [], co_ParseURL = Inr, co_Glob = Inr [],
       co_ReadFile = NotExist \<rparr> ''https://ci@git.example.com:8443/acme/web.git'' = Inr (''8443'', ''acme/web'')"
  using remote_names_repository [of "''ci''" "''git.example.com''" "''acme''" "''8443''" _ "''web''"] by simp

section \<open>What is sent\<close>

text \<open>A request as the API documents it: a known type, an image, and no optional field with an empty value.\<close>

definition typed_spec :: "AppSpec \<Rightarrow> bool" where
  "typed_spec sp \<longleftrightarrow>
     sp_Type sp \<in> {''http'', ''worker'', ''cron''} \<and> sp_Image sp \<noteq> [] \<and> sp_Name sp \<noteq> Some [] \<and> sp_Port sp \<noteq> Some 0
     \<and> sp_Env sp \<noteq> Some [] \<and> sp_Schedule sp \<noteq> Some [] \<and> sp_Private sp \<noteq> Some False \<and> sp_IdleAfter sp = None"

lemma morselTypeToAPI_type: "morselTypeToAPI t = Inr t' \<Longrightarrow> t' \<in> {''http'', ''worker'', ''cron''}"
  by (auto simp: morselTypeToAPI_def split: if_splits)

lemma app_spec_typed: "morselTypeToAPI (cfg_Type cfg) = Inr t \<Longrightarrow> img \<noteq> [] \<Longrightarrow> typed_spec (app_spec cfg t img)"
  using morselTypeToAPI_type [of "cfg_Type cfg" t] by (auto simp: typed_spec_def app_spec_def)

lemma poll_once_upsert: "poll_once (a\<lparr>api_UpsertApp := g\<rparr>) c org repo name opID = poll_once a c org repo name opID"
  by (rule ext) (simp add: poll_once_def cong: prod.case_cong option.case_cong)

lemma poll_upsert: "pollOperation (a\<lparr>api_UpsertApp := g\<rparr>) c org repo name opID w = pollOperation a c org repo name opID w"
  by (simp add: pollOperation_def poll_once_upsert)



definition sample_cfg :: morselConfig where
  "sample_cfg = no_config\<lparr> cfg_Name := ''api'', cfg_Type := ''cronjob'', cfg_Schedule := ''@daily'' \<rparr>"

definition sample_client :: Client where "sample_client = \<lparr> cl_URL = ''u'', cl_Token = ''t'' \<rparr>"

text \<open>An API that builds every image and finds every request of a deployment in conflict.\<close>

definition busy_api :: "unit api" where
  "busy_api = \<lparr> api_NewClient = \<lambda>_ _. Inr sample_client, api_PrepareRepoDeploy = \<lambda>_ _ _ w. (Inr Forbidden, w),
     api_UpsertApp = \<lambda>_ sp _ _ w. (Inr (Conflict (sp_Type sp)), w), api_GetOperation = \<lambda>_ _ _ _ _ w. (Inr Forbidden, w),
     api_DeleteApp = \<lambda>_ _ _ _ w. (Inr Forbidden, w), api_GetApp = \<lambda>_ _ _ _ w. (Inr Forbidden, w),
     api_Wait = \<lambda>w. (None, w), api_Build = \<lambda>_ _ _ w. (None, w) \<rparr>"


section \<open>From the manifest to the cluster\<close>

text \<open>
  What the server hands to the cluster for a request of the client is what the manifest declares: the request of
  an optional field and its default undo each other.
\<close>

lemma manifest_of_spec:
  assumes "- (2 ^ 31) \<le> cfg_Port cfg" "cfg_Port cfg < 2 ^ 31"
  shows "m_AppName (manifest_of h ns repo (app_spec cfg t img)) = cfg_Name cfg"
    "m_Type (manifest_of h ns repo (app_spec cfg t img)) = t"
    "m_Image (manifest_of h ns repo (app_spec cfg t img)) = img"
    "m_Port (manifest_of h ns repo (app_spec cfg t img)) = cfg_Port cfg"
    "m_Env (manifest_of h ns repo (app_spec cfg t img)) = opt_Or (cfg_Env cfg) []"
    "m_Schedule (manifest_of h ns repo (app_spec cfg t img)) = cfg_Schedule cfg"
    "m_Private (manifest_of h ns repo (app_spec cfg t img)) = cfg_Private cfg"
  using assms by (auto simp: manifest_of_def app_spec_def wrap32_def)

text \<open>The organisation is no part of the image, and an unnamed app of a repo with a slash looks like a named one.\<close>

lemma image_path_ambiguous: "appImagePath (repo @ ''/'' @ name) [] sha = appImagePath repo name sha" if "name \<noteq> []"
  using that by (simp add: appImagePath_def)

section \<open>The end of the poll loop\<close>

text \<open>
  The operations of a server seen by the client: a wait lets the server go on, and a read answers from the state
  of that moment. \<open>hist\<close> is the database of each moment, \<open>refused\<close> what the client makes of an error of the handler.
\<close>

definition answer_of :: "(handler_error \<Rightarrow> cli_error + 'a api_res) \<Rightarrow> handler_error + 'a typed \<Rightarrow> cli_error + 'a api_res" where
  "answer_of refused r =
     (case r of
        Inl e \<Rightarrow> refused e
      | Inr (Ok x) \<Rightarrow> Inr (Answer x)
      | Inr (Typed code d) \<Rightarrow> Inr (if code = 404 then NotFound (ed_Message d) else Unexpected (ed_Code d)))"

definition follows_server ::
  "(nat \<Rightarrow> db) \<Rightarrow> Claims option \<Rightarrow> (handler_error \<Rightarrow> cli_error + OAS_Operation api_res) \<Rightarrow> nat api \<Rightarrow> bool" where
  "follows_server hist claims refused a \<longleftrightarrow>
     (\<forall>w. fst (api_Wait a w) = None \<and> w < snd (api_Wait a w)) \<and>
     (\<forall>c org repo name opID w. api_GetOperation a c org repo name opID w
        = (answer_of refused (GetOperation_h claims (hist w) org repo opID), w))"

definition op_status :: "db \<Rightarrow> string \<Rightarrow> (string \<times> string option) option" where
  "op_status s opID = (case GetOperation s opID of Inl _ \<Rightarrow> None | Inr op \<Rightarrow> Some (o_Status op, o_Error op))"

lemma poll_once_follows:
  assumes "follows_server hist claims refused a" "checkRepoAccess claims org repo = None"
    and "op_status (hist (snd (api_Wait a w))) opID = Some (st, e)"
  shows "poll_once a c org repo name opID w
           = (if st = ''succeeded'' then Some None
              else if st = ''failed'' then Some (Some (Plain (opt_Or e ''operation failed''))) else None, snd (api_Wait a w))"
proof -
  obtain v where v: "api_Wait a w = (None, v)" using assms(1) by (metis follows_server_def prod.collapse)
  obtain op where op: "GetOperation (hist v) opID = Inr op" "o_Status op = st" "o_Error op = e"
    using assms(3) v by (auto simp: op_status_def split: sum.splits)
  have "api_GetOperation a c org repo name opID v = (Inr (Answer (dbOperationToOAS op)), v)"
    using assms(1,2) op(1) by (simp add: follows_server_def GetOperation_h_def answer_of_def)
  then show ?thesis
    using v op by (auto simp: poll_once_def dbOperationToOAS_def Let_def detail_def split: option.split)
qed

lemma poll_ends:
  assumes "follows_server hist claims refused a" "checkRepoAccess claims org repo = None"
    and "\<forall>v. w < v \<longrightarrow> v < n \<longrightarrow> (\<exists>e. op_status (hist v) opID \<in> {Some (''pending'', e), Some (''running'', e)})"
    and "\<forall>v\<ge>n. op_status (hist v) opID = Some (st, e)" "st \<in> {''succeeded'', ''failed''}"
  shows "\<exists>v\<ge>n. pollOperation a c org repo name opID w
           = Some (if st = ''succeeded'' then None else Some (Plain (opt_Or e ''operation failed'')), v)"
  using assms(3)
proof (induction "n - w" arbitrary: w rule: less_induct)
  case less
  let ?v = "snd (api_Wait a w)"
  have w: "w < ?v" using assms(1) by (simp add: follows_server_def)
  show ?case
  proof (cases "n \<le> ?v")
    case True
    then have "op_status (hist ?v) opID = Some (st, e)" using assms(4) by simp
    from poll_once_follows [OF assms(1,2) this] show ?thesis
      using assms(5) True by (auto simp: pollOperation_def poll_until.simps)
  next
    case False
    then obtain e' where "op_status (hist ?v) opID \<in> {Some (''pending'', e'), Some (''running'', e')}"
      using less(2) w by (meson not_le)
    then have "poll_once a c org repo name opID w = (None, ?v)"
      using poll_once_follows [OF assms(1,2), of w opID] by fastforce
    then have "pollOperation a c org repo name opID w = pollOperation a c org repo name opID ?v"
      by (simp add: pollOperation_def poll_until.simps)
    moreover have "\<exists>v\<ge>n. pollOperation a c org repo name opID ?v
        = Some (if st = ''succeeded'' then None else Some (Plain (opt_Or e ''operation failed'')), v)"
      by (rule less(1)) (use False w less(2) in auto)
    ultimately show ?thesis by simp
  qed
qed



text \<open>The demonstration operation, failed from the third moment on.\<close>

definition demo_hist :: "nat \<Rightarrow> db" where
  "demo_hist v = (if v < 3 then demo_db else put_op demo_db ''op_1'' ''failed'' (Some ''rollout failed''))"

definition demo_api :: "nat api" where
  "demo_api = \<lparr> api_NewClient = \<lambda>_ _. Inr sample_client, api_PrepareRepoDeploy = \<lambda>_ _ _ w. (Inr Forbidden, w),
     api_UpsertApp = \<lambda>_ sp org repo w. (Inr (Answer (accept org repo [] ''op_1'')), w),
     api_GetOperation = \<lambda>_ org repo _ opID w.
       (answer_of (\<lambda>_. Inr Forbidden) (GetOperation_h (Some demo_claims) (demo_hist w) org repo opID), w),
     api_DeleteApp = \<lambda>_ _ _ _ w. (Inr Forbidden, w), api_GetApp = \<lambda>_ _ _ _ w. (Inr Forbidden, w),
     api_Wait = \<lambda>w. (None, Suc w), api_Build = \<lambda>_ _ _ w. (None, w) \<rparr>"

lemma demo_hist_status:
  "v < 3 \<Longrightarrow> op_status (demo_hist v) ''op_1'' = Some (''pending'', None)"
  "3 \<le> v \<Longrightarrow> op_status (demo_hist v) ''op_1'' = Some (''failed'', Some ''rollout failed'')"
proof -
  have r: "reliable demo_db" by simp
  have "GetOperation demo_db ''op_1'' = Inr demo_op"
    using demo_lookups(1) r by (simp add: GetOperation_def GetOperation_q_def sel_is_op find_op_def)
  then show "v < 3 \<Longrightarrow> op_status (demo_hist v) ''op_1'' = Some (''pending'', None)"
    by (simp add: demo_hist_def op_status_def demo_op_def)
  have "GetOperation (put_op demo_db ''op_1'' ''failed'' (Some ''rollout failed'')) ''op_1''
      = Inr (demo_op\<lparr> o_Status := ''failed'', o_Error := Some ''rollout failed'', o_UpdatedAt := sql_now demo_db \<rparr>)"
    by (simp add: GetOperation_def GetOperation_q_def put_op_def demo_db_def demo_op_def guarded_def initial_db_def sel_def upd_def
        is_op_def one_def)
  then show "3 \<le> v \<Longrightarrow> op_status (demo_hist v) ''op_1'' = Some (''failed'', Some ''rollout failed'')"
    by (simp add: demo_hist_def op_status_def)
qed


section \<open>A synced manifest\<close>

lemma decode_encode_synced:
  "decode_config (encode_config (synced_config app)) = Some (synced_config app)"
  by (simp add: decode_config_def decode_struct_def encode_config_def synced_config_def no_config_def config_fields_def field_for_def
      set_config_def into_string_def into_int_def into_bool_def into_env_def json_int_def parse_int_Itoa int64_min_def int64_max_def)

lemma synced_text:
  assumes "valid_utf8 (opt_Or (oa_Name app) [])" "oa_Type app \<in> {''http'', ''worker'', ''cron''}"
  shows "next_value (MarshalIndent (encode_config (synced_config app)) @ [CHR 0x0A]) = Some (encode_config (synced_config app), [CHR 0x0A])"
proof (rule next_value_MarshalIndent)
  have "valid_utf8 (apiTypeToMorsel (oa_Type app))" using assms(2) by (auto simp: apiTypeToMorsel_def)
  then show "json_ok (encode_config (synced_config app))"
    using assms(1) by (simp add: encode_config_def synced_config_def no_config_def)
  show "ends [CHR 0x0A]" by (simp add: ends_def json_digit_def)
qed

text \<open>
  C36. \<^bold>\<open>A synced manifest.\<close> The file that \<open>morsel app sync\<close> writes is read back by \<open>morsel app deploy\<close> with the name and
  the type of the app on the server. But it has lost the schedule, the port, the environment and the visibility: a deployment
  of it asks for an app without them. And the linter's strict decoder rejects every such file, because of its field \<open>env\<close>.
\<close>

theorem synced_manifest:
  assumes "valid_utf8 (opt_Or (oa_Name app) [])" "oa_Type app \<in> {''http'', ''worker'', ''cron''}"
    and "text = MarshalIndent (encode_config (synced_config app)) @ [CHR 0x0A]" "co_ReadFile os path = Contents text"
  shows "readMorselConfigFromPath os jsonErr path = Inr (Some (synced_config app))
    \<and> morselTypeToAPI (cfg_Type (synced_config app)) = Inr (oa_Type app)
    \<and> app_spec (synced_config app) (oa_Type app) img
        = \<lparr> sp_Name = (case oa_Name app of Some (c # cs) \<Rightarrow> Some (c # cs) | _ \<Rightarrow> None), sp_Type = oa_Type app, sp_Image = img,
            sp_Port = None, sp_Env = None, sp_Schedule = None, sp_Private = None, sp_IdleAfter = None \<rparr>
    \<and> fixFile \<lparr> f_Path = path, f_Content = text \<rparr> = None"
proof (intro conjI)
  have n: "next_value text = Some (encode_config (synced_config app), [CHR 0x0A])"
    using synced_text [OF assms(1,2)] assms(3) by simp
  then have "whole_value text = Some (encode_config (synced_config app))"
    by (simp add: whole_value_def skip_def json_space_def)
  then show "readMorselConfigFromPath os jsonErr path = Inr (Some (synced_config app))"
    using assms(4) by (simp add: readMorselConfigFromPath_def decode_encode_synced)
  show "morselTypeToAPI (cfg_Type (synced_config app)) = Inr (oa_Type app)"
    using assms(2) by (auto simp: synced_config_def morselTypeToAPI_def apiTypeToMorsel_def)
  show "app_spec (synced_config app) (oa_Type app) img
        = \<lparr> sp_Name = (case oa_Name app of Some (c # cs) \<Rightarrow> Some (c # cs) | _ \<Rightarrow> None), sp_Type = oa_Type app, sp_Image = img,
            sp_Port = None, sp_Env = None, sp_Schedule = None, sp_Private = None, sp_IdleAfter = None \<rparr>"
    by (simp add: app_spec_def synced_config_def no_config_def split: option.split list.split)
  have "field_for manifest_fields ''env'' = None" by code_simp
  then have "decode_manifest True (encode_config c) = None" for c
    by (auto simp: decode_manifest_def decode_struct_def encode_config_def split: option.split)
  then show "fixFile \<lparr> f_Path = path, f_Content = text \<rparr> = None" using n by (simp add: fixFile_def)
qed


lemma synced_manifest_witness:
  "readMorselConfigFromPath
     \<lparr> co_GitRemote = Inr [], co_GitRoot = Inr [], co_GitHead = Inr [], co_ParseURL = Inr, co_Glob = Inr [],
       co_ReadFile = \<lambda>_. Contents (MarshalIndent (encode_config (synced_config
         \<lparr> oa_Name = Some ''job'', oa_Type = ''cron'', oa_Status = [], oa_Namespace = None, oa_Image = None, oa_CreatedAt = 0,
            oa_UpdatedAt = 0 \<rparr>)) @ [CHR 0x0A]) \<rparr> (\<lambda>_. []) ''.morsel/job.morsel.json''
     = Inr (Some (no_config\<lparr> cfg_Name := ''job'', cfg_Type := ''cronjob'' \<rparr>))"
  using synced_manifest [of "\<lparr> oa_Name = Some ''job'', oa_Type = ''cron'', oa_Status = [], oa_Namespace = None, oa_Image = None,
      oa_CreatedAt = 0, oa_UpdatedAt = 0 \<rparr>"]
  by (simp add: synced_config_def apiTypeToMorsel_def)

end
