(* ===== verification/Cli_Auth.thy ===== *)
theory Cli_Auth
  imports Cli Session
begin

text \<open>
  Authentication of the command line client: profiles and their silent refresh (\<open>cli/profile.go\<close>, \<open>cli/handler.go\<close>,
  the profile part of \<open>cli/cli.go\<close>), the login by the device flow of GitHub and the bootstrap (\<open>cli/operator_login.go\<close>), and
  the control flow of \<open>service deploy\<close> around them (\<open>cli/service_deploy.go\<close>).

  The home directory, the errors of the file system, the text form of an instant and the HTTP client with what it
  talks to are the fields of the record \<open>cli_world\<close>; the files are a map from paths to contents.
\<close>

section \<open>Profiles\<close>

record Profile =
  pf_APIURL :: string
  pf_AccessToken :: string
  pf_AccessTokenExpiresAt :: string
  pf_RefreshToken :: string
  pf_RefreshTokenExpiresAt :: string

definition no_profile :: Profile where
  "no_profile = \<lparr> pf_APIURL = [], pf_AccessToken = [], pf_AccessTokenExpiresAt = [], pf_RefreshToken = [], pf_RefreshTokenExpiresAt = [] \<rparr>"

definition profile_fields :: "string list" where
  "profile_fields = [''api_url'', ''access_token'', ''access_token_expires_at'', ''refresh_token'', ''refresh_token_expires_at'']"

definition set_profile :: "string \<Rightarrow> json \<Rightarrow> Profile \<Rightarrow> Profile option" where
  "set_profile f v p =
     (if f = ''api_url'' then map_option (\<lambda>x. p\<lparr>pf_APIURL := x\<rparr>) (into_string v (pf_APIURL p))
      else if f = ''access_token'' then map_option (\<lambda>x. p\<lparr>pf_AccessToken := x\<rparr>) (into_string v (pf_AccessToken p))
      else if f = ''access_token_expires_at''
        then map_option (\<lambda>x. p\<lparr>pf_AccessTokenExpiresAt := x\<rparr>) (into_string v (pf_AccessTokenExpiresAt p))
      else if f = ''refresh_token'' then map_option (\<lambda>x. p\<lparr>pf_RefreshToken := x\<rparr>) (into_string v (pf_RefreshToken p))
      else map_option (\<lambda>x. p\<lparr>pf_RefreshTokenExpiresAt := x\<rparr>) (into_string v (pf_RefreshTokenExpiresAt p)))"

definition decode_profile :: "json \<Rightarrow> Profile option" where
  "decode_profile v = decode_struct (decode_fields False profile_fields set_profile) v no_profile"

definition encode_profile :: "Profile \<Rightarrow> json" where
  "encode_profile p =
     JObject [(''api_url'', JString (pf_APIURL p)), (''access_token'', JString (pf_AccessToken p)),
       (''access_token_expires_at'', JString (pf_AccessTokenExpiresAt p)), (''refresh_token'', JString (pf_RefreshToken p)),
       (''refresh_token_expires_at'', JString (pf_RefreshTokenExpiresAt p))]"

text \<open>A request: method, URL, headers and body. An exchange gives the error of the transport, or the status and the body.\<close>

record Request =
  rq_Method :: string
  rq_URL :: string
  rq_Header :: "(string \<times> string) list"
  rq_Body :: string

record 'w cli_world =
  cw_Home :: "string + string"
  cw_ReadErr :: "string \<Rightarrow> string"
  cw_JSONErr :: "string \<Rightarrow> string"
  cw_Mkdir :: "string option"
  cw_Write :: "string option"
  cw_Remove :: "string \<Rightarrow> string option"
  cw_Format :: "time \<Rightarrow> string"
  cw_Parse :: "string \<Rightarrow> time option"
  cw_NewClient :: "string \<Rightarrow> string \<Rightarrow> string + Client"
  cw_TokenRefresh :: "Client \<Rightarrow> string \<Rightarrow> 'w \<Rightarrow> (cli_error + TokenPairResponse api_res) \<times> 'w"
  cw_GetDeploymentInfo :: "Client \<Rightarrow> 'w \<Rightarrow> (cli_error + string api_res) \<times> 'w"
  cw_NewRequest :: "string \<Rightarrow> string option"
  cw_Do :: "Request \<Rightarrow> 'w \<Rightarrow> (string + int \<times> (string + string)) \<times> 'w"
  cw_Wait :: "duration \<Rightarrow> 'w \<Rightarrow> string option \<times> nat \<times> 'w"

type_synonym files = "string \<rightharpoonup> string"

definition profilePath :: "'w cli_world \<Rightarrow> string \<Rightarrow> cli_error + string" where
  "profilePath cw name =
     (case cw_Home cw of
        Inl e \<Rightarrow> Inl (Plain (''resolve home directory: '' @ e))
      | Inr home \<Rightarrow> Inr (filepath_Join [home, ''.config'', ''morsel'', name @ ''.profile.json'']))"

definition readProfile :: "'w cli_world \<Rightarrow> string \<Rightarrow> files \<Rightarrow> cli_error + Profile" where
  "readProfile cw name disk =
     (case profilePath cw name of
        Inl e \<Rightarrow> Inl e
      | Inr path \<Rightarrow>
          (case disk path of
             None \<Rightarrow> Inl (Plain (''read profile '' @ sprintf_q name @ '': '' @ cw_ReadErr cw path))
           | Some data \<Rightarrow>
               (case (case whole_value data of None \<Rightarrow> None | Some v \<Rightarrow> decode_profile v) of
                  None \<Rightarrow> Inl (Plain (''parse profile '' @ sprintf_q name @ '': '' @ cw_JSONErr cw data))
                | Some prof \<Rightarrow> Inr prof)))"

definition writeProfile :: "'w cli_world \<Rightarrow> string \<Rightarrow> Profile \<Rightarrow> files \<Rightarrow> cli_error + files" where
  "writeProfile cw name prof disk =
     (case profilePath cw name of
        Inl e \<Rightarrow> Inl e
      | Inr path \<Rightarrow>
          (case cw_Mkdir cw of
             Some e \<Rightarrow> Inl (Plain (''create profile directory: '' @ e))
           | None \<Rightarrow>
               (case cw_Write cw of
                  Some e \<Rightarrow> Inl (Plain e)
                | None \<Rightarrow> Inr (disk(path \<mapsto> MarshalIndent (encode_profile prof))))))"

text \<open>Removing a file that does not exist is no error.\<close>

definition deleteProfile :: "'w cli_world \<Rightarrow> string \<Rightarrow> files \<Rightarrow> cli_error + files" where
  "deleteProfile cw name disk =
     (case profilePath cw name of
        Inl e \<Rightarrow> Inl e
      | Inr path \<Rightarrow>
          if disk path = None then Inr disk
          else (case cw_Remove cw path of
                  Some e \<Rightarrow> Inl (Plain (''delete profile '' @ sprintf_q name @ '': '' @ e))
                | None \<Rightarrow> Inr (disk(path := None))))"

section \<open>The silent refresh\<close>

definition expires :: "'w cli_world \<Rightarrow> time \<Rightarrow> int \<Rightarrow> string" where
  "expires cw now secs = cw_Format cw (now + secs * Second)"

definition session_expired :: cli_error where
  "session_expired = Plain (''session expired '' @ em_dash @ '' run 'morsel operator login' to re-authenticate'')"

definition with_pair :: "'w cli_world \<Rightarrow> time \<Rightarrow> TokenPairResponse \<Rightarrow> Profile \<Rightarrow> Profile" where
  "with_pair cw now pair prof =
     prof\<lparr> pf_AccessToken := tp_AccessToken pair, pf_AccessTokenExpiresAt := expires cw now (tp_ExpiresIn pair),
       pf_RefreshToken := tp_RefreshToken pair, pf_RefreshTokenExpiresAt := expires cw now (tp_RefreshExpiresIn pair) \<rparr>"

definition silentRefresh ::
  "'w cli_world \<Rightarrow> time \<Rightarrow> Profile \<Rightarrow> string \<Rightarrow> 'w \<times> files \<Rightarrow> (cli_error + Profile) \<times> 'w \<times> files" where
  "silentRefresh cw now prof name st =
     (case st of (w, disk) \<Rightarrow>
        if pf_RefreshToken prof = [] then (Inl session_expired, w, disk)
        else case cw_NewClient cw (pf_APIURL prof) [] of
          Inl e \<Rightarrow> (Inl (Plain (''build api client for refresh: '' @ e)), w, disk)
        | Inr c \<Rightarrow>
            (case cw_TokenRefresh cw c (pf_RefreshToken prof) w of
               (Inl e, w1) \<Rightarrow> (Inl (wrap ''refresh token: '' e), w1, disk)
             | (Inr (Answer pair), w1) \<Rightarrow>
                 (let prof1 = with_pair cw now pair prof in
                  case writeProfile cw name prof1 disk of
                    Inl e \<Rightarrow> (Inl (wrap ''persist refreshed profile: '' e), w1, disk)
                  | Inr disk1 \<Rightarrow> (Inr prof1, w1, disk1))
             | (Inr _, w1) \<Rightarrow> (Inl session_expired, w1, disk)))"

definition LoadProfile ::
  "'w cli_world \<Rightarrow> time \<Rightarrow> string \<Rightarrow> bool \<Rightarrow> 'w \<times> files \<Rightarrow> (cli_error + Profile) \<times> 'w \<times> files" where
  "LoadProfile cw now name ensureValid st =
     (case readProfile cw name (snd st) of
        Inl e \<Rightarrow> (Inl e, st)
      | Inr prof \<Rightarrow>
          if \<not> ensureValid \<or> pf_AccessTokenExpiresAt prof = [] then (Inr prof, st)
          else (case cw_Parse cw (pf_AccessTokenExpiresAt prof) of
                  None \<Rightarrow> (Inr prof, st)
                | Some expiry \<Rightarrow> if now < expiry then (Inr prof, st) else silentRefresh cw now prof name st))"

text \<open>Before a command: an error leaves the client without a profile.\<close>

definition loadProfilePreRun :: "'w cli_world \<Rightarrow> time \<Rightarrow> string \<Rightarrow> 'w \<times> files \<Rightarrow> Profile option \<times> 'w \<times> files" where
  "loadProfilePreRun cw now name st =
     (case LoadProfile cw now name True st of (Inl _, st1) \<Rightarrow> (None, st1) | (Inr prof, st1) \<Rightarrow> (Some prof, st1))"

definition requireProfile :: "Profile option \<Rightarrow> cli_error + Profile" where
  "requireProfile p =
     (case p of
        None \<Rightarrow> Inl (Plain (''not authenticated '' @ em_dash @ '' run 'morsel operator login' first''))
      | Some prof \<Rightarrow> Inr prof)"

section \<open>The device flow\<close>

record deviceCodeResp =
  dr_DeviceCode :: string
  dr_UserCode :: string
  dr_VerificationURI :: string
  dr_ExpiresIn :: int
  dr_Interval :: int

record deviceTokenResp =
  tr_AccessToken :: string
  tr_Error :: string
  tr_Interval :: int

text \<open>The fields that are decoded, by their names; a response that is no such object is an error.\<close>

definition set_device_code :: "string \<Rightarrow> json \<Rightarrow> deviceCodeResp \<Rightarrow> deviceCodeResp option" where
  "set_device_code f v r =
     (if f = ''device_code'' then map_option (\<lambda>x. r\<lparr>dr_DeviceCode := x\<rparr>) (into_string v (dr_DeviceCode r))
      else if f = ''user_code'' then map_option (\<lambda>x. r\<lparr>dr_UserCode := x\<rparr>) (into_string v (dr_UserCode r))
      else if f = ''verification_uri'' then map_option (\<lambda>x. r\<lparr>dr_VerificationURI := x\<rparr>) (into_string v (dr_VerificationURI r))
      else if f = ''expires_in'' then map_option (\<lambda>x. r\<lparr>dr_ExpiresIn := x\<rparr>) (into_int v (dr_ExpiresIn r))
      else map_option (\<lambda>x. r\<lparr>dr_Interval := x\<rparr>) (into_int v (dr_Interval r)))"

definition decode_device_code :: "json \<Rightarrow> deviceCodeResp option" where
  "decode_device_code v =
     decode_struct (decode_fields False [''device_code'', ''user_code'', ''verification_uri'', ''expires_in'', ''interval''] set_device_code)
       v \<lparr> dr_DeviceCode = [], dr_UserCode = [], dr_VerificationURI = [], dr_ExpiresIn = 0, dr_Interval = 0 \<rparr>"

definition set_device_token :: "string \<Rightarrow> json \<Rightarrow> deviceTokenResp \<Rightarrow> deviceTokenResp option" where
  "set_device_token f v r =
     (if f = ''access_token'' then map_option (\<lambda>x. r\<lparr>tr_AccessToken := x\<rparr>) (into_string v (tr_AccessToken r))
      else if f = ''error'' then map_option (\<lambda>x. r\<lparr>tr_Error := x\<rparr>) (into_string v (tr_Error r))
      else map_option (\<lambda>x. r\<lparr>tr_Interval := x\<rparr>) (into_int v (tr_Interval r)))"

definition decode_device_token :: "json \<Rightarrow> deviceTokenResp option" where
  "decode_device_token v =
     decode_struct (decode_fields False [''access_token'', ''error'', ''interval''] set_device_token)
       v \<lparr> tr_AccessToken = [], tr_Error = [], tr_Interval = 0 \<rparr>"

definition decode_client_id :: "json \<Rightarrow> string option" where
  "decode_client_id v = decode_struct (decode_fields False [''client_id''] (\<lambda>_ v x. into_string v x)) v []"

text \<open>
  One exchange: the request is built, then sent; both errors carry their prefix. The body of an answer is read in
  whole, or its reading fails.
\<close>

definition exchange ::
  "'w cli_world \<Rightarrow> string \<Rightarrow> string \<Rightarrow> Request \<Rightarrow> 'w \<Rightarrow> (cli_error + int \<times> (string + string)) \<times> 'w" where
  "exchange cw build sent req w =
     (case cw_NewRequest cw (rq_URL req) of
        Some e \<Rightarrow> (Inl (Plain (build @ e)), w)
      | None \<Rightarrow> (case cw_Do cw req w of (Inl e, w1) \<Rightarrow> (Inl (Plain (sent @ e)), w1) | (Inr r, w1) \<Rightarrow> (Inr r, w1)))"

text \<open>\<open>json.NewDecoder(body).Decode\<close> into a structure.\<close>

definition decode_body :: "'w cli_world \<Rightarrow> string \<Rightarrow> (json \<Rightarrow> 'a option) \<Rightarrow> string + string \<Rightarrow> cli_error + 'a" where
  "decode_body cw pre dec body =
     (case body of
        Inl e \<Rightarrow> Inl (Plain (pre @ e))
      | Inr raw \<Rightarrow>
          (case (case next_value raw of None \<Rightarrow> None | Some (v, _) \<Rightarrow> dec v) of
             None \<Rightarrow> Inl (Plain (pre @ cw_JSONErr cw raw))
           | Some x \<Rightarrow> Inr x))"

definition fetchMorselGitHubClientID :: "'w cli_world \<Rightarrow> string \<Rightarrow> 'w \<Rightarrow> (cli_error + string) \<times> 'w" where
  "fetchMorselGitHubClientID cw apiURL w =
     (case exchange cw ''build config request: '' ''fetch github config: ''
             \<lparr> rq_Method = ''GET'', rq_URL = apiURL @ ''/github/config'', rq_Header = [], rq_Body = [] \<rparr> w of
        (Inl e, w1) \<Rightarrow> (Inl e, w1)
      | (Inr (_, body), w1) \<Rightarrow> (decode_body cw ''decode github config: '' decode_client_id body, w1))"

definition form_header :: "(string \<times> string) list" where
  "form_header = [(''Content-Type'', ''application/x-www-form-urlencoded''), (''Accept'', ''application/json'')]"

definition startGitHubDeviceFlow :: "'w cli_world \<Rightarrow> string \<Rightarrow> 'w \<Rightarrow> (cli_error + deviceCodeResp) \<times> 'w" where
  "startGitHubDeviceFlow cw clientID w =
     (case exchange cw ''build device code request: '' ''start device flow: ''
             \<lparr> rq_Method = ''POST'', rq_URL = ''https://github.com/login/device/code'', rq_Header = form_header,
                rq_Body = ''client_id='' @ QueryEscape clientID @ ''&scope='' @ QueryEscape ''read:user'' \<rparr> w of
        (Inl e, w1) \<Rightarrow> (Inl e, w1)
      | (Inr (_, body), w1) \<Rightarrow>
          ((case decode_body cw ''decode device code response: '' decode_device_code body of
              Inl e \<Rightarrow> Inl e
            | Inr dr \<Rightarrow>
                if dr_DeviceCode dr = [] then Inl (Plain ''github did not return a device code'')
                else Inr (if dr_Interval dr = 0 then dr\<lparr>dr_Interval := 5\<rparr> else dr)), w1))"

text \<open>What an answer of the token endpoint means: the end, or the next interval.\<close>

definition device_answer :: "duration \<Rightarrow> deviceTokenResp \<Rightarrow> (cli_error + string) + duration" where
  "device_answer interval tr =
     (if tr_Error tr = [] then (if tr_AccessToken tr \<noteq> [] then Inl (Inr (tr_AccessToken tr)) else Inr interval)
      else if tr_Error tr = ''authorization_pending'' then Inr interval
      else if tr_Error tr = ''slow_down''
        then Inr (if tr_Interval tr > 0 then tr_Interval tr * Second else interval + 5 * Second)
      else if tr_Error tr = ''expired_token''
        then Inl (Inl (Plain (''device flow code expired '' @ em_dash @ '' run 'morsel operator login' to try again'')))
      else if tr_Error tr = ''access_denied'' then Inl (Inl (Plain ''authorization denied by user''))
      else Inl (Inl (Plain (''device flow error: '' @ tr_Error tr))))"

definition token_request :: "string \<Rightarrow> deviceCodeResp \<Rightarrow> Request" where
  "token_request clientID dr =
     \<lparr> rq_Method = ''POST'', rq_URL = ''https://github.com/login/oauth/access_token'', rq_Header = form_header,
        rq_Body = ''client_id='' @ QueryEscape clientID @ ''&device_code='' @ QueryEscape (dr_DeviceCode dr) @
          ''&grant_type='' @ QueryEscape ''urn:ietf:params:oauth:grant-type:device_code'' \<rparr>"

text \<open>
  One round of the loop: the wait, which ends at least the interval later, the deadline, the request. The state is
  the interval, the clock and the world.
\<close>

definition device_round ::
  "'w cli_world \<Rightarrow> string \<Rightarrow> deviceCodeResp \<Rightarrow> time \<Rightarrow> duration \<times> time \<times> 'w
     \<Rightarrow> (cli_error + string) option \<times> duration \<times> time \<times> 'w" where
  "device_round cw clientID dr deadline st =
     (case st of (interval, now, w) \<Rightarrow>
        case cw_Wait cw interval w of
          (Some e, late, w1) \<Rightarrow> (Some (Inl (Plain e)), interval, now + int late, w1)
        | (None, late, w1) \<Rightarrow>
            let now1 = now + max 0 interval + int late in
            if now1 > deadline
            then (Some (Inl (Plain (''device flow timed out '' @ em_dash @ '' run 'morsel operator login' to try again''))), interval, now1, w1)
            else (case exchange cw ''build token poll request: '' ''poll device flow: '' (token_request clientID dr) w1 of
                    (Inl e, w2) \<Rightarrow> (Some (Inl e), interval, now1, w2)
                  | (Inr (_, Inl readErr), w2) \<Rightarrow> (Some (Inl (Plain (''read device poll response: '' @ readErr))), interval, now1, w2)
                  | (Inr (_, Inr raw), w2) \<Rightarrow>
                      (case (case whole_value raw of None \<Rightarrow> None | Some v \<Rightarrow> decode_device_token v) of
                         None \<Rightarrow> (Some (Inl (Plain (''decode token response: '' @ cw_JSONErr cw raw))), interval, now1, w2)
                       | Some tr \<Rightarrow>
                           (case device_answer interval tr of
                              Inl r \<Rightarrow> (Some r, interval, now1, w2)
                            | Inr interval1 \<Rightarrow> (None, interval1, now1, w2)))))"

definition pollGitHubDeviceFlow ::
  "'w cli_world \<Rightarrow> string \<Rightarrow> deviceCodeResp \<Rightarrow> time \<Rightarrow> 'w \<Rightarrow> ((cli_error + string) \<times> duration \<times> time \<times> 'w) option" where
  "pollGitHubDeviceFlow cw clientID dr now w =
     poll_until (device_round cw clientID dr (now + dr_ExpiresIn dr * Second)) (dr_Interval dr * Second, now, w)"


section \<open>Login and bootstrap\<close>

definition set_pair :: "string \<Rightarrow> json \<Rightarrow> TokenPairResponse \<Rightarrow> TokenPairResponse option" where
  "set_pair f v r =
     (if f = ''access_token'' then map_option (\<lambda>x. r\<lparr>tp_AccessToken := x\<rparr>) (into_string v (tp_AccessToken r))
      else if f = ''refresh_token'' then map_option (\<lambda>x. r\<lparr>tp_RefreshToken := x\<rparr>) (into_string v (tp_RefreshToken r))
      else if f = ''expires_in'' then map_option (\<lambda>x. r\<lparr>tp_ExpiresIn := x\<rparr>) (into_int v (tp_ExpiresIn r))
      else map_option (\<lambda>x. r\<lparr>tp_RefreshExpiresIn := x\<rparr>) (into_int v (tp_RefreshExpiresIn r)))"

text \<open>\<open>morselAuthResp\<close>, a pair of tokens.\<close>

definition decode_pair :: "json \<Rightarrow> TokenPairResponse option" where
  "decode_pair v =
     decode_struct (decode_fields False [''access_token'', ''refresh_token'', ''expires_in'', ''refresh_expires_in''] set_pair)
       v \<lparr> tp_AccessToken = [], tp_RefreshToken = [], tp_ExpiresIn = 0, tp_RefreshExpiresIn = 0 \<rparr>"

definition pair_profile :: "'w cli_world \<Rightarrow> time \<Rightarrow> string \<Rightarrow> TokenPairResponse \<Rightarrow> Profile" where
  "pair_profile cw now apiURL pair = with_pair cw now pair (no_profile\<lparr>pf_APIURL := apiURL\<rparr>)"

definition exchangeGitHubTokenWithMorsel ::
  "'w cli_world \<Rightarrow> time \<Rightarrow> string \<Rightarrow> string \<Rightarrow> 'w \<Rightarrow> (cli_error + Profile) \<times> 'w" where
  "exchangeGitHubTokenWithMorsel cw now apiURL ghToken w =
     (case exchange cw ''build morsel auth request: '' ''morsel github auth: ''
             \<lparr> rq_Method = ''POST'', rq_URL = apiURL @ ''/token/oidc'', rq_Header = [(''Content-Type'', ''application/json'')],
                rq_Body = ''{'' @ quoted ''token'' @ '':'' @ quoted ghToken @ ''}'' \<rparr> w of
        (Inl e, w1) \<Rightarrow> (Inl e, w1)
      | (Inr (status, body), w1) \<Rightarrow>
          (if status = 403 then
             Inl (Plain (''this GitHub account has viewer access only '' @ em_dash @ '' ask a platform admin to grant operator access''))
           else if status \<noteq> 200 then
             Inl (Plain (''morsel auth returned '' @ strconv_Itoa status @ '' '' @ em_dash @
               '' check that the server is running and GitHub OAuth is configured''))
           else (case decode_body cw ''decode morsel auth response: '' decode_pair body of
                   Inl e \<Rightarrow> Inl e
                 | Inr pair \<Rightarrow> Inr (pair_profile cw now apiURL pair)), w1))"

definition CompleteBootstrap ::
  "'w cli_world \<Rightarrow> time \<Rightarrow> string \<Rightarrow> string \<Rightarrow> string \<Rightarrow> 'w \<Rightarrow> (cli_error + Profile) \<times> 'w" where
  "CompleteBootstrap cw now apiURL bootstrapToken idToken w =
     (case exchange cw ''build bootstrap request: '' ''complete bootstrap: ''
             \<lparr> rq_Method = ''POST'', rq_URL = apiURL @ ''/bootstrap'',
                rq_Header = (if idToken \<noteq> [] then [(''Authorization'', ''Bearer '' @ idToken)] else []) @ [(''X-Bootstrap-Token'', bootstrapToken)],
                rq_Body = [] \<rparr> w of
        (Inl e, w1) \<Rightarrow> (Inl e, w1)
      | (Inr (status, body), w1) \<Rightarrow>
          (if status \<noteq> 200 then
             Inl (Plain (''bootstrap returned '' @ strconv_Itoa status @ '' '' @ em_dash @ '' check the bootstrap token and try again''))
           else (case decode_body cw ''decode bootstrap response: '' decode_pair body of
                   Inl e \<Rightarrow> Inl e
                 | Inr pair \<Rightarrow> Inr (pair_profile cw now apiURL pair)), w1))"

text \<open>The login; the clock goes on while it polls.\<close>

definition OperatorLogin :: "'w cli_world \<Rightarrow> string \<Rightarrow> time \<times> 'w \<Rightarrow> ((cli_error + Profile) \<times> time \<times> 'w) option" where
  "OperatorLogin cw apiURL st =
     (case st of (now, w) \<Rightarrow>
        case fetchMorselGitHubClientID cw apiURL w of
          (Inl e, w1) \<Rightarrow> Some (Inl e, now, w1)
        | (Inr clientID, w1) \<Rightarrow>
            if clientID = [] then Some (Inl (Plain ''GitHub OAuth is not configured on this Morsel instance''), now, w1)
            else (case startGitHubDeviceFlow cw clientID w1 of
                    (Inl e, w2) \<Rightarrow> Some (Inl e, now, w2)
                  | (Inr dr, w2) \<Rightarrow>
                      (case pollGitHubDeviceFlow cw clientID dr now w2 of
                         None \<Rightarrow> None
                       | Some (Inl e, _, now1, w3) \<Rightarrow> Some (Inl e, now1, w3)
                       | Some (Inr ghToken, _, now1, w3) \<Rightarrow>
                           (case exchangeGitHubTokenWithMorsel cw now1 apiURL ghToken w3 of (r, w4) \<Rightarrow> Some (r, now1, w4)))))"

text \<open>\<open>morsel operator login\<close>, with the flag and the profile that was loaded.\<close>

definition operatorLoginCmd ::
  "'w cli_world \<Rightarrow> string \<Rightarrow> string \<Rightarrow> Profile option \<Rightarrow> time \<times> 'w \<times> files \<Rightarrow> (cli_error option \<times> time \<times> 'w \<times> files) option" where
  "operatorLoginCmd cw flag profileName prof st =
     (case st of (now, w, disk) \<Rightarrow>
        let apiURL = (if flag \<noteq> [] then flag else case prof of None \<Rightarrow> [] | Some p \<Rightarrow> pf_APIURL p) in
        if apiURL = [] then
          Some (Some (Plain (''no API URL configured '' @ em_dash @ '' provide --api-url to connect to a Morsel instance'')), now, w, disk)
        else (case OperatorLogin cw apiURL (now, w) of
                None \<Rightarrow> None
              | Some (Inl e, now1, w1) \<Rightarrow> Some (Some e, now1, w1, disk)
              | Some (Inr p, now1, w1) \<Rightarrow>
                  (case writeProfile cw profileName p disk of
                     Inl e \<Rightarrow> Some (Some e, now1, w1, disk)
                   | Inr disk1 \<Rightarrow> Some (None, now1, w1, disk1))))"

section \<open>Deploying the platform\<close>

definition ServiceDeployPlatform :: "'w cli_world \<Rightarrow> Profile \<Rightarrow> 'w \<Rightarrow> (cli_error + string) \<times> 'w" where
  "ServiceDeployPlatform cw prof w =
     (case cw_NewClient cw (pf_APIURL prof) (pf_AccessToken prof) of
        Inl e \<Rightarrow> (Inl (Plain (''build api client: '' @ e)), w)
      | Inr c \<Rightarrow>
          (case cw_GetDeploymentInfo cw c w of
             (Inl e, w1) \<Rightarrow> (Inl (wrap ''get deployment info: '' e), w1)
           | (Inr (Answer platform), w1) \<Rightarrow> (Inr platform, w1)
           | (Inr Unauthorized, w1) \<Rightarrow> (Inl StaleCredentials, w1)
           | (Inr Forbidden, w1) \<Rightarrow> (Inl StaleCredentials, w1)
           | (Inr r, w1) \<Rightarrow> (Inl (Plain (''get deployment info: unexpected response type '' @ api_type_name r)), w1)))"

text \<open>The platform to deploy, from the flags and, when logged in, the running instance. \<open>changed\<close>: the flag was given.\<close>

definition choose_platform ::
  "'w cli_world \<Rightarrow> string \<Rightarrow> bool \<Rightarrow> bool \<Rightarrow> Profile option \<Rightarrow> 'w \<Rightarrow> (cli_error + string) \<times> 'w" where
  "choose_platform cw flag changed force prof w =
     (case (prof, force) of
        (Some p, False) \<Rightarrow>
          (case ServiceDeployPlatform cw p w of
             (Inl (Connection _), w1) \<Rightarrow>
               (Inl (Plain (''morsel instance at '' @ pf_APIURL p @ '' is unreachable '' @ em_dash @
                  '' if the cluster was deleted, re-run with --force to recreate it'')), w1)
           | (Inl StaleCredentials, w1) \<Rightarrow>
               (if flag = [] then Inl StaleCredentials else Inr flag, w1)
           | (Inl (Plain e), w1) \<Rightarrow> (Inl (Plain (''get platform from instance: '' @ e)), w1)
           | (Inr name, w1) \<Rightarrow>
               (if changed \<and> flag \<noteq> name
                then Inl (Plain (''instance is running platform '' @ sprintf_q name @ '' but --platform '' @ sprintf_q flag @ '' was specified''))
                else Inr name, w1))
      | _ \<Rightarrow>
          (if flag = [] then
             Inl (Plain (if force then ''--platform is required when using --force'' else ''--platform is required when not logged in''))
           else Inr flag, w))"

definition keep_tokens :: "Profile \<Rightarrow> Profile \<Rightarrow> Profile" where
  "keep_tokens from prof =
     prof\<lparr> pf_AccessToken := pf_AccessToken from, pf_AccessTokenExpiresAt := pf_AccessTokenExpiresAt from,
       pf_RefreshToken := pf_RefreshToken from, pf_RefreshTokenExpiresAt := pf_RefreshTokenExpiresAt from \<rparr>"

text \<open>The end of a first deployment: the login, if GitHub is configured, and the bootstrap as admin.\<close>

definition finish_bootstrap ::
  "'w cli_world \<Rightarrow> string \<Rightarrow> string \<Rightarrow> Profile \<Rightarrow> time \<times> 'w \<times> files \<Rightarrow> (cli_error option \<times> time \<times> 'w \<times> files) option" where
  "finish_bootstrap cw profileName bootstrapToken prof st =
     (case st of (now, w, disk) \<Rightarrow>
        case fetchMorselGitHubClientID cw (pf_APIURL prof) w of (r, w1) \<Rightarrow>
          let login = (case r of
                 Inr (c # cs) \<Rightarrow>
                   map_option (\<lambda>(x, s). (case x of Inl e \<Rightarrow> Inl (wrap ''authenticate: '' e) | Inr p \<Rightarrow> Inr (pf_AccessToken p), s))
                     (OperatorLogin cw (pf_APIURL prof) (now, w1))
               | _ \<Rightarrow> Some (Inr [], now, w1)) in
          (case login of
             None \<Rightarrow> None
           | Some (Inl e, now1, w2) \<Rightarrow> Some (Some e, now1, w2, disk)
           | Some (Inr idToken, now1, w2) \<Rightarrow>
               (case CompleteBootstrap cw now1 (pf_APIURL prof) bootstrapToken idToken w2 of
                  (Inl e, w3) \<Rightarrow> Some (Some (wrap ''complete bootstrap: '' e), now1, w3, disk)
                | (Inr admin, w3) \<Rightarrow>
                    (case writeProfile cw profileName (keep_tokens admin prof) disk of
                       Inl e \<Rightarrow> Some (Some e, now1, w3, disk)
                     | Inr disk1 \<Rightarrow> Some (None, now1, w3, disk1)))))"

text \<open>
  \<open>service deploy\<close>. The platform is an argument: \<open>new\<close> resolves its name, \<open>deploy\<close> provisions it and gives the URL of the
  API and the bootstrap token, which is empty for a platform that is already bootstrapped.
\<close>

definition serviceDeployCmd ::
  "'w cli_world \<Rightarrow> (string \<Rightarrow> string option) \<Rightarrow> (string \<Rightarrow> 'w \<Rightarrow> (cli_error + string \<times> string) \<times> 'w) \<Rightarrow> string \<Rightarrow> string \<Rightarrow> bool \<Rightarrow> bool
     \<Rightarrow> Profile option \<Rightarrow> time \<times> 'w \<times> files \<Rightarrow> (cli_error option \<times> time \<times> 'w \<times> files) option" where
  "serviceDeployCmd cw new deploy profileName flag changed force loaded st =
     (case st of (now, w, disk) \<Rightarrow>
        case choose_platform cw flag changed force loaded w of
          (Inl e, w1) \<Rightarrow> Some (Some e, now, w1, disk)
        | (Inr platform, w1) \<Rightarrow>
            (case new platform of
               Some e \<Rightarrow> Some (Some (Plain (''unknown platform '' @ sprintf_q platform @ '': '' @ e)), now, w1, disk)
             | None \<Rightarrow>
                 (case deploy platform w1 of
                    (Inl e, w2) \<Rightarrow> Some (Some e, now, w2, disk)
                  | (Inr (apiURL, bootstrapToken), w2) \<Rightarrow>
                      let fresh = no_profile\<lparr>pf_APIURL := apiURL\<rparr>;
                          prof = (case loaded of None \<Rightarrow> fresh | Some p \<Rightarrow> keep_tokens p fresh) in
                      (case writeProfile cw profileName prof disk of
                         Inl e \<Rightarrow> Some (Some e, now, w2, disk)
                       | Inr disk1 \<Rightarrow>
                           if bootstrapToken \<noteq> [] then finish_bootstrap cw profileName bootstrapToken prof (now, w2, disk1)
                           else if loaded \<noteq> None then
                             (case silentRefresh cw now prof profileName (w2, disk1) of (_, w3, disk2) \<Rightarrow> Some (None, now, w3, disk2))
                           else Some (None, now, w2, disk1)))))"


section \<open>The device flow ends\<close>

lemma device_answer_positive: "device_answer interval tr = Inr i \<Longrightarrow> 0 < interval \<Longrightarrow> 0 < i"
  by (auto simp: device_answer_def Second_def split: if_splits)

lemma device_round_goes_on:
  assumes "device_round cw clientID dr deadline (interval, now, w) = (None, i1, now1, w1)" "0 < interval"
  shows "0 < i1 \<and> now < now1 \<and> now1 \<le> deadline"
  using assms device_answer_positive [OF _ assms(2)]
  by (auto simp: device_round_def Let_def split: prod.splits option.splits if_splits sum.splits)

lemma device_round_token:
  assumes "device_round cw clientID dr deadline st = (Some (Inr tok), i1, now1, w1)"
  shows "now1 \<le> deadline"
  using assms by (auto simp: device_round_def Let_def split: prod.splits option.splits if_splits sum.splits)


section \<open>Profiles and the refresh endpoint\<close>

definition profile_utf8 :: "Profile \<Rightarrow> bool" where
  "profile_utf8 p \<longleftrightarrow> list_all valid_utf8 [pf_APIURL p, pf_AccessToken p, pf_AccessTokenExpiresAt p, pf_RefreshToken p, pf_RefreshTokenExpiresAt p]"

lemma decode_encode_profile: "decode_profile (encode_profile p) = Some p"
  by (cases p) (simp add: decode_profile_def decode_struct_def encode_profile_def profile_fields_def field_for_def set_profile_def
      into_string_def no_profile_def)

lemma read_written_profile:
  assumes "writeProfile cw name prof disk = Inr disk1" "profile_utf8 prof"
  shows "readProfile cw name disk1 = Inr prof"
proof -
  obtain path where path: "profilePath cw name = Inr path" "disk1 = disk(path \<mapsto> MarshalIndent (encode_profile prof))"
    using assms(1) by (auto simp: writeProfile_def split: sum.splits option.splits)
  have "json_ok (encode_profile prof)" using assms(2) by (simp add: encode_profile_def profile_utf8_def)
  then have "next_value (MarshalIndent (encode_profile prof)) = Some (encode_profile prof, [])"
    using next_value_MarshalIndent [of _ "[]"] by (simp add: ends_def)
  then have "whole_value (MarshalIndent (encode_profile prof)) = Some (encode_profile prof)"
    by (simp add: whole_value_def skip_def)
  then show ?thesis using path by (simp add: readProfile_def decode_encode_profile)
qed

text \<open>The client talks to the refresh endpoint of the API.\<close>

definition refreshes_at :: "db cli_world \<Rightarrow> henv \<Rightarrow> bool" where
  "refreshes_at cw e \<longleftrightarrow>
     (\<forall>url. \<exists>c. cw_NewClient cw url [] = Inr c) \<and>
     (\<forall>c tok d. \<exists>refused. cw_TokenRefresh cw c tok d = (answer_of (\<lambda>_. Inr (Unexpected refused)) (fst (TokenRefresh e d tok)), snd (TokenRefresh e d tok)))"

lemma silentRefresh_answered:
  assumes "refreshes_at cw e" "TokenRefresh e d (pf_RefreshToken prof) = (Inr (Ok resp), d')" "prof1 = with_pair cw now resp prof"
  shows "silentRefresh cw now prof name (d, disk)
           = (case writeProfile cw name prof1 disk of
                Inl x \<Rightarrow> (Inl (wrap ''persist refreshed profile: '' x), d', disk)
              | Inr disk1 \<Rightarrow> (Inr prof1, d', disk1))"
proof -
  obtain c where c: "cw_NewClient cw (pf_APIURL prof) [] = Inr c" using assms(1) unfolding refreshes_at_def by blast
  have "pf_RefreshToken prof \<noteq> []" using assms(2) by (auto simp: TokenRefresh_def)
  moreover obtain x where "cw_TokenRefresh cw c (pf_RefreshToken prof) d
      = (answer_of (\<lambda>_. Inr (Unexpected x)) (fst (TokenRefresh e d (pf_RefreshToken prof))), snd (TokenRefresh e d (pf_RefreshToken prof)))"
    using assms(1) unfolding refreshes_at_def by blast
  then have "cw_TokenRefresh cw c (pf_RefreshToken prof) d = (Inr (Answer resp), d')"
    by (simp add: assms(2) answer_of_def)
  ultimately show ?thesis using c unfolding assms(3) by (simp add: silentRefresh_def Let_def)
qed

lemma silentRefresh_refused:
  assumes "refreshes_at cw e" "TokenRefresh e d (pf_RefreshToken prof) = (Inr (Typed 401 det), d')"
  shows "silentRefresh cw now prof name (d, disk) = (Inl session_expired, d', disk) \<or> pf_RefreshToken prof = []"
proof -
  obtain c where c: "cw_NewClient cw (pf_APIURL prof) [] = Inr c" using assms(1) unfolding refreshes_at_def by blast
  obtain x where "cw_TokenRefresh cw c (pf_RefreshToken prof) d
      = (answer_of (\<lambda>_. Inr (Unexpected x)) (fst (TokenRefresh e d (pf_RefreshToken prof))), snd (TokenRefresh e d (pf_RefreshToken prof)))"
    using assms(1) unfolding refreshes_at_def by blast
  then have "cw_TokenRefresh cw c (pf_RefreshToken prof) d = (Inr (Unexpected (ed_Code det)), d')"
    by (simp add: assms(2) answer_of_def)
  then show ?thesis using c by (auto simp: silentRefresh_def)
qed


text \<open>
  C38. \<^bold>\<open>The refresh of a profile, end to end.\<close> A command that runs after the access token has expired goes on with the new
  pair of tokens, stores it, and a command before the new expiry reads it back and talks to no one. If the new profile cannot be
  written, however, the command has no session, and since the server has rotated the token, no later command
  gets one: the stored token is refused for ever.
\<close>

theorem cli_refresh_end_to_end:
  assumes "wf_db d" "refreshes_at cw e" "readProfile cw name disk = Inr prof"
    and "pf_AccessTokenExpiresAt prof \<noteq> []" "cw_Parse cw (pf_AccessTokenExpiresAt prof) = Some expiry" "expiry \<le> now"
    and "TokenRefresh e d (pf_RefreshToken prof) = (Inr (Ok resp), d')"
    and "b64_Decode (pf_RefreshToken prof) = Some raw" "rand32 e = Inr newRaw" "HashRefreshToken e newRaw \<noteq> HashRefreshToken e raw"
    and "prof1 = with_pair cw now resp prof" "profile_utf8 prof1"
    and "pf_AccessTokenExpiresAt prof1 \<noteq> []" "cw_Parse cw (pf_AccessTokenExpiresAt prof1) = Some expiry1" "t < expiry1"
    and "expiry \<le> u" "d1 = d'\<lparr>db_now := u, db_fault := \<lambda>_. None\<rparr>"
  shows "(\<forall>disk1. writeProfile cw name prof1 disk = Inr disk1 \<longrightarrow>
            LoadProfile cw now name True (d, disk) = (Inr prof1, d', disk1) \<and>
            LoadProfile cw t name True (d', disk1) = (Inr prof1, d', disk1)) \<and>
         (\<forall>x. writeProfile cw name prof1 disk = Inl x \<longrightarrow>
            loadProfilePreRun cw now name (d, disk) = (None, d', disk) \<and>
            loadProfilePreRun (cw\<lparr>cw_Mkdir := None, cw_Write := None\<rparr>) u name (d1, disk) = (None, d1, disk))"
proof (intro conjI allI impI)
  note refresh = silentRefresh_answered [OF assms(2,7,11), of name disk]
  have load: "LoadProfile cw now name True (d, disk) = silentRefresh cw now prof name (d, disk)"
    using assms(3-6) by (simp add: LoadProfile_def)
  { fix disk1 assume w: "writeProfile cw name prof1 disk = Inr disk1"
    show "LoadProfile cw now name True (d, disk) = (Inr prof1, d', disk1)" using load refresh w by simp
    show "LoadProfile cw t name True (d', disk1) = (Inr prof1, d', disk1)"
      using read_written_profile [OF w assms(12)] assms(13-15) by (simp add: LoadProfile_def) }
  { fix x assume w: "writeProfile cw name prof1 disk = Inl x"
    show "loadProfilePreRun cw now name (d, disk) = (None, d', disk)"
      using load refresh w by (simp add: loadProfilePreRun_def)
    let ?cw = "cw\<lparr>cw_Mkdir := None, cw_Write := None\<rparr>"
    have "readProfile ?cw name disk = Inr prof" using assms(3) by (auto simp: readProfile_def profilePath_def split: sum.splits option.splits)
    moreover have "refreshes_at ?cw e" using assms(2) by (simp add: refreshes_at_def)
    moreover have "pf_RefreshToken prof \<noteq> []" using assms(7) by (auto simp: TokenRefresh_def)
    moreover note TokenRefresh_reuse_refused [OF assms(1,7,8,9,10), of u, folded assms(17)]
    ultimately show "loadProfilePreRun ?cw u name (d1, disk) = (None, d1, disk)"
      using silentRefresh_refused [of ?cw e d1 prof _ d1 u name disk] assms(4,5,16)
      by (auto simp: loadProfilePreRun_def LoadProfile_def) }
qed

section \<open>Instances\<close>

text \<open>A client of the sample installation; instants are written as their seconds, and GitHub never gives a token.\<close>

definition sample_world :: "db cli_world" where
  "sample_world = \<lparr> cw_Home = Inr ''/home/u'', cw_ReadErr = \<lambda>_. ''no such file'', cw_JSONErr = \<lambda>_. ''bad'', cw_Mkdir = None, cw_Write = None,
     cw_Remove = \<lambda>_. None, cw_Format = \<lambda>t. strconv_Itoa (t div Second), cw_Parse = \<lambda>s. map_option (\<lambda>i. i * Second) (parse_int s),
     cw_NewClient = \<lambda>u t. Inr \<lparr> cl_URL = u, cl_Token = t \<rparr>,
     cw_TokenRefresh = \<lambda>c tok d. (answer_of (\<lambda>_. Inr (Unexpected [])) (fst (TokenRefresh sample_env d tok)), snd (TokenRefresh sample_env d tok)),
     cw_GetDeploymentInfo = \<lambda>_ w. (Inr Forbidden, w), cw_NewRequest = \<lambda>_. None,
     cw_Do = \<lambda>_ w. (Inr (200, Inr ''{}''), w), cw_Wait = \<lambda>_ w. (None, 0, w) \<rparr>"


definition old_profile :: Profile where
  "old_profile = \<lparr> pf_APIURL = ''http://api'', pf_AccessToken = ''jwt'', pf_AccessTokenExpiresAt = ''0'', pf_RefreshToken = ''YQ'', pf_RefreshTokenExpiresAt = [] \<rparr>"


definition new_profile :: Profile where
  "new_profile = \<lparr> pf_APIURL = ''http://api'', pf_AccessToken = ''jwt'', pf_AccessTokenExpiresAt = ''900'', pf_RefreshToken = ''Yg'',
     pf_RefreshTokenExpiresAt = ''7776000'' \<rparr>"

lemma sample_profiles: "profile_utf8 old_profile" "profile_utf8 new_profile"
  by (simp_all add: profile_utf8_def old_profile_def new_profile_def)

lemma cli_refresh_end_to_end_witness:
  "\<exists>disk d' disk1. readProfile sample_world ''default'' disk = Inr old_profile \<and>
     LoadProfile sample_world 50 ''default'' True (sample_db, disk) = (Inr new_profile, d', disk1) \<and>
     LoadProfile sample_world 60 ''default'' True (d', disk1) = (Inr new_profile, d', disk1)"
proof -
  obtain disk where disk: "writeProfile sample_world ''default'' old_profile Map.empty = Inr disk"
    by (simp add: writeProfile_def profilePath_def sample_world_def)
  obtain disk1 where disk1: "writeProfile sample_world ''default'' new_profile disk = Inr disk1"
    by (simp add: writeProfile_def profilePath_def sample_world_def)
  note rd = read_written_profile [OF disk sample_profiles(1)]
  obtain resp d' where r: "TokenRefresh sample_env sample_db ''YQ'' = (Inr (Ok resp), d')"
    and resp: "resp = \<lparr> tp_AccessToken = ''jwt'', tp_RefreshToken = ''Yg'', tp_ExpiresIn = 900, tp_RefreshExpiresIn = 7776000 \<rparr>"
    using sample_refresh by (cases "TokenRefresh sample_env sample_db ''YQ''") auto
  have rt: "pf_RefreshToken old_profile = ''YQ''" by (simp add: old_profile_def)
  have rnd: "rand32 sample_env = Inr ''b''" "HashRefreshToken sample_env ''b'' \<noteq> HashRefreshToken sample_env ''a''"
    by (simp_all add: sample_env_def HashRefreshToken_def hex_ab)
  have num: "strconv_Itoa 900 = ''900''" "strconv_Itoa 7776000 = ''7776000''" "parse_int ''0'' = Some 0" "parse_int ''900'' = Some 900"
    by (simp_all add: strconv_Itoa_def show_nat.simps parse_int_def strings_HasPrefix_def digits_val_def json_digit_def int64_min_def int64_max_def
        char_of_eq_iff)
  have new: "new_profile = with_pair sample_world 50 resp old_profile"
    by (simp add: new_profile_def with_pair_def old_profile_def resp expires_def sample_world_def Second_def num)
  have at: "refreshes_at sample_world sample_env" by (auto simp: refreshes_at_def sample_world_def)
  have old_exp: "pf_AccessTokenExpiresAt old_profile \<noteq> []" "cw_Parse sample_world (pf_AccessTokenExpiresAt old_profile) = Some 0" "(0 :: int) \<le> 50"
    by (simp_all add: old_profile_def sample_world_def num)
  have new_exp: "pf_AccessTokenExpiresAt new_profile \<noteq> []" "cw_Parse sample_world (pf_AccessTokenExpiresAt new_profile) = Some (900 * Second)" "60 < 900 * Second"
    by (simp_all add: new_profile_def sample_world_def num Second_def)
  from cli_refresh_end_to_end [OF sample_wf at rd old_exp r [folded rt] sample_raw [folded rt] rnd new sample_profiles(2) new_exp old_exp(3) refl]
  have "LoadProfile sample_world 50 ''default'' True (sample_db, disk) = (Inr new_profile, d', disk1) \<and>
      LoadProfile sample_world 60 ''default'' True (d', disk1) = (Inr new_profile, d', disk1)" using disk1 by simp
  then show ?thesis using rd by (intro exI [of _ disk] exI [of _ d'] exI [of _ disk1] conjI) simp_all
qed

end
