(* ===== verification/Cli_Operator.thy ===== *)
theory Cli_Operator
  imports Cli_Auth Repos
begin

text \<open>
  The operator's commands of the command line client: tiers (\<open>cli/operator_tier.go\<close>), principals
  (\<open>cli/operator_principal.go\<close>), exemptions (\<open>cli/operator_exempt.go\<close>), \<open>operator logout\<close>, the teardown advice of
  \<open>service delete\<close>, and the prompts of the console (\<open>cli/prompter.go\<close>).

  A handler returns the text that it prints. The calls of the generated API client are the fields of \<open>operator_api\<close>.
  The flags of a command are its arguments; that required flags are given is checked by the command library.
\<close>

section \<open>Output\<close>

definition nl :: string where "nl = [CHR 0x0A]"

definition check_mark :: string where "check_mark = [CHR 0xE2, CHR 0x9C, CHR 0x93, CHR '' '']"

text \<open>Widths of \<open>fmt\<close> count runes; a byte that starts no rune counts as one.\<close>

function rune_count :: "string \<Rightarrow> nat" where
  "rune_count [] = 0"
| "rune_count (c # cs) = Suc (rune_count (drop (case rune_len (c # cs) of None \<Rightarrow> 1 | Some n \<Rightarrow> n) (c # cs)))"
  by pat_completeness auto
termination
  by (relation "measure length") (auto dest!: rune_len_bounds split: option.splits)

definition pad_right :: "nat \<Rightarrow> string \<Rightarrow> string" where
  "pad_right n s = s @ replicate (n - rune_count s) CHR '' ''"

definition pad_left :: "nat \<Rightarrow> string \<Rightarrow> string" where
  "pad_left n s = replicate (n - rune_count s) CHR '' '' @ s"

section \<open>The client\<close>

record 'w operator_api =
  opc_NewClient :: "string \<Rightarrow> string \<Rightarrow> string + Client"
  opc_ListTiers :: "Client \<Rightarrow> 'w \<Rightarrow> (cli_error + OAS_Tier list api_res) \<times> 'w"
  opc_CreateTier :: "Client \<Rightarrow> CreateTierReq \<Rightarrow> 'w \<Rightarrow> (cli_error + OAS_Tier api_res) \<times> 'w"
  opc_UpdateTier :: "Client \<Rightarrow> UpdateTierReq \<Rightarrow> string \<Rightarrow> 'w \<Rightarrow> (cli_error + OAS_Tier api_res) \<times> 'w"
  opc_SetDefaultTier :: "Client \<Rightarrow> string \<Rightarrow> 'w \<Rightarrow> (cli_error + OAS_Tier api_res) \<times> 'w"
  opc_DeleteTier :: "Client \<Rightarrow> string \<Rightarrow> 'w \<Rightarrow> (cli_error + unit api_res) \<times> 'w"
  opc_AddOperatorPrincipal :: "Client \<Rightarrow> string \<Rightarrow> 'w \<Rightarrow> (cli_error + principals_resp api_res) \<times> 'w"
  opc_RemoveOperatorPrincipal :: "Client \<Rightarrow> string \<Rightarrow> 'w \<Rightarrow> (cli_error + principals_resp api_res) \<times> 'w"
  opc_ListOperatorPrincipals :: "Client \<Rightarrow> 'w \<Rightarrow> (cli_error + principals_resp api_res) \<times> 'w"
  opc_AddAppExemption :: "Client \<Rightarrow> string \<Rightarrow> string \<Rightarrow> 'w \<Rightarrow> (cli_error + unit api_res) \<times> 'w"
  opc_RemoveAppExemption :: "Client \<Rightarrow> string \<Rightarrow> string \<Rightarrow> string \<Rightarrow> 'w \<Rightarrow> (cli_error + unit api_res) \<times> 'w"
  opc_AddRepoExemption :: "Client \<Rightarrow> string \<Rightarrow> 'w \<Rightarrow> (cli_error + unit api_res) \<times> 'w"
  opc_RemoveRepoExemption :: "Client \<Rightarrow> string \<Rightarrow> string \<Rightarrow> 'w \<Rightarrow> (cli_error + unit api_res) \<times> 'w"
  opc_GetDeploymentInfo :: "Client \<Rightarrow> 'w \<Rightarrow> (cli_error + string api_res) \<times> 'w"

definition clientFor :: "'w operator_api \<Rightarrow> Profile \<Rightarrow> cli_error + Client" where
  "clientFor a prof =
     (case opc_NewClient a (pf_APIURL prof) (pf_AccessToken prof) of
        Inl e \<Rightarrow> Inl (Plain (''build api client: '' @ e))
      | Inr c \<Rightarrow> Inr c)"

text \<open>A request and the test of the type of its response; any other type is an error.\<close>

definition expect :: "string \<Rightarrow> (cli_error + 'a api_res) \<times> 'w \<Rightarrow> (cli_error + 'a) \<times> 'w" where
  "expect pre r =
     (case r of
        (Inl e, w) \<Rightarrow> (Inl (wrap pre e), w)
      | (Inr (Answer x), w) \<Rightarrow> (Inr x, w)
      | (Inr x, w) \<Rightarrow> (Inl (unexpected x), w))"

definition printing :: "('a \<Rightarrow> string) \<Rightarrow> (cli_error + 'a) \<times> 'w \<Rightarrow> (cli_error + string) \<times> 'w" where
  "printing f r = (case r of (Inl e, w) \<Rightarrow> (Inl e, w) | (Inr x, w) \<Rightarrow> (Inr (f x), w))"

text \<open>Every command starts with the profile.\<close>

definition with_profile :: "Profile option \<Rightarrow> (Profile \<Rightarrow> (cli_error + string) \<times> 'w) \<Rightarrow> 'w \<Rightarrow> (cli_error + string) \<times> 'w" where
  "with_profile p h w = (case requireProfile p of Inl e \<Rightarrow> (Inl e, w) | Inr prof \<Rightarrow> h prof)"

section \<open>Floating point numbers\<close>

text \<open>
  The flag \<open>--cpu\<close> is a float64: a mantissa of at most 53 bits and a binary exponent. The product is rounded to the
  nearest number of 53 bits, to the even one of two; the conversion to \<open>int\<close> drops the fraction. Numbers whose
  conversion exceeds \<open>int\<close> are implementation-defined in Go and not covered.
\<close>

type_synonym float64 = "int \<times> int"

fun bits :: "nat \<Rightarrow> nat" where
  "bits n = (if n = 0 then 0 else Suc (bits (n div 2)))"

declare bits.simps [simp del]

definition round_even :: "int \<Rightarrow> nat \<Rightarrow> int" where
  "round_even m k =
     (let q = m div 2 ^ k; r = m mod 2 ^ k in if 2 * r > 2 ^ k \<or> 2 * r = 2 ^ k \<and> odd q then q + 1 else q)"

definition float_mul :: "float64 \<Rightarrow> float64 \<Rightarrow> float64" where
  "float_mul x y =
     (let m = fst x * fst y; e = snd x + snd y; k = bits (nat \<bar>m\<bar>) - 53
      in (sgn m * round_even \<bar>m\<bar> k, e + int k))"

definition float_int :: "float64 \<Rightarrow> int" where
  "float_int x =
     (case x of (m, e) \<Rightarrow> if e \<ge> 0 then m * 2 ^ nat e else sgn m * (\<bar>m\<bar> div 2 ^ nat (- e)))"

section \<open>Tiers\<close>

record TierFlags =
  tf_Name :: string
  tf_MaxApps :: int
  tf_CPU :: float64
  tf_MemoryMB :: int
  tf_BlobGB :: int
  tf_DatabaseGB :: int
  tf_QueuesGB :: int
  tf_HibernateAfter :: string

definition cpu_milli :: "TierFlags \<Rightarrow> int" where
  "cpu_milli flags = float_int (float_mul (tf_CPU flags) (1000, 0))"

definition tier_row :: "OAS_Tier \<Rightarrow> string" where
  "tier_row t =
     pad_right 12 (ot_Name t) @ ''  '' @ pad_left 8 (strconv_Itoa (ot_MaxApps t)) @ ''  '' @
     pad_left 5 (strconv_Itoa (ot_CPUMilli t)) @ ''m  '' @ pad_left 6 (strconv_Itoa (ot_MemoryMB t)) @ ''MB  '' @
     pad_left 4 (strconv_Itoa (ot_BlobGB t)) @ ''GB  '' @ pad_left 6 (strconv_Itoa (ot_DatabaseGB t)) @ ''GB  '' @
     pad_left 5 (strconv_Itoa (ot_QueueGB t)) @ ''GB  '' @ pad_left 11 (ot_HibernateAfter t) @ ''  '' @
     (if ot_IsDefault t then ''*'' else []) @ nl"

definition tier_header :: string where
  "tier_header =
     pad_right 12 ''NAME'' @ ''  '' @ pad_left 8 ''MAX-APPS'' @ ''  '' @ pad_left 6 ''CPU'' @ ''  '' @ pad_left 8 ''MEMORY'' @ ''  '' @
     pad_left 6 ''BLOB'' @ ''  '' @ pad_left 8 ''DATABASE'' @ ''  '' @ pad_left 7 ''QUEUES'' @ ''  '' @ pad_left 11 ''IDLE-AFTER'' @
     ''  DEFAULT'' @ nl"

definition TierList :: "'w operator_api \<Rightarrow> Profile \<Rightarrow> 'w \<Rightarrow> (cli_error + string) \<times> 'w" where
  "TierList a prof w =
     (case clientFor a prof of
        Inl e \<Rightarrow> (Inl e, w)
      | Inr c \<Rightarrow>
          printing (\<lambda>tiers. if tiers = [] then ''  (no tiers configured)'' @ nl else tier_header @ concat (map tier_row tiers))
            (expect ''list tiers: '' (opc_ListTiers a c w)))"

definition TierCreate :: "'w operator_api \<Rightarrow> Profile \<Rightarrow> TierFlags \<Rightarrow> 'w \<Rightarrow> (cli_error + string) \<times> 'w" where
  "TierCreate a prof flags w =
     (case clientFor a prof of
        Inl e \<Rightarrow> (Inl e, w)
      | Inr c \<Rightarrow>
          printing (\<lambda>_. check_mark @ ''Tier '' @ sprintf_q (tf_Name flags) @ '' created.'' @ nl)
            (expect ''create tier: '' (opc_CreateTier a c
               \<lparr> ct_Name = tf_Name flags, ct_MaxApps = tf_MaxApps flags, ct_CPUMilli = cpu_milli flags,
                  ct_MemoryMB = tf_MemoryMB flags, ct_BlobGB = tf_BlobGB flags, ct_DatabaseGB = tf_DatabaseGB flags,
                  ct_QueueGB = tf_QueuesGB flags, ct_HibernateAfter = tf_HibernateAfter flags \<rparr> w)))"

text \<open>Only flags that are not zero are sent.\<close>

definition unless_zero :: "'a \<Rightarrow> 'a \<Rightarrow> 'a option" where
  "unless_zero z x = (if x = z then None else Some x)"

definition edit_request :: "TierFlags \<Rightarrow> UpdateTierReq" where
  "edit_request flags =
     \<lparr> ut_MaxApps = unless_zero 0 (tf_MaxApps flags),
        ut_CPUMilli = (if fst (tf_CPU flags) = 0 then None else Some (cpu_milli flags)),
        ut_MemoryMB = unless_zero 0 (tf_MemoryMB flags), ut_BlobGB = unless_zero 0 (tf_BlobGB flags),
        ut_DatabaseGB = unless_zero 0 (tf_DatabaseGB flags), ut_QueueGB = unless_zero 0 (tf_QueuesGB flags),
        ut_HibernateAfter = unless_zero [] (tf_HibernateAfter flags) \<rparr>"

definition TierEdit :: "'w operator_api \<Rightarrow> Profile \<Rightarrow> TierFlags \<Rightarrow> 'w \<Rightarrow> (cli_error + string) \<times> 'w" where
  "TierEdit a prof flags w =
     (case clientFor a prof of
        Inl e \<Rightarrow> (Inl e, w)
      | Inr c \<Rightarrow>
          printing (\<lambda>_. check_mark @ ''Tier '' @ sprintf_q (tf_Name flags) @ '' updated.'' @ nl)
            (expect ''edit tier: '' (opc_UpdateTier a c (edit_request flags) (tf_Name flags) w)))"

definition TierSetDefault :: "'w operator_api \<Rightarrow> Profile \<Rightarrow> string \<Rightarrow> 'w \<Rightarrow> (cli_error + string) \<times> 'w" where
  "TierSetDefault a prof name w =
     (case clientFor a prof of
        Inl e \<Rightarrow> (Inl e, w)
      | Inr c \<Rightarrow>
          printing (\<lambda>_. check_mark @ ''Default tier set to '' @ sprintf_q name @ ''.'' @ nl)
            (expect ''set default tier: '' (opc_SetDefaultTier a c name w)))"

definition TierDelete :: "'w operator_api \<Rightarrow> Profile \<Rightarrow> string \<Rightarrow> 'w \<Rightarrow> (cli_error + string) \<times> 'w" where
  "TierDelete a prof name w =
     (case clientFor a prof of
        Inl e \<Rightarrow> (Inl e, w)
      | Inr c \<Rightarrow>
          printing (\<lambda>_. check_mark @ ''Tier '' @ sprintf_q name @ '' deleted.'' @ nl)
            (expect ''delete tier: '' (opc_DeleteTier a c name w)))"

definition operatorTierListCmd :: "'w operator_api \<Rightarrow> Profile option \<Rightarrow> 'w \<Rightarrow> (cli_error + string) \<times> 'w" where
  "operatorTierListCmd a p w = with_profile p (\<lambda>prof. TierList a prof w) w"

definition operatorTierCreateCmd :: "'w operator_api \<Rightarrow> Profile option \<Rightarrow> TierFlags \<Rightarrow> 'w \<Rightarrow> (cli_error + string) \<times> 'w" where
  "operatorTierCreateCmd a p flags w = with_profile p (\<lambda>prof. TierCreate a prof flags w) w"

definition operatorTierEditCmd :: "'w operator_api \<Rightarrow> Profile option \<Rightarrow> TierFlags \<Rightarrow> 'w \<Rightarrow> (cli_error + string) \<times> 'w" where
  "operatorTierEditCmd a p flags w = with_profile p (\<lambda>prof. TierEdit a prof flags w) w"

definition operatorTierSetDefaultCmd :: "'w operator_api \<Rightarrow> Profile option \<Rightarrow> string \<Rightarrow> 'w \<Rightarrow> (cli_error + string) \<times> 'w" where
  "operatorTierSetDefaultCmd a p name w = with_profile p (\<lambda>prof. TierSetDefault a prof name w) w"

definition operatorTierDeleteCmd :: "'w operator_api \<Rightarrow> Profile option \<Rightarrow> string \<Rightarrow> 'w \<Rightarrow> (cli_error + string) \<times> 'w" where
  "operatorTierDeleteCmd a p name w = with_profile p (\<lambda>prof. TierDelete a prof name w) w"

section \<open>Principals\<close>

definition OperatorPrincipalAdd :: "'w operator_api \<Rightarrow> Profile \<Rightarrow> string \<Rightarrow> 'w \<Rightarrow> (cli_error + string) \<times> 'w" where
  "OperatorPrincipalAdd a prof login w =
     (case clientFor a prof of
        Inl e \<Rightarrow> (Inl e, w)
      | Inr c \<Rightarrow>
          printing (\<lambda>_. ''Granted operator role to '' @ login @ ''.'' @ nl)
            (expect ''grant operator: '' (opc_AddOperatorPrincipal a c login w)))"

definition OperatorPrincipalRemove :: "'w operator_api \<Rightarrow> Profile \<Rightarrow> string \<Rightarrow> 'w \<Rightarrow> (cli_error + string) \<times> 'w" where
  "OperatorPrincipalRemove a prof login w =
     (case clientFor a prof of
        Inl e \<Rightarrow> (Inl e, w)
      | Inr c \<Rightarrow>
          printing (\<lambda>_. ''Removed '' @ login @ ''.'' @ nl)
            (expect ''remove principal: '' (opc_RemoveOperatorPrincipal a c login w)))"

definition principal_row :: "string \<times> bool \<times> bool \<Rightarrow> string" where
  "principal_row p =
     (case p of (login, _, isAdmin) \<Rightarrow>
        ''  '' @ pad_right 30 login @ '' '' @ (if isAdmin then ''admin'' else ''operator'') @ nl)"

definition OperatorPrincipalList :: "'w operator_api \<Rightarrow> Profile \<Rightarrow> 'w \<Rightarrow> (cli_error + string) \<times> 'w" where
  "OperatorPrincipalList a prof w =
     (case clientFor a prof of
        Inl e \<Rightarrow> (Inl e, w)
      | Inr c \<Rightarrow>
          printing (\<lambda>ps. if ps = [] then ''  (no principals configured)'' @ nl else concat (map principal_row ps))
            (expect ''list principals: '' (opc_ListOperatorPrincipals a c w)))"

text \<open>\<open>url.PathEscape\<close>.\<close>

definition path_char :: "char \<Rightarrow> string" where
  "path_char c =
     (if unreserved c \<or> c \<in> {CHR ''$'', CHR ''&'', CHR ''+'', CHR '':'', CHR ''='', CHR ''@''} then [c]
      else [CHR ''%'', upperhex (of_char c div 16), upperhex (of_char c mod 16)])"

definition PathEscape :: "string \<Rightarrow> string" where
  "PathEscape s = concat (map path_char s)"

text \<open>The body of the request: a flag that is nil is left out.\<close>

definition patch_body :: "bool option \<Rightarrow> bool option \<Rightarrow> string" where
  "patch_body isOperator isAdmin =
     (let member = (\<lambda>k v. case v of None \<Rightarrow> [] | Some b \<Rightarrow> [quoted k @ '':'' @ (if b then ''true'' else ''false'')])
      in ''{'' @ strings_Join (member ''is_operator'' isOperator @ member ''is_admin'' isAdmin) '','' @ ''}'')"

definition OperatorPrincipalPatch ::
  "'w cli_world \<Rightarrow> Profile \<Rightarrow> string \<Rightarrow> bool option \<Rightarrow> bool option \<Rightarrow> 'w \<Rightarrow> (cli_error + string) \<times> 'w" where
  "OperatorPrincipalPatch cw prof login isOperator isAdmin w =
     (case exchange cw ''build request: '' ''patch principal: ''
             \<lparr> rq_Method = ''PATCH'', rq_URL = pf_APIURL prof @ ''/api/operator/principals/'' @ PathEscape login,
                rq_Header = [(''Content-Type'', ''application/json''), (''Authorization'', ''Bearer '' @ pf_AccessToken prof)],
                rq_Body = patch_body isOperator isAdmin \<rparr> w of
        (Inl e, w1) \<Rightarrow> (Inl e, w1)
      | (Inr (status, _), w1) \<Rightarrow>
          (if status = 200 then Inr (''Updated roles for '' @ login @ ''.'' @ nl)
           else if status = 404 then Inl (Plain (''principal '' @ sprintf_q login @ '' not found''))
           else if status = 403 then Inl (Plain ''admin role required to manage principals'')
           else Inl (Plain (''patch returned '' @ strconv_Itoa status)), w1))"

definition operatorPrincipalListCmd :: "'w operator_api \<Rightarrow> Profile option \<Rightarrow> 'w \<Rightarrow> (cli_error + string) \<times> 'w" where
  "operatorPrincipalListCmd a p w = with_profile p (\<lambda>prof. OperatorPrincipalList a prof w) w"

definition operatorPrincipalGrantOperatorCmd :: "'w operator_api \<Rightarrow> Profile option \<Rightarrow> string \<Rightarrow> 'w \<Rightarrow> (cli_error + string) \<times> 'w" where
  "operatorPrincipalGrantOperatorCmd a p login w = with_profile p (\<lambda>prof. OperatorPrincipalAdd a prof login w) w"

definition operatorPrincipalRevokeOperatorCmd :: "'w cli_world \<Rightarrow> Profile option \<Rightarrow> string \<Rightarrow> 'w \<Rightarrow> (cli_error + string) \<times> 'w" where
  "operatorPrincipalRevokeOperatorCmd cw p login w =
     with_profile p (\<lambda>prof. OperatorPrincipalPatch cw prof login (Some False) None w) w"

definition operatorPrincipalGrantAdminCmd :: "'w cli_world \<Rightarrow> Profile option \<Rightarrow> string \<Rightarrow> 'w \<Rightarrow> (cli_error + string) \<times> 'w" where
  "operatorPrincipalGrantAdminCmd cw p login w =
     with_profile p (\<lambda>prof. OperatorPrincipalPatch cw prof login None (Some True) w) w"

definition operatorPrincipalRevokeAdminCmd :: "'w cli_world \<Rightarrow> Profile option \<Rightarrow> string \<Rightarrow> 'w \<Rightarrow> (cli_error + string) \<times> 'w" where
  "operatorPrincipalRevokeAdminCmd cw p login w =
     with_profile p (\<lambda>prof. OperatorPrincipalPatch cw prof login None (Some False) w) w"

definition operatorPrincipalRemoveCmd :: "'w operator_api \<Rightarrow> Profile option \<Rightarrow> string \<Rightarrow> 'w \<Rightarrow> (cli_error + string) \<times> 'w" where
  "operatorPrincipalRemoveCmd a p login w = with_profile p (\<lambda>prof. OperatorPrincipalRemove a prof login w) w"

section \<open>Exemptions\<close>

definition AppExemptAdd :: "'w operator_api \<Rightarrow> Profile \<Rightarrow> string \<Rightarrow> string \<Rightarrow> 'w \<Rightarrow> (cli_error + string) \<times> 'w" where
  "AppExemptAdd a prof repo app w =
     (case clientFor a prof of
        Inl e \<Rightarrow> (Inl e, w)
      | Inr c \<Rightarrow>
          printing (\<lambda>_. check_mark @ ''App '' @ app @ '' in '' @ repo @ '' is now exempt from budget enforcement.'' @ nl)
            (expect ''add app exemption: '' (opc_AddAppExemption a c repo app w)))"

definition invalid_repo :: "string \<Rightarrow> cli_error" where
  "invalid_repo repo = Plain (''invalid repo format '' @ sprintf_q repo @ '': expected org/repo'')"

definition AppExemptRemove :: "'w operator_api \<Rightarrow> Profile \<Rightarrow> string \<Rightarrow> string \<Rightarrow> 'w \<Rightarrow> (cli_error + string) \<times> 'w" where
  "AppExemptRemove a prof repo app w =
     (case clientFor a prof of
        Inl e \<Rightarrow> (Inl e, w)
      | Inr c \<Rightarrow>
          (case strings_Cut repo (CHR ''/'') of (org, repoName, ok) \<Rightarrow>
             if \<not> ok then (Inl (invalid_repo repo), w)
             else printing (\<lambda>_. check_mark @ ''Budget exemption removed for app '' @ app @ '' in '' @ repo @ ''.'' @ nl)
                    (expect ''remove app exemption: '' (opc_RemoveAppExemption a c org repoName app w))))"

definition RepoExemptAdd :: "'w operator_api \<Rightarrow> Profile \<Rightarrow> string \<Rightarrow> 'w \<Rightarrow> (cli_error + string) \<times> 'w" where
  "RepoExemptAdd a prof repo w =
     (case clientFor a prof of
        Inl e \<Rightarrow> (Inl e, w)
      | Inr c \<Rightarrow>
          printing (\<lambda>_. check_mark @ ''All apps in '' @ repo @ '' are now exempt from budget enforcement.'' @ nl)
            (expect ''add repo exemption: '' (opc_AddRepoExemption a c repo w)))"

definition RepoExemptRemove :: "'w operator_api \<Rightarrow> Profile \<Rightarrow> string \<Rightarrow> 'w \<Rightarrow> (cli_error + string) \<times> 'w" where
  "RepoExemptRemove a prof repo w =
     (case clientFor a prof of
        Inl e \<Rightarrow> (Inl e, w)
      | Inr c \<Rightarrow>
          (case strings_Cut repo (CHR ''/'') of (org, repoName, ok) \<Rightarrow>
             if \<not> ok then (Inl (invalid_repo repo), w)
             else printing (\<lambda>_. check_mark @ ''Budget exemption removed for all apps in '' @ repo @ ''.'' @ nl)
                    (expect ''remove repo exemption: '' (opc_RemoveRepoExemption a c org repoName w))))"

definition operatorAppExemptAddCmd :: "'w operator_api \<Rightarrow> Profile option \<Rightarrow> string \<Rightarrow> string \<Rightarrow> 'w \<Rightarrow> (cli_error + string) \<times> 'w" where
  "operatorAppExemptAddCmd a p repo app w = with_profile p (\<lambda>prof. AppExemptAdd a prof repo app w) w"

definition operatorAppExemptRemoveCmd :: "'w operator_api \<Rightarrow> Profile option \<Rightarrow> string \<Rightarrow> string \<Rightarrow> 'w \<Rightarrow> (cli_error + string) \<times> 'w" where
  "operatorAppExemptRemoveCmd a p repo app w = with_profile p (\<lambda>prof. AppExemptRemove a prof repo app w) w"

definition operatorRepoExemptAddCmd :: "'w operator_api \<Rightarrow> Profile option \<Rightarrow> string \<Rightarrow> 'w \<Rightarrow> (cli_error + string) \<times> 'w" where
  "operatorRepoExemptAddCmd a p repo w = with_profile p (\<lambda>prof. RepoExemptAdd a prof repo w) w"

definition operatorRepoExemptRemoveCmd :: "'w operator_api \<Rightarrow> Profile option \<Rightarrow> string \<Rightarrow> 'w \<Rightarrow> (cli_error + string) \<times> 'w" where
  "operatorRepoExemptRemoveCmd a p repo w = with_profile p (\<lambda>prof. RepoExemptRemove a prof repo w) w"

section \<open>Logout and teardown\<close>

definition OperatorLogout :: "Profile \<Rightarrow> cli_error option" where
  "OperatorLogout _ = Some (Plain ''not yet implemented'')"

definition operatorLogoutCmd :: "'w cli_world \<Rightarrow> Profile option \<Rightarrow> string \<Rightarrow> files \<Rightarrow> cli_error + files" where
  "operatorLogoutCmd cw p profileName disk =
     (case requireProfile p of
        Inl e \<Rightarrow> Inl e
      | Inr prof \<Rightarrow> (case OperatorLogout prof of Some e \<Rightarrow> Inl e | None \<Rightarrow> deleteProfile cw profileName disk))"

text \<open>The namespace is the flag, else what the server says, else the default; every error on the way is ignored.\<close>

definition ServiceDelete :: "'w operator_api \<Rightarrow> Profile \<Rightarrow> string \<Rightarrow> string \<Rightarrow> 'w \<Rightarrow> (cli_error + string) \<times> 'w" where
  "ServiceDelete a prof kubecontext namespace w =
     (let (ns, w1) =
            (if namespace \<noteq> [] then (namespace, w)
             else case clientFor a prof of
               Inl _ \<Rightarrow> ([], w)
             | Inr c \<Rightarrow> (case opc_GetDeploymentInfo a c w of (Inr (Answer n), w1) \<Rightarrow> (n, w1) | (_, w1) \<Rightarrow> ([], w1)));
          n = (if ns = [] then ''morsel'' else ns);
          kubectl = ''kubectl'' @ (if kubecontext \<noteq> [] then '' --context '' @ kubecontext else [])
      in (Inr (check_mark @ ''Bootstrap state deleted.'' @ nl @ nl @ ''  Cluster resources were NOT removed automatically.'' @ nl @
               ''  Delete them manually:'' @ nl @ nl @ ''    '' @ kubectl @ '' delete namespace '' @ n @ '' '' @ n @
               ''-services --ignore-not-found'' @ nl @ nl), w1))"

definition serviceDeleteCmd ::
  "'w operator_api \<Rightarrow> Profile option \<Rightarrow> bool \<Rightarrow> string \<Rightarrow> string \<Rightarrow> 'w \<Rightarrow> (cli_error + string) \<times> 'w" where
  "serviceDeleteCmd a p confirmed kubecontext namespace w =
     (if \<not> confirmed then (Inl (Plain ''pass --confirm to acknowledge this will destroy all platform resources''), w)
      else with_profile p (\<lambda>prof. ServiceDelete a prof kubecontext namespace w) w)"

section \<open>Prompts\<close>

record Prompt =
  pm_Key :: string
  pm_Label :: string
  pm_Default :: string
  pm_Required :: bool
  pm_Choices :: "string list"
  pm_Validate :: "(string \<Rightarrow> string option) option"

text \<open>
  The console: the bytes to come and the error after them, what was written, the error of a write (of what was
  written before and the text), and the switch of \<open>--yes\<close>.
\<close>

record ConsolePrompter =
  cp_In :: string
  cp_EOF :: string
  cp_Out :: string
  cp_Write :: "string \<Rightarrow> string \<Rightarrow> string option"
  cp_autoAcceptDefault :: bool

definition put :: "string \<Rightarrow> ConsolePrompter \<Rightarrow> string option \<times> ConsolePrompter" where
  "put text p =
     (case cp_Write p (cp_Out p) text of
        Some e \<Rightarrow> (Some (''write prompt: '' @ e), p)
      | None \<Rightarrow> (None, p\<lparr>cp_Out := cp_Out p @ text\<rparr>))"

text \<open>\<open>ReadString\<close>: a line with its end, or the rest of the input and an error.\<close>

definition ReadString :: "ConsolePrompter \<Rightarrow> (string \<times> string option) \<times> ConsolePrompter" where
  "ReadString p =
     (if CHR 0x0A \<in> set (cp_In p)
      then ((takeWhile (\<lambda>c. c \<noteq> CHR 0x0A) (cp_In p) @ nl, None), p\<lparr>cp_In := tl (dropWhile (\<lambda>c. c \<noteq> CHR 0x0A) (cp_In p))\<rparr>)
      else ((cp_In p, Some (cp_EOF p)), p\<lparr>cp_In := []\<rparr>))"

definition trim_line :: "string \<Rightarrow> string" where
  "trim_line s = rev (dropWhile (\<lambda>c. c = CHR 0x0D \<or> c = CHR 0x0A) (rev s))"

text \<open>\<open>strconv.Atoi\<close>: a sign, digits, and a value of 64 bits.\<close>

definition strconv_Atoi :: "string \<Rightarrow> int option" where
  "strconv_Atoi s =
     (let neg = (s \<noteq> [] \<and> hd s = CHR ''-'');
          ds = (if s \<noteq> [] \<and> (hd s = CHR ''-'' \<or> hd s = CHR ''+'') then tl s else s);
          n = foldl (\<lambda>n c. 10 * n + (of_char c - 48)) 0 ds :: int;
          v = (if neg then - n else n)
      in if ds = [] \<or> (\<exists>c \<in> set ds. of_char c < (48::nat) \<or> 57 < (of_char c :: nat)) then None
         else if - (2 ^ 63) \<le> v \<and> v < 2 ^ 63 then Some v else None)"

definition askText :: "Prompt \<Rightarrow> ConsolePrompter \<Rightarrow> (string + string) \<times> ConsolePrompter" where
  "askText pr p =
     (if cp_autoAcceptDefault p \<and> pm_Default pr \<noteq> [] then (Inr (pm_Default pr), p)
      else let label = pm_Label pr @ (if pm_Default pr \<noteq> [] then '' ['' @ pm_Default pr @ '']'' else []) in
        case put (''  '' @ label @ '': '') p of
          (Some e, p1) \<Rightarrow> (Inl e, p1)
        | (None, p1) \<Rightarrow>
            (case ReadString p1 of
               ((_, Some e), p2) \<Rightarrow> (Inl (''read '' @ sprintf_q (pm_Key pr) @ '': '' @ e), p2)
             | ((line, None), p2) \<Rightarrow>
                 let val = (if trim_line line = [] then pm_Default pr else trim_line line) in
                 if pm_Required pr \<and> val = [] then (Inl (sprintf_q (pm_Label pr) @ '' is required''), p2) else (Inr val, p2)))"

text \<open>The list of choices, numbered from 1, and the number of the default: the last choice that equals it, else 1.\<close>

fun put_choices :: "nat \<Rightarrow> string list \<Rightarrow> ConsolePrompter \<Rightarrow> string option \<times> ConsolePrompter" where
  "put_choices i [] p = (None, p)"
| "put_choices i (c # cs) p =
     (case put (''    '' @ show_nat (i + 1) @ ''. '' @ c @ nl) p of
        (Some e, p1) \<Rightarrow> (Some e, p1)
      | (None, p1) \<Rightarrow> put_choices (i + 1) cs p1)"

fun default_idx :: "string \<Rightarrow> nat \<Rightarrow> string list \<Rightarrow> nat \<Rightarrow> nat" where
  "default_idx d i [] best = best"
| "default_idx d i (c # cs) best = default_idx d (i + 1) cs (if c = d then i + 1 else best)"

definition askChoice :: "Prompt \<Rightarrow> ConsolePrompter \<Rightarrow> (string + string) \<times> ConsolePrompter" where
  "askChoice pr p =
     (if cp_autoAcceptDefault p \<and> pm_Default pr \<noteq> [] then (Inr (pm_Default pr), p)
      else case put (''  '' @ pm_Label pr @ '':'' @ nl) p of
        (Some e, p1) \<Rightarrow> (Inl e, p1)
      | (None, p1) \<Rightarrow>
          (case put_choices 0 (pm_Choices pr) p1 of
             (Some e, p2) \<Rightarrow> (Inl e, p2)
           | (None, p2) \<Rightarrow>
               let defaultIdx = default_idx (pm_Default pr) 0 (pm_Choices pr) 1 in
               (case put (''  Choice ['' @ show_nat defaultIdx @ '']: '') p2 of
                  (Some e, p3) \<Rightarrow> (Inl e, p3)
                | (None, p3) \<Rightarrow>
                    (case ReadString p3 of
                       ((_, Some e), p4) \<Rightarrow> (Inl (''read '' @ sprintf_q (pm_Key pr) @ '': '' @ e), p4)
                     | ((line, None), p4) \<Rightarrow>
                         let input = trim_line line in
                         if input = [] then (Inr (pm_Choices pr ! (defaultIdx - 1)), p4)
                         else (case strconv_Atoi input of
                                 Some n \<Rightarrow>
                                   if 1 \<le> n \<and> n \<le> int (length (pm_Choices pr)) then (Inr (pm_Choices pr ! nat (n - 1)), p4)
                                   else (Inl (pm_Label pr @ '': enter a number between 1 and '' @ show_nat (length (pm_Choices pr))), p4)
                               | None \<Rightarrow>
                                   (Inl (pm_Label pr @ '': enter a number between 1 and '' @ show_nat (length (pm_Choices pr))), p4))))))"

fun Ask :: "Prompt list \<Rightarrow> (string \<rightharpoonup> string) \<Rightarrow> ConsolePrompter \<Rightarrow> (string + (string \<rightharpoonup> string)) \<times> ConsolePrompter" where
  "Ask [] answers p = (Inr answers, p)"
| "Ask (pr # prs) answers p =
     (case (if pm_Choices pr \<noteq> [] then askChoice pr p else askText pr p) of
        (Inl e, p1) \<Rightarrow> (Inl e, p1)
      | (Inr val, p1) \<Rightarrow>
          (case (case pm_Validate pr of None \<Rightarrow> None | Some f \<Rightarrow> f val) of
             Some e \<Rightarrow> (Inl (pm_Label pr @ '': '' @ e), p1)
           | None \<Rightarrow> Ask prs (answers(pm_Key pr \<mapsto> val)) p1))"

text \<open>\<open>strings.EqualFold\<close> with \<open>y\<close> and \<open>yes\<close>; the long s of Unicode folds to s.\<close>

definition says_yes :: "string \<Rightarrow> bool" where
  "says_yes ans \<longleftrightarrow>
     (let lower = (\<lambda>c. if CHR ''A'' \<le> c \<and> c \<le> CHR ''Z'' then char_of (of_char c + 32 :: nat) else c) in
      map lower ans \<in> {''y'', ''yes'', ''ye'' @ [CHR 0xC5, CHR 0xBF]})"

text \<open>Errors of the console are only logged here.\<close>

definition Confirm :: "string \<Rightarrow> ConsolePrompter \<Rightarrow> bool \<times> ConsolePrompter" where
  "Confirm prompt p =
     (if cp_autoAcceptDefault p then (True, p)
      else case ReadString (snd (put (''  '' @ prompt) p)) of ((line, _), p1) \<Rightarrow> (says_yes (trim_line line), p1))"

subsection \<open>Answers are valid\<close>

lemma default_idx_bounds:
  "1 \<le> best \<Longrightarrow> best \<le> max 1 (i + length cs) \<Longrightarrow>
     1 \<le> default_idx d i cs best \<and> default_idx d i cs best \<le> max 1 (i + length cs)"
proof (induction cs arbitrary: i best)
  case (Cons c cs)
  have "1 \<le> (if c = d then i + 1 else best) \<and> (if c = d then i + 1 else best) \<le> max 1 (i + 1 + length cs)"
    using Cons.prems by auto
  then show ?case using Cons.IH [of "if c = d then i + 1 else best" "i + 1"] by simp
qed simp

text \<open>A choice is one of the list, or the default that was accepted without a question.\<close>

lemma askChoice_answer:
  assumes "askChoice pr p = (Inr val, p')" "pm_Choices pr \<noteq> []"
  shows "val \<in> set (pm_Choices pr) \<or> cp_autoAcceptDefault p \<and> val = pm_Default pr"
proof -
  have d: "default_idx (pm_Default pr) 0 (pm_Choices pr) (Suc 0) - 1 < length (pm_Choices pr)"
    using default_idx_bounds [of 1 0 "pm_Choices pr" "pm_Default pr"] assms(2) by (cases "pm_Choices pr") (auto simp del: default_idx.simps)
  have n: "nat (n - 1) < length (pm_Choices pr)" if "1 \<le> n" "n \<le> int (length (pm_Choices pr))" for n
    using that by linarith
  show ?thesis
    using assms(1) d n
    by (auto simp: askChoice_def Let_def split: if_splits prod.splits option.splits)
qed

text \<open>With \<open>--yes\<close>, prompts that all have a default read and write nothing.\<close>

lemma Ask_accepts_defaults:
  assumes "cp_autoAcceptDefault p" "\<forall>pr \<in> set prs. pm_Default pr \<noteq> [] \<and> pm_Validate pr = None"
  shows "Ask prs answers p = (Inr (answers ++ map_of (rev (map (\<lambda>pr. (pm_Key pr, pm_Default pr)) prs))), p)"
  using assms(2)
proof (induction prs arbitrary: answers)
  case (Cons pr prs)
  have "(if pm_Choices pr \<noteq> [] then askChoice pr p else askText pr p) = (Inr (pm_Default pr), p)"
    using Cons.prems assms(1) by (simp add: askChoice_def askText_def)
  then show ?case using Cons.prems by (simp add: Cons.IH map_add_def fun_eq_iff split: option.splits)
qed simp

section \<open>The commands and the server\<close>

text \<open>
  The operator's calls answered by the handlers of the API on a database and the goroutines that were started:
  \<open>auth\<close> is what the server makes of a token, \<open>refused\<close> what the client makes of an error of a handler, an error or the
  name of a response type.
\<close>

definition reply :: "(handler_error \<Rightarrow> cli_error + string) \<Rightarrow> handler_error + 'a \<Rightarrow> cli_error + 'a api_res" where
  "reply refused r =
     (case r of
        Inr x \<Rightarrow> Inr (Answer x)
      | Inl e \<Rightarrow> (case refused e of Inl x \<Rightarrow> Inl x | Inr t \<Rightarrow> Inr (Unexpected t)))"

definition on_db :: "(handler_error \<Rightarrow> cli_error + string) \<Rightarrow> (db \<Rightarrow> (handler_error + 'a) \<times> db) \<Rightarrow> db \<times> task list
    \<Rightarrow> (cli_error + 'a api_res) \<times> db \<times> task list" where
  "on_db refused h w = (case w of (s, ts) \<Rightarrow> case h s of (r, s') \<Rightarrow> (reply refused r, s', ts))"

definition operator_server ::
  "henv \<Rightarrow> string \<Rightarrow> (string \<Rightarrow> Claims option) \<Rightarrow> (handler_error \<Rightarrow> cli_error + string) \<Rightarrow> (db \<times> task list) operator_api" where
  "operator_server h platName auth refused =
     \<lparr> opc_NewClient = \<lambda>url tok. Inr \<lparr> cl_URL = url, cl_Token = tok \<rparr>,
        opc_ListTiers = \<lambda>c. on_db refused (\<lambda>s. (ListTiers_h (auth (cl_Token c)) s, s)),
        opc_CreateTier = \<lambda>c req. on_db refused (\<lambda>s. CreateTier (auth (cl_Token c)) s req),
        opc_UpdateTier = \<lambda>c req name w. case UpdateTier (auth (cl_Token c)) (fst w) req name of
          (r, s', ts) \<Rightarrow> (reply refused r, s', snd w @ ts),
        opc_SetDefaultTier = \<lambda>c name. on_db refused (\<lambda>s. SetDefaultTier_h (auth (cl_Token c)) s name),
        opc_DeleteTier = \<lambda>c name. on_db refused (\<lambda>s. DeleteTier_h (auth (cl_Token c)) s name),
        opc_AddOperatorPrincipal = \<lambda>c p. on_db refused (\<lambda>s. AddOperatorPrincipal (auth (cl_Token c)) s p),
        opc_RemoveOperatorPrincipal = \<lambda>c p. on_db refused (\<lambda>s. RemoveOperatorPrincipal (auth (cl_Token c)) s p),
        opc_ListOperatorPrincipals = \<lambda>c. on_db refused (\<lambda>s. (ListOperatorPrincipals (auth (cl_Token c)) s, s)),
        opc_AddAppExemption = \<lambda>c slug app. on_db refused (\<lambda>s. AddAppExemption_h (auth (cl_Token c)) s slug app),
        opc_RemoveAppExemption = \<lambda>c org repo name. on_db refused (\<lambda>s. RemoveAppExemption_h (auth (cl_Token c)) s org repo name),
        opc_AddRepoExemption = \<lambda>c slug. on_db refused (\<lambda>s. AddRepoExemption_h (auth (cl_Token c)) s slug),
        opc_RemoveRepoExemption = \<lambda>c org repo. on_db refused (\<lambda>s. RemoveRepoExemption_h (auth (cl_Token c)) s org repo),
        opc_GetDeploymentInfo = \<lambda>c. on_db refused (\<lambda>s. (map_sum (\<lambda>e. e) fst (GetDeploymentInfo h platName (auth (cl_Token c))), s)) \<rparr>"

lemmas command_defs = clientFor_def expect_def printing_def reply_def on_db_def operator_server_def

lemma Cut_slug:
  assumes "CHR ''/'' \<in> set repo"
  shows "\<exists>org name. strings_Cut repo (CHR ''/'') = (org, name, True) \<and> RepoSlug org name = repo"
proof -
  let ?P = "\<lambda>c. c \<noteq> CHR ''/''"
  have d: "dropWhile ?P repo \<noteq> []" using assms by simp
  have "hd (dropWhile ?P repo) = CHR ''/''" using hd_dropWhile [OF d] by simp
  moreover have "hd (dropWhile ?P repo) # tl (dropWhile ?P repo) = dropWhile ?P repo" using d by (rule list.collapse)
  moreover have "takeWhile ?P repo @ dropWhile ?P repo = repo" by (rule takeWhile_dropWhile_id)
  ultimately have "takeWhile ?P repo @ CHR ''/'' # tl (dropWhile ?P repo) = repo" by (simp only:)
  then show ?thesis using assms by (simp add: strings_Cut_def RepoSlug_def)
qed

subsection \<open>Editing a tier\<close>

text \<open>The row of a tier after an edit: a limit of zero stands for the old one.\<close>

definition edited :: "TierFlags \<Rightarrow> time \<Rightarrow> Tier \<Rightarrow> Tier" where
  "edited flags now t =
     t\<lparr> t_MaxApps := patch_int (tf_MaxApps flags) (t_MaxApps t), t_CpuMilli := patch_int (cpu_milli flags) (t_CpuMilli t),
        t_MemoryMb := patch_int (tf_MemoryMB flags) (t_MemoryMb t), t_BlobGb := patch_int (tf_BlobGB flags) (t_BlobGb t),
        t_DatabaseGb := patch_int (tf_DatabaseGB flags) (t_DatabaseGb t), t_QueueGb := patch_int (tf_QueuesGB flags) (t_QueueGb t),
        t_HibernateAfter := (if tf_HibernateAfter flags \<noteq> [] then tf_HibernateAfter flags else t_HibernateAfter t),
        t_UpdatedAt := now \<rparr>"

lemma cpu_milli_zero [simp]: "fst (tf_CPU flags) = 0 \<Longrightarrow> cpu_milli flags = 0"
  by (simp add: cpu_milli_def float_mul_def float_int_def Let_def split: prod.splits)

lemma edit_request_Or:
  "opt_Or (ut_MaxApps (edit_request flags)) 0 = tf_MaxApps flags"
  "opt_Or (ut_CPUMilli (edit_request flags)) 0 = cpu_milli flags"
  "opt_Or (ut_MemoryMB (edit_request flags)) 0 = tf_MemoryMB flags"
  "opt_Or (ut_BlobGB (edit_request flags)) 0 = tf_BlobGB flags"
  "opt_Or (ut_DatabaseGB (edit_request flags)) 0 = tf_DatabaseGB flags"
  "opt_Or (ut_QueueGB (edit_request flags)) 0 = tf_QueuesGB flags"
  "opt_Or (ut_HibernateAfter (edit_request flags)) [] = tf_HibernateAfter flags"
  by (auto simp: edit_request_def unless_zero_def opt_Or_def)

lemma is_tier_keyed: "is_tier name = (\<lambda>t. t_Name t = name)"
  by (auto simp: is_tier_def)

text \<open>
  An edit that the server accepts changes the limits whose flags are not zero and leaves every other tier, and it starts
  the goroutine that brings the limits to the apps of the tier.
\<close>

theorem tier_edit_end_to_end:
  assumes "reliable s" "requireOperator (auth (pf_AccessToken prof)) = None" "GetTier s (tf_Name flags) = Inr t"
    and "t' = edited flags (sql_now s) t"
  shows "\<exists>s'. TierEdit (operator_server h plat auth refused) prof flags (s, ts)
      = (Inr (check_mark @ ''Tier '' @ sprintf_q (tf_Name flags) @ '' updated.'' @ nl), s',
         ts @ [RunPropagate (t_Name t) \<lparr> tl_CPUMilli = t_CpuMilli t', tl_MemoryMB = t_MemoryMb t' \<rparr>]) \<and>
    GetTier s' (tf_Name flags) = Inr t' \<and> (\<forall>n. n \<noteq> tf_Name flags \<longrightarrow> GetTier s' n = GetTier s n)"
proof -
  let ?name = "tf_Name flags"
  have sel: "sel (is_tier ?name) (t_tiers s) = Some t" and nm: "t_Name t = ?name"
    using assms(1,3) sel_Some [of "is_tier ?name" "t_tiers s" t]
    by (auto simp: GetTier_def GetTier_q_def reliable_def guarded_def is_tier_def split: option.splits)
  define f where "f = (\<lambda>r. r\<lparr>t_MaxApps := t_MaxApps t', t_CpuMilli := t_CpuMilli t', t_MemoryMb := t_MemoryMb t',
      t_BlobGb := t_BlobGb t', t_DatabaseGb := t_DatabaseGb t', t_QueueGb := t_QueueGb t',
      t_HibernateAfter := t_HibernateAfter t', t_UpdatedAt := sql_now s\<rparr> :: Tier)"
  let ?s' = "s\<lparr>t_tiers := upd (is_tier ?name) f (t_tiers s)\<rparr>"
  have ft: "f t = t'" by (simp add: f_def assms(4) edited_def)
  have P: "PatchTier s ?name (tf_MaxApps flags) (cpu_milli flags) (tf_MemoryMB flags) (tf_BlobGB flags) (tf_DatabaseGB flags)
      (tf_QueuesGB flags) (tf_HibernateAfter flags) = Inr (t', ?s')"
    using sel assms(1) ft
    by (simp add: PatchTier_def GetTier_q_def UpdateTier_q_def reliable_def guarded_def f_def assms(4) edited_def)
  have key: "t_Name (f r) = t_Name r" for r by (simp add: f_def)
  have get: "GetTier x n = one (sel (is_tier n) (t_tiers x))" if "db_fault x = (\<lambda>_. None)" for x n
    using that by (simp add: GetTier_def GetTier_q_def guarded_def)
  have fault: "db_fault s = (\<lambda>_. None)" using assms(1) by (simp add: reliable_def)
  have upd: "sel (is_tier n) (upd (is_tier ?name) f (t_tiers s)) = map_option (\<lambda>r. if is_tier ?name r then f r else r) (sel (is_tier n) (t_tiers s))" for n
    by (simp add: sel_upd is_tier_def key)
  have same: "GetTier ?s' ?name = Inr t'"
    using fault sel nm ft by (simp add: get upd one_def) (simp add: is_tier_def)
  have other: "GetTier ?s' n = GetTier s n" if "n \<noteq> ?name" for n
    using fault that sel_Some [of "is_tier n" "t_tiers s"]
    by (cases "sel (is_tier n) (t_tiers s)") (simp_all add: get upd is_tier_def)
  have "t_Name t' = t_Name t" by (simp add: assms(4) edited_def)
  then have "TierEdit (operator_server h plat auth refused) prof flags (s, ts)
      = (Inr (check_mark @ ''Tier '' @ sprintf_q ?name @ '' updated.'' @ nl), ?s',
         ts @ [RunPropagate (t_Name t) \<lparr> tl_CPUMilli = t_CpuMilli t', tl_MemoryMB = t_MemoryMb t' \<rparr>])"
    using assms(2) P by (simp add: TierEdit_def command_defs UpdateTier_def edit_request_Or)
  then show ?thesis using same other by blast
qed

text \<open>The nearest float64 of 1.005 makes 1004 milli-cores.\<close>

lemma bits_interval: "2 ^ k \<le> n \<Longrightarrow> n < 2 ^ Suc k \<Longrightarrow> bits n = Suc k"
proof (induction k arbitrary: n)
  case 0
  then show ?case by (simp add: bits.simps [of n] bits.simps [of 0])
next
  case (Suc k)
  then have "2 ^ k \<le> n div 2" "n div 2 < 2 ^ Suc k" "n \<noteq> 0" by auto
  with Suc.IH [of "n div 2"] show ?case by (simp add: bits.simps [of n])
qed

lemma cpu_flag_truncated: "tf_CPU flags = (1131529406376837, - 50) \<Longrightarrow> cpu_milli flags = 1004"
proof -
  have "bits 1131529406376837000 = 60" using bits_interval [of 59 1131529406376837000] by simp
  then show "tf_CPU flags = (1131529406376837, - 50) \<Longrightarrow> cpu_milli flags = 1004"
    by (simp add: cpu_milli_def float_mul_def float_int_def round_even_def)
qed

subsection \<open>Granting and taking back exemptions\<close>

definition repo_row :: "string \<Rightarrow> Exemption \<Rightarrow> bool" where
  "repo_row slug e \<longleftrightarrow> e_Kind e = ''repo'' \<and> e_RepoSlug e = slug \<and> e_Type e = ''explicit''"

definition app_row :: "string \<Rightarrow> string \<Rightarrow> Exemption \<Rightarrow> bool" where
  "app_row slug app e \<longleftrightarrow> is_exemption ''app'' slug app ''explicit'' e"

lemma UpsertExemption_del:
  assumes "UpsertExemption_q d kind slug app typ x = Inr d'" "\<And>e. is_exemption kind slug app typ e \<Longrightarrow> P e"
  shows "del P (t_exemptions d') = del P (t_exemptions d)"
proof -
  let ?K = "is_exemption kind slug app typ"
  have "del P (upd ?K (\<lambda>e. e\<lparr>e_ExpiresAt := x\<rparr>) es) = del P es" for es
    using assms(2) by (induction es) (auto simp: is_exemption_def)
  then show ?thesis
    using assms(1) assms(2) by (auto simp: UpsertExemption_q_def guarded_Inr del_def is_exemption_def split: if_splits)
qed

lemma AddExemption_ok:
  assumes "reliable d"
  shows "\<exists>d'. UpsertExemption_q d kind slug app ''explicit'' None = Inr d' \<and> reliable d' \<and> sql_now d' = sql_now d"
  using assms by (auto simp: UpsertExemption_q_def guarded_def reliable_def sql_now_def)

lemma exempt_at_del:
  "t_exemptions d' = del P (t_exemptions d) \<Longrightarrow> sql_now d' = sql_now d \<Longrightarrow>
     exempt_at d' r n = (\<exists>e \<in> set (t_exemptions d). \<not> P e \<and> covers r n e \<and> active_at (sql_now d) e)"
  by (auto simp: exempt_at_def)

text \<open>The two commands on a repository, on the server of an operator.\<close>

lemma repo_exempt_add:
  assumes "reliable s" "requireOperator (auth (pf_AccessToken prof)) = None"
  shows "\<exists>s1. RepoExemptAdd (operator_server h plat auth refused) prof repo (s, ts)
        = (Inr (check_mark @ ''All apps in '' @ repo @ '' are now exempt from budget enforcement.'' @ nl), s1, ts) \<and>
     AddRepoExemption s repo = Inr s1 \<and> reliable s1 \<and> sql_now s1 = sql_now s"
proof -
  obtain s1 where "AddRepoExemption s repo = Inr s1" "reliable s1" "sql_now s1 = sql_now s"
    using AddExemption_ok [OF assms(1)] unfolding AddRepoExemption_def by blast
  then show ?thesis using assms(2)
    by (simp add: RepoExemptAdd_def command_defs AddRepoExemption_h_def write_as_operator_def)
qed

lemma repo_exempt_remove:
  assumes "reliable s" "requireOperator (auth (pf_AccessToken prof)) = None" "CHR ''/'' \<in> set repo"
  shows "\<exists>s1. RepoExemptRemove (operator_server h plat auth refused) prof repo (s, ts)
        = (Inr (check_mark @ ''Budget exemption removed for all apps in '' @ repo @ ''.'' @ nl), s1, ts) \<and>
     t_exemptions s1 = del (repo_row repo) (t_exemptions s) \<and> sql_now s1 = sql_now s"
proof -
  obtain org name where cut: "strings_Cut repo (CHR ''/'') = (org, name, True)" "RepoSlug org name = repo"
    using Cut_slug [OF assms(3)] by blast
  have "repo_row repo = (\<lambda>e. e_Kind e = ''repo'' \<and> e_RepoSlug e = repo \<and> e_Type e = ''explicit'')"
    by (simp add: repo_row_def fun_eq_iff)
  then have "RemoveRepoExemption s repo = Inr (s\<lparr>t_exemptions := del (repo_row repo) (t_exemptions s)\<rparr>)"
    using assms(1) by (simp add: RemoveRepoExemption_def DeleteRepoExemption_q_def reliable_def guarded_def)
  then show ?thesis using assms(2) cut
    by (simp add: RepoExemptRemove_def command_defs RemoveRepoExemption_h_def write_as_operator_def sql_now_def)
qed

lemma app_exempt_add:
  assumes "reliable s" "requireOperator (auth (pf_AccessToken prof)) = None"
  shows "\<exists>s1. AppExemptAdd (operator_server h plat auth refused) prof repo app (s, ts)
        = (Inr (check_mark @ ''App '' @ app @ '' in '' @ repo @ '' is now exempt from budget enforcement.'' @ nl), s1, ts) \<and>
     AddAppExemption s repo app = Inr s1 \<and> reliable s1 \<and> sql_now s1 = sql_now s"
proof -
  obtain s1 where "AddAppExemption s repo app = Inr s1" "reliable s1" "sql_now s1 = sql_now s"
    using AddExemption_ok [OF assms(1)] unfolding AddAppExemption_def by blast
  then show ?thesis using assms(2)
    by (simp add: AppExemptAdd_def command_defs AddAppExemption_h_def write_as_operator_def)
qed

lemma app_exempt_remove:
  assumes "reliable s" "requireOperator (auth (pf_AccessToken prof)) = None" "CHR ''/'' \<in> set repo"
  shows "\<exists>s1. AppExemptRemove (operator_server h plat auth refused) prof repo app (s, ts)
        = (Inr (check_mark @ ''Budget exemption removed for app '' @ app @ '' in '' @ repo @ ''.'' @ nl), s1, ts) \<and>
     t_exemptions s1 = del (app_row repo app) (t_exemptions s) \<and> sql_now s1 = sql_now s"
proof -
  obtain org name where cut: "strings_Cut repo (CHR ''/'') = (org, name, True)" "RepoSlug org name = repo"
    using Cut_slug [OF assms(3)] by blast
  have "app_row repo app = is_exemption ''app'' repo app ''explicit''" by (simp add: app_row_def fun_eq_iff)
  then have "RemoveAppExemption s repo app = Inr (s\<lparr>t_exemptions := del (app_row repo app) (t_exemptions s)\<rparr>)"
    using assms(1) by (simp add: RemoveAppExemption_def DeleteAppExemption_q_def reliable_def guarded_def)
  then show ?thesis using assms(2) cut
    by (simp add: AppExemptRemove_def command_defs RemoveAppExemption_h_def write_as_operator_def sql_now_def)
qed

text \<open>
  C39. \<^bold>\<open>Exemptions, granted and taken back on the command line.\<close> On the server of an operator, \<open>exempt add\<close> exempts exactly
  the repository (or the app) that it names in addition to what was exempt, and \<open>exempt remove\<close> with the same
  arguments leaves exempt exactly what the other rows of the table exempt. Without a slash in its name, however, a
  repository is accepted by \<open>add\<close> and refused by \<open>remove\<close>, which leaves the exemption in force.
\<close>

theorem exempt_commands:
  assumes "reliable s" "requireOperator (auth (pf_AccessToken prof)) = None" "a = operator_server h plat auth refused"
  shows "\<exists>s1 s2 out1 out2. RepoExemptAdd a prof repo (s, ts) = (Inr out1, s1, ts) \<and>
      AppExemptAdd a prof repo app (s, ts) = (Inr out2, s2, ts) \<and>
      (\<forall>r n. exempt_at s1 r n = (exempt_at s r n \<or> r = repo)) \<and>
      (\<forall>r n. exempt_at s2 r n = (exempt_at s r n \<or> r = repo \<and> n = app)) \<and>
      (if CHR ''/'' \<in> set repo
       then (\<exists>s3 s4 out3 out4. RepoExemptRemove a prof repo (s1, ts) = (Inr out3, s3, ts) \<and>
               AppExemptRemove a prof repo app (s2, ts) = (Inr out4, s4, ts) \<and>
               (\<forall>r n. exempt_at s3 r n = (\<exists>e \<in> set (t_exemptions s). \<not> repo_row repo e \<and> covers r n e \<and> active_at (sql_now s) e)) \<and>
               (\<forall>r n. exempt_at s4 r n = (\<exists>e \<in> set (t_exemptions s). \<not> app_row repo app e \<and> covers r n e \<and> active_at (sql_now s) e)))
       else RepoExemptRemove a prof repo (s1, ts) = (Inl (invalid_repo repo), s1, ts) \<and>
            AppExemptRemove a prof repo app (s2, ts) = (Inl (invalid_repo repo), s2, ts))"
proof -
  obtain s1 where s1: "RepoExemptAdd a prof repo (s, ts)
        = (Inr (check_mark @ ''All apps in '' @ repo @ '' are now exempt from budget enforcement.'' @ nl), s1, ts)"
      "UpsertExemption_q s ''repo'' repo [] ''explicit'' None = Inr s1" "reliable s1" "sql_now s1 = sql_now s"
    using repo_exempt_add [of s auth prof h plat refused repo ts] assms(1,2) unfolding assms(3) AddRepoExemption_def by auto
  obtain s2 where s2: "AppExemptAdd a prof repo app (s, ts)
        = (Inr (check_mark @ ''App '' @ app @ '' in '' @ repo @ '' is now exempt from budget enforcement.'' @ nl), s2, ts)"
      "UpsertExemption_q s ''app'' repo app ''explicit'' None = Inr s2" "reliable s2" "sql_now s2 = sql_now s"
    using app_exempt_add [of s auth prof h plat refused repo app ts] assms(1,2) unfolding assms(3) AddAppExemption_def by auto
  have e1: "exempt_at s1 r n = (exempt_at s r n \<or> r = repo)" for r n
    using UpsertExemption_exempt [OF s1(2)] by (simp add: key_covers_def)
  have e2: "exempt_at s2 r n = (exempt_at s r n \<or> r = repo \<and> n = app)" for r n
    using UpsertExemption_exempt [OF s2(2)] by (simp add: key_covers_def)
  show ?thesis
  proof (cases "CHR ''/'' \<in> set repo")
    case True
    obtain s3 where s3: "RepoExemptRemove a prof repo (s1, ts)
        = (Inr (check_mark @ ''Budget exemption removed for all apps in '' @ repo @ ''.'' @ nl), s3, ts)"
      "t_exemptions s3 = del (repo_row repo) (t_exemptions s1)" "sql_now s3 = sql_now s1"
      using repo_exempt_remove [of s1 auth prof repo h plat refused ts] s1(3) assms(2) True unfolding assms(3) by auto
    obtain s4 where s4: "AppExemptRemove a prof repo app (s2, ts)
        = (Inr (check_mark @ ''Budget exemption removed for app '' @ app @ '' in '' @ repo @ ''.'' @ nl), s4, ts)"
      "t_exemptions s4 = del (app_row repo app) (t_exemptions s2)" "sql_now s4 = sql_now s2"
      using app_exempt_remove [of s2 auth prof repo h plat refused app ts] s2(3) assms(2) True unfolding assms(3) by auto
    have "t_exemptions s3 = del (repo_row repo) (t_exemptions s)" "t_exemptions s4 = del (app_row repo app) (t_exemptions s)"
      unfolding s3(2) s4(2)
      by (rule UpsertExemption_del [OF s1(2)], simp add: is_exemption_def repo_row_def)
        (rule UpsertExemption_del [OF s2(2)], simp add: app_row_def)
    then have "exempt_at s3 r n = (\<exists>e \<in> set (t_exemptions s). \<not> repo_row repo e \<and> covers r n e \<and> active_at (sql_now s) e)"
      "exempt_at s4 r n = (\<exists>e \<in> set (t_exemptions s). \<not> app_row repo app e \<and> covers r n e \<and> active_at (sql_now s) e)" for r n
      using exempt_at_del [of s3 "repo_row repo" s r n] exempt_at_del [of s4 "app_row repo app" s r n] s1(4) s2(4) s3(3) s4(3)
      by simp_all
    with s1(1) s2(1) e1 e2 s3(1) s4(1) show ?thesis unfolding if_P [OF True] by blast
  next
    case False
    have r: "RepoExemptRemove a prof repo (s1, ts) = (Inl (invalid_repo repo), s1, ts)"
      "AppExemptRemove a prof repo app (s2, ts) = (Inl (invalid_repo repo), s2, ts)"
      using False by (simp_all add: RepoExemptRemove_def AppExemptRemove_def assms(3) clientFor_def operator_server_def)
    show ?thesis unfolding if_not_P [OF False] using s1(1) s2(1) e1 e2 r by blast
  qed
qed

definition demo_server :: "(db \<times> task list) operator_api" where
  "demo_server = operator_server demo_env ''local'' (\<lambda>_. Some (demo_claims\<lparr>cl_Role := ''admin''\<rparr>)) (\<lambda>_. Inr [])"

lemma exempt_commands_witness:
  "(\<exists>s1 s3 out1 out3. RepoExemptAdd demo_server no_profile ''o/r'' (initial_db 0, []) = (Inr out1, s1, []) \<and> exempt_at s1 ''o/r'' ''x'' \<and>
      RepoExemptRemove demo_server no_profile ''o/r'' (s1, []) = (Inr out3, s3, []) \<and> \<not> exempt_at s3 ''o/r'' ''x'') \<and>
   (\<exists>s1 out1. RepoExemptAdd demo_server no_profile ''o'' (initial_db 0, []) = (Inr out1, s1, []) \<and> exempt_at s1 ''o'' ''x'' \<and>
      RepoExemptRemove demo_server no_profile ''o'' (s1, []) = (Inl (invalid_repo ''o''), s1, []))"
proof -
  let ?s = "initial_db 0" and ?auth = "\<lambda>_. Some (demo_claims\<lparr>cl_Role := ''admin''\<rparr>)" and ?refused = "\<lambda>_. Inr []"
  have h: "reliable ?s" "requireOperator (?auth (pf_AccessToken no_profile)) = None"
      "demo_server = operator_server demo_env ''local'' ?auth ?refused"
    by (simp_all add: reliable_def initial_db_def requireOperator_def IsOperatorRole_def RoleAdmin_def demo_server_def)
  have none: "t_exemptions ?s = []" by (simp add: initial_db_def)
  note cmd = exempt_commands [where s = ?s and auth = ?auth and prof = no_profile and h = demo_env and plat = "''local''"
      and refused = ?refused and ts = "[]" and a = demo_server and app = "''x''", OF h]
  have slash: "CHR ''/'' \<in> set ''o/r''" "CHR ''/'' \<notin> set ''o''" by simp_all
  show ?thesis
    using cmd [of "''o/r''"] cmd [of "''o''"] unfolding if_P [OF slash(1)] if_not_P [OF slash(2)] none by (auto 0 3)
qed

end
