(* ===== verification/Admin_UI.thy ===== *)
theory Admin_UI
  imports Session Json Repos
begin

text \<open>
  The pages of the admin UI that act: \<open>adminui/handler/operations.go\<close>, the actions of \<open>apps.go\<close>, \<open>repos.go\<close> and
  \<open>stale.go\<close>, the list of operators, and the calls to the API of \<open>handler.go\<close>.

  The HTTP client is an argument: it takes a call and gives an error of the transport or a response, on a world that it
  changes. A handler returns its answer; a page is the data that its template renders. The body of a response is what can be
  read of it, and a body that breaks off decodes as an error.
\<close>

section \<open>Calls to the API\<close>

record api_call =
  uc_Method :: string
  uc_URL :: string
  uc_JSON :: bool
  uc_Token :: "string option"
  uc_Body :: string

record api_resp =
  us_StatusCode :: int
  us_Status :: string
  us_Body :: string

type_synonym 'w http_client = "api_call \<Rightarrow> 'w \<Rightarrow> (string + api_resp) \<times> 'w"

definition apiDo ::
  "'w ui \<Rightarrow> 'w http_client \<Rightarrow> session option \<Rightarrow> string \<Rightarrow> string \<Rightarrow> string option \<Rightarrow> 'w \<Rightarrow> (string + api_resp) \<times> 'w" where
  "apiDo h http ses meth path body w =
     (let url = ui_apiURL h @ path in
      case ui_NewRequest h url of
        Some e \<Rightarrow> (Inl (''build request: '' @ e), w)
      | None \<Rightarrow>
          http \<lparr> uc_Method = meth, uc_URL = url, uc_JSON = (body \<noteq> None), uc_Token = map_option s_AccessToken ses,
                  uc_Body = opt_Or body [] \<rparr> w)"

definition apiGet :: "'w ui \<Rightarrow> 'w http_client \<Rightarrow> session option \<Rightarrow> string \<Rightarrow> 'w \<Rightarrow> (string + api_resp) \<times> 'w" where
  "apiGet h http ses path = apiDo h http ses ''GET'' path None"

text \<open>\<open>jsonBody\<close> of nil is an empty body, not a missing one.\<close>

definition apiPost :: "'w ui \<Rightarrow> 'w http_client \<Rightarrow> session option \<Rightarrow> string \<Rightarrow> 'w \<Rightarrow> (string + api_resp) \<times> 'w" where
  "apiPost h http ses path = apiDo h http ses ''POST'' path (Some [])"

definition apiDelete :: "'w ui \<Rightarrow> 'w http_client \<Rightarrow> session option \<Rightarrow> string \<Rightarrow> 'w \<Rightarrow> (string + api_resp) \<times> 'w" where
  "apiDelete h http ses path = apiDo h http ses ''DELETE'' path None"

section \<open>Answers\<close>

datatype page =
    SeeOther string
  | InternalError
  | Relayed int string
  | OperationStatusPage string string "(string \<times> string) list"
  | AppDeleteConfirmPage string string
  | OperatorsPage "(string \<times> bool \<times> bool) list" string bool
  | ApprovalsPage

definition ellipsis :: string where "ellipsis = [CHR 0xE2, CHR 0x80, CHR 0xA6]"

definition decode :: "(json \<Rightarrow> 'a option) \<Rightarrow> api_resp \<Rightarrow> 'a option" where
  "decode dec resp = (case next_value (us_Body resp) of None \<Rightarrow> None | Some (v, _) \<Rightarrow> dec v)"

definition decode_list :: "(json \<Rightarrow> 'a option) \<Rightarrow> json \<Rightarrow> 'a list option" where
  "decode_list dec v = (case v of JNull \<Rightarrow> Some [] | JArray vs \<Rightarrow> those (map dec vs) | _ \<Rightarrow> None)"

definition decode_field :: "string \<Rightarrow> json \<Rightarrow> string \<Rightarrow> string option" where
  "decode_field name v old = decode_struct (decode_fields False [name] (\<lambda>_. into_string)) v old"

definition repoSlug :: "string \<Rightarrow> string \<Rightarrow> string" where
  "repoSlug org repo = org @ ''/'' @ repo"

text \<open>Organisation and repository, cut from the slug that was joined from them.\<close>

definition cut_slug :: "string \<Rightarrow> string \<times> string" where
  "cut_slug slug = (case strings_Cut slug (CHR ''/'') of (org, repo, _) \<Rightarrow> (org, repo))"

section \<open>Operations\<close>

definition decodeAcceptedOperationID :: "api_resp \<Rightarrow> string option" where
  "decodeAcceptedOperationID resp =
     (if us_StatusCode resp \<noteq> 202 then None
      else case decode (\<lambda>v. decode_field ''operation_id'' v []) resp of
        None \<Rightarrow> None
      | Some i \<Rightarrow> if i = [] then None else Some i)"

definition decode_message :: "json \<Rightarrow> string option" where
  "decode_message v = decode_struct (decode_fields False [''error''] (\<lambda>_. decode_field ''message'')) v []"

definition flash_error :: "string \<Rightarrow> string \<Rightarrow> page" where
  "flash_error returnURL message = SeeOther (returnURL @ ''?flash_error=1&flash='' @ QueryEscape message)"

definition redirectToAppOperation :: "string + api_resp \<Rightarrow> string \<Rightarrow> string \<Rightarrow> string \<Rightarrow> string \<Rightarrow> page" where
  "redirectToAppOperation r slug appName label returnURL =
     (case r of
        Inl e \<Rightarrow> flash_error returnURL (''Failed to reach the platform API: '' @ e)
      | Inr resp \<Rightarrow>
          if us_StatusCode resp = 202 then
            (case decodeAcceptedOperationID resp of
               None \<Rightarrow> flash_error returnURL ''Started, but couldn't track progress.''
             | Some opID \<Rightarrow>
                 (case cut_slug slug of (org, repo) \<Rightarrow>
                    SeeOther (''/apps/'' @ org @ ''/'' @ repo @ ''/'' @ appName @ ''/operations/'' @ opID @
                      ''?label='' @ QueryEscape label @ ''&return='' @ QueryEscape returnURL)))
          else
            (case decode decode_message resp of
               Some (m # ms) \<Rightarrow> flash_error returnURL (m # ms)
             | _ \<Rightarrow> flash_error returnURL (''request failed (HTTP '' @ us_Status resp @ '')'')))"

definition appOperationStatusPath :: "string \<Rightarrow> string \<Rightarrow> string \<Rightarrow> string" where
  "appOperationStatusPath slug appName opID =
     (case cut_slug slug of (org, repo) \<Rightarrow>
        ''/apps/'' @ org @ ''/'' @ repo @ ''/'' @ appName @ ''/operations/'' @ opID @ ''/status'')"

definition or_default :: "string \<Rightarrow> string \<Rightarrow> string" where
  "or_default d s = (if s = [] then d else s)"

definition ServeAppOperationStatus :: "string \<Rightarrow> string \<Rightarrow> string \<Rightarrow> string \<Rightarrow> string \<Rightarrow> page" where
  "ServeAppOperationStatus org repo appName opID rawQuery =
     OperationStatusPage (or_default (''Working'' @ ellipsis) (query_Get rawQuery ''label''))
       (or_default ''/apps'' (query_Get rawQuery ''return''))
       [(appName, appOperationStatusPath (repoSlug org repo) appName opID)]"

definition HandleAppOperationStatusJSON ::
  "'w ui \<Rightarrow> 'w http_client \<Rightarrow> session option \<Rightarrow> string \<Rightarrow> string \<Rightarrow> string \<Rightarrow> string \<Rightarrow> 'w \<Rightarrow> page \<times> 'w" where
  "HandleAppOperationStatusJSON h http ses org0 repo0 appName opID w =
     (case cut_slug (repoSlug org0 repo0) of (org, repo) \<Rightarrow>
        case apiGet h http ses (''/api/repos/'' @ org @ ''/'' @ repo @ ''/apps/'' @ appName @ ''/operations/'' @ opID) w of
          (Inl _, w1) \<Rightarrow> (InternalError, w1)
        | (Inr resp, w1) \<Rightarrow> (Relayed (us_StatusCode resp) (us_Body resp), w1))"

text \<open>All values of a key, in their order.\<close>

definition query_pairs :: "string \<Rightarrow> (string \<times> string) list" where
  "query_pairs rawQuery = List.map_filter query_pair (strings_Split rawQuery (CHR ''&''))"

definition query_All :: "string \<Rightarrow> string \<Rightarrow> string list" where
  "query_All rawQuery key = map snd (filter (\<lambda>p. fst p = key) (query_pairs rawQuery))"

definition ServeRepoOperationsStatus :: "string \<Rightarrow> string \<Rightarrow> string \<Rightarrow> page" where
  "ServeRepoOperationsStatus org repo rawQuery =
     (let returnURL = or_default ''/repos'' (query_Get rawQuery ''return'');
          label = or_default (''Working'' @ ellipsis) (query_Get rawQuery ''label'');
          rows = map (\<lambda>(app, op). (app, appOperationStatusPath (repoSlug org repo) app op))
                   (zip (query_All rawQuery ''app'') (query_All rawQuery ''op''))
      in if rows = [] then SeeOther returnURL else OperationStatusPage label returnURL rows)"

section \<open>Actions on apps\<close>

definition ServeAppDeleteConfirm :: "string \<Rightarrow> string \<Rightarrow> string \<Rightarrow> page" where
  "ServeAppDeleteConfirm org repo appName = AppDeleteConfirmPage (repoSlug org repo) appName"

definition HandleAppDelete ::
  "'w ui \<Rightarrow> 'w http_client \<Rightarrow> session option \<Rightarrow> string \<Rightarrow> string \<Rightarrow> string \<Rightarrow> 'w \<Rightarrow> page \<times> 'w" where
  "HandleAppDelete h http ses org0 repo0 appName w =
     (let slug = repoSlug org0 repo0 in
      case cut_slug slug of (org, repo) \<Rightarrow>
        case apiDelete h http ses (''/api/repos/'' @ org @ ''/'' @ repo @ ''/apps/'' @ appName) w of (r, w1) \<Rightarrow>
          (redirectToAppOperation r slug appName (''Deleting '' @ appName @ ellipsis) ''/apps'', w1))"

definition HandleAppHibernate ::
  "'w ui \<Rightarrow> 'w http_client \<Rightarrow> session option \<Rightarrow> string \<Rightarrow> string \<Rightarrow> string \<Rightarrow> 'w \<Rightarrow> page \<times> 'w" where
  "HandleAppHibernate h http ses org0 repo0 appName w =
     (let slug = repoSlug org0 repo0 in
      case cut_slug slug of (org, repo) \<Rightarrow>
        case apiPost h http ses (''/api/repos/'' @ org @ ''/'' @ repo @ ''/apps/'' @ appName @ ''/hibernate'') w of (r, w1) \<Rightarrow>
          (redirectToAppOperation r slug appName (''Hibernating '' @ appName @ ellipsis) ''/apps'', w1))"

definition HandleAppWake ::
  "'w ui \<Rightarrow> 'w http_client \<Rightarrow> session option \<Rightarrow> string \<Rightarrow> string \<Rightarrow> string \<Rightarrow> 'w \<Rightarrow> page \<times> 'w" where
  "HandleAppWake h http ses org0 repo0 appName w =
     (let slug = repoSlug org0 repo0 in
      case cut_slug slug of (org, repo) \<Rightarrow>
        case apiPost h http ses (''/api/repos/'' @ org @ ''/'' @ repo @ ''/apps/'' @ appName @ ''/wake'') w of (r, w1) \<Rightarrow>
          (redirectToAppOperation r slug appName (''Waking '' @ appName @ ellipsis) ''/apps'', w1))"

definition HandleStaleIgnore ::
  "'w ui \<Rightarrow> 'w http_client \<Rightarrow> session option \<Rightarrow> string \<Rightarrow> string \<Rightarrow> string \<Rightarrow> 'w \<Rightarrow> page \<times> 'w" where
  "HandleStaleIgnore h http ses org0 repo0 appName w =
     (case cut_slug (repoSlug org0 repo0) of (org, repo) \<Rightarrow>
        (SeeOther ''/stale'',
         snd (apiPost h http ses (''/api/operator/stale/'' @ org @ ''/'' @ repo @ ''/'' @ appName @ ''/ignore'') w)))"

definition ServeApprovals :: page where "ServeApprovals = ApprovalsPage"

definition HandleApprovalsBatch :: page where "HandleApprovalsBatch = SeeOther ''/approvals''"

section \<open>Actions on repos\<close>

text \<open>
  The names of the apps that the API lists. A value of the wrong type is reported, but what could be decoded stays, with
  empty fields; the handler only logs the error and goes on with that.
\<close>

definition lenient_name :: "json \<Rightarrow> string" where
  "lenient_name v =
     (case v of
        JObject ms \<Rightarrow>
          opt_Or (decode_fields False [''name'', ''status'', ''updated_at'']
            (\<lambda>f v old. Some (if f = ''name'' then opt_Or (into_string v old) old else old)) ms []) []
      | _ \<Rightarrow> [])"

definition app_names :: "api_resp \<Rightarrow> string list" where
  "app_names resp =
     (case next_value (us_Body resp) of Some (JArray vs, _) \<Rightarrow> map lenient_name vs | _ \<Rightarrow> [])"

fun delete_apps ::
  "'w ui \<Rightarrow> 'w http_client \<Rightarrow> session option \<Rightarrow> string \<Rightarrow> string \<Rightarrow> string list \<Rightarrow> 'w \<Rightarrow> (string \<times> string) list \<times> 'w" where
  "delete_apps h http ses org repo [] w = ([], w)"
| "delete_apps h http ses org repo (app # apps) w =
     (case apiDelete h http ses (''/api/repos/'' @ org @ ''/'' @ repo @ ''/apps/'' @ app) w of
        (Inl _, w1) \<Rightarrow> delete_apps h http ses org repo apps w1
      | (Inr resp, w1) \<Rightarrow>
          (case decodeAcceptedOperationID resp of
             None \<Rightarrow> delete_apps h http ses org repo apps w1
           | Some opID \<Rightarrow>
               (case delete_apps h http ses org repo apps w1 of (started, w2) \<Rightarrow> ((app, opID) # started, w2))))"

text \<open>\<open>strings.ReplaceAll(slug, "/", " / ")\<close>, and \<open>url.Values.Encode\<close>, which sorts by key.\<close>

definition spaced :: "string \<Rightarrow> string" where
  "spaced slug = concat (map (\<lambda>c. if c = CHR ''/'' then '' / '' else [c]) slug)"

definition encode_pair :: "string \<times> string \<Rightarrow> string" where
  "encode_pair p = QueryEscape (fst p) @ ''='' @ QueryEscape (snd p)"

definition encode_pairs :: "(string \<times> string) list \<Rightarrow> string" where
  "encode_pairs ps = strings_Join (map encode_pair ps) ''&''"

definition delete_label :: "string \<Rightarrow> string" where
  "delete_label slug = ''Deleting '' @ spaced slug @ '' apps'' @ ellipsis"

definition HandleRepoDeleteAll ::
  "'w ui \<Rightarrow> 'w http_client \<Rightarrow> session option \<Rightarrow> string \<Rightarrow> string \<Rightarrow> 'w \<Rightarrow> page \<times> 'w" where
  "HandleRepoDeleteAll h http ses org0 repo0 w =
     (let slug = repoSlug org0 repo0 in
      case cut_slug slug of (org, repo) \<Rightarrow>
        case apiGet h http ses (''/api/repos/'' @ org @ ''/'' @ repo @ ''/apps'') w of
          (Inl _, w1) \<Rightarrow> (InternalError, w1)
        | (Inr resp, w1) \<Rightarrow>
            (case delete_apps h http ses org repo (app_names resp) w1 of (started, w2) \<Rightarrow>
               if started = [] then (SeeOther ''/repos'', w2)
               else (SeeOther (''/repos/'' @ org @ ''/'' @ repo @ ''/operations?'' @
                       encode_pairs (map (\<lambda>p. (''app'', fst p)) started @ [(''label'', delete_label slug)] @
                         map (\<lambda>p. (''op'', snd p)) started @ [(''return'', ''/repos'')])), w2)))"

text \<open>The index of the tier in the list of the API, or -1.\<close>

definition tier_index :: "string \<Rightarrow> string list \<Rightarrow> int" where
  "tier_index name names = (if name \<in> set names then int (length (takeWhile (\<lambda>n. n \<noteq> name) names)) else - 1)"

definition decode_tier :: "json \<Rightarrow> (string \<times> int) option" where
  "decode_tier v =
     decode_struct (decode_fields False [''name'', ''max_apps'']
       (\<lambda>f v t. if f = ''name'' then map_option (\<lambda>x. (x, snd t)) (into_string v (fst t))
                else map_option (\<lambda>x. (fst t, x)) (into_int v (snd t)))) v ([], 0)"

definition tier_body :: "string \<Rightarrow> string" where
  "tier_body tier = ''{'' @ quoted ''tier'' @ '':'' @ quoted tier @ ''}''"

definition handleRepoTierChange ::
  "'w ui \<Rightarrow> 'w http_client \<Rightarrow> session option \<Rightarrow> string \<Rightarrow> string \<Rightarrow> int \<Rightarrow> 'w \<Rightarrow> page \<times> 'w" where
  "handleRepoTierChange h http ses org0 repo0 direction w =
     (case cut_slug (repoSlug org0 repo0) of (org, repo) \<Rightarrow>
        case apiGet h http ses (''/api/repos/'' @ org @ ''/'' @ repo) w of
          (Inl _, w1) \<Rightarrow> (SeeOther ''/repos'', w1)
        | (Inr repoResp, w1) \<Rightarrow>
            (case decode (\<lambda>v. decode_field ''tier'' v []) repoResp of
               None \<Rightarrow> (SeeOther ''/repos'', w1)
             | Some tier \<Rightarrow>
                 (case apiGet h http ses ''/api/operator/tiers'' w1 of
                    (Inl _, w2) \<Rightarrow> (SeeOther ''/repos'', w2)
                  | (Inr tiersResp, w2) \<Rightarrow>
                      (case decode (decode_list decode_tier) tiersResp of
                         None \<Rightarrow> (SeeOther ''/repos'', w2)
                       | Some tiers \<Rightarrow>
                           let names = map fst tiers; next = tier_index tier names + direction in
                           if next < 0 \<or> next \<ge> int (length names) then (SeeOther ''/repos'', w2)
                           else (SeeOther ''/repos'',
                                 snd (apiDo h http ses ''PATCH'' (''/api/operator/repos/'' @ org @ ''/'' @ repo)
                                        (Some (tier_body (names ! nat next))) w2))))))"

definition HandleRepoPromote ::
  "'w ui \<Rightarrow> 'w http_client \<Rightarrow> session option \<Rightarrow> string \<Rightarrow> string \<Rightarrow> 'w \<Rightarrow> page \<times> 'w" where
  "HandleRepoPromote h http ses org repo = handleRepoTierChange h http ses org repo 1"

definition HandleRepoDemote ::
  "'w ui \<Rightarrow> 'w http_client \<Rightarrow> session option \<Rightarrow> string \<Rightarrow> string \<Rightarrow> 'w \<Rightarrow> page \<times> 'w" where
  "HandleRepoDemote h http ses org repo = handleRepoTierChange h http ses org repo (- 1)"

section \<open>Operators\<close>

definition decode_principal :: "json \<Rightarrow> (string \<times> bool \<times> bool) option" where
  "decode_principal v =
     decode_struct (decode_fields False [''github_login'', ''is_operator'', ''is_admin'']
       (\<lambda>f v p. case p of (login, op, adm) \<Rightarrow>
          if f = ''github_login'' then map_option (\<lambda>x. (x, op, adm)) (into_string v login)
          else if f = ''is_operator'' then map_option (\<lambda>x. (login, x, adm)) (into_bool v op)
          else map_option (\<lambda>x. (login, op, x)) (into_bool v adm))) v ([], False, False)"

definition decode_principals :: "json \<Rightarrow> (string \<times> bool \<times> bool) list option" where
  "decode_principals v = decode_struct (decode_fields False [''principals''] (\<lambda>_ v _. decode_list decode_principal v)) v []"

definition ServeOperators :: "'w ui \<Rightarrow> 'w http_client \<Rightarrow> session option \<Rightarrow> 'w \<Rightarrow> page \<times> 'w" where
  "ServeOperators h http ses w =
     (case apiGet h http ses ''/api/operator/principals'' w of
        (Inl _, w1) \<Rightarrow> (OperatorsPage [] ''Failed to load operators.'' False, w1)
      | (Inr resp, w1) \<Rightarrow>
          if us_StatusCode resp \<noteq> 200 then (OperatorsPage [] ''Failed to load operators.'' False, w1)
          else (case decode decode_principals resp of
                  None \<Rightarrow> (OperatorsPage [] ''Failed to parse response.'' False, w1)
                | Some rows \<Rightarrow> (OperatorsPage rows [] (sessionIsAdmin h ses), w1)))"

section \<open>The deletions that started are followed\<close>

lemma cut_repoSlug [simp]: "CHR ''/'' \<notin> set org \<Longrightarrow> cut_slug (repoSlug org repo) = (org, repo)"
  by (simp add: cut_slug_def repoSlug_def)

lemma query_pair_encode: "query_pair (encode_pair p) = Some p"
  using strings_Cut_append [of "CHR ''=''" "QueryEscape (fst p)" "QueryEscape (snd p)"]
  by (simp add: query_pair_def encode_pair_def QueryEscape_safe QueryUnescape_Escape)

lemma encode_pair_plain: "CHR ''&'' \<notin> set (encode_pair p)"
  by (simp add: encode_pair_def QueryEscape_safe)

text \<open>\<open>ParseQuery\<close> undoes \<open>Encode\<close>.\<close>

lemma query_pairs_encode: "ps \<noteq> [] \<Longrightarrow> query_pairs (encode_pairs ps) = ps"
proof (induction ps)
  case (Cons p ps)
  show ?case
  proof (cases ps)
    case Nil
    then show ?thesis
      by (simp add: query_pairs_def encode_pairs_def encode_pair_plain query_pair_encode map_filter_simps)
  next
    case (Cons q qs)
    have "encode_pairs (p # ps) = encode_pair p @ CHR ''&'' # encode_pairs ps" by (simp add: encode_pairs_def Cons)
    then have "query_pairs (encode_pairs (p # ps)) = p # query_pairs (encode_pairs ps)"
      by (simp add: query_pairs_def strings_Split_append encode_pair_plain query_pair_encode map_filter_simps)
    with Cons.IH Cons show ?thesis by simp
  qed
qed simp

lemma query_Get_pairs: "query_Get raw key = opt_Or (map_of (query_pairs raw) key) []"
  by (simp add: query_Get_def query_pairs_def opt_Or_def)

lemma url_query: "CHR ''?'' \<notin> set base \<Longrightarrow> url_RawQuery (base @ ''?'' @ q) = q"
  using strings_Cut_append [of "CHR ''?''" base q] by (simp add: url_RawQuery_def)

text \<open>
  Deleting all apps of a repository leads to a page that follows exactly the deletions that the API accepted, in the order of
  the list, and returns to the repositories; if none was accepted the browser goes there at once.
\<close>

theorem delete_all_tracked:
  assumes "CHR ''/'' \<notin> set org" "CHR ''?'' \<notin> set org" "CHR ''?'' \<notin> set repo"
    and "apiGet h http ses (''/api/repos/'' @ org @ ''/'' @ repo @ ''/apps'') w = (Inr resp, w1)"
    and "delete_apps h http ses org repo (app_names resp) w1 = (started, w2)"
  shows "\<exists>u. HandleRepoDeleteAll h http ses org repo w = (SeeOther u, w2) \<and>
     (if started = [] then u = ''/repos''
      else ServeRepoOperationsStatus org repo (url_RawQuery u) =
             OperationStatusPage (delete_label (repoSlug org repo)) ''/repos''
               (map (\<lambda>(app, op). (app, appOperationStatusPath (repoSlug org repo) app op)) started))"
proof (cases "started = []")
  case True
  then show ?thesis using assms by (simp add: HandleRepoDeleteAll_def Let_def)
next
  case False
  define ps where "ps = map (\<lambda>p. (''app'', fst p)) started @ [(''label'', delete_label (repoSlug org repo))] @
      map (\<lambda>p. (''op'', snd p)) started @ [(''return'', ''/repos'')]"
  define q where "q = encode_pairs ps"
  let ?base = "''/repos/'' @ org @ ''/'' @ repo @ ''/operations''"
  have u: "HandleRepoDeleteAll h http ses org repo w = (SeeOther (?base @ ''?'' @ q), w2)"
    using assms False by (simp add: HandleRepoDeleteAll_def Let_def q_def ps_def)
  have raw: "url_RawQuery (?base @ ''?'' @ q) = q" using assms(2,3) by (intro url_query) simp
  have pairs: "query_pairs q = ps" unfolding q_def by (rule query_pairs_encode) (simp add: ps_def)
  have only: "map snd (filter (\<lambda>p. fst p = key) (map (\<lambda>p. (k, f p)) xs)) = (if k = key then map f xs else [])"
    "map_of (map (\<lambda>p. (k, f p)) xs) key = (if k = key \<and> xs \<noteq> [] then Some (f (hd xs)) else None)"
    for k key and f :: "string \<times> string \<Rightarrow> string" and xs
    by (induction xs) auto
  have all: "query_All q ''app'' = map fst started" "query_All q ''op'' = map snd started"
    by (simp_all add: query_All_def pairs ps_def only)
  have get: "query_Get q ''label'' = delete_label (repoSlug org repo)" "query_Get q ''return'' = ''/repos''"
    by (simp_all add: query_Get_pairs pairs ps_def only map_add_def)
  have "delete_label (repoSlug org repo) \<noteq> []" by (simp add: delete_label_def)
  then have "ServeRepoOperationsStatus org repo q = OperationStatusPage (delete_label (repoSlug org repo)) ''/repos''
      (map (\<lambda>(app, op). (app, appOperationStatusPath (repoSlug org repo) app op)) started)"
    using False by (simp add: ServeRepoOperationsStatus_def get all zip_map_fst_snd or_default_def Let_def)
  then have "ServeRepoOperationsStatus org repo (url_RawQuery (?base @ ''?'' @ q)) = OperationStatusPage (delete_label (repoSlug org repo)) ''/repos''
      (map (\<lambda>(app, op). (app, appOperationStatusPath (repoSlug org repo) app op)) started)" by (simp only: raw)
  with u show ?thesis unfolding if_not_P [OF False] by blast
qed

section \<open>Promotion goes by name\<close>

text \<open>The neighbours of a name in a sorted list without repetitions.\<close>

lemma tier_index_nth:
  assumes "x \<in> set xs" "distinct xs"
  shows "\<exists>i < length xs. xs ! i = x \<and> tier_index x xs = int i"
proof -
  obtain ys zs where xs: "xs = ys @ x # zs" "x \<notin> set ys" using split_list_first [OF assms(1)] by blast
  then have "takeWhile (\<lambda>n. n \<noteq> x) xs = ys" by (simp add: takeWhile_append)
  then show ?thesis using xs assms(1) by (intro exI [of _ "length ys"]) (simp add: tier_index_def)
qed

lemma sorted_next:
  fixes xs :: "string list"
  assumes "sorted xs" "distinct xs" "Suc i < length xs"
  shows "xs ! i < xs ! Suc i" "y \<in> set xs \<Longrightarrow> xs ! i < y \<Longrightarrow> xs ! Suc i \<le> y" "y \<in> set xs \<Longrightarrow> y < xs ! Suc i \<Longrightarrow> y \<le> xs ! i"
proof -
  have mono: "j \<le> l \<Longrightarrow> l < length xs \<Longrightarrow> xs ! j \<le> xs ! l" for j l using assms(1) by (simp add: sorted_nth_mono)
  have "xs ! i \<noteq> xs ! Suc i" using assms(2,3) by (simp add: nth_eq_iff_index_eq)
  with mono [of i "Suc i"] assms(3) show "xs ! i < xs ! Suc i" by simp
  { fix y assume "y \<in> set xs"
    then obtain j where j: "j < length xs" "y = xs ! j" by (metis in_set_conv_nth)
    show "xs ! Suc i \<le> y" if "xs ! i < y" using that mono [of j i] mono [of "Suc i" j] j assms(3) by (cases "j \<le> i") auto
    show "y \<le> xs ! i" if "y < xs ! Suc i" using that mono [of j i] mono [of "Suc i" j] j assms(3) by (cases "j \<le> i") auto }
qed

text \<open>The tier that a change in a direction leads to, by the order of the names alone.\<close>

definition tier_above :: "string set \<Rightarrow> string \<Rightarrow> string \<Rightarrow> bool" where
  "tier_above names t u \<longleftrightarrow> u \<in> names \<and> t < u \<and> (\<forall>v \<in> names. t < v \<longrightarrow> u \<le> v)"

definition tier_below :: "string set \<Rightarrow> string \<Rightarrow> string \<Rightarrow> bool" where
  "tier_below names t u \<longleftrightarrow> u \<in> names \<and> u < t \<and> (\<forall>v \<in> names. v < t \<longrightarrow> v \<le> u)"

lemma tier_step_above:
  fixes names :: "string list"
  assumes "sorted names" "distinct names" "t \<in> set names" "n = tier_index t names + 1"
  shows "\<not> n < 0 \<and> (n \<ge> int (length names) \<longrightarrow> (\<nexists>u. tier_above (set names) t u)) \<and>
    (n < int (length names) \<longrightarrow> tier_above (set names) t (names ! nat n))"
proof -
  obtain i where i: "i < length names" "names ! i = t" "n = int (Suc i)"
    using tier_index_nth [OF assms(3,2)] assms(4) by auto
  have top: False if u: "length names \<le> Suc i" "u \<in> set names" "t < u" for u
  proof -
    obtain j where "j < length names" "u = names ! j" using u(2) by (metis in_set_conv_nth)
    then show False using u(1,3) i sorted_nth_mono [OF assms(1), of j i] by auto
  qed
  have n: "nat n = Suc i" using i(3) by simp
  show ?thesis
  proof (cases "Suc i < length names")
    case True
    then have "tier_above (set names) t (names ! nat n)"
      unfolding n tier_above_def i(2) [symmetric] using sorted_next [OF assms(1,2) True] by simp
    then show ?thesis using i(3) True by simp
  next
    case False
    then have "\<nexists>u. tier_above (set names) t u" using top by (auto simp: tier_above_def)
    then show ?thesis using i(3) False by simp
  qed
qed

lemma tier_step_below:
  fixes names :: "string list"
  assumes "sorted names" "distinct names" "t \<in> set names" "n = tier_index t names - 1"
  shows "n < int (length names) \<and> (n < 0 \<longrightarrow> (\<nexists>u. tier_below (set names) t u)) \<and>
    (\<not> n < 0 \<longrightarrow> tier_below (set names) t (names ! nat n))"
proof -
  obtain i where i: "i < length names" "names ! i = t" "n = int i - 1"
    using tier_index_nth [OF assms(3,2)] assms(4) by auto
  have bot: False if u: "i = 0" "u \<in> set names" "u < t" for u
  proof -
    obtain j where "j < length names" "u = names ! j" using u(2) by (metis in_set_conv_nth)
    then show False using u(1,3) i sorted_nth_mono [OF assms(1), of i j] by auto
  qed
  show ?thesis
  proof (cases i)
    case 0
    then show ?thesis using i bot by (auto simp: tier_below_def)
  next
    case (Suc j)
    then show ?thesis using i sorted_next [OF assms(1,2), of j] by (auto simp: tier_below_def)
  qed
qed

text \<open>
  What the API answers in a state: the tier of the repository, the tiers in the order of the handler, and the effect of
  the patch of the tier.
\<close>

definition serves_tiers ::
  "(db \<times> 'k) ui \<Rightarrow> (db \<times> 'k) http_client \<Rightarrow> session option \<Rightarrow> 'k AppDeployer \<Rightarrow> Claims option \<Rightarrow> string \<Rightarrow> string \<Rightarrow> db \<times> 'k \<Rightarrow> bool" where
  "serves_tiers h http ses dep claims org repo w \<longleftrightarrow>
     (\<exists>resp r. apiGet h http ses (''/api/repos/'' @ org @ ''/'' @ repo) w = (Inr resp, w) \<and>
        GetRepo_h claims (fst w) org repo = Inr (Ok r) \<and> decode (\<lambda>v. decode_field ''tier'' v []) resp = Some (or_Tier r)) \<and>
     (\<exists>resp ts. apiGet h http ses ''/api/operator/tiers'' w = (Inr resp, w) \<and>
        ListTiers_h claims (fst w) = Inr ts \<and>
        decode (decode_list decode_tier) resp = Some (map (\<lambda>t. (ot_Name t, ot_MaxApps t)) ts)) \<and>
     (\<forall>t \<in> t_Name ` set (t_tiers (fst w)). snd (apiDo h http ses ''PATCH'' (''/api/operator/repos/'' @ org @ ''/'' @ repo) (Some (tier_body t)) w)
        = snd (UpdateRepoTier dep claims w t org repo))"

lemma listed_tiers:
  assumes "ListTiers_h claims s = Inr ts" "tiers_ok s"
  shows "sorted (map ot_Name ts)" "distinct (map ot_Name ts)" "set (map ot_Name ts) = t_Name ` set (t_tiers s)"
proof -
  have ts: "map ot_Name ts = map t_Name (sort_key t_Name (t_tiers s))"
    using assms(1) by (auto simp: ListTiers_h_def ListTiers_def ListTiers_q_def guarded_Inr dbTierToOAS_def split: option.splits sum.splits)
  show "sorted (map ot_Name ts)" unfolding ts by (rule sorted_sort_key)
  show "set (map ot_Name ts) = t_Name ` set (t_tiers s)" unfolding ts by simp
  have "distinct (map t_Name (t_tiers s))" using assms(2) by (simp add: tiers_ok_def tier_tab.uniq_def)
  then show "distinct (map ot_Name ts)" unfolding ts by (simp add: distinct_map)
qed

lemma tier_change_step:
  assumes "serves_tiers h http ses dep claims org repo w" "tiers_ok (fst w)" "CHR ''/'' \<notin> set org"
    and "GetRepo (fst w) (RepoSlug org repo) = Inr rp"
  shows "\<exists>names. sorted names \<and> distinct names \<and> set names = t_Name ` set (t_tiers (fst w)) \<and> r_Tier rp \<in> set names \<and>
    handleRepoTierChange h http ses org repo d w =
      (let n = tier_index (r_Tier rp) names + d in
       (SeeOther ''/repos'',
        if n < 0 \<or> n \<ge> int (length names) then w else snd (UpdateRepoTier dep claims w (names ! nat n) org repo)))"
proof -
  obtain resp r where repo: "apiGet h http ses (''/api/repos/'' @ org @ ''/'' @ repo) w = (Inr resp, w)"
      "GetRepo_h claims (fst w) org repo = Inr (Ok r)" "decode (\<lambda>v. decode_field ''tier'' v []) resp = Some (or_Tier r)"
    using assms(1) unfolding serves_tiers_def by blast
  obtain resp2 ts where tiers: "apiGet h http ses ''/api/operator/tiers'' w = (Inr resp2, w)"
      "ListTiers_h claims (fst w) = Inr ts" "decode (decode_list decode_tier) resp2 = Some (map (\<lambda>t. (ot_Name t, ot_MaxApps t)) ts)"
    using assms(1) unfolding serves_tiers_def by blast
  have patch: "snd (apiDo h http ses ''PATCH'' (''/api/operator/repos/'' @ org @ ''/'' @ repo) (Some (tier_body t)) w)
      = snd (UpdateRepoTier dep claims w t org repo)" if "t \<in> t_Name ` set (t_tiers (fst w))" for t
    using assms(1) that unfolding serves_tiers_def by blast
  have tier: "or_Tier r = r_Tier rp"
    using repo(2) assms(4) by (auto simp: GetRepo_h_def dbRepoToOAS_def Let_def split: option.splits sum.splits)
  have "rp \<in> set (t_repos (fst w))"
    using assms(4) by (auto simp: GetRepo_def GetRepo_q_def guarded_Inr one_def split: option.splits dest: sel_Some)
  then have mem: "r_Tier rp \<in> t_Name ` set (t_tiers (fst w))" using assms(2) by (simp add: tiers_ok_def)
  have names: "map fst (map (\<lambda>t. (ot_Name t, ot_MaxApps t)) ts) = map ot_Name ts" by simp
  define n where "n = tier_index (r_Tier rp) (map ot_Name ts) + d"
  have in_range: "map ot_Name ts ! nat n \<in> t_Name ` set (t_tiers (fst w))" if "\<not> n < 0" "\<not> int (length ts) \<le> n"
    using that listed_tiers(3) [OF tiers(2) assms(2)] nth_mem [of "nat n" "map ot_Name ts"] by simp
  have "handleRepoTierChange h http ses org repo d w =
      (let n = tier_index (r_Tier rp) (map ot_Name ts) + d in
       (SeeOther ''/repos'',
        if n < 0 \<or> n \<ge> int (length (map ot_Name ts)) then w else snd (UpdateRepoTier dep claims w (map ot_Name ts ! nat n) org repo)))"
    using assms(3) repo tiers tier patch [OF in_range]
    by (simp add: handleRepoTierChange_def Let_def names n_def del: map_map nth_map)
  then show ?thesis using listed_tiers [OF tiers(2) assms(2)] mem by blast
qed


text \<open>The database as it starts, with one medium repository, and an API that answers for it.\<close>

definition medium_db :: db where
  "medium_db = (initial_db 0)\<lparr>t_repos := [\<lparr> r_Slug = ''o/r'', r_Tier = ''medium'', r_CreatedAt = 0 \<rparr>]\<rparr>"

definition operator_claims :: Claims where
  "operator_claims = (CreateDeployClaims 0 ''o/r'')\<lparr>cl_Role := RoleOperator\<rparr>"

definition json_tier :: "string \<Rightarrow> int \<Rightarrow> json" where
  "json_tier name n = JObject [(''name'', JString name), (''max_apps'', json_int n)]"

definition medium_ui :: "(db \<times> unit) ui" where
  "medium_ui = \<lparr> ui_apiURL = [], ui_sessionKey = [], ui_githubClientID = [], ui_githubClientSecret = [],
     ui_hmac = \<lambda>_ _. [], ui_Marshal = \<lambda>_. Inl [], ui_Unmarshal = \<lambda>_. Inl [], ui_ParseUnverified = \<lambda>_. (None, []),
     ui_NewRequest = \<lambda>_. None, ui_Do = \<lambda>_ _ w. (Inl [], w), ui_DecodePair = \<lambda>_. Inl [], ui_DecodeGitHub = \<lambda>_. Inl [], ui_rand = Inl [] \<rparr>"

definition medium_http :: "(db \<times> unit) http_client" where
  "medium_http c w =
     (let answer = (\<lambda>v. \<lparr> us_StatusCode = 200, us_Status = ''200 OK'', us_Body = MarshalIndent v \<rparr>) in
      if uc_Method c = ''PATCH'' then
        (Inr (answer JNull),
         snd (UpdateRepoTier ok_deployer (Some operator_claims) w
                (if uc_Body c = tier_body ''small'' then ''small'' else if uc_Body c = tier_body ''large'' then ''large'' else ''medium'')
                ''o'' ''r''))
      else if uc_URL c = ''/api/operator/tiers'' then
        (Inr (answer (JArray [json_tier ''large'' 25, json_tier ''medium'' 10, json_tier ''small'' 2])), w)
      else (Inr (answer (JObject [(''slug'', JString ''o/r''), (''tier'', JString ''medium'')])), w))"

lemma decode_answer: "json_ok v \<Longrightarrow> decode dec \<lparr> us_StatusCode = c, us_Status = t, us_Body = MarshalIndent v \<rparr> = dec v"
  using next_value_MarshalIndent [of v "[]"] by (simp add: decode_def ends_def)

lemma medium_tiers: "ListTiers_h (Some operator_claims) medium_db = Inr (map dbTierToOAS
    [seed_tier 0 ''large'' 25 4000 4096 50 100 50 ''72h'' 0, seed_tier 0 ''medium'' 10 1000 1024 10 20 10 ''48h'' 0, seed_tier 0 ''small'' 2 500 512 1 5 1 ''24h'' 1])"
  by (simp add: ListTiers_h_def requireOperator_def operator_claims_def IsOperatorRole_def ListTiers_def ListTiers_q_def
      guarded_def medium_db_def initial_db_def seed_tier_def)

lemma medium_serves: "serves_tiers medium_ui medium_http None ok_deployer (Some operator_claims) ''o'' ''r'' (medium_db, ())"
proof -
  have utf8: "valid_utf8 ''name''" "valid_utf8 ''max_apps''" "valid_utf8 ''large''" "valid_utf8 ''medium''" "valid_utf8 ''small''"
      "valid_utf8 ''slug''" "valid_utf8 ''o/r''" "valid_utf8 ''tier''" by code_simp+
  have ok: "json_ok (JArray [json_tier ''large'' 25, json_tier ''medium'' 10, json_tier ''small'' 2])"
      "json_ok (JObject [(''slug'', JString ''o/r''), (''tier'', JString ''medium'')])"
    by (simp_all add: json_tier_def utf8)
  have repo: "\<exists>r. GetRepo_h (Some operator_claims) medium_db ''o'' ''r'' = Inr (Ok r) \<and> or_Tier r = ''medium''"
    by (simp add: GetRepo_h_def checkRepoAccess_def operator_claims_def GetRepo_def GetRepo_q_def CountAppsByRepo_def CountAppsByRepo_q_def
        guarded_def medium_db_def initial_db_def one_def is_repo_def RepoSlug_def dbRepoToOAS_def Let_def RoleOperator_def RoleDeveloper_def)
  have "decode_field ''tier'' (JObject [(''slug'', JString ''o/r''), (''tier'', JString ''medium'')]) [] = Some ''medium''" by code_simp
  then have 1: "\<exists>resp r. apiGet medium_ui medium_http None (''/api/repos/'' @ ''o'' @ ''/'' @ ''r'') (medium_db, ()) = (Inr resp, medium_db, ()) \<and>
      GetRepo_h (Some operator_claims) medium_db ''o'' ''r'' = Inr (Ok r) \<and> decode (\<lambda>v. decode_field ''tier'' v []) resp = Some (or_Tier r)"
    using repo decode_answer [OF ok(2), of "\<lambda>v. decode_field ''tier'' v []"]
    by (auto simp: apiGet_def apiDo_def medium_ui_def medium_http_def Let_def)
  have "decode_list decode_tier (JArray [json_tier ''large'' 25, json_tier ''medium'' 10, json_tier ''small'' 2])
      = Some [(''large'', 25), (''medium'', 10), (''small'', 2)]" by code_simp
  then have 2: "\<exists>resp ts. apiGet medium_ui medium_http None ''/api/operator/tiers'' (medium_db, ()) = (Inr resp, medium_db, ()) \<and>
      ListTiers_h (Some operator_claims) medium_db = Inr ts \<and>
      decode (decode_list decode_tier) resp = Some (map (\<lambda>t. (ot_Name t, ot_MaxApps t)) ts)"
    using medium_tiers decode_answer [OF ok(1), of "decode_list decode_tier"]
    by (simp add: apiGet_def apiDo_def medium_ui_def medium_http_def Let_def dbTierToOAS_def seed_tier_def)
  have ne: "tier_body ''small'' \<noteq> tier_body ''large''" "tier_body ''medium'' \<noteq> tier_body ''large''" "tier_body ''medium'' \<noteq> tier_body ''small''"
    by code_simp+
  have "t_Name ` set (t_tiers medium_db) = {''small'', ''medium'', ''large''}"
    by (auto simp: medium_db_def initial_db_def seed_tier_def)
  then have 3: "\<forall>t \<in> t_Name ` set (t_tiers medium_db).
      snd (apiDo medium_ui medium_http None ''PATCH'' (''/api/operator/repos/'' @ ''o'' @ ''/'' @ ''r'') (Some (tier_body t)) (medium_db, ()))
        = snd (UpdateRepoTier ok_deployer (Some operator_claims) (medium_db, ()) t ''o'' ''r'')"
    using ne by (simp add: apiDo_def medium_ui_def medium_http_def Let_def)
  show ?thesis unfolding serves_tiers_def fst_conv using 1 2 3 by blast
qed

lemma medium_retiered:
  assumes "t \<in> {''small'', ''large''}"
  shows "\<exists>r. GetRepo (fst (snd (UpdateRepoTier ok_deployer (Some operator_claims) (medium_db, ()) t ''o'' ''r''))) ''o/r'' = Inr r \<and> r_Tier r = t"
  using assms
  by (auto simp: UpdateRepoTier_def requireOperator_def operator_claims_def IsOperatorRole_def RepoSlug_def GetRepo_def GetRepo_q_def
      GetTier_def GetTier_q_def guarded_def medium_db_def initial_db_def seed_tier_def one_def is_repo_def is_tier_def demotion_blocked_def
      currentMaxAppsFor_def CountAppsByRepo_def CountAppsByRepo_q_def SetRepoTier_def UpdateRepoTier_q_def Let_def)


end
