(* ===== verification/Spec2Isabelle.thy ===== *)
theory Spec2Isabelle
  imports System Health Cli_Operator Admin_UI
begin

text \<open>
  \<^bold>\<open>Morsel: control plane and command line client\<close>

  Morsel is a small platform that runs the applications of a team's repositories on a Kubernetes cluster. Its
  \<^emph>\<open>control plane\<close> (\<^verbatim>\<open>src/cmd/morsel-ctrl-plane\<close>) is one process: an HTTP API over a SQL database, goroutines that
  carry out deploys, deletions, hibernations and wakes on the cluster, two watchers that watch the monthly budget and
  idle apps, a wake proxy in front of hibernated apps, a queue service for the apps, an admin UI. Its \<^emph>\<open>command line
  client\<close> (\<^verbatim>\<open>src/cmd/morsel\<close>) deploys apps, lints their manifests and keeps the operator logged in. Both rest on
  packages of \<^verbatim>\<open>src/internal\<close>: the Kubernetes client, health reports, versions. This development models that code
  definition by definition, under the names that the code has.

  In the file names below, \<^verbatim>\<open>src/cmd/morsel-ctrl-plane/internal/\<close> is left out for the control plane and
  \<^verbatim>\<open>src/cmd/morsel/internal/\<close> for the client.

  \<^bold>\<open>The theories and what they model\<close>

  The foundations:
  \<^item> \<^verbatim>\<open>Prelude\<close>: Go's strings, integers, instants and durations; results (\<open>error + value\<close>); tables, the lists of rows that
    SQL statements read and write; the locale \<open>keyed_table\<close> (a table with unique keys and what inserting, updating and
    deleting rows keeps of it); the collections of simplification rules.
  \<^item> \<^verbatim>\<open>Clock\<close>, \<^verbatim>\<open>Durations\<close>, \<^verbatim>\<open>Filepath\<close>, \<^verbatim>\<open>Net\<close>, \<^verbatim>\<open>Json\<close>: what the code uses of Go's \<open>time\<close>, \<open>path/filepath\<close>,
    \<open>net\<close>, \<open>net/url\<close> and \<open>encoding/json\<close>. \<^verbatim>\<open>Json\<close> has the reader and the writer of JSON texts with UTF-8, the decoding
    into structures, and the round trip of \<open>MarshalIndent\<close> and the reader.
  \<^item> \<^verbatim>\<open>Queries\<close>, \<^verbatim>\<open>Store\<close>: the rows, defaults and SQL queries (\<^verbatim>\<open>db/\<close>), and the methods of \<^verbatim>\<open>store/store.go\<close> over
    them. A database is a record of tables; a query may fail, and then changes nothing. The well-formedness invariant
    (unique keys, references that exist) is kept by every method, through the interpretations of \<open>keyed_table\<close>.
  \<^item> \<^verbatim>\<open>Names\<close>, \<^verbatim>\<open>Cost\<close>, \<^verbatim>\<open>Secrets\<close>: \<^verbatim>\<open>names/names.go\<close>, \<^verbatim>\<open>cost/cost.go\<close>, \<^verbatim>\<open>platform/local/secrets.go\<close>.

  The API, one definition per handler with every guard and early return:
  \<^item> \<^verbatim>\<open>Api\<close>: errors, claims, access checks and conversions (\<^verbatim>\<open>api/handler/handler.go\<close>, \<^verbatim>\<open>tokens/\<close>).
  \<^item> \<^verbatim>\<open>Auth\<close>: deploy tokens, refresh, GitHub login, bootstrap, the security handler.
  \<^item> \<^verbatim>\<open>Lifecycle\<close>: the goroutines that deploy, delete, hibernate and wake an app. \<^verbatim>\<open>Exemptions\<close>: who is exempt from the
    budget. \<^verbatim>\<open>Apps\<close>, \<^verbatim>\<open>Operator\<close>, \<^verbatim>\<open>Repos\<close>: the handlers of apps, tiers and platform configuration, repositories and
    the lists of the administrator.

  The other services of the control plane:
  \<^item> \<^verbatim>\<open>Queue\<close>, \<^verbatim>\<open>Queue_Laws\<close>, \<^verbatim>\<open>Queue_Quota\<close>, \<^verbatim>\<open>Queue_Service\<close>: the queue files (\<^verbatim>\<open>queue/local.go\<close>), what they keep, the
    quota of a namespace, and the HTTP handlers of \<^verbatim>\<open>svc_queue.go\<close>.
  \<^item> \<^verbatim>\<open>Watchers\<close>, \<^verbatim>\<open>Wake\<close>: \<^verbatim>\<open>watchers/budget.go\<close>, \<^verbatim>\<open>watchers/hibernation.go\<close>, the wake endpoint and the wake proxy.
  \<^item> \<^verbatim>\<open>Kube\<close>, \<^verbatim>\<open>Kube_Laws\<close>, \<^verbatim>\<open>Kube_Apps\<close>: the operations of \<^verbatim>\<open>src/internal/kube\<close> on the resources of an app, what the code
    relies on of the API server of the cluster, and what deploys, hibernations and wakes make of an app's objects.
  \<^item> \<^verbatim>\<open>Health\<close>: health reports and versions. \<^verbatim>\<open>Session\<close>: the sessions of the admin UI. \<^verbatim>\<open>Admin_UI\<close>: its
    handlers that change something through the API, and the pages that follow operations.
  \<^item> \<^verbatim>\<open>System\<close>: the whole control plane as one step relation. A request, a goroutine and a check of a watcher is a step;
    steps interleave in any order, queries fail, the process restarts.

  The client:
  \<^item> \<^verbatim>\<open>Lint\<close>: \<^verbatim>\<open>lint/lint.go\<close> and the command in \<^verbatim>\<open>cli/lint.go\<close>.
  \<^item> \<^verbatim>\<open>Cli\<close>: \<^verbatim>\<open>cli/app.go\<close>, \<^verbatim>\<open>app_deploy.go\<close>, \<^verbatim>\<open>app_sync.go\<close>, \<^verbatim>\<open>app_delete.go\<close>.
  \<^item> \<^verbatim>\<open>Cli_Auth\<close>: profiles, the silent refresh, the device flow and login, bootstrap and \<open>service deploy\<close>.
  \<^item> \<^verbatim>\<open>Cli_Operator\<close>: the commands on tiers, principals and exemptions, logout, \<open>service delete\<close>, the console prompts.

  \<^bold>\<open>How the code corresponds to the definitions\<close>

  A structure is a record with the fields of the code under a prefix, an enumeration is a datatype or its set of strings
  as in the code, a pointer that may be nil is an option. A method that reads or writes the database takes it and returns
  it with its result; handlers return the response of the OpenAPI document (\<open>Ok\<close> or \<open>Typed\<close> with a status) or an
  error. Times and durations are nanoseconds as integers. A store method and a handler of the same name are told apart by
  the suffix \<open>_h\<close> of the handler. What the code calls and the repository does not hold is an argument: the Kubernetes API,
  GitHub, the HTTP client, hash and signature functions, random bytes, the clock, git, the JSON schema validator. What a
  theorem needs of such an argument is a named hypothesis, and the theorem has an instance in which it holds.

  \<^bold>\<open>Interfaces\<close>

  \<^item> \<open>keyed_table\<close> (\<^verbatim>\<open>Prelude\<close>), interpreted on every table of \<^verbatim>\<open>Store\<close> and on the files of \<^verbatim>\<open>Queue\<close>.
  \<^item> \<open>k8s_secrets\<close> and \<open>secret_store\<close> (\<^verbatim>\<open>Secrets\<close>): the API for secrets, and a store of secrets, which the first gives by a
    \<open>sublocale\<close> through the code of \<^verbatim>\<open>internal/kube/secrets.go\<close>.
  \<^item> \<open>q_frame\<close>, \<open>q_calm\<close>, \<open>q_ops\<close> (\<^verbatim>\<open>Queue_Laws\<close>): a relation that every step of the queue storage keeps; the message, quota
    and fault properties are interpretations of it.
  \<^item> \<open>kube_laws\<close> and \<open>kube_quiet\<close> (\<^verbatim>\<open>Kube_Laws\<close>): the documented behaviour of get, create, update and delete.
  \<^item> \<open>report_board\<close> (\<^verbatim>\<open>Health\<close>): the abstract board of last reports, which reporter, channel and receiver refine.

  \<^bold>\<open>What the theorems show\<close>

  \<^item> Operations end: in a run without faults and restarts every operation has ended or a goroutine that still runs ends
    it. Keys and references of the database survive every run, with faults and restarts.
  \<^item> Tokens: a refresh token works once, a bootstrap token works once, a refreshed token has the current role; rotation
    of the signing key shifts the keys, and invalidates deploy tokens.
  \<^item> Budget and tiers: who may wake an app while a limit is reached, which apps the hard limit hibernates, the flags after
    a tick, hours billed as total running time, one default tier, quota of a tier at deployment.
  \<^item> Apps: the outcome of a deploy on every branch, hibernation and wake as inverse steps, the route of a hibernated
    app, the end of the rollout watch, one wake at a time for a namespace, distinct namespaces and hosts.
  \<^item> Queues: no message is lost, the oldest visible one is handed out, stored bytes stay below the recorded usage, a long
    poll answers "no content" only for an empty queue.
  \<^item> Admin UI: cookies are authentic, the silent refresh works once for a cookie, the page after "delete all" follows
    exactly the deletions that started.
  \<^item> Client: the linter passes exactly the right manifests and its fixes settle, a deployment ends and reports what
    the server did and sends only well-formed requests, the device flow ends, a refreshed profile is read back,
    exemptions are granted and taken back.
  \<^item> Some theorems prove what the code does where its comments or documents say otherwise: a revived app exceeds
    the quota, a wake through the proxy is not billed, a redeploy is reported before the new image runs, \<open>app sync\<close> loses
    fields of the manifest, the admin UI promotes by the names of tiers and not by their limits, an HTTPS remote with credentials and a port names the wrong organisation.

  \<^bold>\<open>Loops and bounds\<close>

  Loops over data are structural recursions. The reader of JSON counts down from the length of its text, and
  \<open>parse_value_enough\<close> shows that this is enough for every text. The rollout watch ends by the distance of the clock to
  its deadline. The poll loops of the client may run for ever and are one \<open>partial_function\<close> into options,
  \<open>poll_until\<close>; \<open>poll_until_ends\<close> gives a result from an invariant and a measure, and the theorems on the deployment and
  on the device flow prove that they return. Integers are unbounded except where the code relies on a width: JSON
  numbers decode into \<open>int\<close> only within 64 bits. Money and percentages are real numbers; the one float64 whose rounding
  shows, the CPU flag of a tier, is a mantissa of 53 bits and an exponent.

  \<^bold>\<open>Not modelled\<close>

  \<^item> The server and client that ogen generates from the OpenAPI document: decoding, encoding and routing. The handlers that
    the one calls are modelled, and requests and responses are the values that they exchange.
  \<^item> The pages of the admin UI that show a list: templates, and handlers that fetch from the API and request no change.
  \<^item> The client's local platform, which runs docker, k3d and kubectl, and the provisioning of the platform's own resources
    in \<^verbatim>\<open>src/internal/kube\<close>: object literals and create-or-update calls of the shapes that \<^verbatim>\<open>Kube\<close> has for apps.
  \<^item> The commands of the client that send one read request and print its answer, the tree of commands with its flags.
  \<^item> The tools of the build, \<^verbatim>\<open>src/cmd/go-deps\<close> and \<^verbatim>\<open>src/cmd/openapi-bundler\<close>, which walk the source tree.
  \<^item> Listeners, logging, the connection pool, migrations and certificates. A goroutine that repeats a round for ever is the
    definition of its round; requests are atomic steps of \<^verbatim>\<open>System\<close>, so a race of two requests inside the database is not.
\<close>

end
